(* ===== verification/Icbinn_Prelude.thy ===== *)
theory Icbinn_Prelude
  imports Main "HOL-Library.Word"
begin

text \<open>
  Shared vocabulary of the development: the C integer types as the sources use them, character
  and byte buffers, the outcome type of code that may exit or run out of an array, and the
  lemmas on lists and words that the component theories rest on.

  Conventions. Unsigned C integers are words of their width, so their arithmetic wraps as it
  does in C: \<open>unsigned int\<close> is \<open>32 word\<close>, \<open>size_t\<close> and \<open>uint64_t\<close> are \<open>64 word\<close> (LP64). Signed
  C integers are \<open>int\<close>; a conversion that may change a value is written out (\<open>sint\<close>,
  \<open>to_int32\<close>, \<open>word_of_int\<close>). An integer that is only used as a bit set (open flags, mode bits)
  is a \<open>32 word\<close>. A C string is the \<open>string\<close> of its characters before the terminating NUL.
\<close>

unbundle bit_operations_syntax

named_theorems server_defs \<open>the handlers of the server that make at most one system call\<close>
named_theorems client_defs \<open>the calls of the client library that answer with an errno\<close>

type_synonym byte = "8 word"
type_synonym u32 = "32 word"
type_synonym u64 = "64 word"
type_synonym errno = nat

text \<open>
  What a C function does: it returns a value in a state, it ends the process with a status
  (\<open>exit\<close>), or it accesses an array outside its bounds, where the C standard says nothing more.
\<close>

datatype ('a, 's) outcome = Ret 'a 's | Exit int 's | Fault

text \<open>Sequencing: go on with what was returned, or stop with the process.\<close>

fun andthen :: "('a, 's) outcome \<Rightarrow> ('a \<Rightarrow> 's \<Rightarrow> ('b, 's) outcome) \<Rightarrow> ('b, 's) outcome" where
  "andthen (Ret a s) f = f a s"
| "andthen (Exit n s) f = Exit n s"
| "andthen Fault f = Fault"

lemma andthen_Ret_iff [simp]: "andthen r f = Ret b s' \<longleftrightarrow> (\<exists>a s. r = Ret a s \<and> f a s = Ret b s')"
  by (cases r) auto

lemma andthen_Fault_iff [simp]:
  "andthen r f = Fault \<longleftrightarrow> r = Fault \<or> (\<exists>a s. r = Ret a s \<and> f a s = Fault)"
  by (cases r) auto

text \<open>An argument of a formatted message.\<close>

datatype msg_arg = MStr string | MInt int

text \<open>Conversion to a 32-bit signed \<open>int\<close>.\<close>

definition to_int32 :: "int \<Rightarrow> int" where
  "to_int32 x = signed_take_bit 31 x"

text \<open>\<open>memcpy (buf + pos, data, length data)\<close> on an array of bytes.\<close>

definition mem_write :: "'a list \<Rightarrow> nat \<Rightarrow> 'a list \<Rightarrow> 'a list" where
  "mem_write buf pos data = take pos buf @ data @ drop (pos + length data) buf"

text \<open>\<open>atoi\<close>, on a value that an \<open>int\<close> can hold.\<close>

definition isdigit :: "char \<Rightarrow> bool" where
  "isdigit c \<longleftrightarrow> (48 :: nat) \<le> of_char c \<and> of_char c \<le> (57 :: nat)"

fun atoi_digits :: "int \<Rightarrow> string \<Rightarrow> int" where
  "atoi_digits n [] = n"
| "atoi_digits n (c # cs) = (if isdigit c then atoi_digits (10 * n + (of_char c - 48)) cs else n)"

definition isspace :: "char \<Rightarrow> bool" where
  "isspace c \<longleftrightarrow> c \<in> {CHR '' '', CHR 0x09, CHR 0x0A, CHR 0x0B, CHR 0x0C, CHR 0x0D}"

definition atoi :: "string \<Rightarrow> int" where
  "atoi s =
     (case dropWhile isspace s of
        [] \<Rightarrow> 0
      | c # cs \<Rightarrow>
          if c = CHR ''-'' then - atoi_digits 0 cs
          else if c = CHR ''+'' then atoi_digits 0 cs
          else atoi_digits 0 (c # cs))"

section \<open>Lists\<close>

lemma length_mem_write [simp]:
  "pos + length data \<le> length buf \<Longrightarrow> length (mem_write buf pos data) = length buf"
  by (simp add: mem_write_def)

lemma mem_write_Nil [simp]: "pos \<le> length buf \<Longrightarrow> mem_write buf pos [] = buf"
  by (simp add: mem_write_def)

lemma nth_mem_write:
  assumes "pos + length data \<le> length buf" and "i < length buf"
  shows "mem_write buf pos data ! i =
    (if pos \<le> i \<and> i < pos + length data then data ! (i - pos) else buf ! i)"
proof -
  have pos: "length (take pos buf) = pos"
    using assms by simp
  show ?thesis
    using assms by (auto simp: mem_write_def nth_append pos min_def add.commute)
qed

lemma take_mem_write [simp]:
  "pos \<le> length buf \<Longrightarrow> take pos (mem_write buf pos data) = take pos buf"
  by (simp add: mem_write_def)

lemma take_mem_write_start [simp]: "take (length bs) (mem_write buf 0 bs) = bs"
  by (simp add: mem_write_def)

lemma drop_mem_write [simp]:
  "pos + length data \<le> m \<Longrightarrow> m \<le> length buf \<Longrightarrow> drop m (mem_write buf pos data) = drop m buf"
  by (simp add: mem_write_def)

lemma mem_write_append:
  assumes "pos + length xs + length ys \<le> length buf"
  shows "mem_write (mem_write buf pos xs) (pos + length xs) ys = mem_write buf pos (xs @ ys)"
  using assms by (simp add: mem_write_def ac_simps)

lemma take_drop_split:
  "n \<le> m \<Longrightarrow> take m (drop k xs) = take n (drop k xs) @ take (m - n) (drop (k + n) xs)"
  using take_add [of n "m - n" "drop k xs"] by (simp add: add.commute)

section \<open>Words\<close>

lemma unat_of_nat_le [simp]:
  "n \<le> unat (w :: 'a::len word) \<Longrightarrow> unat (of_nat n :: 'a word) = n"
  by (metis le_unat_uoi)

lemma word_of_int_uint_eq_iff:
  fixes w :: "'a::len word"
  assumes "0 \<le> r" and "r \<le> uint w"
  shows "word_of_int r = w \<longleftrightarrow> r = uint w"
proof
  assume "word_of_int r = w"
  moreover have "r < 2 ^ LENGTH('a)"
    using assms(2) uint_lt2p [of w] by linarith
  ultimately show "r = uint w"
    using assms(1) by (metis take_bit_int_eq_self uint_word_of_int_eq)
next
  assume "r = uint w"
  then show "word_of_int r = w" by simp
qed

lemma minus_le_uint: "0 \<le> e \<Longrightarrow> - e \<le> uint (n :: 'a::len word)"
  using uint_ge_0 [of n] by linarith

lemma minus_one_le_uint [simp]: "- 1 \<le> uint (n :: 'a::len word)"
  by (rule minus_le_uint) simp

lemma length_le_uint:
  assumes "\<not> unat (n :: 'a::len word) < k"
  shows "int k \<le> uint n"
proof -
  have "k \<le> unat n" using assms by simp
  then have "int k \<le> int (unat n)" by (rule of_nat_mono)
  then show ?thesis by simp
qed

lemma sint_le_uint: "sint (n :: 'a::len word) \<le> uint n"
proof -
  have "- (2 ^ (LENGTH('a) - 1)) \<le> uint n"
    by (rule minus_le_uint) simp
  then show ?thesis
    by (simp add: sint_uint signed_take_bit_int_less_eq_self_iff)
qed

end
