(* ===== verification/Icbinn_Prot.thy ===== *)
theory Icbinn_Prot
  imports Icbinn_Prelude
begin

text \<open>
  The wire protocol of \<open>libicbinn/rpc/icbinn_prot.x\<close> and the public constants of
  \<open>libicbinn/src/icbinn-head.h.in\<close>. An XDR enumeration is an \<open>int\<close>, because the decoder lets any
  value through and both ends switch on it with a default branch. An XDR union whose
  discriminant is \<open>icbinn_prot_stat\<close> is a datatype with one constructor per declared status.
  \<open>opaque<>\<close> data is the list of its bytes.
\<close>

section \<open>Constants\<close>

abbreviation (input) ICBINN_PROT_PORT :: int where "ICBINN_PROT_PORT \<equiv> 4878"
abbreviation (input) ICBINN_PROT_MAXPATHLEN :: nat where "ICBINN_PROT_MAXPATHLEN \<equiv> 4096"
abbreviation (input) ICBINN_PROT_MAXNAMELEN :: nat where "ICBINN_PROT_MAXNAMELEN \<equiv> 1024"
abbreviation (input) ICBINN_PROT_MAXDATA :: nat where "ICBINN_PROT_MAXDATA \<equiv> 65536"

abbreviation (input) ICBINN_PROT_RDONLY :: u32 where "ICBINN_PROT_RDONLY \<equiv> 0"
abbreviation (input) ICBINN_PROT_WRONLY :: u32 where "ICBINN_PROT_WRONLY \<equiv> 1"
abbreviation (input) ICBINN_PROT_RDWR :: u32 where "ICBINN_PROT_RDWR \<equiv> 2"
abbreviation (input) ICBINN_PROT_CREAT :: u32 where "ICBINN_PROT_CREAT \<equiv> 64"
abbreviation (input) ICBINN_PROT_TRUNC :: u32 where "ICBINN_PROT_TRUNC \<equiv> 512"

abbreviation (input) ICBINN_PROT_LTYPE_RDLCK :: int where "ICBINN_PROT_LTYPE_RDLCK \<equiv> 0"
abbreviation (input) ICBINN_PROT_LTYPE_WRLCK :: int where "ICBINN_PROT_LTYPE_WRLCK \<equiv> 1"
abbreviation (input) ICBINN_PROT_LTYPE_UNLCK :: int where "ICBINN_PROT_LTYPE_UNLCK \<equiv> 2"

abbreviation (input) ICBINN_PROT_FILE :: int where "ICBINN_PROT_FILE \<equiv> 0"
abbreviation (input) ICBINN_PROT_DIRECTORY :: int where "ICBINN_PROT_DIRECTORY \<equiv> 1"
abbreviation (input) ICBINN_PROT_LINK :: int where "ICBINN_PROT_LINK \<equiv> 2"
abbreviation (input) ICBINN_PROT_UNKNOWN :: int where "ICBINN_PROT_UNKNOWN \<equiv> 3"

abbreviation (input) ICBINN_PROT_RANDOM :: int where "ICBINN_PROT_RANDOM \<equiv> 0"
abbreviation (input) ICBINN_PROT_URANDOM :: int where "ICBINN_PROT_URANDOM \<equiv> 1"

text \<open>The names of the public header, which the client programs use.\<close>

abbreviation (input) ICBINN_MAXNAMELEN :: nat where "ICBINN_MAXNAMELEN \<equiv> 1024"
abbreviation (input) ICBINN_MAXDATA :: u64 where "ICBINN_MAXDATA \<equiv> 65536"
abbreviation (input) ICBINN_RDONLY :: u32 where "ICBINN_RDONLY \<equiv> 0"
abbreviation (input) ICBINN_WRONLY :: u32 where "ICBINN_WRONLY \<equiv> 1"
abbreviation (input) ICBINN_RDWR :: u32 where "ICBINN_RDWR \<equiv> 2"
abbreviation (input) ICBINN_CREAT :: u32 where "ICBINN_CREAT \<equiv> 64"
abbreviation (input) ICBINN_TRUNC :: u32 where "ICBINN_TRUNC \<equiv> 512"
abbreviation (input) ICBINN_LTYPE_RDLCK :: int where "ICBINN_LTYPE_RDLCK \<equiv> 0"
abbreviation (input) ICBINN_LTYPE_WRLCK :: int where "ICBINN_LTYPE_WRLCK \<equiv> 1"
abbreviation (input) ICBINN_LTYPE_UNLCK :: int where "ICBINN_LTYPE_UNLCK \<equiv> 2"
abbreviation (input) ICBINN_TYPE_FILE :: int where "ICBINN_TYPE_FILE \<equiv> 0"
abbreviation (input) ICBINN_TYPE_DIRECTORY :: int where "ICBINN_TYPE_DIRECTORY \<equiv> 1"
abbreviation (input) ICBINN_TYPE_LINK :: int where "ICBINN_TYPE_LINK \<equiv> 2"
abbreviation (input) ICBINN_TYPE_UNKNOWN :: int where "ICBINN_TYPE_UNKNOWN \<equiv> 3"

section \<open>Arguments\<close>

record icbinn_prot_readdirargs =
  ra_dir :: string
  ra_offset :: u32
  ra_count :: u32

record icbinn_prot_openargs =
  oa_name :: string
  oa_mode :: u32

record icbinn_prot_preadargs =
  pra_fd :: int
  pra_offset :: u64
  pra_count :: u64

record icbinn_prot_pwriteargs =
  pwa_fd :: int
  pwa_offset :: u64
  pwa_data :: "byte list"

record icbinn_prot_lockargs =
  la_fd :: int
  la_type :: int

record icbinn_prot_renameargs =
  rna_from :: string
  rna_to :: string

record icbinn_prot_ftruncateargs =
  fta_fd :: int
  fta_length :: u64

record icbinn_prot_randargs =
  rda_count :: u64
  rda_src :: int

record icbinn_prot_fallocateargs =
  faa_fd :: int
  faa_mode :: u32
  faa_offset :: u64
  faa_length :: u64

record icbinn_prot_symlinkargs =
  sla_oldpath :: string
  sla_newpath :: string

record icbinn_prot_readlinkargs =
  rla_path :: string
  rla_bufsz :: u64

section \<open>Results\<close>

record icbinn_prot_entry =
  en_name :: string
  en_type :: int

record icbinn_prot_statokres =
  sr_size :: u64
  sr_type :: int

record icbinn_prot_statfsokres =
  fr_bsize :: u64
  fr_blocks :: u64
  fr_bfree :: u64
  fr_bavail :: u64

datatype icbinn_prot_errnostat = ErrnoOK | ErrnoERROR int
datatype icbinn_prot_readdirres = ReaddirOK "icbinn_prot_entry list" bool | ReaddirERROR
datatype icbinn_prot_openres = OpenOK int | OpenERROR int
datatype icbinn_prot_statres = StatOK icbinn_prot_statokres | StatERROR int
datatype icbinn_prot_preadres = PreadOK "byte list" | PreadERROR int
datatype icbinn_prot_readlinkres = ReadlinkOK "byte list" | ReadlinkERROR int
datatype icbinn_prot_randres = RandOK "byte list" | RandERROR
datatype icbinn_prot_statfsres = StatfsOK icbinn_prot_statfsokres | StatfsERROR int

section \<open>The program\<close>

text \<open>The nineteen procedures of \<open>ICBINN_PROT_VERSION\<close> with their arguments and results.\<close>

datatype icbinn_request =
    ICBINN_PROT_NULL
  | ICBINN_PROT_READDIR icbinn_prot_readdirargs
  | ICBINN_PROT_STAT string
  | ICBINN_PROT_OPEN icbinn_prot_openargs
  | ICBINN_PROT_LOCK icbinn_prot_lockargs
  | ICBINN_PROT_PREAD icbinn_prot_preadargs
  | ICBINN_PROT_PWRITE icbinn_prot_pwriteargs
  | ICBINN_PROT_CLOSE int
  | ICBINN_PROT_MKDIR string
  | ICBINN_PROT_RMDIR string
  | ICBINN_PROT_RENAME icbinn_prot_renameargs
  | ICBINN_PROT_UNLINK string
  | ICBINN_PROT_FTRUNCATE icbinn_prot_ftruncateargs
  | ICBINN_PROT_RAND icbinn_prot_randargs
  | ICBINN_PROT_FALLOCATE icbinn_prot_fallocateargs
  | ICBINN_PROT_SYMLINK icbinn_prot_symlinkargs
  | ICBINN_PROT_READLINK icbinn_prot_readlinkargs
  | ICBINN_PROT_STATFS string
  | ICBINN_PROT_FSYNC int

datatype icbinn_reply =
    NullReply
  | ReaddirReply icbinn_prot_readdirres
  | StatReply icbinn_prot_statres
  | OpenReply icbinn_prot_openres
  | ErrnoReply icbinn_prot_errnostat
  | PreadReply icbinn_prot_preadres
  | RandReply icbinn_prot_randres
  | ReadlinkReply icbinn_prot_readlinkres
  | StatfsReply icbinn_prot_statfsres

section \<open>Bounds on the wire\<close>

text \<open>
  The bounds the protocol file puts on its strings and byte sequences. A value that exceeds its
  bound cannot be encoded.
\<close>

definition path_encodes :: "string \<Rightarrow> bool" where
  "path_encodes p \<longleftrightarrow> length p \<le> ICBINN_PROT_MAXPATHLEN"

definition filename_encodes :: "string \<Rightarrow> bool" where
  "filename_encodes n \<longleftrightarrow> length n \<le> ICBINN_PROT_MAXNAMELEN"

definition data_encodes :: "byte list \<Rightarrow> bool" where
  "data_encodes d \<longleftrightarrow> length d \<le> ICBINN_PROT_MAXDATA"

definition readdirres_encodes :: "icbinn_prot_readdirres \<Rightarrow> bool" where
  "readdirres_encodes r =
     (case r of ReaddirOK es _ \<Rightarrow> (\<forall>e\<in>set es. filename_encodes (en_name e)) | ReaddirERROR \<Rightarrow> True)"

definition preadres_encodes :: "icbinn_prot_preadres \<Rightarrow> bool" where
  "preadres_encodes r = (case r of PreadOK d \<Rightarrow> data_encodes d | PreadERROR _ \<Rightarrow> True)"

definition readlinkres_encodes :: "icbinn_prot_readlinkres \<Rightarrow> bool" where
  "readlinkres_encodes r = (case r of ReadlinkOK d \<Rightarrow> data_encodes d | ReadlinkERROR _ \<Rightarrow> True)"

definition randres_encodes :: "icbinn_prot_randres \<Rightarrow> bool" where
  "randres_encodes r = (case r of RandOK d \<Rightarrow> data_encodes d | RandERROR \<Rightarrow> True)"

lemma res_encodes_simps [simp]:
  "preadres_encodes (PreadOK d) = data_encodes d" "preadres_encodes (PreadERROR e)"
  "readlinkres_encodes (ReadlinkOK d) = data_encodes d" "readlinkres_encodes (ReadlinkERROR e)"
  "randres_encodes (RandOK d) = data_encodes d" "randres_encodes RandERROR"
  "readdirres_encodes (ReaddirOK es eof) = (\<forall>e\<in>set es. filename_encodes (en_name e))"
  "readdirres_encodes ReaddirERROR"
  by (simp_all add: preadres_encodes_def readlinkres_encodes_def randres_encodes_def
      readdirres_encodes_def)

section \<open>Records rebuilt from their fields\<close>

lemma lockargs_eta [simp]: "\<lparr>la_fd = la_fd a, la_type = la_type a\<rparr> = a"
  by simp

lemma renameargs_eta [simp]: "\<lparr>rna_from = rna_from a, rna_to = rna_to a\<rparr> = a"
  by simp

lemma symlinkargs_eta [simp]: "\<lparr>sla_oldpath = sla_oldpath a, sla_newpath = sla_newpath a\<rparr> = a"
  by simp

lemma ftruncateargs_eta [simp]: "\<lparr>fta_fd = fta_fd a, fta_length = fta_length a\<rparr> = a"
  by simp

lemma fallocateargs_eta [simp]:
  "\<lparr>faa_fd = faa_fd a, faa_mode = faa_mode a, faa_offset = faa_offset a, faa_length = faa_length a\<rparr> = a"
  by simp

end
