(* ===== verification/Posix.thy ===== *)
theory Posix
  imports Icbinn_Prelude
begin

text \<open>
  The operating system the server runs on is not part of the sources: it is a parameter, a
  record of the calls that \<open>server.c\<close> and the sample client make, over a type \<open>'w\<close> of states of the world. A call
  that fails is \<open>Inl\<close> of the \<open>errno\<close> it sets (a positive number, here a \<open>nat\<close>), one that
  succeeds \<open>Inr\<close> of what it returns. A call that only looks (\<open>stat\<close>, \<open>lstat\<close>, \<open>statvfs\<close>, \<open>readlink\<close>,
  \<open>pread\<close>, \<open>opendir\<close>) has no new world. A directory stream is the list of the names it
  delivers. What the proofs use of POSIX is stated as the predicates at the end, one documented
  behaviour each.
\<close>

record file_stat =
  st_mode :: u32
  st_size :: int

record file_statvfs =
  f_bsize :: u64
  f_blocks :: u64
  f_bfree :: u64
  f_bavail :: u64

record 'w os =
  os_open :: "string \<Rightarrow> u32 \<Rightarrow> u32 \<Rightarrow> 'w \<Rightarrow> (errno + int) \<times> 'w"
  os_close :: "int \<Rightarrow> 'w \<Rightarrow> (errno + unit) \<times> 'w"
  os_fsync :: "int \<Rightarrow> 'w \<Rightarrow> (errno + unit) \<times> 'w"
  os_stat :: "string \<Rightarrow> 'w \<Rightarrow> errno + file_stat"
  os_lstat :: "string \<Rightarrow> 'w \<Rightarrow> errno + file_stat"
  os_statvfs :: "string \<Rightarrow> 'w \<Rightarrow> errno + file_statvfs"
  os_opendir :: "string \<Rightarrow> 'w \<Rightarrow> errno + string list"
  os_setlk :: "int \<Rightarrow> int \<Rightarrow> 'w \<Rightarrow> (errno + unit) \<times> 'w"
  os_readlink :: "string \<Rightarrow> u64 \<Rightarrow> 'w \<Rightarrow> errno + byte list"
  os_symlink :: "string \<Rightarrow> string \<Rightarrow> 'w \<Rightarrow> (errno + unit) \<times> 'w"
  os_pread :: "int \<Rightarrow> u64 \<Rightarrow> int \<Rightarrow> 'w \<Rightarrow> errno + byte list"
  os_pwrite :: "int \<Rightarrow> byte list \<Rightarrow> int \<Rightarrow> 'w \<Rightarrow> (errno + nat) \<times> 'w"
  os_read :: "int \<Rightarrow> u64 \<Rightarrow> 'w \<Rightarrow> (errno + byte list) \<times> 'w"
  os_write :: "int \<Rightarrow> byte list \<Rightarrow> 'w \<Rightarrow> (errno + nat) \<times> 'w"
  os_ftruncate :: "int \<Rightarrow> int \<Rightarrow> 'w \<Rightarrow> (errno + unit) \<times> 'w"
  os_fallocate :: "int \<Rightarrow> u32 \<Rightarrow> int \<Rightarrow> int \<Rightarrow> 'w \<Rightarrow> (errno + unit) \<times> 'w"
  os_mkdir :: "string \<Rightarrow> u32 \<Rightarrow> 'w \<Rightarrow> (errno + unit) \<times> 'w"
  os_rmdir :: "string \<Rightarrow> 'w \<Rightarrow> (errno + unit) \<times> 'w"
  os_rename :: "string \<Rightarrow> string \<Rightarrow> 'w \<Rightarrow> (errno + unit) \<times> 'w"
  os_unlink :: "string \<Rightarrow> 'w \<Rightarrow> (errno + unit) \<times> 'w"
  os_malloc :: "nat \<Rightarrow> 'w \<Rightarrow> bool \<times> 'w"

section \<open>The constants of the C library\<close>

abbreviation (input) ENOENT :: errno where "ENOENT \<equiv> 2"
abbreviation (input) EBADF :: errno where "EBADF \<equiv> 9"
abbreviation (input) EAGAIN :: errno where "EAGAIN \<equiv> 11"
abbreviation (input) ENOMEM :: errno where "ENOMEM \<equiv> 12"
abbreviation (input) EINVAL :: errno where "EINVAL \<equiv> 22"
abbreviation (input) ENODATA :: errno where "ENODATA \<equiv> 61"

abbreviation (input) O_RDONLY :: u32 where "O_RDONLY \<equiv> 0"
abbreviation (input) O_WRONLY :: u32 where "O_WRONLY \<equiv> 1"
abbreviation (input) O_RDWR :: u32 where "O_RDWR \<equiv> 2"
abbreviation (input) O_CREAT :: u32 where "O_CREAT \<equiv> 64"
abbreviation (input) O_TRUNC :: u32 where "O_TRUNC \<equiv> 512"

abbreviation (input) F_RDLCK :: int where "F_RDLCK \<equiv> 0"
abbreviation (input) F_WRLCK :: int where "F_WRLCK \<equiv> 1"
abbreviation (input) F_UNLCK :: int where "F_UNLCK \<equiv> 2"

abbreviation (input) S_IFMT :: u32 where "S_IFMT \<equiv> 61440"
abbreviation (input) S_IFLNK :: u32 where "S_IFLNK \<equiv> 40960"
abbreviation (input) S_IFREG :: u32 where "S_IFREG \<equiv> 32768"
abbreviation (input) S_IFDIR :: u32 where "S_IFDIR \<equiv> 16384"
abbreviation (input) S_IRUSR :: u32 where "S_IRUSR \<equiv> 256"
abbreviation (input) S_IWUSR :: u32 where "S_IWUSR \<equiv> 128"
abbreviation (input) S_IRWXU :: u32 where "S_IRWXU \<equiv> 448"

definition S_ISLNK :: "u32 \<Rightarrow> bool" where "S_ISLNK m \<longleftrightarrow> m AND S_IFMT = S_IFLNK"
definition S_ISDIR :: "u32 \<Rightarrow> bool" where "S_ISDIR m \<longleftrightarrow> m AND S_IFMT = S_IFDIR"
definition S_ISREG :: "u32 \<Rightarrow> bool" where "S_ISREG m \<longleftrightarrow> m AND S_IFMT = S_IFREG"

section \<open>Documented behaviour the proofs rely on\<close>

text \<open>A read call returns at most as many bytes as it was asked for.\<close>

definition reads_bounded :: "'w os \<Rightarrow> bool" where
  "reads_bounded os \<longleftrightarrow>
    (\<forall>fd n off w bs. os_pread os fd n off w = Inr bs \<longrightarrow> length bs \<le> unat n) \<and>
    (\<forall>p n w bs. os_readlink os p n w = Inr bs \<longrightarrow> length bs \<le> unat n) \<and>
    (\<forall>fd n w bs w'. os_read os fd n w = (Inr bs, w') \<longrightarrow> length bs \<le> unat n)"

text \<open>
  A pathname that \<open>stat\<close> resolves is not empty (ENOENT) and, with its NUL, fits in PATH_MAX,
  which is 4096 (ENAMETOOLONG).
\<close>

definition path_max :: "'w os \<Rightarrow> bool" where
  "path_max os \<longleftrightarrow> (\<forall>p w st. os_stat os p w = Inr st \<longrightarrow> p \<noteq> [] \<and> length p < 4096)"

text \<open>\<open>malloc\<close> finds memory and leaves the rest of the world as it is.\<close>

definition memory_available :: "'w os \<Rightarrow> bool" where
  "memory_available os \<longleftrightarrow> (\<forall>n w. os_malloc os n w = (True, w))"

text \<open>
  Reading and writing a regular file, whose bytes in the world are \<open>content fd w\<close>:
  \<open>pread\<close> delivers what lies between the offset and the end of the file, up to the count;
  \<open>pwrite\<close> writes all of its data and \<open>splice\<close> says where.
\<close>

definition splice :: "nat \<Rightarrow> byte list \<Rightarrow> byte list \<Rightarrow> byte list" where
  "splice off data bs =
     (if data = [] then bs
      else take off (bs @ replicate (off - length bs) 0) @ data @ drop (off + length data) bs)"

definition regular_pread :: "'w os \<Rightarrow> (int \<Rightarrow> 'w \<Rightarrow> byte list option) \<Rightarrow> bool" where
  "regular_pread os content \<longleftrightarrow>
    (\<forall>fd n off w bs. content fd w = Some bs \<longrightarrow> 0 \<le> off \<longrightarrow>
       os_pread os fd n off w = Inr (take (unat n) (drop (nat off) bs)))"

definition regular_pwrite :: "'w os \<Rightarrow> (int \<Rightarrow> 'w \<Rightarrow> byte list option) \<Rightarrow> bool" where
  "regular_pwrite os content \<longleftrightarrow>
    (\<forall>fd data off w bs. content fd w = Some bs \<longrightarrow> 0 \<le> off \<longrightarrow>
       fst (os_pwrite os fd data off w) = Inr (length data) \<and>
       content fd (snd (os_pwrite os fd data off w)) = Some (splice (nat off) data bs))"

text \<open>
  A descriptor that is read from start to end: \<open>rest fd w\<close> are the bytes it has not delivered yet.
  One that is written from the start on: \<open>sofar fd w\<close> are the bytes it has taken.
\<close>

definition stream_read :: "'w os \<Rightarrow> (int \<Rightarrow> 'w \<Rightarrow> byte list option) \<Rightarrow> bool" where
  "stream_read os rest \<longleftrightarrow>
    (\<forall>fd n w bs. rest fd w = Some bs \<longrightarrow>
       fst (os_read os fd n w) = Inr (take (unat n) bs) \<and>
       rest fd (snd (os_read os fd n w)) = Some (drop (unat n) bs))"

definition stream_write :: "'w os \<Rightarrow> (int \<Rightarrow> 'w \<Rightarrow> byte list option) \<Rightarrow> bool" where
  "stream_write os sofar \<longleftrightarrow>
    (\<forall>fd data w bs. sofar fd w = Some bs \<longrightarrow>
       fst (os_write os fd data w) = Inr (length data) \<and>
       sofar fd (snd (os_write os fd data w)) = Some (bs @ data))"

text \<open>A call that fails sets \<open>errno\<close> to a positive number.\<close>

definition errno_positive :: "'w os \<Rightarrow> bool" where
  "errno_positive os \<longleftrightarrow>
    (\<forall>p f m w. fst (os_open os p f m w) \<noteq> Inl 0) \<and> (\<forall>fd w. fst (os_close os fd w) \<noteq> Inl 0) \<and>
    (\<forall>fd w. fst (os_fsync os fd w) \<noteq> Inl 0) \<and> (\<forall>p w. os_lstat os p w \<noteq> Inl 0) \<and>
    (\<forall>p w. os_statvfs os p w \<noteq> Inl 0) \<and> (\<forall>fd t w. fst (os_setlk os fd t w) \<noteq> Inl 0) \<and>
    (\<forall>p n w. os_readlink os p n w \<noteq> Inl 0) \<and> (\<forall>p q w. fst (os_symlink os p q w) \<noteq> Inl 0) \<and>
    (\<forall>fd n off w. os_pread os fd n off w \<noteq> Inl 0) \<and>
    (\<forall>fd d off w. fst (os_pwrite os fd d off w) \<noteq> Inl 0) \<and>
    (\<forall>fd l w. fst (os_ftruncate os fd l w) \<noteq> Inl 0) \<and>
    (\<forall>fd m off l w. fst (os_fallocate os fd m off l w) \<noteq> Inl 0) \<and>
    (\<forall>p m w. fst (os_mkdir os p m w) \<noteq> Inl 0) \<and> (\<forall>p w. fst (os_rmdir os p w) \<noteq> Inl 0) \<and>
    (\<forall>p q w. fst (os_rename os p q w) \<noteq> Inl 0) \<and> (\<forall>p w. fst (os_unlink os p w) \<noteq> Inl 0)"

text \<open>\<open>errno\<close> is an \<open>int\<close>, and a descriptor that \<open>open\<close> returns is one that is not negative.\<close>

definition errno_int :: "'w os \<Rightarrow> bool" where
  "errno_int os \<longleftrightarrow>
    (\<forall>fd n off w e. os_pread os fd n off w = Inl e \<longrightarrow> e < 2 ^ 31) \<and>
    (\<forall>fd d off w e. fst (os_pwrite os fd d off w) = Inl e \<longrightarrow> e < 2 ^ 31)"

definition descriptors_int :: "'w os \<Rightarrow> bool" where
  "descriptors_int os \<longleftrightarrow> (\<forall>p f m w fd. fst (os_open os p f m w) = Inr fd \<longrightarrow> 0 \<le> fd \<and> fd < 2 ^ 31)"

text \<open>
  A call that leaves \<open>part\<close> of the world as it is, and that every call of the request handlers does:
  what the handlers can touch of the world is what these calls touch.
\<close>

definition call_keeps :: "('w \<Rightarrow> 'r) \<Rightarrow> ('w \<Rightarrow> 'a \<times> 'w) \<Rightarrow> bool" where
  "call_keeps part f \<longleftrightarrow> (\<forall>w. part (snd (f w)) = part w)"

definition os_keeps :: "('w \<Rightarrow> 'r) \<Rightarrow> 'w os \<Rightarrow> bool" where
  "os_keeps part os \<longleftrightarrow>
    (\<forall>p f m. call_keeps part (os_open os p f m)) \<and> (\<forall>fd. call_keeps part (os_close os fd)) \<and>
    (\<forall>fd. call_keeps part (os_fsync os fd)) \<and> (\<forall>fd t. call_keeps part (os_setlk os fd t)) \<and>
    (\<forall>p q. call_keeps part (os_symlink os p q)) \<and> (\<forall>fd d off. call_keeps part (os_pwrite os fd d off)) \<and>
    (\<forall>fd n. call_keeps part (os_read os fd n)) \<and> (\<forall>fd l. call_keeps part (os_ftruncate os fd l)) \<and>
    (\<forall>fd m off l. call_keeps part (os_fallocate os fd m off l)) \<and>
    (\<forall>p m. call_keeps part (os_mkdir os p m)) \<and> (\<forall>p. call_keeps part (os_rmdir os p)) \<and>
    (\<forall>p q. call_keeps part (os_rename os p q)) \<and> (\<forall>p. call_keeps part (os_unlink os p)) \<and>
    (\<forall>n. call_keeps part (os_malloc os n))"

section \<open>Lemmas\<close>

lemma call_keepsD: "call_keeps part f \<Longrightarrow> f w = (r, w') \<Longrightarrow> part w' = part w"
  unfolding call_keeps_def by (metis snd_conv)

lemma length_splice:
  "length (splice off data bs) = (if data = [] then length bs else max (length bs) (off + length data))"
  by (auto simp: splice_def)

lemma splice_append:
  "splice (off + length xs) ys (splice off xs bs) = splice off (xs @ ys) bs"
proof -
  have "off - length bs + min off (length bs) = off"
    by simp
  then show ?thesis
    by (auto simp: splice_def ac_simps)
qed

lemma take_drop_splice [simp]: "take (length data) (drop off (splice off data bs)) = data"
  by (simp add: splice_def)

lemma errno_positiveD:
  assumes "errno_positive os"
  shows "fst (os_open os p f m w) \<noteq> Inl 0" "fst (os_close os fd w) \<noteq> Inl 0"
    "fst (os_fsync os fd w) \<noteq> Inl 0" "os_lstat os p w \<noteq> Inl 0"
    "os_statvfs os p w \<noteq> Inl 0" "fst (os_setlk os fd t w) \<noteq> Inl 0"
    "os_readlink os p n w \<noteq> Inl 0" "fst (os_symlink os p q w) \<noteq> Inl 0"
    "os_pread os fd n off w \<noteq> Inl 0" "fst (os_pwrite os fd d off w) \<noteq> Inl 0"
    "fst (os_ftruncate os fd l w) \<noteq> Inl 0" "fst (os_fallocate os fd m' off l w) \<noteq> Inl 0"
    "fst (os_mkdir os p m w) \<noteq> Inl 0" "fst (os_rmdir os p w) \<noteq> Inl 0"
    "fst (os_rename os p q w) \<noteq> Inl 0" "fst (os_unlink os p w) \<noteq> Inl 0"
  using assms unfolding errno_positive_def by metis+

end
