(* ===== verification/Server.thy ===== *)
theory Server
  imports Icbinn_Prot Posix
begin

text \<open>
  The request handlers of \<open>libicbinn/server/server.c\<close> and the logging of \<open>server/util.c\<close>.

  The record \<open>server\<close> is the state a server process keeps between requests: the world its system
  calls act on and the static variables of \<open>server.c\<close>. \<open>rd_init\<close> and \<open>rd_result\<close> are the statics
  \<open>init\<close> and \<open>result\<close> of the readdir handler; \<open>rd_live\<close> counts the heap objects that handler has
  allocated and not yet given back to \<open>free\<close>, and \<open>slog\<close> is what went to syslog, as level, format
  and arguments. Each handler takes the system-call record, its decoded arguments and the state.
\<close>

record 'w server =
  world :: 'w
  readbuf :: "byte list"
  random_fd :: int
  urandom_fd :: int
  rd_init :: bool
  rd_result :: icbinn_prot_readdirres
  rd_live :: int
  slog :: "(string \<times> string \<times> msg_arg list) list"

text \<open>The static variables of a freshly started process.\<close>

definition server_start :: "'w \<Rightarrow> 'w server" where
  "server_start w = \<lparr>world = w, readbuf = replicate ICBINN_PROT_MAXDATA 0, random_fd = -1,
     urandom_fd = -1, rd_init = True, rd_result = ReaddirOK [] False, rd_live = 0, slog = []\<rparr>"

section \<open>Logging\<close>

abbreviation (input) MESSAGE_INFO :: u32 where "MESSAGE_INFO \<equiv> 1"
abbreviation (input) MESSAGE_WARNING :: u32 where "MESSAGE_WARNING \<equiv> 2"
abbreviation (input) MESSAGE_ERROR :: u32 where "MESSAGE_ERROR \<equiv> 4"
abbreviation (input) MESSAGE_FATAL :: u32 where "MESSAGE_FATAL \<equiv> 8"

definition message_level :: "u32 \<Rightarrow> string" where
  "message_level flags =
     (if flags AND MESSAGE_INFO \<noteq> 0 then ''Info''
      else if flags AND MESSAGE_WARNING \<noteq> 0 then ''Warning''
      else if flags AND MESSAGE_ERROR \<noteq> 0 then ''Error''
      else if flags AND MESSAGE_FATAL \<noteq> 0 then ''Fatal''
      else ''Unknown'')"

definition message :: "u32 \<Rightarrow> string \<Rightarrow> msg_arg list \<Rightarrow> 'w server \<Rightarrow> (unit, 'w server) outcome" where
  "message flags fmt args s =
     (let s' = s\<lparr>slog := slog s @ [(message_level flags, fmt, args)]\<rparr>
      in if flags AND MESSAGE_FATAL \<noteq> 0 then Exit 1 s' else Ret () s')"

text \<open>The macro \<open>error\<close>: it logs and comes back, as \<open>message_error\<close> below shows.\<close>

definition error_msg :: "string \<Rightarrow> msg_arg list \<Rightarrow> 'w server \<Rightarrow> 'w server" where
  "error_msg fmt args s =
     (case message MESSAGE_ERROR fmt args s of Ret _ s' \<Rightarrow> s' | Exit _ s' \<Rightarrow> s' | Fault \<Rightarrow> s)"

section \<open>Helpers\<close>

definition get_pathname_len :: "string \<Rightarrow> 'w server \<Rightarrow> int \<times> 'w server" where
  "get_pathname_len path s =
     (let len = int (length path)
      in if len \<ge> int ICBINN_PROT_MAXPATHLEN
         then (-1, error_msg ''pathname too long'' [] s)
         else (len, s))"

definition set_icbinn_prot_type :: "u32 \<Rightarrow> int" where
  "set_icbinn_prot_type entry_mode =
     (if S_ISLNK entry_mode then ICBINN_PROT_LINK
      else if S_ISDIR entry_mode then ICBINN_PROT_DIRECTORY
      else if S_ISREG entry_mode then ICBINN_PROT_FILE
      else ICBINN_PROT_UNKNOWN)"

definition init_rand :: "'w os \<Rightarrow> 'w server \<Rightarrow> (unit, 'w server) outcome" where
  "init_rand os s =
     (case os_open os ''/dev/random'' O_RDONLY 0 (world s) of
        (Inl e, w) \<Rightarrow>
          message MESSAGE_FATAL ''failed to open /dev/random: errno %d'' [MInt (int e)]
            (s\<lparr>world := w, random_fd := -1\<rparr>)
      | (Inr rfd, w) \<Rightarrow>
          (case os_open os ''/dev/urandom'' O_RDONLY 0 w of
             (Inl e, w') \<Rightarrow>
               message MESSAGE_FATAL ''failed to open /dev/urandom: errno %d'' [MInt (int e)]
                 (s\<lparr>world := w', random_fd := rfd, urandom_fd := -1\<rparr>)
           | (Inr ufd, w') \<Rightarrow> Ret () (s\<lparr>world := w', random_fd := rfd, urandom_fd := ufd\<rparr>)))"

text \<open>What a read call leaves in the static buffer: its bytes from the start of the buffer on.\<close>

definition fill_readbuf :: "byte list \<Rightarrow> 'w server \<Rightarrow> 'w server" where
  "fill_readbuf bs s = s\<lparr>readbuf := mem_write (readbuf s) 0 bs\<rparr>"

text \<open>
  The end of a handler that answers with \<open>icbinn_prot_errnostat\<close>: the errno of a failed system
  call goes into the reply and to the log.
\<close>

definition errnostat_of ::
  "string \<Rightarrow> msg_arg list \<Rightarrow> (errno + 'a) \<times> 'w \<Rightarrow> 'w server \<Rightarrow> icbinn_prot_errnostat \<times> 'w server" where
  "errnostat_of fmt args res s =
     (case res of
        (Inl e, w) \<Rightarrow> (ErrnoERROR (int e), error_msg fmt (args @ [MInt (int e)]) (s\<lparr>world := w\<rparr>))
      | (Inr _, w) \<Rightarrow> (ErrnoOK, s\<lparr>world := w\<rparr>))"

section \<open>The readdir handler\<close>

text \<open>\<open>sizeof filepath\<close>: MAXPATHLEN + MAXNAMELEN + 1.\<close>

abbreviation (input) filepath_size :: nat where
  "filepath_size \<equiv> ICBINN_PROT_MAXPATHLEN + ICBINN_PROT_MAXNAMELEN + 1"

text \<open>
  The loop over the directory stream. \<open>base\<close> is what \<open>filepath\<close> holds before the entry name, \<open>dp\<close>
  the last result of \<open>readdir\<close> (None for NULL), \<open>acc\<close> the list built behind \<open>ep\<close>. Copying a name
  behind \<open>base\<close> needs room for its NUL too.
\<close>

fun readdir_loop ::
  "'w os \<Rightarrow> string \<Rightarrow> u32 \<Rightarrow> u32 \<Rightarrow> u32 \<Rightarrow> u32 \<Rightarrow> string option \<Rightarrow> string list \<Rightarrow>
   icbinn_prot_entry list \<Rightarrow> 'w server \<Rightarrow> (icbinn_prot_entry list \<times> string option, 'w server) outcome" where
  "readdir_loop os base offset count doffset dcount dp [] acc s =
     (if dcount < count then Ret (acc, None) s else Ret (acc, dp) s)"
| "readdir_loop os base offset count doffset dcount dp (d # ds) acc s =
     (if \<not> dcount < count then Ret (acc, dp) s
      else if d = ''.'' then readdir_loop os base offset count doffset dcount (Some d) ds acc s
      else if d = ''..'' then readdir_loop os base offset count doffset dcount (Some d) ds acc s
      else if length d \<ge> ICBINN_PROT_MAXNAMELEN
        then readdir_loop os base offset count doffset dcount (Some d) ds acc s
      else if length base + length d \<ge> filepath_size then Fault
      else
        (case os_lstat os (base @ d) (world s) of
           Inl _ \<Rightarrow> readdir_loop os base offset count doffset dcount (Some d) ds acc s
         | Inr sbuf \<Rightarrow>
             if doffset < offset
             then readdir_loop os base offset count (doffset + 1) dcount (Some d) ds acc s
             else
               (case os_malloc os 24 (world s) of
                  (False, w) \<Rightarrow>
                    (case message MESSAGE_FATAL ''failed to allocate memory'' [] (s\<lparr>world := w\<rparr>) of
                       Exit n s' \<Rightarrow> Exit n s' | _ \<Rightarrow> Fault)
                | (True, w) \<Rightarrow>
                    (case os_malloc os (length d + 1) w of
                       (False, w') \<Rightarrow>
                         (case message MESSAGE_FATAL ''failed to allocate memory'' []
                                 (s\<lparr>world := w', rd_live := rd_live s + 1\<rparr>) of
                            Exit n s' \<Rightarrow> Exit n s' | _ \<Rightarrow> Fault)
                     | (True, w') \<Rightarrow>
                         readdir_loop os base offset count (doffset + 1) (dcount + 1) (Some d) ds
                           (acc @ [\<lparr>en_name = d, en_type = set_icbinn_prot_type (st_mode sbuf)\<rparr>])
                           (s\<lparr>world := w', rd_live := rd_live s + 2\<rparr>)))))"

text \<open>Freeing the reply of the previous call: \<open>xdr_free\<close> gives back each entry and its name.\<close>

definition readdir_free_previous :: "'w server \<Rightarrow> 'w server" where
  "readdir_free_previous s =
     (if rd_init s then s\<lparr>rd_init := False\<rparr>
      else (case rd_result s of
              ReaddirOK es eof \<Rightarrow>
                s\<lparr>rd_result := ReaddirOK [] eof, rd_live := rd_live s - 2 * int (length es)\<rparr>
            | ReaddirERROR \<Rightarrow> s))"

text \<open>
  The part after the directory was opened: \<open>filepath\<close> is filled and the stream read.
  \<open>filepath[dname_len - 1]\<close> is read at an unsigned index; the read is inside the copied name, or
  it is a fault.
\<close>

definition readdir_collect ::
  "'w os \<Rightarrow> icbinn_prot_readdirargs \<Rightarrow> u32 \<Rightarrow> string list \<Rightarrow> 'w server \<Rightarrow>
   (icbinn_prot_readdirres, 'w server) outcome" where
  "readdir_collect os argp dname_len dirp s =
     (let dir = ra_dir argp; i = unat (dname_len - 1) in
      if length dir \<ge> filepath_size then Fault
      else if i \<ge> length dir then Fault
      else
        (let base = (if dir ! i \<noteq> CHR ''/'' then dir @ ''/'' else dir) in
         if length base \<ge> filepath_size then Fault
         else
           (case readdir_loop os base (ra_offset argp) (ra_count argp) 0 0 None dirp [] s of
              Ret (es, dp) s' \<Rightarrow>
                (let result = ReaddirOK es (dp = None) in Ret result (s'\<lparr>rd_result := result\<rparr>))
            | Exit n s' \<Rightarrow> Exit n s'
            | Fault \<Rightarrow> Fault)))"

definition icbinn_prot_readdir_1_svc ::
  "'w os \<Rightarrow> icbinn_prot_readdirargs \<Rightarrow> 'w server \<Rightarrow> (icbinn_prot_readdirres, 'w server) outcome" where
  "icbinn_prot_readdir_1_svc os argp s =
     (let s1 = (readdir_free_previous s)\<lparr>rd_result := ReaddirERROR\<rparr>;
          dir = ra_dir argp;
          (len, s2) = get_pathname_len dir s1;
          dname_len = (word_of_int len :: u32)
      in if dname_len < 0 then Ret ReaddirERROR s2
         else
           (case os_stat os dir (world s2) of
              Inl e \<Rightarrow>
                Ret ReaddirERROR
                  (error_msg ''failed to stat %s: errno %d'' [MStr dir, MInt (int e)] s2)
            | Inr sbuf \<Rightarrow>
                if \<not> S_ISDIR (st_mode sbuf)
                then Ret ReaddirERROR (error_msg ''%s is not a directory'' [MStr dir] s2)
                else
                  (case os_opendir os dir (world s2) of
                     Inl e \<Rightarrow>
                       Ret ReaddirERROR
                         (error_msg ''failed to open directory %s: errno %d''
                            [MStr dir, MInt (int e)] s2)
                   | Inr dirp \<Rightarrow> readdir_collect os argp dname_len dirp s2)))"


section \<open>The other handlers\<close>

definition icbinn_prot_null_1_svc :: "'w server \<Rightarrow> 'w server" where
  "icbinn_prot_null_1_svc s = s"

definition icbinn_prot_stat_1_svc ::
  "'w os \<Rightarrow> string \<Rightarrow> 'w server \<Rightarrow> icbinn_prot_statres \<times> 'w server" where
  "icbinn_prot_stat_1_svc os argp s =
     (let (len, s1) = get_pathname_len argp s in
      if len < 0 then (StatERROR (int ENOENT), s1)
      else
        (case os_lstat os argp (world s1) of
           Inl e \<Rightarrow> (StatERROR (int e), s1)
         | Inr sbuf \<Rightarrow>
             (StatOK \<lparr>sr_size = word_of_int (st_size sbuf),
                      sr_type = set_icbinn_prot_type (st_mode sbuf)\<rparr>, s1)))"

definition icbinn_prot_statfs_1_svc ::
  "'w os \<Rightarrow> string \<Rightarrow> 'w server \<Rightarrow> icbinn_prot_statfsres \<times> 'w server" where
  "icbinn_prot_statfs_1_svc os argp s =
     (let (len, s1) = get_pathname_len argp s in
      if len < 0 then (StatfsERROR (int ENOENT), s1)
      else
        (case os_statvfs os argp (world s1) of
           Inl e \<Rightarrow> (StatfsERROR (int e), s1)
         | Inr sbuf \<Rightarrow>
             (StatfsOK \<lparr>fr_bsize = f_bsize sbuf, fr_blocks = f_blocks sbuf,
                        fr_bfree = f_bfree sbuf, fr_bavail = f_bavail sbuf\<rparr>, s1)))"

text \<open>The flags of the open handler, one \<open>if\<close> per protocol bit in the order of the source.\<close>

definition open_flags :: "u32 \<Rightarrow> u32" where
  "open_flags mode =
     (let flags = 0;
          flags = (if mode AND ICBINN_PROT_RDONLY \<noteq> 0 then flags OR O_RDONLY else flags);
          flags = (if mode AND ICBINN_PROT_WRONLY \<noteq> 0 then flags OR O_WRONLY else flags);
          flags = (if mode AND ICBINN_PROT_RDWR \<noteq> 0 then flags OR O_RDWR else flags);
          flags = (if mode AND ICBINN_PROT_TRUNC \<noteq> 0 then flags OR O_TRUNC else flags);
          flags = (if mode AND ICBINN_PROT_CREAT \<noteq> 0 then flags OR O_CREAT else flags)
      in flags)"

definition icbinn_prot_open_1_svc ::
  "'w os \<Rightarrow> icbinn_prot_openargs \<Rightarrow> 'w server \<Rightarrow> icbinn_prot_openres \<times> 'w server" where
  "icbinn_prot_open_1_svc os argp s =
     (let (len, s1) = get_pathname_len (oa_name argp) s in
      if len < 0 then (OpenERROR (int ENOENT), s1)
      else
        (case os_open os (oa_name argp) (open_flags (oa_mode argp)) (S_IRUSR OR S_IWUSR) (world s1) of
           (Inl e, w) \<Rightarrow>
             (OpenERROR (int e),
              error_msg ''failed to open %s: errno %d'' [MStr (oa_name argp), MInt (int e)]
                (s1\<lparr>world := w\<rparr>))
         | (Inr fd, w) \<Rightarrow> (OpenOK fd, s1\<lparr>world := w\<rparr>)))"

definition icbinn_prot_lock_1_svc ::
  "'w os \<Rightarrow> icbinn_prot_lockargs \<Rightarrow> 'w server \<Rightarrow> icbinn_prot_errnostat \<times> 'w server" where
  "icbinn_prot_lock_1_svc os argp s =
     (let set_lock = (\<lambda>l_type. errnostat_of ''fcntl failed: errno %d'' []
                                (os_setlk os (la_fd argp) l_type (world s)) s)
      in if la_type argp = ICBINN_PROT_LTYPE_RDLCK then set_lock F_RDLCK
         else if la_type argp = ICBINN_PROT_LTYPE_WRLCK then set_lock F_WRLCK
         else if la_type argp = ICBINN_PROT_LTYPE_UNLCK then set_lock F_UNLCK
         else (ErrnoERROR (int EINVAL), error_msg ''invalid lock type %d'' [MInt (la_type argp)] s))"

definition icbinn_prot_readlink_1_svc ::
  "'w os \<Rightarrow> icbinn_prot_readlinkargs \<Rightarrow> 'w server \<Rightarrow> icbinn_prot_readlinkres \<times> 'w server" where
  "icbinn_prot_readlink_1_svc os argp s =
     (let (len, s1) = get_pathname_len (rla_path argp) s in
      if len < 0 then (ReadlinkERROR (int ENOENT), s1)
      else if rla_bufsz argp > of_nat ICBINN_PROT_MAXDATA
        then (ReadlinkERROR (int EINVAL), error_msg ''invalid readlink request'' [] s1)
      else
        (case os_readlink os (rla_path argp) (rla_bufsz argp) (world s1) of
           Inl e \<Rightarrow>
             (ReadlinkERROR (int e), error_msg ''failed to readlink: errno %d'' [MInt (int e)] s1)
         | Inr bs \<Rightarrow>
             (let s2 = fill_readbuf bs s1 in (ReadlinkOK (take (length bs) (readbuf s2)), s2))))"

definition icbinn_prot_symlink_1_svc ::
  "'w os \<Rightarrow> icbinn_prot_symlinkargs \<Rightarrow> 'w server \<Rightarrow> icbinn_prot_errnostat \<times> 'w server" where
  "icbinn_prot_symlink_1_svc os argp s =
     (let (len, s1) = get_pathname_len (sla_oldpath argp) s in
      if len < 0 then (ErrnoERROR (int ENOENT), s1)
      else
        (let (len', s2) = get_pathname_len (sla_newpath argp) s1 in
         if len' < 0 then (ErrnoERROR (int ENOENT), s2)
         else errnostat_of ''failed to symlink: errno %d'' []
                (os_symlink os (sla_oldpath argp) (sla_newpath argp) (world s2)) s2))"

definition icbinn_prot_pread_1_svc ::
  "'w os \<Rightarrow> icbinn_prot_preadargs \<Rightarrow> 'w server \<Rightarrow> icbinn_prot_preadres \<times> 'w server" where
  "icbinn_prot_pread_1_svc os argp s =
     (if pra_count argp > of_nat ICBINN_PROT_MAXDATA
      then (PreadERROR (int EINVAL), error_msg ''invalid read request'' [] s)
      else
        (case os_pread os (pra_fd argp) (pra_count argp) (sint (pra_offset argp)) (world s) of
           Inl e \<Rightarrow>
             (PreadERROR (int e),
              error_msg ''failed to read from file: errno %d'' [MInt (int e)] s)
         | Inr bs \<Rightarrow>
             (let s1 = fill_readbuf bs s in (PreadOK (take (length bs) (readbuf s1)), s1))))"

definition icbinn_prot_ftruncate_1_svc ::
  "'w os \<Rightarrow> icbinn_prot_ftruncateargs \<Rightarrow> 'w server \<Rightarrow> icbinn_prot_errnostat \<times> 'w server" where
  "icbinn_prot_ftruncate_1_svc os argp s =
     errnostat_of ''ftruncate failed: errno %d'' []
       (os_ftruncate os (fta_fd argp) (sint (fta_length argp)) (world s)) s"

definition icbinn_prot_fallocate_1_svc ::
  "'w os \<Rightarrow> icbinn_prot_fallocateargs \<Rightarrow> 'w server \<Rightarrow> icbinn_prot_errnostat \<times> 'w server" where
  "icbinn_prot_fallocate_1_svc os argp s =
     errnostat_of ''fallocate failed: errno %d'' []
       (os_fallocate os (faa_fd argp) (faa_mode argp) (sint (faa_offset argp))
          (sint (faa_length argp)) (world s)) s"

definition icbinn_prot_pwrite_1_svc ::
  "'w os \<Rightarrow> icbinn_prot_pwriteargs \<Rightarrow> 'w server \<Rightarrow> icbinn_prot_errnostat \<times> 'w server" where
  "icbinn_prot_pwrite_1_svc os argp s =
     (if length (pwa_data argp) > ICBINN_PROT_MAXDATA
      then (ErrnoERROR (int EINVAL), error_msg ''invalid write request'' [] s)
      else errnostat_of ''failed to write to file: errno %d'' []
             (os_pwrite os (pwa_fd argp) (pwa_data argp) (sint (pwa_offset argp)) (world s)) s)"

definition icbinn_prot_close_1_svc ::
  "'w os \<Rightarrow> int \<Rightarrow> 'w server \<Rightarrow> icbinn_prot_errnostat \<times> 'w server" where
  "icbinn_prot_close_1_svc os argp s =
     errnostat_of ''failed to close file: errno %d'' [] (os_close os argp (world s)) s"

definition icbinn_prot_fsync_1_svc ::
  "'w os \<Rightarrow> int \<Rightarrow> 'w server \<Rightarrow> icbinn_prot_errnostat \<times> 'w server" where
  "icbinn_prot_fsync_1_svc os argp s =
     errnostat_of ''failed to fsync file: errno %d'' [] (os_fsync os argp (world s)) s"

definition icbinn_prot_mkdir_1_svc ::
  "'w os \<Rightarrow> string \<Rightarrow> 'w server \<Rightarrow> icbinn_prot_errnostat \<times> 'w server" where
  "icbinn_prot_mkdir_1_svc os argp s =
     (let (len, s1) = get_pathname_len argp s in
      if len < 0 then (ErrnoERROR (int ENOENT), s1)
      else errnostat_of ''failed to create directory %s: errno %d'' [MStr argp]
             (os_mkdir os argp S_IRWXU (world s1)) s1)"

definition icbinn_prot_rmdir_1_svc ::
  "'w os \<Rightarrow> string \<Rightarrow> 'w server \<Rightarrow> icbinn_prot_errnostat \<times> 'w server" where
  "icbinn_prot_rmdir_1_svc os argp s =
     (let (len, s1) = get_pathname_len argp s in
      if len < 0 then (ErrnoERROR (int ENOENT), s1)
      else errnostat_of ''failed to remove directory %s: errno %d'' [MStr argp]
             (os_rmdir os argp (world s1)) s1)"

definition icbinn_prot_rename_1_svc ::
  "'w os \<Rightarrow> icbinn_prot_renameargs \<Rightarrow> 'w server \<Rightarrow> icbinn_prot_errnostat \<times> 'w server" where
  "icbinn_prot_rename_1_svc os argp s =
     (let (len, s1) = get_pathname_len (rna_from argp) s in
      if len < 0 then (ErrnoERROR (int ENOENT), s1)
      else
        (let (len', s2) = get_pathname_len (rna_to argp) s1 in
         if len' < 0 then (ErrnoERROR (int ENOENT), s2)
         else errnostat_of ''failed to rename %s: errno %d'' [MStr (rna_from argp)]
                (os_rename os (rna_from argp) (rna_to argp) (world s2)) s2))"

definition icbinn_prot_unlink_1_svc ::
  "'w os \<Rightarrow> string \<Rightarrow> 'w server \<Rightarrow> icbinn_prot_errnostat \<times> 'w server" where
  "icbinn_prot_unlink_1_svc os argp s =
     (let (len, s1) = get_pathname_len argp s in
      if len < 0 then (ErrnoERROR (int ENOENT), s1)
      else errnostat_of ''failed to unlink %s: errno %d'' [MStr argp]
             (os_unlink os argp (world s1)) s1)"

definition icbinn_prot_rand_1_svc ::
  "'w os \<Rightarrow> icbinn_prot_randargs \<Rightarrow> 'w server \<Rightarrow> icbinn_prot_randres \<times> 'w server" where
  "icbinn_prot_rand_1_svc os argp s =
     (let read_from = (\<lambda>fd.
            (case os_read os fd (rda_count argp) (world s) of
               (Inl e, w) \<Rightarrow>
                 (RandERROR,
                  error_msg ''failed to read from random device: errno %d'' [MInt (int e)]
                    (s\<lparr>world := w\<rparr>))
             | (Inr bs, w) \<Rightarrow>
                 (let s1 = fill_readbuf bs (s\<lparr>world := w\<rparr>)
                  in (RandOK (take (length bs) (readbuf s1)), s1))))
      in if rda_count argp > of_nat ICBINN_PROT_MAXDATA
         then (RandERROR, error_msg ''invalid read request'' [] s)
         else if rda_src argp = ICBINN_PROT_RANDOM then read_from (random_fd s)
         else if rda_src argp = ICBINN_PROT_URANDOM then read_from (urandom_fd s)
         else (RandERROR, error_msg ''invalid random source %d'' [MInt (rda_src argp)] s))"

section \<open>The dispatcher\<close>

text \<open>
  Procedure number to handler, as the program block of the protocol file pairs them. Every handler
  but the one for readdir always returns.
\<close>

definition ret :: "('r \<Rightarrow> icbinn_reply) \<Rightarrow> 'r \<times> 'w server \<Rightarrow> (icbinn_reply, 'w server) outcome" where
  "ret wrap rs = Ret (wrap (fst rs)) (snd rs)"

fun icbinn_prot_program_1 ::
  "'w os \<Rightarrow> icbinn_request \<Rightarrow> 'w server \<Rightarrow> (icbinn_reply, 'w server) outcome" where
  "icbinn_prot_program_1 os ICBINN_PROT_NULL s = Ret NullReply (icbinn_prot_null_1_svc s)"
| "icbinn_prot_program_1 os (ICBINN_PROT_READDIR a) s =
     (case icbinn_prot_readdir_1_svc os a s of
        Ret r s' \<Rightarrow> Ret (ReaddirReply r) s' | Exit n s' \<Rightarrow> Exit n s' | Fault \<Rightarrow> Fault)"
| "icbinn_prot_program_1 os (ICBINN_PROT_STAT a) s = ret StatReply (icbinn_prot_stat_1_svc os a s)"
| "icbinn_prot_program_1 os (ICBINN_PROT_OPEN a) s = ret OpenReply (icbinn_prot_open_1_svc os a s)"
| "icbinn_prot_program_1 os (ICBINN_PROT_LOCK a) s = ret ErrnoReply (icbinn_prot_lock_1_svc os a s)"
| "icbinn_prot_program_1 os (ICBINN_PROT_PREAD a) s = ret PreadReply (icbinn_prot_pread_1_svc os a s)"
| "icbinn_prot_program_1 os (ICBINN_PROT_PWRITE a) s = ret ErrnoReply (icbinn_prot_pwrite_1_svc os a s)"
| "icbinn_prot_program_1 os (ICBINN_PROT_CLOSE a) s = ret ErrnoReply (icbinn_prot_close_1_svc os a s)"
| "icbinn_prot_program_1 os (ICBINN_PROT_MKDIR a) s = ret ErrnoReply (icbinn_prot_mkdir_1_svc os a s)"
| "icbinn_prot_program_1 os (ICBINN_PROT_RMDIR a) s = ret ErrnoReply (icbinn_prot_rmdir_1_svc os a s)"
| "icbinn_prot_program_1 os (ICBINN_PROT_RENAME a) s = ret ErrnoReply (icbinn_prot_rename_1_svc os a s)"
| "icbinn_prot_program_1 os (ICBINN_PROT_UNLINK a) s = ret ErrnoReply (icbinn_prot_unlink_1_svc os a s)"
| "icbinn_prot_program_1 os (ICBINN_PROT_FTRUNCATE a) s =
     ret ErrnoReply (icbinn_prot_ftruncate_1_svc os a s)"
| "icbinn_prot_program_1 os (ICBINN_PROT_RAND a) s = ret RandReply (icbinn_prot_rand_1_svc os a s)"
| "icbinn_prot_program_1 os (ICBINN_PROT_FALLOCATE a) s =
     ret ErrnoReply (icbinn_prot_fallocate_1_svc os a s)"
| "icbinn_prot_program_1 os (ICBINN_PROT_SYMLINK a) s =
     ret ErrnoReply (icbinn_prot_symlink_1_svc os a s)"
| "icbinn_prot_program_1 os (ICBINN_PROT_READLINK a) s =
     ret ReadlinkReply (icbinn_prot_readlink_1_svc os a s)"
| "icbinn_prot_program_1 os (ICBINN_PROT_STATFS a) s = ret StatfsReply (icbinn_prot_statfs_1_svc os a s)"
| "icbinn_prot_program_1 os (ICBINN_PROT_FSYNC a) s = ret ErrnoReply (icbinn_prot_fsync_1_svc os a s)"


section \<open>Basic lemmas\<close>

declare
  icbinn_prot_null_1_svc_def [server_defs] icbinn_prot_stat_1_svc_def [server_defs]
  icbinn_prot_statfs_1_svc_def [server_defs] icbinn_prot_open_1_svc_def [server_defs]
  icbinn_prot_lock_1_svc_def [server_defs] icbinn_prot_readlink_1_svc_def [server_defs]
  icbinn_prot_symlink_1_svc_def [server_defs] icbinn_prot_pread_1_svc_def [server_defs]
  icbinn_prot_ftruncate_1_svc_def [server_defs] icbinn_prot_fallocate_1_svc_def [server_defs]
  icbinn_prot_pwrite_1_svc_def [server_defs] icbinn_prot_close_1_svc_def [server_defs]
  icbinn_prot_fsync_1_svc_def [server_defs] icbinn_prot_mkdir_1_svc_def [server_defs]
  icbinn_prot_rmdir_1_svc_def [server_defs] icbinn_prot_rename_1_svc_def [server_defs]
  icbinn_prot_unlink_1_svc_def [server_defs] icbinn_prot_rand_1_svc_def [server_defs]

lemma message_level_bits [simp]:
  "message_level MESSAGE_INFO = ''Info''"
  "message_level MESSAGE_WARNING = ''Warning''"
  "message_level MESSAGE_ERROR = ''Error''"
  "message_level MESSAGE_FATAL = ''Fatal''"
  by (simp_all add: message_level_def)

lemma message_error:
  "message MESSAGE_ERROR fmt args s = Ret () (s\<lparr>slog := slog s @ [(''Error'', fmt, args)]\<rparr>)"
  by (simp add: message_def)

lemma message_fatal [simp]:
  "message MESSAGE_FATAL fmt args s = Exit 1 (s\<lparr>slog := slog s @ [(''Fatal'', fmt, args)]\<rparr>)"
  by (simp add: message_def)

lemma error_msg_eq: "error_msg fmt args s = s\<lparr>slog := slog s @ [(''Error'', fmt, args)]\<rparr>"
  by (simp add: error_msg_def message_error)

lemma error_msg_fields [simp]:
  "world (error_msg fmt args s) = world s"
  "readbuf (error_msg fmt args s) = readbuf s"
  "random_fd (error_msg fmt args s) = random_fd s"
  "urandom_fd (error_msg fmt args s) = urandom_fd s"
  "rd_init (error_msg fmt args s) = rd_init s"
  "rd_result (error_msg fmt args s) = rd_result s"
  "rd_live (error_msg fmt args s) = rd_live s"
  "slog (error_msg fmt args s) = slog s @ [(''Error'', fmt, args)]"
  by (simp_all add: error_msg_eq)

lemma get_pathname_len_cases:
  "get_pathname_len path s =
     (if length path < ICBINN_PROT_MAXPATHLEN then (int (length path), s)
      else (-1, error_msg ''pathname too long'' [] s))"
  by (simp add: get_pathname_len_def)

lemma fill_readbuf_fields [simp]:
  "world (fill_readbuf bs s) = world s"
  "readbuf (fill_readbuf bs s) = mem_write (readbuf s) 0 bs"
  "random_fd (fill_readbuf bs s) = random_fd s"
  "urandom_fd (fill_readbuf bs s) = urandom_fd s"
  "rd_init (fill_readbuf bs s) = rd_init s"
  "rd_result (fill_readbuf bs s) = rd_result s"
  "rd_live (fill_readbuf bs s) = rd_live s"
  "slog (fill_readbuf bs s) = slog s"
  by (simp_all add: fill_readbuf_def)

lemma world_server_start [simp]: "world (server_start w) = w"
  by (simp add: server_start_def)

end
