(* ===== verification/Posix_Mem.thy ===== *)
theory Posix_Mem
  imports Posix
begin

text \<open>
  A small file system in memory as one instance of the system-call record. It shows that the
  documented behaviour named in \<open>Posix\<close> can hold, all of it at once, and gives the examples of the
  development something to run on. A regular file has one descriptor number, which \<open>open\<close> returns;
  a directory is the list of its entry names. \<open>mf_root\<close> is the root directory of the process.
\<close>

record mem_fs =
  mf_names :: "(string \<times> int) list"
  mf_data :: "int \<Rightarrow> byte list option"
  mf_dirs :: "(string \<times> string list) list"
  mf_pos :: "int \<Rightarrow> nat"
  mf_root :: string

definition mem_content :: "int \<Rightarrow> mem_fs \<Rightarrow> byte list option" where
  "mem_content fd w = mf_data w fd"

definition mem_stat :: "string \<Rightarrow> mem_fs \<Rightarrow> errno + file_stat" where
  "mem_stat p w =
     (if p = [] \<or> 4096 \<le> length p then Inl ENOENT
      else (case map_of (mf_dirs w) p of
              Some _ \<Rightarrow> Inr \<lparr>st_mode = S_IFDIR OR S_IRWXU, st_size = 0\<rparr>
            | None \<Rightarrow>
                (case map_of (mf_names w) p of
                   None \<Rightarrow> Inl ENOENT
                 | Some fd \<Rightarrow>
                     Inr \<lparr>st_mode = S_IFREG OR S_IRUSR OR S_IWUSR,
                          st_size = (case mf_data w fd of None \<Rightarrow> 0 | Some bs \<Rightarrow> int (length bs))\<rparr>)))"

definition mem_open :: "string \<Rightarrow> u32 \<Rightarrow> u32 \<Rightarrow> mem_fs \<Rightarrow> (errno + int) \<times> mem_fs" where
  "mem_open p flags mode w =
     (case map_of (mf_names w) p of
        None \<Rightarrow> (Inl ENOENT, w)
      | Some fd \<Rightarrow>
          if fd < 0 \<or> 2 ^ 31 \<le> fd then (Inl ENOENT, w)
          else (Inr fd, w\<lparr>mf_pos := (mf_pos w)(fd := 0),
             mf_data := (if flags AND O_TRUNC \<noteq> 0 then (mf_data w)(fd \<mapsto> []) else mf_data w)\<rparr>))"

definition mem_fd :: "int \<Rightarrow> mem_fs \<Rightarrow> (errno + unit) \<times> mem_fs" where
  "mem_fd fd w = (if mf_data w fd = None then (Inl EBADF, w) else (Inr (), w))"

definition mem_pread :: "int \<Rightarrow> u64 \<Rightarrow> int \<Rightarrow> mem_fs \<Rightarrow> errno + byte list" where
  "mem_pread fd n off w =
     (case mf_data w fd of
        None \<Rightarrow> Inl EBADF
      | Some bs \<Rightarrow> if off < 0 then Inl EINVAL else Inr (take (unat n) (drop (nat off) bs)))"

definition mem_pwrite :: "int \<Rightarrow> byte list \<Rightarrow> int \<Rightarrow> mem_fs \<Rightarrow> (errno + nat) \<times> mem_fs" where
  "mem_pwrite fd data off w =
     (case mf_data w fd of
        None \<Rightarrow> (Inl EBADF, w)
      | Some bs \<Rightarrow>
          if off < 0 then (Inl EINVAL, w)
          else (Inr (length data), w\<lparr>mf_data := (mf_data w)(fd \<mapsto> splice (nat off) data bs)\<rparr>))"

text \<open>Reading and writing at the position of the descriptor, which moves on.\<close>

definition mem_read :: "int \<Rightarrow> u64 \<Rightarrow> mem_fs \<Rightarrow> (errno + byte list) \<times> mem_fs" where
  "mem_read fd n w =
     (case mf_data w fd of
        None \<Rightarrow> (Inl EBADF, w)
      | Some bs \<Rightarrow>
          (Inr (take (unat n) (drop (mf_pos w fd) bs)), w\<lparr>mf_pos := (mf_pos w)(fd := mf_pos w fd + unat n)\<rparr>))"

definition mem_write_fd :: "int \<Rightarrow> byte list \<Rightarrow> mem_fs \<Rightarrow> (errno + nat) \<times> mem_fs" where
  "mem_write_fd fd data w =
     (case mf_data w fd of
        None \<Rightarrow> (Inl EBADF, w)
      | Some bs \<Rightarrow>
          (Inr (length data),
           w\<lparr>mf_data := (mf_data w)(fd \<mapsto> splice (mf_pos w fd) data bs),
             mf_pos := (mf_pos w)(fd := mf_pos w fd + length data)\<rparr>))"

definition mem_rest :: "int \<Rightarrow> mem_fs \<Rightarrow> byte list option" where
  "mem_rest fd w = map_option (drop (mf_pos w fd)) (mf_data w fd)"

definition mem_sofar :: "int \<Rightarrow> mem_fs \<Rightarrow> byte list option" where
  "mem_sofar fd w =
     (case mf_data w fd of None \<Rightarrow> None | Some bs \<Rightarrow> if length bs = mf_pos w fd then Some bs else None)"

definition mem_ftruncate :: "int \<Rightarrow> int \<Rightarrow> mem_fs \<Rightarrow> (errno + unit) \<times> mem_fs" where
  "mem_ftruncate fd len w =
     (case mf_data w fd of
        None \<Rightarrow> (Inl EBADF, w)
      | Some bs \<Rightarrow>
          if len < 0 then (Inl EINVAL, w)
          else (Inr (), w\<lparr>mf_data := (mf_data w)
                  (fd \<mapsto> take (nat len) (bs @ replicate (nat len - length bs) 0))\<rparr>))"

definition mem_os :: "mem_fs os" where
  "mem_os =
     \<lparr>os_open = mem_open,
      os_close = mem_fd,
      os_fsync = mem_fd,
      os_stat = mem_stat,
      os_lstat = mem_stat,
      os_statvfs = (\<lambda>p w. Inr \<lparr>f_bsize = 512, f_blocks = 100, f_bfree = 10, f_bavail = 9\<rparr>),
      os_opendir = (\<lambda>p w. case map_of (mf_dirs w) p of
                            None \<Rightarrow> Inl ENOENT | Some ds \<Rightarrow> Inr (''.'' # ''..'' # ds)),
      os_setlk = (\<lambda>fd t w. mem_fd fd w),
      os_readlink = (\<lambda>p n w. Inl EINVAL),
      os_symlink = (\<lambda>p q w. (Inl 1, w)),
      os_pread = mem_pread,
      os_pwrite = mem_pwrite,
      os_read = mem_read,
      os_write = mem_write_fd,
      os_ftruncate = mem_ftruncate,
      os_fallocate = (\<lambda>fd mode off len w. (Inl 95, w)),
      os_mkdir = (\<lambda>p m w. case mem_stat p w of
                            Inr _ \<Rightarrow> (Inl 17, w)
                          | Inl _ \<Rightarrow> (Inr (), w\<lparr>mf_dirs := (p, []) # mf_dirs w\<rparr>)),
      os_rmdir = (\<lambda>p w. if map_of (mf_dirs w) p = None then (Inl ENOENT, w)
                        else (Inr (), w\<lparr>mf_dirs := filter (\<lambda>e. fst e \<noteq> p) (mf_dirs w)\<rparr>)),
      os_rename = (\<lambda>p q w. if map_of (mf_names w) p = None then (Inl ENOENT, w)
                           else (Inr (), w\<lparr>mf_names := map (\<lambda>e. if fst e = p then (q, snd e) else e)
                                                         (mf_names w)\<rparr>)),
      os_unlink = (\<lambda>p w. if map_of (mf_names w) p = None then (Inl ENOENT, w)
                         else (Inr (), w\<lparr>mf_names := filter (\<lambda>e. fst e \<noteq> p) (mf_names w)\<rparr>)),
      os_malloc = (\<lambda>n w. (True, w))\<rparr>"

lemma mem_os_calls:
  "os_open mem_os = mem_open" "os_close mem_os = mem_fd" "os_fsync mem_os = mem_fd" "os_lstat mem_os = mem_stat"
  "os_pread mem_os = mem_pread" "os_pwrite mem_os = mem_pwrite" "os_ftruncate mem_os = mem_ftruncate"
  by (simp_all add: mem_os_def)

text \<open>The file system of the examples: one directory with two files, and the random devices.\<close>

definition mem_example :: mem_fs where
  "mem_example =
     \<lparr>mf_names = [(''/d/f'', 3), (''/d/g'', 4), (''/dev/random'', 8), (''/dev/urandom'', 9)],
      mf_data = [3 \<mapsto> [1, 2, 3, 4, 5], 4 \<mapsto> [], 8 \<mapsto> [7, 7], 9 \<mapsto> [7, 7]],
      mf_dirs = [(''/d'', [''f'', ''g''])],
      mf_pos = (\<lambda>_. 0),
      mf_root = ''/''\<rparr>"

lemma mem_example_data:
  "mf_data mem_example 3 = Some [1, 2, 3, 4, 5]" "mf_data mem_example 4 = Some []"
  "mf_data mem_example 8 = Some [7, 7]" "mf_data mem_example 9 = Some [7, 7]"
  by (simp_all add: mem_example_def)

section \<open>It has the documented behaviour\<close>

lemma mem_reads_bounded: "reads_bounded mem_os"
  by (auto simp: reads_bounded_def mem_os_def mem_pread_def mem_read_def split: option.splits if_splits)

lemma mem_path_max: "path_max mem_os"
  by (auto simp: path_max_def mem_os_def mem_stat_def split: if_splits)

lemma mem_memory_available: "memory_available mem_os"
  by (simp add: memory_available_def mem_os_def)

lemma mem_regular_pread: "regular_pread mem_os mem_content"
  by (auto simp: regular_pread_def mem_os_def mem_pread_def mem_content_def)

lemma mem_regular_pwrite: "regular_pwrite mem_os mem_content"
  by (auto simp: regular_pwrite_def mem_os_def mem_pwrite_def mem_content_def)

lemma mem_stream_read: "stream_read mem_os mem_rest"
  by (auto simp: stream_read_def mem_os_def mem_read_def mem_rest_def add.commute split: option.split)

lemma mem_stream_write: "stream_write mem_os mem_sofar"
  by (auto simp: stream_write_def mem_os_def mem_write_fd_def mem_sofar_def splice_def
      split: option.splits if_splits)

lemma mem_errno_positive: "errno_positive mem_os"
  by (auto simp: errno_positive_def mem_os_def mem_open_def mem_fd_def mem_stat_def mem_pread_def
      mem_pwrite_def mem_ftruncate_def split: option.split sum.split)

lemma mem_errno_int: "errno_int mem_os"
  by (auto simp: errno_int_def mem_os_def mem_pread_def mem_pwrite_def split: option.splits if_splits)

lemma mem_descriptors_int: "descriptors_int mem_os"
  by (auto simp: descriptors_int_def mem_os_def mem_open_def split: option.splits if_splits)

lemma mem_os_keeps_root: "os_keeps mf_root mem_os"
  by (simp add: os_keeps_def call_keeps_def mem_os_def mem_open_def mem_fd_def mem_pwrite_def mem_read_def
      mem_ftruncate_def split: option.split sum.split)

lemmas mem_documented =
  mem_reads_bounded mem_path_max mem_memory_available mem_regular_pread mem_regular_pwrite
  mem_errno_positive mem_errno_int mem_descriptors_int mem_stream_read mem_stream_write

end
