(* ===== verification/Server_Readdir.thy ===== *)
theory Server_Readdir
  imports Server Posix_Mem
begin

text \<open>
  What the readdir handler of \<open>server.c\<close> computes: the reference definition \<open>visible_entries\<close>,
  the equivalence of the handler's loop with a slice of it, and that the handler stays inside its
  path buffer.
\<close>

section \<open>The entries of a directory that the protocol shows\<close>

definition visible_entry :: "'w os \<Rightarrow> string \<Rightarrow> 'w \<Rightarrow> string \<Rightarrow> icbinn_prot_entry option" where
  "visible_entry os base w d =
     (if d = ''.'' \<or> d = ''..'' \<or> length d \<ge> ICBINN_PROT_MAXNAMELEN then None
      else (case os_lstat os (base @ d) w of
              Inl _ \<Rightarrow> None
            | Inr st \<Rightarrow> Some \<lparr>en_name = d, en_type = set_icbinn_prot_type (st_mode st)\<rparr>))"

definition visible_entries :: "'w os \<Rightarrow> string \<Rightarrow> 'w \<Rightarrow> string list \<Rightarrow> icbinn_prot_entry list" where
  "visible_entries os base w ds = List.map_filter (visible_entry os base w) ds"

text \<open>The prefix under which the handler looks entries up.\<close>

definition dir_base :: "string \<Rightarrow> string" where
  "dir_base dir = (if last dir \<noteq> CHR ''/'' then dir @ ''/'' else dir)"

lemma visible_entries_simps [simp]:
  "visible_entries os base w [] = []"
  "visible_entries os base w (d # ds) =
     (case visible_entry os base w d of
        None \<Rightarrow> visible_entries os base w ds | Some e \<Rightarrow> e # visible_entries os base w ds)"
  by (simp_all add: visible_entries_def map_filter_simps split: option.split)

lemma length_visible_entries: "length (visible_entries os base w ds) \<le> length ds"
  by (induction ds) (auto split: option.split)

section \<open>One step of the loop\<close>

lemma readdir_loop_full:
  "\<not> dcount < count \<Longrightarrow> readdir_loop os base offset count doffset dcount dp ds acc s = Ret (acc, dp) s"
  by (cases ds) auto

lemma readdir_loop_hidden:
  assumes "dcount < count" and "visible_entry os base (world s) d = None"
    and "length base + ICBINN_PROT_MAXNAMELEN \<le> filepath_size"
  shows "readdir_loop os base offset count doffset dcount dp (d # ds) acc s =
     readdir_loop os base offset count doffset dcount (Some d) ds acc s"
  using assms by (auto simp: visible_entry_def split: sum.splits if_splits)

lemma readdir_loop_skip:
  assumes "dcount < count" and "visible_entry os base (world s) d = Some e" and "doffset < offset"
    and "length base + ICBINN_PROT_MAXNAMELEN \<le> filepath_size"
  shows "readdir_loop os base offset count doffset dcount dp (d # ds) acc s =
     readdir_loop os base offset count (doffset + 1) dcount (Some d) ds acc s"
  using assms by (auto simp: visible_entry_def split: sum.splits if_splits)

lemma readdir_loop_take:
  assumes "dcount < count" and "visible_entry os base (world s) d = Some e" and "\<not> doffset < offset"
    and "length base + ICBINN_PROT_MAXNAMELEN \<le> filepath_size" and "memory_available os"
  shows "readdir_loop os base offset count doffset dcount dp (d # ds) acc s =
     readdir_loop os base offset count (doffset + 1) (dcount + 1) (Some d) ds (acc @ [e])
       (s\<lparr>rd_live := rd_live s + 2\<rparr>)"
  using assms by (auto simp: visible_entry_def memory_available_def split: sum.splits if_splits)

lemmas readdir_loop_step = readdir_loop_hidden readdir_loop_skip readdir_loop_take

declare readdir_loop.simps [simp del]

section \<open>The loop computes a slice\<close>

lemma unat_plus_one: "unat (x :: u32) + 1 < 2 ^ 32 \<Longrightarrow> unat (x + 1) = unat x + 1"
  by (simp add: unat_word_ariths)

lemma unat_plus_one_less:
  assumes "(x :: u32) < y"
  shows "unat (x + 1) = unat x + 1"
proof (rule unat_plus_one)
  have "unat x < unat y"
    using assms by (simp add: word_less_nat_alt)
  then show "unat x + 1 < 2 ^ 32"
    using unsigned_less [of y, where ?'a = nat] by simp
qed

text \<open>What is left to deliver of the entries \<open>vs\<close> when the counters have reached \<open>doffset\<close> and \<open>dcount\<close>.\<close>

definition slice_left :: "u32 \<Rightarrow> u32 \<Rightarrow> u32 \<Rightarrow> u32 \<Rightarrow> 'a list \<Rightarrow> 'a list" where
  "slice_left offset count doffset dcount vs =
     take (unat count - unat dcount) (drop (unat offset - unat doffset) vs)"

lemma slice_left_full [simp]: "slice_left offset count doffset count vs = []"
  by (simp add: slice_left_def)

lemma slice_left_Nil [simp]: "slice_left offset count doffset dcount [] = []"
  by (simp add: slice_left_def)

lemma slice_left_skip:
  assumes "doffset < offset"
  shows "slice_left offset count doffset dcount (v # vs) = slice_left offset count (doffset + 1) dcount vs"
  using assms unat_plus_one_less [OF assms]
  by (simp add: slice_left_def drop_Cons' word_less_nat_alt)

lemma slice_left_take:
  assumes "\<not> doffset < offset" and "dcount < count" and "unat doffset + 1 < 2 ^ 32"
  shows "slice_left offset count doffset dcount (v # vs) =
    v # slice_left offset count (doffset + 1) (dcount + 1) vs"
  using assms unat_plus_one [OF assms(3)] unat_plus_one_less [OF assms(2)]
  by (simp add: slice_left_def take_Cons' word_less_nat_alt)

lemma dcount_step:
  assumes "(dcount :: u32) < count"
  shows "dcount + 1 \<le> count" "dcount + 1 = count \<longleftrightarrow> unat count - unat dcount = 1"
    "unat count - unat (dcount + 1) = unat count - unat dcount - 1"
  using assms unat_plus_one_less [OF assms]
  by (auto simp: word_less_nat_alt word_le_nat_alt word_unat_eq_iff)

text \<open>
  From counters \<open>doffset\<close> and \<open>dcount\<close> on, the loop skips what is left of the offset and takes what
  is left of the count; it saw the end of the stream exactly when fewer entries were left.
\<close>

lemma readdir_loop_slice:
  assumes "memory_available os"
    and "length base + ICBINN_PROT_MAXNAMELEN \<le> filepath_size"
    and "unat doffset + length ds < 2 ^ 32"
    and "dcount \<le> count"
    and "es = slice_left offset count doffset dcount (visible_entries os base (world s) ds)"
  shows "\<exists>dp'. readdir_loop os base offset count doffset dcount dp ds acc s =
       Ret (acc @ es, dp') (s\<lparr>rd_live := rd_live s + 2 * int (length es)\<rparr>) \<and>
       (dp' = None \<longleftrightarrow>
         (if dcount = count then dp = None else length es < unat count - unat dcount))"
  using assms(3-)
proof (induction ds arbitrary: doffset dcount dp acc s es)
  case Nil
  then show ?case
    by (auto simp: readdir_loop.simps order_le_less word_less_nat_alt)
next
  case (Cons d ds)
  consider (full) "dcount = count" | (hidden) "dcount < count" "visible_entry os base (world s) d = None"
    | (skip) e where "dcount < count" "visible_entry os base (world s) d = Some e" "doffset < offset"
    | (take) e where "dcount < count" "visible_entry os base (world s) d = Some e" "\<not> doffset < offset"
    using Cons.prems(2) by fastforce
  then show ?case
  proof cases
    case full
    then show ?thesis using Cons.prems(3) by (simp add: readdir_loop_full)
  next
    case hidden
    then show ?thesis
      using Cons.IH [OF _ Cons.prems(2), of doffset es s "Some d" acc] Cons.prems less_imp_neq [OF hidden(1)]
      by (simp add: readdir_loop_hidden [OF hidden assms(2)])
  next
    case skip
    then show ?thesis
      using Cons.IH [OF _ Cons.prems(2), of "doffset + 1" es s "Some d" acc] Cons.prems less_imp_neq [OF skip(1)]
      by (simp add: readdir_loop_skip [OF skip assms(2)] slice_left_skip unat_plus_one_less)
  next
    case take
    define es' where "es' = slice_left offset count (doffset + 1) (dcount + 1) (visible_entries os base (world s) ds)"
    have es: "es = e # es'"
      using Cons.prems(1,3) take by (simp add: es'_def slice_left_take)
    show ?thesis
      using Cons.IH [OF _ dcount_step(1) [OF take(1)], of "doffset + 1" es'
          "s\<lparr>rd_live := rd_live s + 2\<rparr>" "Some d" "acc @ [e]"]
        Cons.prems(1) less_imp_neq [OF take(1)] dcount_step(2,3) [OF take(1)] unat_plus_one [of doffset]
      by (auto simp: readdir_loop_take [OF take assms(2,1)] es es'_def algebra_simps split: if_splits)
  qed
qed


section \<open>The loop never leaves the path buffer\<close>

lemma readdir_loop_no_fault:
  assumes "length base + ICBINN_PROT_MAXNAMELEN \<le> filepath_size"
  shows "readdir_loop os base offset count doffset dcount dp ds acc s \<noteq> Fault"
  using assms
  by (induction os base offset count doffset dcount dp ds acc s rule: readdir_loop.induct)
    (auto simp: readdir_loop.simps split: sum.split prod.split bool.split)

text \<open>
  Objects allocated by the loop: two for each entry it adds, whether it returns or not; the rest
  of the statics stays.
\<close>

lemma readdir_loop_statics:
  assumes "readdir_loop os base offset count doffset dcount dp ds acc s = Ret (es, dp') s'"
  shows "rd_live s' = rd_live s + 2 * (int (length es) - int (length acc)) \<and>
    readbuf s' = readbuf s \<and> random_fd s' = random_fd s \<and> urandom_fd s' = urandom_fd s \<and>
    rd_init s' = rd_init s \<and> slog s' = slog s"
  using assms
proof (induction os base offset count doffset dcount dp ds acc s rule: readdir_loop.induct)
  case (1 os base offset count doffset dcount dp acc s)
  then show ?case by (auto simp: readdir_loop.simps split: if_splits)
next
  case (2 os base offset count doffset dcount dp d ds acc s)
  show ?case
    using "2.prems" "2.IH"
    by (subst (asm) readdir_loop.simps) (auto split: if_splits sum.splits prod.splits bool.splits)
qed

section \<open>The handler\<close>

lemma readdir_free_previous_world [simp]: "world (readdir_free_previous s) = world s"
  by (simp add: readdir_free_previous_def split: icbinn_prot_readdirres.split)

lemma dname_len_minus_one:
  assumes "dir \<noteq> []" and "length dir < ICBINN_PROT_MAXPATHLEN"
  shows "unat ((of_nat (length dir) :: u32) - 1) = length dir - 1"
proof -
  have "(of_nat (length dir) :: u32) - 1 = of_nat (length dir - 1)"
    using assms(1) by (cases dir) simp_all
  then show ?thesis using assms(2) by (simp add: unat_of_nat)
qed

lemma readdir_collect_valid:
  assumes "ra_dir argp \<noteq> []" and "length (ra_dir argp) < ICBINN_PROT_MAXPATHLEN"
  shows "readdir_collect os argp (of_nat (length (ra_dir argp))) dirp s =
     (case readdir_loop os (dir_base (ra_dir argp)) (ra_offset argp) (ra_count argp) 0 0 None dirp [] s of
        Ret (es, dp) s' \<Rightarrow>
          Ret (ReaddirOK es (dp = None)) (s'\<lparr>rd_result := ReaddirOK es (dp = None)\<rparr>)
      | Exit n s' \<Rightarrow> Exit n s'
      | Fault \<Rightarrow> Fault)"
proof -
  have "\<not> length (ra_dir argp) \<le> length (ra_dir argp) - 1"
    using assms(1) by (cases "ra_dir argp") auto
  then show ?thesis
    using assms
    by (auto simp: readdir_collect_def dname_len_minus_one dir_base_def last_conv_nth Let_def
        split: outcome.split)
qed

lemma dir_base_room:
  "length dir < ICBINN_PROT_MAXPATHLEN \<Longrightarrow>
   length (dir_base dir) + ICBINN_PROT_MAXNAMELEN \<le> filepath_size"
  by (simp add: dir_base_def)


definition opens_dir :: "'w os \<Rightarrow> string \<Rightarrow> 'w \<Rightarrow> string list \<Rightarrow> bool" where
  "opens_dir os dir w ds \<longleftrightarrow>
     (case os_stat os dir w of
        Inl _ \<Rightarrow> False | Inr st \<Rightarrow> S_ISDIR (st_mode st) \<and> os_opendir os dir w = Inr ds)"

text \<open>The handler on a directory that can be opened.\<close>

lemma readdir_svc_dir:
  assumes "path_max os" and "opens_dir os (ra_dir argp) (world s) ds"
  shows "ra_dir argp \<noteq> [] \<and> length (ra_dir argp) < ICBINN_PROT_MAXPATHLEN \<and>
     icbinn_prot_readdir_1_svc os argp s =
     readdir_collect os argp (of_nat (length (ra_dir argp))) ds
       ((readdir_free_previous s)\<lparr>rd_result := ReaddirERROR\<rparr>)"
proof -
  have "ra_dir argp \<noteq> [] \<and> length (ra_dir argp) < ICBINN_PROT_MAXPATHLEN"
    using assms by (auto simp: path_max_def opens_dir_def split: sum.splits)
  then show ?thesis
    using assms(2)
    by (auto simp: icbinn_prot_readdir_1_svc_def get_pathname_len_cases opens_dir_def Let_def
        split: sum.splits)
qed

text \<open>The handler on anything else: an error reply, the world untouched, the old reply freed.\<close>

lemma readdir_svc_refused:
  assumes "\<forall>ds. \<not> opens_dir os (ra_dir argp) (world s) ds"
  shows "\<exists>s'. icbinn_prot_readdir_1_svc os argp s = Ret ReaddirERROR s' \<and> world s' = world s \<and>
     rd_result s' = ReaddirERROR \<and> rd_live s' = rd_live (readdir_free_previous s) \<and>
     rd_init s' = rd_init (readdir_free_previous s) \<and>
     readbuf s' = readbuf (readdir_free_previous s) \<and>
     random_fd s' = random_fd (readdir_free_previous s) \<and>
     urandom_fd s' = urandom_fd (readdir_free_previous s)"
  using assms
  by (auto simp: icbinn_prot_readdir_1_svc_def get_pathname_len_cases opens_dir_def Let_def
      split: sum.splits)

lemma readdir_svc_content:
  fixes offset count :: u32
  assumes "memory_available os" and "path_max os"
    and "opens_dir os dir (world s) ds" and "length ds < 2 ^ 32"
  shows "\<exists>s'. icbinn_prot_readdir_1_svc os \<lparr>ra_dir = dir, ra_offset = offset, ra_count = count\<rparr> s =
      Ret (ReaddirOK (take (unat count) (drop (unat offset) (visible_entries os (dir_base dir) (world s) ds)))
             (count = 0 \<or> length (take (unat count) (drop (unat offset)
                (visible_entries os (dir_base dir) (world s) ds))) < unat count)) s' \<and> world s' = world s"
proof -
  define es where "es = take (unat count) (drop (unat offset) (visible_entries os (dir_base dir) (world s) ds))"
  let ?argp = "\<lparr>ra_dir = dir, ra_offset = offset, ra_count = count\<rparr>"
  let ?s1 = "(readdir_free_previous s)\<lparr>rd_result := ReaddirERROR\<rparr>"
  have svc: "dir \<noteq> [] \<and> length dir < ICBINN_PROT_MAXPATHLEN \<and>
      icbinn_prot_readdir_1_svc os ?argp s = readdir_collect os ?argp (of_nat (length dir)) ds ?s1"
    using readdir_svc_dir [of os ?argp s ds] assms(2,3) by simp
  have "\<exists>dp'. readdir_loop os (dir_base dir) offset count 0 0 None ds [] ?s1 =
       Ret ([] @ es, dp') (?s1\<lparr>rd_live := rd_live ?s1 + 2 * int (length es)\<rparr>) \<and>
       (dp' = None \<longleftrightarrow>
         (if 0 = count then (None :: string option) = None else length es < unat count - unat (0 :: u32)))"
    using assms(1,4) svc by (intro readdir_loop_slice) (simp_all add: es_def dir_base_def slice_left_def)
  then obtain dp' where "readdir_loop os (dir_base dir) offset count 0 0 None ds [] ?s1 =
       Ret (es, dp') (?s1\<lparr>rd_live := rd_live ?s1 + 2 * int (length es)\<rparr>)"
    and "dp' = None \<longleftrightarrow> count = 0 \<or> length es < unat count"
    by (auto split: if_splits)
  then show ?thesis
    unfolding es_def [symmetric] using svc by (simp add: readdir_collect_valid [of ?argp, simplified])
qed

text \<open>
  C9: the readdir handler answers with the entries from position \<open>offset\<close> on, at most \<open>count\<close> of
  them, of the directory's visible entries in stream order, and with an end-of-file flag that is
  set when it ran into the end of the stream (or was asked for nothing).
\<close>

theorem readdir_svc_slice:
  fixes offset count :: u32
  assumes "memory_available os" and "path_max os"
    and "opens_dir os dir (world s) ds" and "length ds < 2 ^ 32"
  defines "es \<equiv> take (unat count) (drop (unat offset) (visible_entries os (dir_base dir) (world s) ds))"
  shows "\<exists>s'. icbinn_prot_readdir_1_svc os \<lparr>ra_dir = dir, ra_offset = offset, ra_count = count\<rparr> s =
      Ret (ReaddirOK es (count = 0 \<or> length es < unat count)) s' \<and> world s' = world s"
  unfolding es_def using assms(1-4) by (rule readdir_svc_content)

lemma mem_example_opens: "opens_dir mem_os ''/d'' mem_example [''.'', ''..'', ''f'', ''g'']"
  by (simp add: opens_dir_def mem_os_def mem_stat_def mem_example_def S_ISDIR_def)

lemma mem_example_visible:
  "visible_entries mem_os ''/d/'' mem_example [''.'', ''..'', ''f'', ''g''] =
     [\<lparr>en_name = ''f'', en_type = ICBINN_PROT_FILE\<rparr>, \<lparr>en_name = ''g'', en_type = ICBINN_PROT_FILE\<rparr>]"
  by (simp add: visible_entry_def mem_os_def mem_stat_def mem_example_def set_icbinn_prot_type_def
      S_ISLNK_def S_ISDIR_def S_ISREG_def)

theorem readdir_svc_slice_witness:
  "\<exists>s'. icbinn_prot_readdir_1_svc mem_os \<lparr>ra_dir = ''/d'', ra_offset = 1, ra_count = 5\<rparr>
      (server_start mem_example) =
    Ret (ReaddirOK [\<lparr>en_name = ''g'', en_type = ICBINN_PROT_FILE\<rparr>] True) s' \<and> world s' = mem_example"
  using readdir_svc_slice [OF mem_memory_available mem_path_max,
      of "''/d''" "server_start mem_example" "[''.'', ''..'', ''f'', ''g'']" 1 5]
  by (simp add: mem_example_opens mem_example_visible dir_base_def del: visible_entries_simps)

lemma readdir_svc_safe:
  assumes "path_max os"
  shows "icbinn_prot_readdir_1_svc os argp s \<noteq> Fault"
proof (cases "\<exists>ds. opens_dir os (ra_dir argp) (world s) ds")
  case True
  then obtain ds where "opens_dir os (ra_dir argp) (world s) ds" ..
  note svc = readdir_svc_dir [OF assms this]
  then show ?thesis
    by (auto simp: readdir_collect_valid readdir_loop_no_fault [OF dir_base_room]
        split: outcome.split prod.split)
next
  case False
  then show ?thesis using readdir_svc_refused [of os argp s] by auto
qed

text \<open>
  On a system whose \<open>stat\<close> rejects the empty path and paths of PATH_MAX bytes, no request makes
  the readdir handler write or read outside its path buffer, however long the names in the
  directory are and whether or not memory runs out.
\<close>

theorem readdir_svc_no_fault:
  assumes "path_max os"
  shows "icbinn_prot_readdir_1_svc os argp s \<noteq> Fault"
  using assms by (rule readdir_svc_safe)

theorem readdir_svc_no_fault_witness:
  "icbinn_prot_readdir_1_svc mem_os \<lparr>ra_dir = [], ra_offset = 1, ra_count = 5\<rparr>
     (server_start mem_example) \<noteq> Fault"
  by (rule readdir_svc_no_fault [OF mem_path_max])

text \<open>
  The handler's own check of the pathname length does nothing. The length is kept in an
  unsigned variable, so the test for -1 never succeeds; whenever the system opens a directory under
  a name of MAXPATHLEN bytes or more (or under the empty name), the handler indexes its path buffer
  out of bounds. Only the limit of the system call keeps it from doing so.
\<close>

theorem readdir_guard_dead:
  assumes "opens_dir os (ra_dir argp) (world s) ds"
    and "ra_dir argp = [] \<or> ICBINN_PROT_MAXPATHLEN \<le> length (ra_dir argp)"
  shows "icbinn_prot_readdir_1_svc os argp s = Fault"
proof -
  have "readdir_collect os argp (word_of_int len) ds s1 = Fault"
    if "len = (if ICBINN_PROT_MAXPATHLEN \<le> length (ra_dir argp) then - 1 else 0)" for len s1
    using that assms(2) by (auto simp: readdir_collect_def Let_def unsigned_minus_1_eq_mask)
  then show ?thesis
    using assms
    by (auto simp: icbinn_prot_readdir_1_svc_def get_pathname_len_cases opens_dir_def Let_def
        split: sum.splits)
qed

text \<open>The same system with a \<open>stat\<close> that knows no limit.\<close>

definition lax_os :: "mem_fs os" where
  "lax_os = mem_os\<lparr>os_stat := \<lambda>p w. Inr \<lparr>st_mode = S_IFDIR, st_size = 0\<rparr>, os_opendir := \<lambda>p w. Inr []\<rparr>"

theorem readdir_guard_dead_witness:
  "icbinn_prot_readdir_1_svc lax_os \<lparr>ra_dir = replicate 4096 CHR ''a'', ra_offset = 0, ra_count = 1\<rparr>
     (server_start mem_example) = Fault"
  by (rule readdir_guard_dead [where ds = "[]"]) (simp_all add: opens_dir_def lax_os_def S_ISDIR_def)

end
