(* ===== verification/Server_Inv.thy ===== *)
theory Server_Inv
  imports Server_Readdir
begin

text \<open>
  What the request handlers of \<open>server.c\<close> promise. The locale \<open>errno_handler\<close> is the contract of
  the eleven handlers that answer with \<open>icbinn_prot_errnostat\<close>; each of them is an instance. The
  second half is the invariant of the server's static variables and its preservation by every
  request, hence in every state a server reaches.
\<close>

section \<open>Handlers that answer with an errno\<close>

definition errno_reply :: "errno + 'b \<Rightarrow> icbinn_prot_errnostat" where
  "errno_reply r = (case r of Inl e \<Rightarrow> ErrnoERROR (int e) | Inr _ \<Rightarrow> ErrnoOK)"

text \<open>The static variables apart from the log are as before, and the log has only grown.\<close>

definition statics_kept :: "'w server \<Rightarrow> 'w server \<Rightarrow> bool" where
  "statics_kept s s' \<longleftrightarrow>
     readbuf s' = readbuf s \<and> random_fd s' = random_fd s \<and> urandom_fd s' = urandom_fd s \<and>
     rd_init s' = rd_init s \<and> rd_result s' = rd_result s \<and> rd_live s' = rd_live s \<and>
     (\<exists>ms. slog s' = slog s @ ms)"

lemma statics_kept_refl [simp]: "statics_kept s s"
  by (simp add: statics_kept_def)

lemma statics_kept_error [simp]: "statics_kept s (error_msg fmt args s)"
  by (simp add: statics_kept_def)

lemma statics_kept_world [simp]: "statics_kept s (s'\<lparr>world := w\<rparr>) \<longleftrightarrow> statics_kept s s'"
  by (simp add: statics_kept_def)

lemma statics_kept_trans: "statics_kept s s' \<Longrightarrow> statics_kept s' s'' \<Longrightarrow> statics_kept s s''"
  by (auto simp: statics_kept_def)

lemma statics_kept_error_after [intro]:
  "statics_kept s s' \<Longrightarrow> statics_kept s (error_msg fmt args s')"
  by (rule statics_kept_trans [OF _ statics_kept_error])

text \<open>
  The interface: a request the handler does not accept is refused with a fixed errno and without
  a system call; any other makes exactly one system call, whose outcome is the reply and whose
  effect is the only change of the world.
\<close>

locale errno_handler =
  fixes svc :: "'a \<Rightarrow> 'w server \<Rightarrow> icbinn_prot_errnostat \<times> 'w server"
    and accepts :: "'a \<Rightarrow> bool"
    and refusal :: errno
    and syscall :: "'a \<Rightarrow> 'w \<Rightarrow> (errno + 'b) \<times> 'w"
  assumes refused: "\<not> accepts a \<Longrightarrow> fst (svc a s) = ErrnoERROR (int refusal) \<and> world (snd (svc a s)) = world s"
    and performed: "accepts a \<Longrightarrow> fst (svc a s) = errno_reply (fst (syscall a (world s))) \<and>
          world (snd (svc a s)) = snd (syscall a (world s))"
    and statics: "statics_kept s (snd (svc a s))"
begin

lemma reply_ok_iff:
  "fst (svc a s) = ErrnoOK \<longleftrightarrow> accepts a \<and> (\<exists>x. fst (syscall a (world s)) = Inr x)"
  by (cases "accepts a") (auto simp: refused performed errno_reply_def split: sum.split)

lemma reply_errno_nonneg: "fst (svc a s) = ErrnoERROR e \<Longrightarrow> 0 \<le> e"
  by (cases "accepts a") (auto simp: refused performed errno_reply_def split: sum.splits)

lemma reply_errno_positive:
  assumes "\<And>a w. fst (syscall a w) \<noteq> Inl 0" and "accepts a \<or> 0 < refusal"
    and "fst (svc a s) = ErrnoERROR e"
  shows "0 < e"
proof (cases "accepts a")
  case True
  then show ?thesis
    using performed [OF True, of s] assms(1) [of a "world s"] assms(3)
    by (cases "fst (syscall a (world s))") (auto simp: errno_reply_def)
next
  case False
  then show ?thesis using refused [OF False, of s] assms(2,3) by simp
qed

lemma world_frame: "call_keeps part (syscall a) \<Longrightarrow> part (world (snd (svc a s))) = part (world s)"
  by (cases "accepts a") (simp_all add: refused performed call_keeps_def)

end

lemma errnostat_of_fst: "fst (errnostat_of fmt args r s) = errno_reply (fst r)"
  by (simp add: errnostat_of_def errno_reply_def split: prod.split sum.split)

lemma errnostat_of_world: "world (snd (errnostat_of fmt args r s)) = snd r"
  by (simp add: errnostat_of_def split: prod.split sum.split)

lemma errnostat_of_statics [intro!]:
  "statics_kept s s' \<Longrightarrow> statics_kept s (snd (errnostat_of fmt args r s'))"
  by (auto simp: errnostat_of_def split: prod.split sum.split)

lemmas errno_handler_simps =
  errnostat_of_fst errnostat_of_world get_pathname_len_cases Let_def

abbreviation path_ok :: "string \<Rightarrow> bool" where
  "path_ok p \<equiv> length p < ICBINN_PROT_MAXPATHLEN"

definition setlk_type :: "int \<Rightarrow> int" where
  "setlk_type t = (if t = ICBINN_PROT_LTYPE_RDLCK then F_RDLCK
                   else if t = ICBINN_PROT_LTYPE_WRLCK then F_WRLCK else F_UNLCK)"

interpretation lock_h: errno_handler "icbinn_prot_lock_1_svc os" "\<lambda>a. la_type a \<in> {0, 1, 2}" EINVAL
    "\<lambda>a. os_setlk os (la_fd a) (setlk_type (la_type a))" for os :: "'w os"
  by unfold_locales (auto simp: server_defs setlk_type_def errno_handler_simps)

interpretation symlink_h: errno_handler "icbinn_prot_symlink_1_svc os"
    "\<lambda>a. path_ok (sla_oldpath a) \<and> path_ok (sla_newpath a)" ENOENT
    "\<lambda>a. os_symlink os (sla_oldpath a) (sla_newpath a)" for os :: "'w os"
  by unfold_locales (auto simp: server_defs errno_handler_simps)

interpretation ftruncate_h: errno_handler "icbinn_prot_ftruncate_1_svc os" "\<lambda>_. True" 0
    "\<lambda>a. os_ftruncate os (fta_fd a) (sint (fta_length a))" for os :: "'w os"
  by unfold_locales (auto simp: server_defs errno_handler_simps)

interpretation fallocate_h: errno_handler "icbinn_prot_fallocate_1_svc os" "\<lambda>_. True" 0
    "\<lambda>a. os_fallocate os (faa_fd a) (faa_mode a) (sint (faa_offset a)) (sint (faa_length a))"
    for os :: "'w os"
  by unfold_locales (auto simp: server_defs errno_handler_simps)

interpretation pwrite_h: errno_handler "icbinn_prot_pwrite_1_svc os"
    "\<lambda>a. length (pwa_data a) \<le> ICBINN_PROT_MAXDATA" EINVAL
    "\<lambda>a. os_pwrite os (pwa_fd a) (pwa_data a) (sint (pwa_offset a))" for os :: "'w os"
  by unfold_locales (auto simp: server_defs errno_handler_simps)

interpretation close_h: errno_handler "icbinn_prot_close_1_svc os" "\<lambda>_. True" 0 "os_close os"
    for os :: "'w os"
  by unfold_locales (auto simp: server_defs errno_handler_simps)

interpretation fsync_h: errno_handler "icbinn_prot_fsync_1_svc os" "\<lambda>_. True" 0 "os_fsync os"
    for os :: "'w os"
  by unfold_locales (auto simp: server_defs errno_handler_simps)

interpretation mkdir_h: errno_handler "icbinn_prot_mkdir_1_svc os" path_ok ENOENT
    "\<lambda>p. os_mkdir os p S_IRWXU" for os :: "'w os"
  by unfold_locales (auto simp: server_defs errno_handler_simps)

interpretation rmdir_h: errno_handler "icbinn_prot_rmdir_1_svc os" path_ok ENOENT "os_rmdir os"
    for os :: "'w os"
  by unfold_locales (auto simp: server_defs errno_handler_simps)

interpretation unlink_h: errno_handler "icbinn_prot_unlink_1_svc os" path_ok ENOENT "os_unlink os"
    for os :: "'w os"
  by unfold_locales (auto simp: server_defs errno_handler_simps)

interpretation rename_h: errno_handler "icbinn_prot_rename_1_svc os"
    "\<lambda>a. path_ok (rna_from a) \<and> path_ok (rna_to a)" ENOENT
    "\<lambda>a. os_rename os (rna_from a) (rna_to a)" for os :: "'w os"
  by unfold_locales (auto simp: server_defs errno_handler_simps)


section \<open>The invariant of the static variables\<close>

text \<open>
  \<open>readbuf\<close> keeps its size, so no read call ran over its end, and the objects the readdir handler
  has allocated are those of the reply it will free at the next call: none is lost and none is
  freed twice.
\<close>

definition live_objects :: "icbinn_prot_readdirres \<Rightarrow> int" where
  "live_objects r = (case r of ReaddirOK es _ \<Rightarrow> 2 * int (length es) | ReaddirERROR \<Rightarrow> 0)"

definition server_inv :: "'w server \<Rightarrow> bool" where
  "server_inv s \<longleftrightarrow>
     length (readbuf s) = ICBINN_PROT_MAXDATA \<and> rd_live s = live_objects (rd_result s) \<and>
     (rd_init s \<longrightarrow> rd_result s = ReaddirOK [] False)"

lemma server_start_inv: "server_inv (server_start w)"
  by (simp add: server_inv_def server_start_def live_objects_def)

lemma statics_kept_inv: "statics_kept s s' \<Longrightarrow> server_inv s \<Longrightarrow> server_inv s'"
  by (simp add: statics_kept_def server_inv_def)

lemma server_inv_world [simp]: "server_inv (s\<lparr>world := w\<rparr>) = server_inv s"
  by (simp add: server_inv_def)

lemma server_inv_error [simp]: "server_inv (error_msg fmt args s) = server_inv s"
  by (simp add: server_inv_def)

lemma fill_readbuf_inv:
  "server_inv s \<Longrightarrow> length bs \<le> ICBINN_PROT_MAXDATA \<Longrightarrow> server_inv (fill_readbuf bs s)"
  by (simp add: server_inv_def)

text \<open>A read call made under the handlers' guard fits the buffer.\<close>

lemma guarded_length: "\<not> of_nat ICBINN_PROT_MAXDATA < (n :: u64) \<Longrightarrow> unat n \<le> ICBINN_PROT_MAXDATA"
  by (simp add: word_less_nat_alt)

lemma guarded_pread:
  "reads_bounded os \<Longrightarrow> os_pread os fd n off w = Inr bs \<Longrightarrow> \<not> 65536 < n \<Longrightarrow> length bs \<le> 65536"
  unfolding reads_bounded_def using guarded_length [of n] by fastforce

lemma guarded_readlink:
  "reads_bounded os \<Longrightarrow> os_readlink os p n w = Inr bs \<Longrightarrow> \<not> 65536 < n \<Longrightarrow> length bs \<le> 65536"
  unfolding reads_bounded_def using guarded_length [of n] by fastforce

lemma guarded_read:
  "reads_bounded os \<Longrightarrow> os_read os fd n w = (Inr bs, w') \<Longrightarrow> \<not> 65536 < n \<Longrightarrow> length bs \<le> 65536"
  unfolding reads_bounded_def using guarded_length [of n] by fastforce

lemmas guarded_reads = guarded_pread guarded_readlink guarded_read

lemma pread_svc_inv:
  "reads_bounded os \<Longrightarrow> server_inv s \<Longrightarrow> server_inv (snd (icbinn_prot_pread_1_svc os a s))"
  by (auto simp: icbinn_prot_pread_1_svc_def Let_def
      intro!: fill_readbuf_inv intro: guarded_reads split: sum.split)

lemma readlink_svc_inv:
  "reads_bounded os \<Longrightarrow> server_inv s \<Longrightarrow> server_inv (snd (icbinn_prot_readlink_1_svc os a s))"
  by (auto simp: icbinn_prot_readlink_1_svc_def Let_def get_pathname_len_cases
      intro!: fill_readbuf_inv intro: guarded_reads split: sum.split)

lemma rand_svc_inv:
  "reads_bounded os \<Longrightarrow> server_inv s \<Longrightarrow> server_inv (snd (icbinn_prot_rand_1_svc os a s))"
  by (auto simp: icbinn_prot_rand_1_svc_def Let_def
      intro!: fill_readbuf_inv intro: guarded_reads split: sum.split prod.split)

lemma stat_svc_statics: "statics_kept s (snd (icbinn_prot_stat_1_svc os a s))"
  by (simp add: icbinn_prot_stat_1_svc_def get_pathname_len_cases split: sum.split)

lemma statfs_svc_statics: "statics_kept s (snd (icbinn_prot_statfs_1_svc os a s))"
  by (simp add: icbinn_prot_statfs_1_svc_def get_pathname_len_cases split: sum.split)

lemma open_svc_statics: "statics_kept s (snd (icbinn_prot_open_1_svc os a s))"
  by (auto simp: icbinn_prot_open_1_svc_def get_pathname_len_cases split: sum.split prod.split)

lemmas handler_statics =
  stat_svc_statics statfs_svc_statics open_svc_statics lock_h.statics symlink_h.statics
  ftruncate_h.statics fallocate_h.statics pwrite_h.statics close_h.statics fsync_h.statics
  mkdir_h.statics rmdir_h.statics unlink_h.statics rename_h.statics


text \<open>The readdir handler allocates for its reply what it frees at the next call.\<close>

lemma readdir_free_previous_inv:
  assumes "server_inv s"
  shows "rd_live (readdir_free_previous s) = 0" and "\<not> rd_init (readdir_free_previous s)"
    and "length (readbuf (readdir_free_previous s)) = ICBINN_PROT_MAXDATA"
  using assms
  by (auto simp: readdir_free_previous_def server_inv_def live_objects_def
      split: icbinn_prot_readdirres.split)

lemma readdir_collect_inv:
  assumes "readdir_collect os argp n ds s = Ret r s'" and "rd_live s = 0" and "\<not> rd_init s"
    and "length (readbuf s) = ICBINN_PROT_MAXDATA"
  shows "server_inv s'"
  using assms
  by (auto simp: readdir_collect_def server_inv_def live_objects_def Let_def
      dest!: readdir_loop_statics split: if_splits outcome.splits)

lemma readdir_svc_inv:
  assumes "icbinn_prot_readdir_1_svc os argp s = Ret r s'" and "server_inv s"
  shows "server_inv s'"
proof (cases "\<exists>ds. opens_dir os (ra_dir argp) (world s) ds")
  case True
  then obtain ds n s1 where "readdir_collect os argp n ds s1 = Ret r s'"
    and "rd_live s1 = 0" "\<not> rd_init s1" "length (readbuf s1) = ICBINN_PROT_MAXDATA"
    using assms readdir_free_previous_inv [OF assms(2)]
    by (auto simp: icbinn_prot_readdir_1_svc_def get_pathname_len_cases opens_dir_def Let_def
        split: sum.splits if_splits)
  then show ?thesis by (rule readdir_collect_inv)
next
  case False
  then show ?thesis
    using assms readdir_svc_refused [of os argp s] readdir_free_previous_inv [OF assms(2)]
    by (auto simp: server_inv_def live_objects_def)
qed

section \<open>Every request keeps it\<close>

lemma program_inv:
  assumes "icbinn_prot_program_1 os req s = Ret rep s'" and "reads_bounded os" and "server_inv s"
  shows "server_inv s'"
  using assms
  by (cases req)
    (auto simp: ret_def icbinn_prot_null_1_svc_def pread_svc_inv readlink_svc_inv rand_svc_inv
      intro: readdir_svc_inv handler_statics [THEN statics_kept_inv] split: outcome.splits)

text \<open>
  A serving process: it opens its random sources once and then answers requests, one after the
  other, until it exits.
\<close>

inductive server_reachable :: "'w os \<Rightarrow> 'w \<Rightarrow> 'w server \<Rightarrow> bool" for os w where
  started: "init_rand os (server_start w) = Ret () s \<Longrightarrow> server_reachable os w s"
| answered: "server_reachable os w s \<Longrightarrow> icbinn_prot_program_1 os req s = Ret rep s' \<Longrightarrow>
     server_reachable os w s'"

lemma init_rand_inv: "init_rand os s = Ret () s' \<Longrightarrow> server_inv s \<Longrightarrow> server_inv s'"
  by (auto simp: init_rand_def server_inv_def split: prod.splits sum.splits)


lemma reachable_inv:
  assumes "reads_bounded os" and "server_reachable os w s"
  shows "server_inv s"
  using assms(2)
proof (induction rule: server_reachable.induct)
  case (started s)
  then show ?case by (rule init_rand_inv) (rule server_start_inv)
next
  case (answered s req rep s')
  then show ?case using assms(1) by (blast intro: program_inv)
qed

text \<open>
  In every state a serving process reaches, whatever requests it has answered, the static read
  buffer has its 65536 bytes (no read call ran over its end), and the objects the readdir handler
  holds are exactly those of the reply it frees at its next call: nothing leaks and nothing is
  freed twice.
\<close>

theorem server_invariant:
  assumes "reads_bounded os" and "server_reachable os w s"
  shows "server_inv s"
  using assms by (rule reachable_inv)

definition served_example :: "mem_fs server" where
  "served_example = (server_start mem_example)\<lparr>random_fd := 8, urandom_fd := 9\<rparr>"

lemma world_served_example [simp]: "world served_example = mem_example"
  by (simp add: served_example_def)

lemma served_example_reachable: "server_reachable mem_os mem_example served_example"
  by (rule started)
    (simp add: init_rand_def mem_os_def mem_open_def mem_example_def served_example_def
      server_start_def fun_upd_idem)

theorem server_invariant_witness:
  "reads_bounded mem_os \<and> server_reachable mem_os mem_example served_example \<and> server_inv served_example"
  using server_invariant [OF mem_reads_bounded served_example_reachable]
    mem_reads_bounded served_example_reachable by simp

section \<open>Every request is answered\<close>

text \<open>The kind of reply the program block of the protocol gives each procedure.\<close>

fun reply_for :: "icbinn_request \<Rightarrow> icbinn_reply \<Rightarrow> bool" where
  "reply_for ICBINN_PROT_NULL r \<longleftrightarrow> r = NullReply"
| "reply_for (ICBINN_PROT_READDIR _) r \<longleftrightarrow> (case r of ReaddirReply _ \<Rightarrow> True | _ \<Rightarrow> False)"
| "reply_for (ICBINN_PROT_STAT _) r \<longleftrightarrow> (case r of StatReply _ \<Rightarrow> True | _ \<Rightarrow> False)"
| "reply_for (ICBINN_PROT_OPEN _) r \<longleftrightarrow> (case r of OpenReply _ \<Rightarrow> True | _ \<Rightarrow> False)"
| "reply_for (ICBINN_PROT_PREAD _) r \<longleftrightarrow> (case r of PreadReply _ \<Rightarrow> True | _ \<Rightarrow> False)"
| "reply_for (ICBINN_PROT_RAND _) r \<longleftrightarrow> (case r of RandReply _ \<Rightarrow> True | _ \<Rightarrow> False)"
| "reply_for (ICBINN_PROT_READLINK _) r \<longleftrightarrow> (case r of ReadlinkReply _ \<Rightarrow> True | _ \<Rightarrow> False)"
| "reply_for (ICBINN_PROT_STATFS _) r \<longleftrightarrow> (case r of StatfsReply _ \<Rightarrow> True | _ \<Rightarrow> False)"
| "reply_for _ r \<longleftrightarrow> (case r of ErrnoReply _ \<Rightarrow> True | _ \<Rightarrow> False)"

lemma readdir_loop_returns:
  assumes "memory_available os" and "length base + ICBINN_PROT_MAXNAMELEN \<le> filepath_size"
  shows "\<exists>es dp' s'. readdir_loop os base offset count doffset dcount dp ds acc s = Ret (es, dp') s' \<and>
    world s' = world s"
proof (induction ds arbitrary: doffset dcount dp acc s)
  case Nil
  then show ?case by (simp add: readdir_loop.simps)
next
  case (Cons d ds)
  show ?case
  proof (cases "dcount < count")
    case False
    then show ?thesis by (simp add: readdir_loop_full)
  next
    case True
    then show ?thesis
      using Cons.IH [of doffset dcount "Some d" acc s] Cons.IH [of "doffset + 1" dcount "Some d" acc s]
        Cons.IH [of "doffset + 1" "dcount + 1" "Some d" _ "s\<lparr>rd_live := rd_live s + 2\<rparr>"] assms
      by (cases "visible_entry os base (world s) d"; cases "doffset < offset")
        (simp_all add: readdir_loop_step)
  qed
qed

lemma readdir_svc_returns:
  assumes "path_max os" and "memory_available os"
  shows "\<exists>r s'. icbinn_prot_readdir_1_svc os argp s = Ret r s' \<and> world s' = world s"
proof (cases "\<exists>ds. opens_dir os (ra_dir argp) (world s) ds")
  case True
  then obtain ds where "opens_dir os (ra_dir argp) (world s) ds" ..
  note svc = readdir_svc_dir [OF assms(1) this]
  let ?s1 = "(readdir_free_previous s)\<lparr>rd_result := ReaddirERROR\<rparr>"
  from svc obtain es dp s' where
    "readdir_loop os (dir_base (ra_dir argp)) (ra_offset argp) (ra_count argp) 0 0 None ds [] ?s1 =
       Ret (es, dp) s'" and "world s' = world s"
    using readdir_loop_returns [OF assms(2) dir_base_room, of "ra_dir argp" "ra_offset argp"
        "ra_count argp" 0 0 None ds "[]" ?s1] by auto
  then show ?thesis using svc by (simp add: readdir_collect_valid)
next
  case False
  then show ?thesis using readdir_svc_refused [of os argp s] by auto
qed

lemma program_answers:
  assumes "path_max os" and "memory_available os"
  shows "\<exists>rep s'. icbinn_prot_program_1 os req s = Ret rep s' \<and> reply_for req rep"
proof (cases req)
  case (ICBINN_PROT_READDIR a)
  then show ?thesis using readdir_svc_returns [OF assms, of a s] by auto
qed (auto simp: ret_def)



end
