(* ===== verification/Server_Props.thy ===== *)
theory Server_Props
  imports Server_Inv
begin

text \<open>
  Properties of single requests: the path guard, the requests that only look, the translation of
  open flags, error reporting, and the guard of the readdir handler that does not guard.
\<close>

section \<open>The path guard\<close>

text \<open>The pathnames a request carries to a handler that measures them with \<open>get_pathname_len\<close>.\<close>

fun guarded_paths :: "icbinn_request \<Rightarrow> string list" where
  "guarded_paths (ICBINN_PROT_STAT p) = [p]"
| "guarded_paths (ICBINN_PROT_OPEN a) = [oa_name a]"
| "guarded_paths (ICBINN_PROT_MKDIR p) = [p]"
| "guarded_paths (ICBINN_PROT_RMDIR p) = [p]"
| "guarded_paths (ICBINN_PROT_RENAME a) = [rna_from a, rna_to a]"
| "guarded_paths (ICBINN_PROT_UNLINK p) = [p]"
| "guarded_paths (ICBINN_PROT_SYMLINK a) = [sla_oldpath a, sla_newpath a]"
| "guarded_paths (ICBINN_PROT_READLINK a) = [rla_path a]"
| "guarded_paths (ICBINN_PROT_STATFS p) = [p]"
| "guarded_paths _ = []"

fun reply_errno :: "icbinn_reply \<Rightarrow> int option" where
  "reply_errno (StatReply (StatERROR e)) = Some e"
| "reply_errno (OpenReply (OpenERROR e)) = Some e"
| "reply_errno (ErrnoReply (ErrnoERROR e)) = Some e"
| "reply_errno (PreadReply (PreadERROR e)) = Some e"
| "reply_errno (ReadlinkReply (ReadlinkERROR e)) = Some e"
| "reply_errno (StatfsReply (StatfsERROR e)) = Some e"
| "reply_errno _ = None"



section \<open>Requests that only look\<close>

fun looks :: "icbinn_request \<Rightarrow> bool" where
  "looks ICBINN_PROT_NULL = True"
| "looks (ICBINN_PROT_READDIR _) = True"
| "looks (ICBINN_PROT_STAT _) = True"
| "looks (ICBINN_PROT_STATFS _) = True"
| "looks (ICBINN_PROT_READLINK _) = True"
| "looks (ICBINN_PROT_PREAD _) = True"
| "looks _ = False"

text \<open>
  The null, readdir, stat, statfs, readlink and pread requests leave the world as it was.
\<close>

theorem looking_keeps_world:
  assumes "path_max os" and "memory_available os" and "looks req"
    and "icbinn_prot_program_1 os req s = Ret rep s'"
  shows "world s' = world s"
proof (cases req)
  case (ICBINN_PROT_READDIR a)
  then show ?thesis
    using readdir_svc_returns [OF assms(1,2), of a s] assms(4) by auto
qed (insert assms(3,4), auto simp: ret_def server_defs get_pathname_len_cases Let_def split: sum.splits if_splits)

theorem looking_keeps_world_witness:
  "\<exists>rep s'. icbinn_prot_program_1 mem_os (ICBINN_PROT_STAT ''/d/f'') served_example = Ret rep s' \<and>
     world s' = mem_example"
proof -
  obtain rep s' where "icbinn_prot_program_1 mem_os (ICBINN_PROT_STAT ''/d/f'') served_example = Ret rep s'"
    by (simp add: ret_def)
  with looking_keeps_world [OF mem_path_max mem_memory_available _ this] show ?thesis by auto
qed

section \<open>Open flags\<close>

lemma flag_value: "m AND 2 ^ n = 0 \<or> m AND 2 ^ n = 2 ^ n" for m :: u32
  by (auto simp: and_exp_eq_0_iff_not_bit bit_simps intro!: bit_eqI)

lemma open_flags_eq: "open_flags m = m AND (O_WRONLY OR O_RDWR OR O_CREAT OR O_TRUNC)"
proof -
  have "open_flags m = (((m AND 1) OR (m AND 2)) OR (m AND 512)) OR (m AND 64)"
    using flag_value [of m 0] flag_value [of m 1] flag_value [of m 6] flag_value [of m 9]
    by (elim disjE) (simp_all add: open_flags_def Let_def)
  also have "\<dots> = m AND (O_WRONLY OR O_RDWR OR O_CREAT OR O_TRUNC)"
    by (simp only: bit.conj_disj_distrib ac_simps)
  finally show ?thesis .
qed

text \<open>
  The flags the open handler passes to \<open>open\<close> are the bits WRONLY, RDWR, CREAT and TRUNC of the
  protocol's mode and no others: a client cannot reach any other open flag of the host.
\<close>

theorem open_flags_mask: "open_flags m = m AND (O_WRONLY OR O_RDWR OR O_CREAT OR O_TRUNC)"
  by (rule open_flags_eq)

section \<open>Error codes\<close>

lemma reply_errno_iff [simp]:
  "reply_errno (StatReply r) = Some e \<longleftrightarrow> r = StatERROR e"
  "reply_errno (OpenReply r') = Some e \<longleftrightarrow> r' = OpenERROR e"
  "reply_errno (ErrnoReply r'') = Some e \<longleftrightarrow> r'' = ErrnoERROR e"
  "reply_errno (PreadReply p) = Some e \<longleftrightarrow> p = PreadERROR e"
  "reply_errno (ReadlinkReply p') = Some e \<longleftrightarrow> p' = ReadlinkERROR e"
  "reply_errno (StatfsReply p'') = Some e \<longleftrightarrow> p'' = StatfsERROR e"
  by (cases r, simp_all, cases r', simp_all, cases r'', simp_all, cases p, simp_all, cases p',
      simp_all, cases p'', simp_all)

lemma looking_errno_positive:
  assumes "errno_positive os"
  shows "fst (icbinn_prot_stat_1_svc os p s) = StatERROR e \<Longrightarrow> 0 < e"
    and "fst (icbinn_prot_statfs_1_svc os p s) = StatfsERROR e \<Longrightarrow> 0 < e"
    and "fst (icbinn_prot_readlink_1_svc os rla s) = ReadlinkERROR e \<Longrightarrow> 0 < e"
    and "fst (icbinn_prot_pread_1_svc os pra s) = PreadERROR e \<Longrightarrow> 0 < e"
    and "fst (icbinn_prot_open_1_svc os oa s) = OpenERROR e \<Longrightarrow> 0 < e"
proof -
  note [simp] = get_pathname_len_cases Let_def
  note pos = errno_positiveD [OF assms]
  show "0 < e" if "fst (icbinn_prot_stat_1_svc os p s) = StatERROR e"
    using that pos(4) [of p "world s"]
    by (auto simp: icbinn_prot_stat_1_svc_def split: sum.splits if_splits)
  show "0 < e" if "fst (icbinn_prot_statfs_1_svc os p s) = StatfsERROR e"
    using that pos(5) [of p "world s"]
    by (auto simp: icbinn_prot_statfs_1_svc_def split: sum.splits if_splits)
  show "0 < e" if "fst (icbinn_prot_readlink_1_svc os rla s) = ReadlinkERROR e"
    using that pos(7) [of "rla_path rla" "rla_bufsz rla" "world s"]
    by (auto simp: icbinn_prot_readlink_1_svc_def split: sum.splits if_splits)
  show "0 < e" if "fst (icbinn_prot_pread_1_svc os pra s) = PreadERROR e"
    using that pos(9) [of "pra_fd pra" "pra_count pra" "sint (pra_offset pra)" "world s"]
    by (auto simp: icbinn_prot_pread_1_svc_def split: sum.splits if_splits)
  show "0 < e" if "fst (icbinn_prot_open_1_svc os oa s) = OpenERROR e"
    using that pos(1) [of "oa_name oa" "open_flags (oa_mode oa)" "S_IRUSR OR S_IWUSR" "world s"]
    by (auto simp: icbinn_prot_open_1_svc_def split: sum.splits if_splits prod.splits)
qed

lemmas errno_handlers_positive =
  lock_h.reply_errno_positive symlink_h.reply_errno_positive ftruncate_h.reply_errno_positive
  fallocate_h.reply_errno_positive pwrite_h.reply_errno_positive close_h.reply_errno_positive
  fsync_h.reply_errno_positive mkdir_h.reply_errno_positive rmdir_h.reply_errno_positive
  unlink_h.reply_errno_positive rename_h.reply_errno_positive

text \<open>
  C30: the error code of every reply is a positive number, on a system whose calls report positive
  error numbers: a client that negates it can tell errors from counts and descriptors.
\<close>

theorem error_replies_positive:
  assumes "errno_positive os" and "icbinn_prot_program_1 os req s = Ret rep s'"
    and "reply_errno rep = Some e"
  shows "0 < e"
proof (cases req)
  case (ICBINN_PROT_READDIR a)
  then show ?thesis using assms(2,3) by (auto split: outcome.splits)
qed (insert assms(2,3),
    auto simp: ret_def errno_positiveD [OF assms(1)]
      dest!: looking_errno_positive [OF assms(1)] errno_handlers_positive [rotated 2])

theorem error_replies_positive_witness:
  "\<exists>s'. icbinn_prot_program_1 mem_os (ICBINN_PROT_CLOSE 5) served_example = Ret (ErrnoReply (ErrnoERROR 9)) s' \<and>
     (0 :: int) < 9"
proof -
  have "fst (icbinn_prot_close_1_svc mem_os 5 served_example) = ErrnoERROR 9"
    by (simp add: close_h.performed errno_reply_def mem_os_def mem_fd_def mem_example_def)
  then obtain s' where "icbinn_prot_program_1 mem_os (ICBINN_PROT_CLOSE 5) served_example =
      Ret (ErrnoReply (ErrnoERROR 9)) s'"
    by (simp add: ret_def)
  with error_replies_positive [OF mem_errno_positive this] show ?thesis by simp
qed

end
