(* ===== verification/Clientlib.thy ===== *)
theory Clientlib
  imports Icbinn_Prot
begin

text \<open>
  The client library, \<open>libicbinn/src/*.c\<close>. The stubs that rpcgen makes from the protocol file are
  not part of the sources: they are the parameter \<open>CLIENT\<close>, a record of one function per
  procedure over a type \<open>'c\<close> of states of the connection and of what is behind it. A stub that
  fails (a NULL result) is \<open>None\<close>. Nothing is assumed of the stubs here, so what is proved in this
  theory holds against any server. Destination memory is a list of bytes (or directory entries)
  and a position in it; a pointer argument that the code compares with NULL is an \<open>option\<close>.
  Freeing decoded replies (\<open>clnt_freeres\<close>) has no counterpart.
\<close>

record 'c CLIENT =
  icbinn_prot_null_1 :: "'c \<Rightarrow> bool \<times> 'c"
  icbinn_prot_readdir_1 :: "icbinn_prot_readdirargs \<Rightarrow> 'c \<Rightarrow> icbinn_prot_readdirres option \<times> 'c"
  icbinn_prot_stat_1 :: "string \<Rightarrow> 'c \<Rightarrow> icbinn_prot_statres option \<times> 'c"
  icbinn_prot_open_1 :: "icbinn_prot_openargs \<Rightarrow> 'c \<Rightarrow> icbinn_prot_openres option \<times> 'c"
  icbinn_prot_lock_1 :: "icbinn_prot_lockargs \<Rightarrow> 'c \<Rightarrow> icbinn_prot_errnostat option \<times> 'c"
  icbinn_prot_pread_1 :: "icbinn_prot_preadargs \<Rightarrow> 'c \<Rightarrow> icbinn_prot_preadres option \<times> 'c"
  icbinn_prot_pwrite_1 :: "icbinn_prot_pwriteargs \<Rightarrow> 'c \<Rightarrow> icbinn_prot_errnostat option \<times> 'c"
  icbinn_prot_close_1 :: "int \<Rightarrow> 'c \<Rightarrow> icbinn_prot_errnostat option \<times> 'c"
  icbinn_prot_mkdir_1 :: "string \<Rightarrow> 'c \<Rightarrow> icbinn_prot_errnostat option \<times> 'c"
  icbinn_prot_rmdir_1 :: "string \<Rightarrow> 'c \<Rightarrow> icbinn_prot_errnostat option \<times> 'c"
  icbinn_prot_rename_1 :: "icbinn_prot_renameargs \<Rightarrow> 'c \<Rightarrow> icbinn_prot_errnostat option \<times> 'c"
  icbinn_prot_unlink_1 :: "string \<Rightarrow> 'c \<Rightarrow> icbinn_prot_errnostat option \<times> 'c"
  icbinn_prot_ftruncate_1 :: "icbinn_prot_ftruncateargs \<Rightarrow> 'c \<Rightarrow> icbinn_prot_errnostat option \<times> 'c"
  icbinn_prot_rand_1 :: "icbinn_prot_randargs \<Rightarrow> 'c \<Rightarrow> icbinn_prot_randres option \<times> 'c"
  icbinn_prot_fallocate_1 :: "icbinn_prot_fallocateargs \<Rightarrow> 'c \<Rightarrow> icbinn_prot_errnostat option \<times> 'c"
  icbinn_prot_symlink_1 :: "icbinn_prot_symlinkargs \<Rightarrow> 'c \<Rightarrow> icbinn_prot_errnostat option \<times> 'c"
  icbinn_prot_readlink_1 :: "icbinn_prot_readlinkargs \<Rightarrow> 'c \<Rightarrow> icbinn_prot_readlinkres option \<times> 'c"
  icbinn_prot_statfs_1 :: "string \<Rightarrow> 'c \<Rightarrow> icbinn_prot_statfsres option \<times> 'c"
  icbinn_prot_fsync_1 :: "int \<Rightarrow> 'c \<Rightarrow> icbinn_prot_errnostat option \<times> 'c"

text \<open>The public structures of \<open>icbinn-head.h.in\<close>.\<close>

record icbinn_stat_t =
  is_size :: u64
  is_type :: int

record icbinn_statfs_t =
  ifs_bsize :: u64
  ifs_blocks :: u64
  ifs_bfree :: u64
  ifs_bavail :: u64

record icbinn_dirent =
  de_name :: string
  de_type :: int

section \<open>Calls that return a status\<close>

definition icbinn_null :: "'c CLIENT \<Rightarrow> 'c \<Rightarrow> int \<times> 'c" where
  "icbinn_null c w = (case icbinn_prot_null_1 c w of (res, w') \<Rightarrow> (if \<not> res then -1 else 0, w'))"

definition icbinn_close :: "'c CLIENT \<Rightarrow> int \<Rightarrow> 'c \<Rightarrow> int \<times> 'c" where
  "icbinn_close c fd w =
     (case icbinn_prot_close_1 c fd w of
        (None, w') \<Rightarrow> (-1, w')
      | (Some (ErrnoERROR e), w') \<Rightarrow> (- e, w')
      | (Some ErrnoOK, w') \<Rightarrow> (0, w'))"

definition icbinn_fsync :: "'c CLIENT \<Rightarrow> int \<Rightarrow> 'c \<Rightarrow> int \<times> 'c" where
  "icbinn_fsync c fd w =
     (case icbinn_prot_fsync_1 c fd w of
        (None, w') \<Rightarrow> (-1, w')
      | (Some (ErrnoERROR e), w') \<Rightarrow> (- e, w')
      | (Some ErrnoOK, w') \<Rightarrow> (0, w'))"

definition icbinn_lock :: "'c CLIENT \<Rightarrow> int \<Rightarrow> int \<Rightarrow> 'c \<Rightarrow> int \<times> 'c" where
  "icbinn_lock c fd type w =
     (case icbinn_prot_lock_1 c \<lparr>la_fd = fd, la_type = type\<rparr> w of
        (None, w') \<Rightarrow> (-1, w')
      | (Some (ErrnoERROR e), w') \<Rightarrow> (- e, w')
      | (Some ErrnoOK, w') \<Rightarrow> (0, w'))"

definition icbinn_mkdir :: "'c CLIENT \<Rightarrow> string \<Rightarrow> 'c \<Rightarrow> int \<times> 'c" where
  "icbinn_mkdir c path w =
     (case icbinn_prot_mkdir_1 c path w of
        (None, w') \<Rightarrow> (-1, w')
      | (Some (ErrnoERROR e), w') \<Rightarrow> (- e, w')
      | (Some ErrnoOK, w') \<Rightarrow> (0, w'))"

definition icbinn_rmdir :: "'c CLIENT \<Rightarrow> string \<Rightarrow> 'c \<Rightarrow> int \<times> 'c" where
  "icbinn_rmdir c path w =
     (case icbinn_prot_rmdir_1 c path w of
        (None, w') \<Rightarrow> (-1, w')
      | (Some (ErrnoERROR e), w') \<Rightarrow> (- e, w')
      | (Some ErrnoOK, w') \<Rightarrow> (0, w'))"

definition icbinn_unlink :: "'c CLIENT \<Rightarrow> string \<Rightarrow> 'c \<Rightarrow> int \<times> 'c" where
  "icbinn_unlink c path w =
     (case icbinn_prot_unlink_1 c path w of
        (None, w') \<Rightarrow> (-1, w')
      | (Some (ErrnoERROR e), w') \<Rightarrow> (- e, w')
      | (Some ErrnoOK, w') \<Rightarrow> (0, w'))"

definition icbinn_rename :: "'c CLIENT \<Rightarrow> string \<Rightarrow> string \<Rightarrow> 'c \<Rightarrow> int \<times> 'c" where
  "icbinn_rename c from_path to_path w =
     (case icbinn_prot_rename_1 c \<lparr>rna_from = from_path, rna_to = to_path\<rparr> w of
        (None, w') \<Rightarrow> (-1, w')
      | (Some (ErrnoERROR e), w') \<Rightarrow> (- e, w')
      | (Some ErrnoOK, w') \<Rightarrow> (0, w'))"

definition icbinn_symlink :: "'c CLIENT \<Rightarrow> string \<Rightarrow> string \<Rightarrow> 'c \<Rightarrow> int \<times> 'c" where
  "icbinn_symlink c oldpath newpath w =
     (case icbinn_prot_symlink_1 c \<lparr>sla_oldpath = oldpath, sla_newpath = newpath\<rparr> w of
        (None, w') \<Rightarrow> (-1, w')
      | (Some (ErrnoERROR e), w') \<Rightarrow> (- e, w')
      | (Some ErrnoOK, w') \<Rightarrow> (0, w'))"

definition icbinn_ftruncate :: "'c CLIENT \<Rightarrow> int \<Rightarrow> u64 \<Rightarrow> 'c \<Rightarrow> int \<times> 'c" where
  "icbinn_ftruncate c fd len w =
     (case icbinn_prot_ftruncate_1 c \<lparr>fta_fd = fd, fta_length = len\<rparr> w of
        (None, w') \<Rightarrow> (-1, w')
      | (Some (ErrnoERROR e), w') \<Rightarrow> (- e, w')
      | (Some ErrnoOK, w') \<Rightarrow> (0, w'))"

text \<open>This one returns the errno as it is, without the sign change of its siblings.\<close>

definition icbinn_fallocate :: "'c CLIENT \<Rightarrow> int \<Rightarrow> u32 \<Rightarrow> u64 \<Rightarrow> u64 \<Rightarrow> 'c \<Rightarrow> int \<times> 'c" where
  "icbinn_fallocate c fd mode offset len w =
     (case icbinn_prot_fallocate_1 c
             \<lparr>faa_fd = fd, faa_mode = mode, faa_offset = offset, faa_length = len\<rparr> w of
        (None, w') \<Rightarrow> (-1, w')
      | (Some (ErrnoERROR e), w') \<Rightarrow> (e, w')
      | (Some ErrnoOK, w') \<Rightarrow> (0, w'))"

definition icbinn_open :: "'c CLIENT \<Rightarrow> string \<Rightarrow> u32 \<Rightarrow> 'c \<Rightarrow> int \<times> 'c" where
  "icbinn_open c name mode w =
     (case icbinn_prot_open_1 c \<lparr>oa_name = name, oa_mode = mode\<rparr> w of
        (None, w') \<Rightarrow> (-1, w')
      | (Some (OpenERROR e), w') \<Rightarrow> (- e, w')
      | (Some (OpenOK fd), w') \<Rightarrow> (fd, w'))"

section \<open>Calls that fill a structure\<close>

text \<open>The switch over the protocol's file types; None is its default branch.\<close>

definition type_of_prot :: "int \<Rightarrow> int option" where
  "type_of_prot t =
     (if t = ICBINN_PROT_FILE then Some ICBINN_TYPE_FILE
      else if t = ICBINN_PROT_DIRECTORY then Some ICBINN_TYPE_DIRECTORY
      else if t = ICBINN_PROT_LINK then Some ICBINN_TYPE_LINK
      else if t = ICBINN_PROT_UNKNOWN then Some ICBINN_TYPE_UNKNOWN
      else None)"

definition icbinn_stat ::
  "'c CLIENT \<Rightarrow> string option \<Rightarrow> icbinn_stat_t option \<Rightarrow> 'c \<Rightarrow> int \<times> icbinn_stat_t option \<times> 'c" where
  "icbinn_stat c path buf w =
     (case (path, buf) of
        (Some p, Some b) \<Rightarrow>
          (case icbinn_prot_stat_1 c p w of
             (None, w') \<Rightarrow> (-1, Some b, w')
           | (Some (StatERROR e), w') \<Rightarrow> (- e, Some b, w')
           | (Some (StatOK r), w') \<Rightarrow>
               (case type_of_prot (sr_type r) of
                  None \<Rightarrow> (-1, Some b, w')
                | Some t \<Rightarrow> (0, Some (b\<lparr>is_type := t, is_size := sr_size r\<rparr>), w')))
      | _ \<Rightarrow> (-1, buf, w))"

definition icbinn_statfs ::
  "'c CLIENT \<Rightarrow> string option \<Rightarrow> icbinn_statfs_t option \<Rightarrow> 'c \<Rightarrow> int \<times> icbinn_statfs_t option \<times> 'c" where
  "icbinn_statfs c path buf w =
     (case (path, buf) of
        (Some p, Some b) \<Rightarrow>
          (case icbinn_prot_statfs_1 c p w of
             (None, w') \<Rightarrow> (-1, Some b, w')
           | (Some (StatfsERROR e), w') \<Rightarrow> (- e, Some b, w')
           | (Some (StatfsOK r), w') \<Rightarrow>
               (0, Some \<lparr>ifs_bsize = fr_bsize r, ifs_blocks = fr_blocks r,
                         ifs_bfree = fr_bfree r, ifs_bavail = fr_bavail r\<rparr>, w'))
      | _ \<Rightarrow> (-1, buf, w))"

definition icbinn_readlink ::
  "'c CLIENT \<Rightarrow> string option \<Rightarrow> byte list option \<Rightarrow> u64 \<Rightarrow> 'c \<Rightarrow> int \<times> byte list option \<times> 'c" where
  "icbinn_readlink c path buf bufsz w =
     (case (path, buf) of
        (Some p, Some b) \<Rightarrow>
          (case icbinn_prot_readlink_1 c \<lparr>rla_path = p, rla_bufsz = bufsz\<rparr> w of
             (None, w') \<Rightarrow> (-1, Some b, w')
           | (Some (ReadlinkERROR e), w') \<Rightarrow> (- e, Some b, w')
           | (Some (ReadlinkOK bs), w') \<Rightarrow>
               if length bs > unat bufsz then (-1, Some b, w')
               else (int (length bs), Some (mem_write b 0 bs), w'))
      | _ \<Rightarrow> (-1, buf, w))"

section \<open>Reading a directory\<close>

text \<open>
  The loop over the reply's entries. It writes \<open>buf[n]\<close> for each of them; a write behind the last
  element of \<open>buf\<close> is None.
\<close>

definition dirent_of_entry :: "icbinn_prot_entry \<Rightarrow> icbinn_dirent" where
  "dirent_of_entry e =
     \<lparr>de_name = take ICBINN_PROT_MAXNAMELEN (en_name e),
      de_type = (case type_of_prot (en_type e) of None \<Rightarrow> -1 | Some t \<Rightarrow> t)\<rparr>"

fun copy_entries ::
  "icbinn_prot_entry list \<Rightarrow> nat \<Rightarrow> icbinn_dirent list \<Rightarrow> (nat \<times> icbinn_dirent list) option" where
  "copy_entries [] n buf = Some (n, buf)"
| "copy_entries (e # es) n buf =
     (if n < length buf then copy_entries es (Suc n) (buf[n := dirent_of_entry e]) else None)"

definition icbinn_readdir ::
  "'c CLIENT \<Rightarrow> string \<Rightarrow> u64 \<Rightarrow> u64 \<Rightarrow> icbinn_dirent list \<Rightarrow> 'c \<Rightarrow> (int \<times> icbinn_dirent list, 'c) outcome" where
  "icbinn_readdir c dir offset count buf w =
     (case icbinn_prot_readdir_1 c \<lparr>ra_dir = dir, ra_offset = ucast offset, ra_count = ucast count\<rparr> w of
        (None, w') \<Rightarrow> Ret (-1, buf) w'
      | (Some ReaddirERROR, w') \<Rightarrow> Ret (-1, buf) w'
      | (Some (ReaddirOK es _), w') \<Rightarrow>
          (case copy_entries es 0 buf of
             None \<Rightarrow> Fault
           | Some (n, buf') \<Rightarrow> Ret (int n, buf') w'))"

definition icbinn_readent ::
  "'c CLIENT \<Rightarrow> string \<Rightarrow> u64 \<Rightarrow> icbinn_dirent \<Rightarrow> 'c \<Rightarrow> (int \<times> icbinn_dirent, 'c) outcome" where
  "icbinn_readent c dir offset buf w =
     (case icbinn_readdir c dir offset 1 [buf] w of
        Ret (n, buf') w' \<Rightarrow> Ret (if n = 1 then 0 else -1, hd buf') w'
      | Exit n w' \<Rightarrow> Exit n w'
      | Fault \<Rightarrow> Fault)"

section \<open>Reading, writing and random bytes in chunks\<close>

definition icbinn_pread_worker ::
  "'c CLIENT \<Rightarrow> int \<Rightarrow> byte list \<Rightarrow> nat \<Rightarrow> u64 \<Rightarrow> u64 \<Rightarrow> 'c \<Rightarrow> int \<times> byte list \<times> 'c" where
  "icbinn_pread_worker c fd buf pos count offset w =
     (case icbinn_prot_pread_1 c \<lparr>pra_fd = fd, pra_offset = offset, pra_count = count\<rparr> w of
        (None, w') \<Rightarrow> (-1, buf, w')
      | (Some (PreadERROR e), w') \<Rightarrow> (- e, buf, w')
      | (Some (PreadOK bs), w') \<Rightarrow>
          if length bs > unat count then (-1, buf, w')
          else (int (length bs), mem_write buf pos bs, w'))"

text \<open>\<open>count > ICBINN_MAXDATA ? ICBINN_MAXDATA : count\<close>\<close>

definition chunk :: "u64 \<Rightarrow> u64" where
  "chunk count = (if count > ICBINN_MAXDATA then ICBINN_MAXDATA else count)"

lemma chunk_le: "chunk count \<le> count"
  by (auto simp: chunk_def)

lemma chunk_pos: "count \<noteq> 0 \<Longrightarrow> chunk count \<noteq> 0"
  by (simp add: chunk_def)

lemma unat_sub_chunk: "unat (count - chunk count) = unat count - unat (chunk count)"
  using chunk_le by (rule unat_sub)

lemma chunk_decreases: "count \<noteq> 0 \<Longrightarrow> unat (count - chunk count) < unat count"
  using chunk_pos [of count] by (simp add: unat_sub_chunk unat_gt_0)

function icbinn_pread_loop ::
  "'c CLIENT \<Rightarrow> int \<Rightarrow> u64 \<Rightarrow> int \<Rightarrow> byte list \<times> nat \<times> u64 \<times> 'c \<Rightarrow> int \<times> byte list \<times> nat \<times> u64 \<times> 'c" where
  "icbinn_pread_loop c fd count rv (buf, pos, offset, w) =
     (if count = 0 then (rv, buf, pos, offset, w)
      else
        (let to_read = chunk count;
             (semi_ret, buf', w') = icbinn_pread_worker c fd buf pos to_read offset w;
             rv' = (if semi_ret > 0 then rv + semi_ret else rv)
         in if word_of_int semi_ret \<noteq> to_read
            then (if rv' \<noteq> 0 then rv' else semi_ret, buf', pos, offset, w')
            else icbinn_pread_loop c fd (count - to_read) rv'
                   (buf', pos + unat to_read, offset + to_read, w')))"
  by pat_completeness auto
termination
  by (relation "measure (\<lambda>(c, fd, count, rv, x). unat count)") (auto intro: chunk_decreases)

definition icbinn_pread ::
  "'c CLIENT \<Rightarrow> int \<Rightarrow> byte list \<Rightarrow> u64 \<Rightarrow> u64 \<Rightarrow> 'c \<Rightarrow> int \<times> byte list \<times> 'c" where
  "icbinn_pread c fd buf count offset w =
     (case icbinn_pread_loop c fd count 0 (buf, 0, offset, w) of (r, buf', _, _, w') \<Rightarrow> (r, buf', w'))"

text \<open>\<open>buf\<close> is the caller's data; the worker sends \<open>count\<close> bytes of it from \<open>pos\<close> on.\<close>

definition icbinn_pwrite_worker ::
  "'c CLIENT \<Rightarrow> int \<Rightarrow> byte list \<Rightarrow> nat \<Rightarrow> u64 \<Rightarrow> u64 \<Rightarrow> 'c \<Rightarrow> int \<times> 'c" where
  "icbinn_pwrite_worker c fd buf pos count offset w =
     (case icbinn_prot_pwrite_1 c
             \<lparr>pwa_fd = fd, pwa_offset = offset, pwa_data = take (unat count) (drop pos buf)\<rparr> w of
        (None, w') \<Rightarrow> (-1, w')
      | (Some (ErrnoERROR e), w') \<Rightarrow> (- e, w')
      | (Some ErrnoOK, w') \<Rightarrow> (sint count, w'))"

function icbinn_pwrite_loop ::
  "'c CLIENT \<Rightarrow> int \<Rightarrow> byte list \<Rightarrow> u64 \<Rightarrow> int \<Rightarrow> nat \<times> u64 \<times> 'c \<Rightarrow> int \<times> nat \<times> u64 \<times> 'c" where
  "icbinn_pwrite_loop c fd buf count rv (pos, offset, w) =
     (if count = 0 then (rv, pos, offset, w)
      else
        (let to_read = chunk count;
             (semi_ret, w') = icbinn_pwrite_worker c fd buf pos to_read offset w;
             rv' = (if semi_ret > 0 then rv + semi_ret else rv)
         in if word_of_int semi_ret \<noteq> to_read
            then (if rv' \<noteq> 0 then rv' else semi_ret, pos, offset, w')
            else icbinn_pwrite_loop c fd buf (count - to_read) rv'
                   (pos + unat to_read, offset + to_read, w')))"
  by pat_completeness auto
termination
  by (relation "measure (\<lambda>(c, fd, buf, count, rv, x). unat count)") (auto intro: chunk_decreases)

definition icbinn_pwrite ::
  "'c CLIENT \<Rightarrow> int \<Rightarrow> byte list \<Rightarrow> u64 \<Rightarrow> u64 \<Rightarrow> 'c \<Rightarrow> int \<times> 'c" where
  "icbinn_pwrite c fd buf count offset w =
     (case icbinn_pwrite_loop c fd buf count 0 (0, offset, w) of (r, _, _, w') \<Rightarrow> (r, w'))"

definition icbinn_rand_worker ::
  "'c CLIENT \<Rightarrow> int \<Rightarrow> byte list \<Rightarrow> nat \<Rightarrow> u64 \<Rightarrow> 'c \<Rightarrow> int \<times> byte list \<times> 'c" where
  "icbinn_rand_worker c src buf pos count w =
     (case icbinn_prot_rand_1 c \<lparr>rda_count = count, rda_src = src\<rparr> w of
        (None, w') \<Rightarrow> (-1, buf, w')
      | (Some RandERROR, w') \<Rightarrow> (-1, buf, w')
      | (Some (RandOK bs), w') \<Rightarrow>
          if length bs > unat count then (-1, buf, w')
          else (int (length bs), mem_write buf pos bs, w'))"

function icbinn_rand_loop ::
  "'c CLIENT \<Rightarrow> int \<Rightarrow> u64 \<Rightarrow> int \<Rightarrow> byte list \<times> nat \<times> 'c \<Rightarrow> int \<times> byte list \<times> nat \<times> 'c" where
  "icbinn_rand_loop c src count rv (buf, pos, w) =
     (if count = 0 then (rv, buf, pos, w)
      else
        (let to_read = chunk count;
             (semi_ret, buf', w') = icbinn_rand_worker c src buf pos to_read w;
             rv' = (if semi_ret > 0 then rv + semi_ret else rv)
         in if word_of_int semi_ret \<noteq> to_read
            then (if rv' \<noteq> 0 then rv' else semi_ret, buf', pos, w')
            else icbinn_rand_loop c src (count - to_read) rv' (buf', pos + unat to_read, w')))"
  by pat_completeness auto
termination
  by (relation "measure (\<lambda>(c, src, count, rv, x). unat count)") (auto intro: chunk_decreases)

definition icbinn_rand ::
  "'c CLIENT \<Rightarrow> int \<Rightarrow> byte list \<Rightarrow> u64 \<Rightarrow> 'c \<Rightarrow> int \<times> byte list \<times> 'c" where
  "icbinn_rand c src buf count w =
     (case icbinn_rand_loop c src count 0 (buf, 0, w) of (r, buf', _, w') \<Rightarrow> (r, buf', w'))"

declare
  icbinn_close_def [client_defs] icbinn_fsync_def [client_defs] icbinn_lock_def [client_defs]
  icbinn_mkdir_def [client_defs] icbinn_rmdir_def [client_defs] icbinn_unlink_def [client_defs]
  icbinn_rename_def [client_defs] icbinn_symlink_def [client_defs] icbinn_ftruncate_def [client_defs]

declare icbinn_pread_loop.simps [simp del] icbinn_pwrite_loop.simps [simp del]
  icbinn_rand_loop.simps [simp del]

end
