(* ===== verification/Chunks.thy ===== *)
theory Chunks
  imports Clientlib
begin

text \<open>
  The loop that \<open>pread.c\<close>, \<open>pwrite.c\<close> and \<open>rand.c\<close> share: a transfer is cut into chunks of at most
  ICBINN_MAXDATA bytes, a worker does one call per chunk, and the loop stops at the first chunk
  that is not complete. The locale \<open>chunk_transfer\<close> is that loop over any worker; the three
  functions of the library are its instances.
\<close>

locale chunk_transfer =
  fixes loop :: "u64 \<Rightarrow> int \<Rightarrow> 'x \<Rightarrow> int \<times> 'x"
    and worker :: "u64 \<Rightarrow> 'x \<Rightarrow> int \<times> 'x"
    and advance :: "u64 \<Rightarrow> 'x \<Rightarrow> 'x"
  assumes loop_eq: "loop count rv x =
    (if count = 0 then (rv, x)
     else
       (let n = chunk count; (r, x') = worker n x; rv' = (if r > 0 then rv + r else rv)
        in if word_of_int r \<noteq> n then (if rv' \<noteq> 0 then rv' else r, x')
           else loop (count - n) rv' (advance n x')))"
begin

lemma loop_zero [simp]: "loop 0 rv x = (rv, x)"
  by (simp add: loop_eq)

lemma loop_short:
  assumes "count \<noteq> 0" and "worker (chunk count) x = (r, x')" and "word_of_int r \<noteq> chunk count"
  shows "loop count rv x =
     (let rv' = (if r > 0 then rv + r else rv) in (if rv' \<noteq> 0 then rv' else r, x'))"
  using assms by (simp add: loop_eq [of count] Let_def)

lemma loop_full:
  assumes "count \<noteq> 0" and "worker (chunk count) x = (r, x')" and "word_of_int r = chunk count"
  shows "loop count rv x =
     loop (count - chunk count) (if r > 0 then rv + r else rv) (advance (chunk count) x')"
  using assms by (simp add: loop_eq [of count] Let_def)

text \<open>
  What holds of the state at the end: \<open>J k x\<close> is kept by a call and by moving on, with \<open>k\<close> the number
  of bytes still to be transferred.
\<close>

lemma loop_keeps:
  assumes "\<And>n k x. n \<noteq> 0 \<Longrightarrow> unat n \<le> k \<Longrightarrow> J k x \<Longrightarrow> J k (snd (worker n x))"
    and "\<And>n k x. unat n \<le> k \<Longrightarrow> J k x \<Longrightarrow> J (k - unat n) (advance n x)"
    and "J (unat count) x"
  shows "\<exists>k. J k (snd (loop count rv x))"
  using assms(3)
proof (induction count arbitrary: rv x rule: measure_induct_rule [where f = unat])
  case (less count)
  obtain r x' where w: "worker (chunk count) x = (r, x')" by fastforce
  show ?case
  proof (cases "count = 0")
    case True
    then show ?thesis using less.prems by auto
  next
    case False
    have le: "unat (chunk count) \<le> unat count"
      using chunk_le by (simp add: word_le_nat_alt)
    have J: "J (unat count) x'"
      using assms(1) [OF chunk_pos [OF False] le less.prems] w by simp
    show ?thesis
    proof (cases "word_of_int r = chunk count")
      case full: True
      have "J (unat (count - chunk count)) (advance (chunk count) x')"
        using assms(2) [OF le J] by (simp add: unat_sub_chunk)
      then show ?thesis
        using less.IH [OF chunk_decreases [OF False]] loop_full [OF False w full] by simp
    next
      case False
      then show ?thesis
        using J loop_short [OF \<open>count \<noteq> 0\<close> w] by (auto simp: Let_def)
    qed
  qed
qed

end

text \<open>A worker that never reports more than it was asked for.\<close>

locale bounded_transfer = chunk_transfer +
  assumes worker_le: "fst (worker n x) \<le> uint n"
begin

lemma full_chunk_result:
  assumes "worker n x = (r, x')" and "r > 0"
  shows "word_of_int r = n \<longleftrightarrow> r = uint n"
  using assms worker_le [of n x] by (intro word_of_int_uint_eq_iff) simp_all

lemma loop_bounds:
  assumes "0 \<le> rv"
  shows "fst (loop count rv x) \<le> rv + uint count \<and> (0 < rv \<longrightarrow> rv \<le> fst (loop count rv x))"
  using assms
proof (induction count arbitrary: rv x rule: measure_induct_rule [where f = unat])
  case (less count)
  obtain r x' where w: "worker (chunk count) x = (r, x')" by fastforce
  have r: "r \<le> uint (chunk count)"
    using worker_le [of "chunk count" x] w by simp
  have c: "uint (count - chunk count) = uint count - uint (chunk count)"
    using chunk_le [of count] by (simp add: uint_sub_lem [THEN iffD1] word_le_def)
  have le: "uint (chunk count) \<le> uint count"
    using chunk_le [of count] by (simp add: word_le_def)
  have rest: "uint (count - chunk count) + r \<le> uint count" "uint (count - chunk count) \<le> uint count"
    using c r uint_ge_0 [of "chunk count"] by linarith+
  show ?case
  proof (cases "count = 0")
    case True
    then show ?thesis by simp
  next
    case False
    show ?thesis
    proof (cases "word_of_int r = chunk count")
      case True
      let ?rv = "if r > 0 then rv + r else rv"
      have "fst (loop (count - chunk count) ?rv (advance (chunk count) x'))
            \<le> ?rv + uint (count - chunk count) \<and>
          (0 < ?rv \<longrightarrow> ?rv \<le> fst (loop (count - chunk count) ?rv (advance (chunk count) x')))"
        using less.prems by (intro less.IH chunk_decreases [OF False]) simp
      then show ?thesis
        using loop_full [OF False w True, of rv] less.prems rest by (auto split: if_splits)
    next
      case short: False
      show ?thesis
        using loop_short [OF False w short, of rv] r le less.prems by (auto simp: Let_def)
    qed
  qed
qed

text \<open>When the first call fails, the loop returns its error.\<close>

lemma first_error:
  assumes "count \<noteq> 0" and "worker (chunk count) x = (r, x')" and "r \<le> 0" and "- (2 ^ 63) < r"
  shows "loop count 0 x = (r, x')"
proof -
  have "uint (word_of_int r :: u64) = r mod 2 ^ 64"
    by (simp add: uint_word_of_int)
  moreover have "r mod 2 ^ 64 = r + 2 ^ 64" if "r \<noteq> 0"
  proof -
    have "r mod 2 ^ 64 = (r + 2 ^ 64) mod 2 ^ 64" by simp
    also have "\<dots> = r + 2 ^ 64" using that assms(3,4) by (intro mod_pos_pos_trivial) simp_all
    finally show ?thesis .
  qed
  moreover have "uint (chunk count) \<noteq> 0" "uint (chunk count) \<le> 65536"
    using chunk_pos [OF assms(1)] by (auto simp: chunk_def uint_0_iff word_less_def)
  ultimately have "word_of_int r \<noteq> chunk count"
    using assms(4) by (cases "r = 0") auto
  from loop_short [OF assms(1,2) this, of 0] show ?thesis
    using assms(3) by simp
qed

end


section \<open>The three transfers are instances\<close>

definition pread_call ::
  "'c CLIENT \<Rightarrow> int \<Rightarrow> u64 \<Rightarrow> byte list \<times> nat \<times> u64 \<times> 'c \<Rightarrow> int \<times> byte list \<times> nat \<times> u64 \<times> 'c" where
  "pread_call c fd n = (\<lambda>(buf, pos, offset, w).
     case icbinn_pread_worker c fd buf pos n offset w of (r, buf', w') \<Rightarrow> (r, buf', pos, offset, w'))"

definition pread_advance :: "u64 \<Rightarrow> byte list \<times> nat \<times> u64 \<times> 'c \<Rightarrow> byte list \<times> nat \<times> u64 \<times> 'c" where
  "pread_advance n = (\<lambda>(buf, pos, offset, w). (buf, pos + unat n, offset + n, w))"

interpretation pread_t: chunk_transfer "icbinn_pread_loop c fd" "pread_call c fd" pread_advance
  for c :: "'c CLIENT" and fd
proof
  fix count rv and x :: "byte list \<times> nat \<times> u64 \<times> 'c"
  obtain buf pos offset w where x: "x = (buf, pos, offset, w)" by (cases x)
  obtain r b v where "icbinn_pread_worker c fd buf pos (chunk count) offset w = (r, b, v)" by (cases "icbinn_pread_worker c fd buf pos (chunk count) offset w")
  then show "icbinn_pread_loop c fd count rv x = (if count = 0 then (rv, x)
     else
       (let n = chunk count; (r, x') = pread_call c fd n x; rv' = (if r > 0 then rv + r else rv)
        in if word_of_int r \<noteq> n then (if rv' \<noteq> 0 then rv' else r, x')
           else icbinn_pread_loop c fd (count - n) rv' (pread_advance n x')))"
    unfolding x
    by (subst icbinn_pread_loop.simps) (simp add: pread_call_def pread_advance_def Let_def)
qed

definition pwrite_call ::
  "'c CLIENT \<Rightarrow> int \<Rightarrow> byte list \<Rightarrow> u64 \<Rightarrow> nat \<times> u64 \<times> 'c \<Rightarrow> int \<times> nat \<times> u64 \<times> 'c" where
  "pwrite_call c fd buf n = (\<lambda>(pos, offset, w).
     case icbinn_pwrite_worker c fd buf pos n offset w of (r, w') \<Rightarrow> (r, pos, offset, w'))"

definition pwrite_advance :: "u64 \<Rightarrow> nat \<times> u64 \<times> 'c \<Rightarrow> nat \<times> u64 \<times> 'c" where
  "pwrite_advance n = (\<lambda>(pos, offset, w). (pos + unat n, offset + n, w))"

interpretation pwrite_t: chunk_transfer "icbinn_pwrite_loop c fd buf" "pwrite_call c fd buf" pwrite_advance
  for c :: "'c CLIENT" and fd buf
proof
  fix count rv and x :: "nat \<times> u64 \<times> 'c"
  obtain pos offset w where x: "x = (pos, offset, w)" by (cases x)
  obtain r v where "icbinn_pwrite_worker c fd buf pos (chunk count) offset w = (r, v)" by (cases "icbinn_pwrite_worker c fd buf pos (chunk count) offset w")
  then show "icbinn_pwrite_loop c fd buf count rv x = (if count = 0 then (rv, x)
     else
       (let n = chunk count; (r, x') = pwrite_call c fd buf n x; rv' = (if r > 0 then rv + r else rv)
        in if word_of_int r \<noteq> n then (if rv' \<noteq> 0 then rv' else r, x')
           else icbinn_pwrite_loop c fd buf (count - n) rv' (pwrite_advance n x')))"
    unfolding x
    by (subst icbinn_pwrite_loop.simps) (simp add: pwrite_call_def pwrite_advance_def Let_def)
qed

definition rand_call ::
  "'c CLIENT \<Rightarrow> int \<Rightarrow> u64 \<Rightarrow> byte list \<times> nat \<times> 'c \<Rightarrow> int \<times> byte list \<times> nat \<times> 'c" where
  "rand_call c src n = (\<lambda>(buf, pos, w).
     case icbinn_rand_worker c src buf pos n w of (r, buf', w') \<Rightarrow> (r, buf', pos, w'))"

definition rand_advance :: "u64 \<Rightarrow> byte list \<times> nat \<times> 'c \<Rightarrow> byte list \<times> nat \<times> 'c" where
  "rand_advance n = (\<lambda>(buf, pos, w). (buf, pos + unat n, w))"

text \<open>The random-byte worker has no errno to report, so its result is bounded whatever the server says.\<close>

interpretation rand_t: bounded_transfer "icbinn_rand_loop c src" "rand_call c src" rand_advance
  for c :: "'c CLIENT" and src
proof
  fix count rv and x :: "byte list \<times> nat \<times> 'c"
  obtain buf pos w where x: "x = (buf, pos, w)" by (cases x)
  obtain r b v where "icbinn_rand_worker c src buf pos (chunk count) w = (r, b, v)" by (cases "icbinn_rand_worker c src buf pos (chunk count) w")
  then show "icbinn_rand_loop c src count rv x = (if count = 0 then (rv, x)
     else
       (let n = chunk count; (r, x') = rand_call c src n x; rv' = (if r > 0 then rv + r else rv)
        in if word_of_int r \<noteq> n then (if rv' \<noteq> 0 then rv' else r, x')
           else icbinn_rand_loop c src (count - n) rv' (rand_advance n x')))"
    unfolding x
    by (subst icbinn_rand_loop.simps) (simp add: rand_call_def rand_advance_def Let_def)
next
  fix n and x :: "byte list \<times> nat \<times> 'c"
  show "fst (rand_call c src n x) \<le> uint n"
    by (simp add: rand_call_def icbinn_rand_worker_def length_le_uint
        split: prod.split option.split icbinn_prot_randres.split)
qed

text \<open>
  For the other two the bound needs a server that reports errors as errno values, which are
  not negative.
\<close>

locale errno_client =
  fixes c :: "'c CLIENT"
  assumes pread_errno: "fst (icbinn_prot_pread_1 c a w) = Some (PreadERROR e) \<Longrightarrow> 0 \<le> e"
    and pwrite_errno: "fst (icbinn_prot_pwrite_1 c b w) = Some (ErrnoERROR e) \<Longrightarrow> 0 \<le> e"
begin

lemma pread_call_le: "fst (pread_call c fd n x) \<le> uint n"
proof -
  obtain buf pos offset w where x: "x = (buf, pos, offset, w)" by (cases x)
  let ?a = "\<lparr>pra_fd = fd, pra_offset = offset, pra_count = n\<rparr>"
  show ?thesis
    using pread_errno [of ?a w]
    by (cases "icbinn_prot_pread_1 c ?a w")
      (simp add: x pread_call_def icbinn_pread_worker_def length_le_uint minus_le_uint
        split: option.split icbinn_prot_preadres.split)
qed

lemma pwrite_call_le: "fst (pwrite_call c fd buf n x) \<le> uint n"
proof -
  obtain pos offset w where x: "x = (pos, offset, w)" by (cases x)
  let ?a = "\<lparr>pwa_fd = fd, pwa_offset = offset, pwa_data = take (unat n) (drop pos buf)\<rparr>"
  show ?thesis
    using pwrite_errno [of ?a w]
    by (cases "icbinn_prot_pwrite_1 c ?a w")
      (simp add: x pwrite_call_def icbinn_pwrite_worker_def sint_le_uint minus_le_uint
        split: option.split icbinn_prot_errnostat.split)
qed

end

sublocale errno_client \<subseteq> pread_b: bounded_transfer "icbinn_pread_loop c fd" "pread_call c fd" pread_advance
  for fd
  by unfold_locales (rule pread_call_le)

sublocale errno_client \<subseteq> pwrite_b: bounded_transfer
  "icbinn_pwrite_loop c fd buf" "pwrite_call c fd buf" pwrite_advance for fd buf
  by unfold_locales (rule pwrite_call_le)

end
