(* ===== verification/Client_Props.thy ===== *)
theory Client_Props
  imports Chunks
begin

text \<open>
  What the client library promises its caller whatever server it talks to: memory is written only
  where the caller allows it, and status calls report in one convention. The locale
  \<open>errno_call\<close> is that convention; every status call but one is an instance.
\<close>

section \<open>Status calls\<close>

definition errno_result :: "icbinn_prot_errnostat option \<Rightarrow> int" where
  "errno_result r = (case r of None \<Rightarrow> -1 | Some (ErrnoERROR e) \<Rightarrow> - e | Some ErrnoOK \<Rightarrow> 0)"

locale errno_call =
  fixes call :: "'a \<Rightarrow> 'c \<Rightarrow> int \<times> 'c"
    and stub :: "'a \<Rightarrow> 'c \<Rightarrow> icbinn_prot_errnostat option \<times> 'c"
  assumes call_result: "fst (call a w) = errno_result (fst (stub a w))"
    and call_state: "snd (call a w) = snd (stub a w)"
begin

lemma call_ok: "fst (stub a w) = Some ErrnoOK \<Longrightarrow> fst (call a w) = 0"
  by (simp add: call_result errno_result_def)

lemma call_lost: "fst (stub a w) = None \<Longrightarrow> fst (call a w) = -1"
  by (simp add: call_result errno_result_def)

lemma call_zero_iff:
  assumes "\<And>e. fst (stub a w) = Some (ErrnoERROR e) \<Longrightarrow> e \<noteq> 0"
  shows "fst (call a w) = 0 \<longleftrightarrow> fst (stub a w) = Some ErrnoOK"
  using assms by (auto simp: call_result errno_result_def split: option.splits icbinn_prot_errnostat.splits)

end

lemmas errno_call_splits = prod.split option.split icbinn_prot_errnostat.split

interpretation close_c: errno_call "icbinn_close c" "icbinn_prot_close_1 c" for c :: "'c CLIENT"
  by unfold_locales (simp_all add: client_defs errno_result_def split: errno_call_splits)

interpretation fsync_c: errno_call "icbinn_fsync c" "icbinn_prot_fsync_1 c" for c :: "'c CLIENT"
  by unfold_locales (simp_all add: client_defs errno_result_def split: errno_call_splits)

interpretation mkdir_c: errno_call "icbinn_mkdir c" "icbinn_prot_mkdir_1 c" for c :: "'c CLIENT"
  by unfold_locales (simp_all add: client_defs errno_result_def split: errno_call_splits)

interpretation rmdir_c: errno_call "icbinn_rmdir c" "icbinn_prot_rmdir_1 c" for c :: "'c CLIENT"
  by unfold_locales (simp_all add: client_defs errno_result_def split: errno_call_splits)

interpretation unlink_c: errno_call "icbinn_unlink c" "icbinn_prot_unlink_1 c" for c :: "'c CLIENT"
  by unfold_locales (simp_all add: client_defs errno_result_def split: errno_call_splits)

interpretation lock_c: errno_call "\<lambda>a. icbinn_lock c (la_fd a) (la_type a)" "icbinn_prot_lock_1 c"
  for c :: "'c CLIENT"
  by unfold_locales (simp_all add: client_defs errno_result_def split: errno_call_splits)

interpretation rename_c: errno_call "\<lambda>a. icbinn_rename c (rna_from a) (rna_to a)" "icbinn_prot_rename_1 c"
  for c :: "'c CLIENT"
  by unfold_locales (simp_all add: client_defs errno_result_def split: errno_call_splits)

interpretation symlink_c: errno_call "\<lambda>a. icbinn_symlink c (sla_oldpath a) (sla_newpath a)"
  "icbinn_prot_symlink_1 c" for c :: "'c CLIENT"
  by unfold_locales (simp_all add: client_defs errno_result_def split: errno_call_splits)

interpretation ftruncate_c: errno_call "\<lambda>a. icbinn_ftruncate c (fta_fd a) (fta_length a)"
  "icbinn_prot_ftruncate_1 c" for c :: "'c CLIENT"
  by unfold_locales (simp_all add: client_defs errno_result_def split: errno_call_splits)

section \<open>Where a transfer writes\<close>

text \<open>
  The state of a transfer into \<open>buf0\<close> that may use its first \<open>m\<close> bytes, \<open>k\<close> of them still to come.
\<close>

definition writes_below :: "byte list \<Rightarrow> nat \<Rightarrow> nat \<Rightarrow> byte list \<Rightarrow> nat \<Rightarrow> bool" where
  "writes_below buf0 m k buf pos \<longleftrightarrow>
     length buf = length buf0 \<and> drop m buf = drop m buf0 \<and> pos + k \<le> m \<and> m \<le> length buf0"

lemma writes_below_mem_write:
  "writes_below buf0 m k buf pos \<Longrightarrow> length bs \<le> k \<Longrightarrow> writes_below buf0 m k (mem_write buf pos bs) pos"
  by (simp add: writes_below_def)

lemma writes_below_advance:
  "writes_below buf0 m k buf pos \<Longrightarrow> n \<le> k \<Longrightarrow> writes_below buf0 m (k - n) buf (pos + n)"
  by (simp add: writes_below_def)

lemma pread_worker_writes_below:
  assumes "writes_below buf0 m k buf pos" and "unat n \<le> k"
    and "icbinn_pread_worker c fd buf pos n offset w = (r, buf', w')"
  shows "writes_below buf0 m k buf' pos"
  using assms
  by (auto simp: icbinn_pread_worker_def intro: writes_below_mem_write
      split: prod.splits option.splits icbinn_prot_preadres.splits if_splits)

lemma rand_worker_writes_below:
  assumes "writes_below buf0 m k buf pos" and "unat n \<le> k"
    and "icbinn_rand_worker c src buf pos n w = (r, buf', w')"
  shows "writes_below buf0 m k buf' pos"
  using assms
  by (auto simp: icbinn_rand_worker_def intro: writes_below_mem_write
      split: prod.splits option.splits icbinn_prot_randres.splits if_splits)

lemma pread_loop_writes_below:
  assumes "writes_below buf0 m (unat count) buf pos"
    and "icbinn_pread_loop c fd count rv (buf, pos, offset, w) = (r, buf', pos', offset', w')"
  shows "\<exists>k. writes_below buf0 m k buf' pos'"
proof -
  define J :: "nat \<Rightarrow> byte list \<times> nat \<times> u64 \<times> 'a \<Rightarrow> bool" where
    "J = (\<lambda>k (b, p, _, _). writes_below buf0 m k b p)"
  have "\<exists>k. J k (snd (icbinn_pread_loop c fd count rv (buf, pos, offset, w)))"
  proof (rule pread_t.loop_keeps)
    show "J k (snd (pread_call c fd n x))" if "unat n \<le> k" "J k x" for n k x
      using that
      by (auto simp: J_def pread_call_def intro: pread_worker_writes_below split: prod.splits)
    show "J (k - unat n) (pread_advance n x)" if "unat n \<le> k" "J k x" for n k x
      using that by (auto simp: J_def pread_advance_def intro: writes_below_advance split: prod.splits)
    show "J (unat count) (buf, pos, offset, w)" using assms(1) by (simp add: J_def)
  qed
  then show ?thesis using assms(2) by (simp add: J_def)
qed

lemma rand_loop_writes_below:
  assumes "writes_below buf0 m (unat count) buf pos"
    and "icbinn_rand_loop c src count rv (buf, pos, w) = (r, buf', pos', w')"
  shows "\<exists>k. writes_below buf0 m k buf' pos'"
proof -
  define J :: "nat \<Rightarrow> byte list \<times> nat \<times> 'a \<Rightarrow> bool" where
    "J = (\<lambda>k (b, p, _). writes_below buf0 m k b p)"
  have "\<exists>k. J k (snd (icbinn_rand_loop c src count rv (buf, pos, w)))"
  proof (rule rand_t.loop_keeps)
    show "J k (snd (rand_call c src n x))" if "unat n \<le> k" "J k x" for n k x
      using that
      by (auto simp: J_def rand_call_def intro: rand_worker_writes_below split: prod.splits)
    show "J (k - unat n) (rand_advance n x)" if "unat n \<le> k" "J k x" for n k x
      using that by (auto simp: J_def rand_advance_def intro: writes_below_advance split: prod.splits)
    show "J (unat count) (buf, pos, w)" using assms(1) by (simp add: J_def)
  qed
  then show ?thesis using assms(2) by (simp add: J_def)
qed

lemma writes_below_start: "unat count \<le> length buf \<Longrightarrow> writes_below buf (unat count) (unat count) buf 0"
  by (simp add: writes_below_def)

lemma pread_writes_below:
  assumes "unat count \<le> length buf" and "icbinn_pread c fd buf count offset w = (r, buf', w')"
  shows "length buf' = length buf \<and> drop (unat count) buf' = drop (unat count) buf"
  using assms pread_loop_writes_below [OF writes_below_start [OF assms(1)]]
  by (force simp: icbinn_pread_def writes_below_def split: prod.splits)

lemma rand_writes_below:
  assumes "unat count \<le> length buf" and "icbinn_rand c src buf count w = (r, buf', w')"
  shows "length buf' = length buf \<and> drop (unat count) buf' = drop (unat count) buf"
  using assms rand_loop_writes_below [OF writes_below_start [OF assms(1)]]
  by (force simp: icbinn_rand_def writes_below_def split: prod.splits)

section \<open>A server that answers without regard to the question\<close>

text \<open>The server of the examples: it sends more than it was asked for and invents error codes.\<close>

definition bad :: "'a \<Rightarrow> unit \<Rightarrow> icbinn_prot_errnostat option \<times> unit" where
  "bad a w = (Some (ErrnoERROR (- 5)), w)"

definition babbler :: "unit CLIENT" where
  "babbler =
     \<lparr>icbinn_prot_null_1 = (\<lambda>w. (True, w)),
      icbinn_prot_readdir_1 =
        (\<lambda>_ w. (Some (ReaddirOK (replicate 2 \<lparr>en_name = ''x'', en_type = 7\<rparr>) False), w)),
      icbinn_prot_stat_1 = (\<lambda>_ w. (Some (StatOK \<lparr>sr_size = 1, sr_type = 7\<rparr>), w)),
      icbinn_prot_open_1 = (\<lambda>_ w. (Some (OpenERROR (- 5)), w)),
      icbinn_prot_lock_1 = bad,
      icbinn_prot_pread_1 =
        (\<lambda>a w. (Some (if pra_count a = 1 then PreadERROR (- 5) else PreadOK [6, 6, 6]), w)),
      icbinn_prot_pwrite_1 = bad, icbinn_prot_close_1 = bad, icbinn_prot_mkdir_1 = bad,
      icbinn_prot_rmdir_1 = bad, icbinn_prot_rename_1 = bad, icbinn_prot_unlink_1 = bad,
      icbinn_prot_ftruncate_1 = bad,
      icbinn_prot_rand_1 = (\<lambda>_ w. (Some (RandOK [6, 6, 6]), w)),
      icbinn_prot_fallocate_1 = bad, icbinn_prot_symlink_1 = bad,
      icbinn_prot_readlink_1 = (\<lambda>_ w. (Some (ReadlinkOK [6, 6, 6]), w)),
      icbinn_prot_statfs_1 = (\<lambda>_ w. (Some (StatfsERROR (- 5)), w)),
      icbinn_prot_fsync_1 = bad\<rparr>"

text \<open>
  C13: memory safety of \<open>icbinn_pread\<close> against any server: whatever the replies hold, the call
  writes only into the first \<open>count\<close> bytes of the caller's buffer.
\<close>

theorem pread_in_buffer:
  assumes "unat count \<le> length buf"
  shows "case icbinn_pread c fd buf count offset w of (r, buf', w') \<Rightarrow>
    length buf' = length buf \<and> drop (unat count) buf' = drop (unat count) buf"
  using pread_writes_below [OF assms, of c fd offset w] by (simp split: prod.split)

theorem pread_in_buffer_witness:
  "case icbinn_pread babbler 3 [0, 0, 5] 2 0 () of (r, buf', w') \<Rightarrow> length buf' = 3 \<and> drop 2 buf' = [5]"
  using pread_in_buffer [of 2 "[0, 0, 5]" babbler 3 0 "()"] by (simp split: prod.splits)

text \<open>
  C14: the same for \<open>icbinn_rand\<close>; moreover it never reports more bytes than it was asked for.
\<close>

theorem rand_in_buffer:
  assumes "unat count \<le> length buf"
  shows "case icbinn_rand c src buf count w of (r, buf', w') \<Rightarrow>
    length buf' = length buf \<and> drop (unat count) buf' = drop (unat count) buf \<and> r \<le> uint count"
  using rand_writes_below [OF assms, of c src w] rand_t.loop_bounds [of 0 c src count "(buf, 0, w)"]
  by (auto simp: icbinn_rand_def split: prod.splits)

theorem rand_in_buffer_witness:
  "case icbinn_rand babbler 0 [0, 0, 5] 2 () of (r, buf', w') \<Rightarrow>
     length buf' = 3 \<and> drop 2 buf' = [5] \<and> r \<le> 2"
  using rand_in_buffer [of 2 "[0, 0, 5]" babbler 0 "()"] by (simp split: prod.splits)

text \<open>
  C15: \<open>icbinn_readlink\<close> against any server: it writes only into the first \<open>bufsz\<close> bytes, and a
  result that is not an error is the number of bytes it put there.
\<close>

theorem readlink_in_buffer:
  assumes "unat bufsz \<le> length buf"
  shows "case icbinn_readlink c (Some p) (Some buf) bufsz w of (r, buf', w') \<Rightarrow>
    \<exists>b. buf' = Some b \<and> length b = length buf \<and> drop (unat bufsz) b = drop (unat bufsz) buf \<and>
      (fst (icbinn_prot_readlink_1 c \<lparr>rla_path = p, rla_bufsz = bufsz\<rparr> w) =
         Some (ReadlinkOK (take (nat r) b)) \<or> b = buf)"
  using assms
  by (auto simp: icbinn_readlink_def split: prod.split option.split icbinn_prot_readlinkres.split)

theorem readlink_in_buffer_witness:
  "case icbinn_readlink babbler (Some ''l'') (Some [0, 0, 5]) 2 () of (r, buf', w') \<Rightarrow>
     \<exists>b. buf' = Some b \<and> length b = 3 \<and> drop 2 b = [5]"
  using readlink_in_buffer [of 2 "[0, 0, 5]" babbler "''l''" "()"] by (auto split: prod.splits)

section \<open>Where the caller has to trust the server\<close>

lemma copy_entries_eq:
  "n \<le> length buf \<Longrightarrow> copy_entries es n buf =
     (if n + length es \<le> length buf
      then Some (n + length es, mem_write buf n (map dirent_of_entry es)) else None)"
proof (induction es arbitrary: n buf)
  case (Cons e es)
  have "mem_write (buf[n := x]) (Suc n) xs = mem_write buf n (x # xs)" if "n < length buf" for x xs
    using that by (simp add: mem_write_def take_Suc_conv_app_nth drop_update_cancel)
  then show ?case using Cons by auto
qed simp

text \<open>
  C34: \<open>icbinn_readdir\<close> writes behind the caller's array exactly when the reply has more entries than
  the array: the call does not compare the reply with the \<open>count\<close> it asked for.
\<close>

theorem readdir_overflow_iff:
  "icbinn_readdir c dir offset count buf w = Fault \<longleftrightarrow>
     (\<exists>es eof. fst (icbinn_prot_readdir_1 c \<lparr>ra_dir = dir, ra_offset = ucast offset, ra_count = ucast count\<rparr> w) =
        Some (ReaddirOK es eof) \<and> length buf < length es)"
  by (auto simp: icbinn_readdir_def copy_entries_eq
      split: prod.splits option.splits icbinn_prot_readdirres.splits)

text \<open>
  An error code is passed on with its sign changed and without a check, so a server can make
  \<open>icbinn_pread\<close> report more bytes than were asked for.
\<close>

theorem pread_trusts_errno:
  "\<exists>(c :: unit CLIENT) fd buf count offset w. unat count \<le> length buf \<and>
     uint count < fst (icbinn_pread c fd buf count offset w)"
proof -
  have "icbinn_pread babbler 3 [0] 1 0 () = (5, [0], ())"
    by (simp add: icbinn_pread_def icbinn_pread_loop.simps icbinn_pread_worker_def chunk_def
        babbler_def Let_def)
  moreover have "unat (1 :: u64) \<le> length [0 :: byte] \<and> uint (1 :: u64) < 5" by simp
  ultimately show ?thesis by (metis fst_conv)
qed

end
