(* ===== verification/Session.thy ===== *)
theory Session
  imports Server_Props Client_Props
begin

text \<open>
  The client library over a connection to the server. \<open>server_CLIENT os\<close> is the stub record of a
  connection that delivers each call to the server process once and brings its reply back, which
  is what ONC RPC over a stream does while both ends live. A call whose arguments exceed the
  protocol's bounds is not sent, and a reply that exceeds them does not arrive; in both cases the
  stub fails. The state of the connection is the server process, or None once that process has
  exited: from then on every call fails.
\<close>

definition serve :: "('a \<Rightarrow> bool) \<Rightarrow> ('r \<Rightarrow> bool) \<Rightarrow> ('a \<Rightarrow> 'w server \<Rightarrow> 'r \<times> 'w server) \<Rightarrow> 'a \<Rightarrow>
    'w server option \<Rightarrow> 'r option \<times> 'w server option" where
  "serve encodes res_encodes h a conn =
     (case conn of
        None \<Rightarrow> (None, None)
      | Some s \<Rightarrow>
          if encodes a
          then (if res_encodes (fst (h a s)) then Some (fst (h a s)) else None, Some (snd (h a s)))
          else (None, Some s))"

definition serve_outcome :: "('a \<Rightarrow> bool) \<Rightarrow> ('r \<Rightarrow> bool) \<Rightarrow> ('a \<Rightarrow> 'w server \<Rightarrow> ('r, 'w server) outcome) \<Rightarrow>
    'a \<Rightarrow> 'w server option \<Rightarrow> 'r option \<times> 'w server option" where
  "serve_outcome encodes res_encodes h a conn =
     (case conn of
        None \<Rightarrow> (None, None)
      | Some s \<Rightarrow>
          if encodes a
          then (case h a s of
                  Ret r s' \<Rightarrow> (if res_encodes r then Some r else None, Some s')
                | Exit _ _ \<Rightarrow> (None, None)
                | Fault \<Rightarrow> (None, None))
          else (None, Some s))"

definition any :: "'a \<Rightarrow> bool" where
  "any x \<longleftrightarrow> True"

definition server_CLIENT :: "'w os \<Rightarrow> 'w server option CLIENT" where
  "server_CLIENT os =
     \<lparr>icbinn_prot_null_1 = (\<lambda>conn. (conn \<noteq> None, map_option icbinn_prot_null_1_svc conn)),
      icbinn_prot_readdir_1 =
        serve_outcome (\<lambda>a. path_encodes (ra_dir a)) readdirres_encodes (icbinn_prot_readdir_1_svc os),
      icbinn_prot_stat_1 = serve path_encodes any (icbinn_prot_stat_1_svc os),
      icbinn_prot_open_1 = serve (\<lambda>a. path_encodes (oa_name a)) any (icbinn_prot_open_1_svc os),
      icbinn_prot_lock_1 = serve any any (icbinn_prot_lock_1_svc os),
      icbinn_prot_pread_1 = serve any preadres_encodes (icbinn_prot_pread_1_svc os),
      icbinn_prot_pwrite_1 = serve (\<lambda>a. data_encodes (pwa_data a)) any (icbinn_prot_pwrite_1_svc os),
      icbinn_prot_close_1 = serve any any (icbinn_prot_close_1_svc os),
      icbinn_prot_mkdir_1 = serve path_encodes any (icbinn_prot_mkdir_1_svc os),
      icbinn_prot_rmdir_1 = serve path_encodes any (icbinn_prot_rmdir_1_svc os),
      icbinn_prot_rename_1 =
        serve (\<lambda>a. path_encodes (rna_from a) \<and> path_encodes (rna_to a)) any (icbinn_prot_rename_1_svc os),
      icbinn_prot_unlink_1 = serve path_encodes any (icbinn_prot_unlink_1_svc os),
      icbinn_prot_ftruncate_1 = serve any any (icbinn_prot_ftruncate_1_svc os),
      icbinn_prot_rand_1 = serve any randres_encodes (icbinn_prot_rand_1_svc os),
      icbinn_prot_fallocate_1 = serve any any (icbinn_prot_fallocate_1_svc os),
      icbinn_prot_symlink_1 =
        serve (\<lambda>a. path_encodes (sla_oldpath a) \<and> path_encodes (sla_newpath a)) any
          (icbinn_prot_symlink_1_svc os),
      icbinn_prot_readlink_1 =
        serve (\<lambda>a. path_encodes (rla_path a)) readlinkres_encodes (icbinn_prot_readlink_1_svc os),
      icbinn_prot_statfs_1 = serve path_encodes any (icbinn_prot_statfs_1_svc os),
      icbinn_prot_fsync_1 = serve any any (icbinn_prot_fsync_1_svc os)\<rparr>"

lemma any_True [simp]: "any x"
  by (simp add: any_def)

lemma serve_simps [simp]:
  "serve encodes res_encodes h a None = (None, None)"
  "\<not> encodes a \<Longrightarrow> serve encodes res_encodes h a (Some s) = (None, Some s)"
  "encodes a \<Longrightarrow> serve encodes res_encodes h a (Some s) =
     (if res_encodes (fst (h a s)) then Some (fst (h a s)) else None, Some (snd (h a s)))"
  by (simp_all add: serve_def)

lemma serve_reply: "fst (serve encodes res_encodes h a conn) = Some r \<Longrightarrow> \<exists>s. conn = Some s \<and> fst (h a s) = r"
  by (auto simp: serve_def split: option.splits if_splits)

lemma server_CLIENT_stubs [simp]:
  "icbinn_prot_null_1 (server_CLIENT os) =
     (\<lambda>conn. (conn \<noteq> None, map_option icbinn_prot_null_1_svc conn))"
  "icbinn_prot_readdir_1 (server_CLIENT os) =
     serve_outcome (\<lambda>a. path_encodes (ra_dir a)) readdirres_encodes (icbinn_prot_readdir_1_svc os)"
  "icbinn_prot_stat_1 (server_CLIENT os) =
     serve path_encodes any (icbinn_prot_stat_1_svc os)"
  "icbinn_prot_open_1 (server_CLIENT os) =
     serve (\<lambda>a. path_encodes (oa_name a)) any (icbinn_prot_open_1_svc os)"
  "icbinn_prot_lock_1 (server_CLIENT os) =
     serve any any (icbinn_prot_lock_1_svc os)"
  "icbinn_prot_pread_1 (server_CLIENT os) =
     serve any preadres_encodes (icbinn_prot_pread_1_svc os)"
  "icbinn_prot_pwrite_1 (server_CLIENT os) =
     serve (\<lambda>a. data_encodes (pwa_data a)) any (icbinn_prot_pwrite_1_svc os)"
  "icbinn_prot_close_1 (server_CLIENT os) =
     serve any any (icbinn_prot_close_1_svc os)"
  "icbinn_prot_mkdir_1 (server_CLIENT os) =
     serve path_encodes any (icbinn_prot_mkdir_1_svc os)"
  "icbinn_prot_rmdir_1 (server_CLIENT os) =
     serve path_encodes any (icbinn_prot_rmdir_1_svc os)"
  "icbinn_prot_rename_1 (server_CLIENT os) =
     serve (\<lambda>a. path_encodes (rna_from a) \<and> path_encodes (rna_to a)) any (icbinn_prot_rename_1_svc os)"
  "icbinn_prot_unlink_1 (server_CLIENT os) =
     serve path_encodes any (icbinn_prot_unlink_1_svc os)"
  "icbinn_prot_ftruncate_1 (server_CLIENT os) =
     serve any any (icbinn_prot_ftruncate_1_svc os)"
  "icbinn_prot_rand_1 (server_CLIENT os) =
     serve any randres_encodes (icbinn_prot_rand_1_svc os)"
  "icbinn_prot_fallocate_1 (server_CLIENT os) =
     serve any any (icbinn_prot_fallocate_1_svc os)"
  "icbinn_prot_symlink_1 (server_CLIENT os) =
     serve (\<lambda>a. path_encodes (sla_oldpath a) \<and> path_encodes (sla_newpath a)) any (icbinn_prot_symlink_1_svc os)"
  "icbinn_prot_readlink_1 (server_CLIENT os) =
     serve (\<lambda>a. path_encodes (rla_path a)) readlinkres_encodes (icbinn_prot_readlink_1_svc os)"
  "icbinn_prot_statfs_1 (server_CLIENT os) =
     serve path_encodes any (icbinn_prot_statfs_1_svc os)"
  "icbinn_prot_fsync_1 (server_CLIENT os) =
     serve any any (icbinn_prot_fsync_1_svc os)"
  by (simp_all add: server_CLIENT_def)

section \<open>Remote status calls are the local system calls\<close>

definition sys_result :: "errno + 'b \<Rightarrow> int" where
  "sys_result r = (case r of Inl e \<Rightarrow> - int e | Inr _ \<Rightarrow> 0)"

lemma errno_result_reply [simp]: "errno_result (Some (errno_reply r)) = sys_result r"
  by (simp add: errno_result_def errno_reply_def sys_result_def split: sum.split)

text \<open>
  What the caller of a status call and the file system see of it, and what they should see: a
  call that cannot be sent gives -1, a refused one the errno of the refusal, both leave everything
  alone, and anything else is the local system call.
\<close>

definition observe :: "int \<times> 'w server option \<Rightarrow> int \<times> 'w option" where
  "observe r = (fst r, map_option world (snd r))"

definition local_call :: "bool \<Rightarrow> bool \<Rightarrow> errno \<Rightarrow> (errno + 'b) \<times> 'w \<Rightarrow> 'w \<Rightarrow> int \<times> 'w option" where
  "local_call sent accepted refusal effect w =
     (if \<not> sent then (-1, Some w)
      else if accepted then (sys_result (fst effect), Some (snd effect))
      else (- int refusal, Some w))"

locale remote_op =
  handler: errno_handler svc accepts refusal syscall + client: errno_call call stub
  for svc :: "'a \<Rightarrow> 'w server \<Rightarrow> icbinn_prot_errnostat \<times> 'w server"
    and accepts refusal
    and syscall :: "'a \<Rightarrow> 'w \<Rightarrow> (errno + 'b) \<times> 'w"
    and call :: "'a \<Rightarrow> 'w server option \<Rightarrow> int \<times> 'w server option"
    and stub +
  fixes encodes :: "'a \<Rightarrow> bool"
  assumes wired: "stub a conn = serve encodes any svc a conn"
begin

lemma remote_refines:
  "observe (call a (Some s)) = local_call (encodes a) (accepts a) refusal (syscall a (world s)) (world s)"
proof (cases "encodes a")
  case sent: True
  have "fst (call a (Some s)) = errno_result (Some (fst (svc a s)))"
    "snd (call a (Some s)) = Some (snd (svc a s))"
    using sent by (simp_all add: client.call_result client.call_state wired)
  then show ?thesis
    using handler.refused [of a s] handler.performed [of a s] sent
    by (cases "accepts a") (simp_all add: observe_def local_call_def errno_result_def [of "Some (ErrnoERROR _)"])
next
  case False
  then show ?thesis
    by (simp add: observe_def local_call_def client.call_result client.call_state wired errno_result_def)
qed

lemma remote_statics:
  "\<exists>s'. snd (call a (Some s)) = Some s' \<and> statics_kept s s'"
  by (cases "encodes a") (simp_all add: client.call_state wired handler.statics)

lemma dead_server: "call a None = (-1, None)"
  by (rule prod_eqI) (simp_all add: client.call_result client.call_state wired errno_result_def)

end

interpretation lock_r: remote_op "icbinn_prot_lock_1_svc os" "\<lambda>a. la_type a \<in> {0, 1, 2}" EINVAL
    "\<lambda>a. os_setlk os (la_fd a) (setlk_type (la_type a))"
    "\<lambda>a. icbinn_lock (server_CLIENT os) (la_fd a) (la_type a)" "icbinn_prot_lock_1 (server_CLIENT os)"
    any for os :: "'w os"
  by unfold_locales simp

interpretation symlink_r: remote_op "icbinn_prot_symlink_1_svc os"
    "\<lambda>a. path_ok (sla_oldpath a) \<and> path_ok (sla_newpath a)" ENOENT
    "\<lambda>a. os_symlink os (sla_oldpath a) (sla_newpath a)"
    "\<lambda>a. icbinn_symlink (server_CLIENT os) (sla_oldpath a) (sla_newpath a)"
    "icbinn_prot_symlink_1 (server_CLIENT os)"
    "\<lambda>a. path_encodes (sla_oldpath a) \<and> path_encodes (sla_newpath a)" for os :: "'w os"
  by unfold_locales simp

interpretation ftruncate_r: remote_op "icbinn_prot_ftruncate_1_svc os" "\<lambda>_. True" 0
    "\<lambda>a. os_ftruncate os (fta_fd a) (sint (fta_length a))"
    "\<lambda>a. icbinn_ftruncate (server_CLIENT os) (fta_fd a) (fta_length a)"
    "icbinn_prot_ftruncate_1 (server_CLIENT os)"
    any for os :: "'w os"
  by unfold_locales simp

interpretation close_r: remote_op "icbinn_prot_close_1_svc os" "\<lambda>_. True" 0 "os_close os"
    "icbinn_close (server_CLIENT os)" "icbinn_prot_close_1 (server_CLIENT os)"
    any for os :: "'w os"
  by unfold_locales simp

interpretation fsync_r: remote_op "icbinn_prot_fsync_1_svc os" "\<lambda>_. True" 0 "os_fsync os"
    "icbinn_fsync (server_CLIENT os)" "icbinn_prot_fsync_1 (server_CLIENT os)"
    any for os :: "'w os"
  by unfold_locales simp

interpretation mkdir_r: remote_op "icbinn_prot_mkdir_1_svc os" path_ok ENOENT
    "\<lambda>p. os_mkdir os p S_IRWXU"
    "icbinn_mkdir (server_CLIENT os)" "icbinn_prot_mkdir_1 (server_CLIENT os)"
    path_encodes for os :: "'w os"
  by unfold_locales simp

interpretation rmdir_r: remote_op "icbinn_prot_rmdir_1_svc os" path_ok ENOENT "os_rmdir os"
    "icbinn_rmdir (server_CLIENT os)" "icbinn_prot_rmdir_1 (server_CLIENT os)"
    path_encodes for os :: "'w os"
  by unfold_locales simp

interpretation unlink_r: remote_op "icbinn_prot_unlink_1_svc os" path_ok ENOENT "os_unlink os"
    "icbinn_unlink (server_CLIENT os)" "icbinn_prot_unlink_1 (server_CLIENT os)"
    path_encodes for os :: "'w os"
  by unfold_locales simp

interpretation rename_r: remote_op "icbinn_prot_rename_1_svc os"
    "\<lambda>a. path_ok (rna_from a) \<and> path_ok (rna_to a)" ENOENT
    "\<lambda>a. os_rename os (rna_from a) (rna_to a)"
    "\<lambda>a. icbinn_rename (server_CLIENT os) (rna_from a) (rna_to a)"
    "icbinn_prot_rename_1 (server_CLIENT os)"
    "\<lambda>a. path_encodes (rna_from a) \<and> path_encodes (rna_to a)" for os :: "'w os"
  by unfold_locales simp

lemma type_of_server [simp]: "type_of_prot (set_icbinn_prot_type m) = Some (set_icbinn_prot_type m)"
  by (simp add: type_of_prot_def set_icbinn_prot_type_def)

section \<open>What the calls do on the server\<close>

text \<open>
  The path calls of the library refine the local system calls. What \<open>icbinn_mkdir\<close>,
  \<open>icbinn_rmdir\<close>, \<open>icbinn_unlink\<close>, \<open>icbinn_rename\<close> and \<open>icbinn_symlink\<close> return and do to the server's
  file system is what the system call of that name returns (0 or the negated errno) and does,
  unless a path is too long: one of MAXPATHLEN bytes is refused with -ENOENT, a longer one cannot be
  sent and gives -1, and both do nothing.
\<close>

theorem remote_path_calls:
  "observe (icbinn_mkdir (server_CLIENT os) p (Some s)) =
     local_call (path_encodes p) (path_ok p) ENOENT (os_mkdir os p S_IRWXU (world s)) (world s) \<and>
   observe (icbinn_rmdir (server_CLIENT os) p (Some s)) =
     local_call (path_encodes p) (path_ok p) ENOENT (os_rmdir os p (world s)) (world s) \<and>
   observe (icbinn_unlink (server_CLIENT os) p (Some s)) =
     local_call (path_encodes p) (path_ok p) ENOENT (os_unlink os p (world s)) (world s) \<and>
   observe (icbinn_rename (server_CLIENT os) p q (Some s)) =
     local_call (path_encodes p \<and> path_encodes q) (path_ok p \<and> path_ok q) ENOENT (os_rename os p q (world s)) (world s) \<and>
   observe (icbinn_symlink (server_CLIENT os) p q (Some s)) =
     local_call (path_encodes p \<and> path_encodes q) (path_ok p \<and> path_ok q) ENOENT (os_symlink os p q (world s)) (world s)"
  using rename_r.remote_refines [of os "\<lparr>rna_from = p, rna_to = q\<rparr>" s]
    symlink_r.remote_refines [of os "\<lparr>sla_oldpath = p, sla_newpath = q\<rparr>" s]
  by (simp add: mkdir_r.remote_refines rmdir_r.remote_refines unlink_r.remote_refines)

text \<open>
  The same for the calls on a descriptor: \<open>icbinn_close\<close>, \<open>icbinn_fsync\<close>, \<open>icbinn_ftruncate\<close> (with
  the length read as a signed number) and \<open>icbinn_lock\<close>, where a lock type the protocol does not
  know gives -EINVAL and does nothing.
\<close>

theorem remote_fd_calls:
  "observe (icbinn_close (server_CLIENT os) fd (Some s)) =
     local_call True True 0 (os_close os fd (world s)) (world s) \<and>
   observe (icbinn_fsync (server_CLIENT os) fd (Some s)) =
     local_call True True 0 (os_fsync os fd (world s)) (world s) \<and>
   observe (icbinn_ftruncate (server_CLIENT os) fd len (Some s)) =
     local_call True True 0 (os_ftruncate os fd (sint len) (world s)) (world s) \<and>
   observe (icbinn_lock (server_CLIENT os) fd t (Some s)) =
     local_call True (t \<in> {0, 1, 2}) EINVAL (os_setlk os fd t (world s)) (world s)"
proof -
  have "setlk_type t = t" if "t \<in> {0, 1, 2}"
    using that by (auto simp: setlk_type_def)
  then have "local_call True (t \<in> {0, 1, 2}) EINVAL (os_setlk os fd (setlk_type t) (world s)) (world s) =
      local_call True (t \<in> {0, 1, 2}) EINVAL (os_setlk os fd t (world s)) (world s)"
    by (auto simp: local_call_def)
  then show ?thesis
    using ftruncate_r.remote_refines [of os "\<lparr>fta_fd = fd, fta_length = len\<rparr>" s]
      lock_r.remote_refines [of os "\<lparr>la_fd = fd, la_type = t\<rparr>" s]
    by (simp add: close_r.remote_refines fsync_r.remote_refines)
qed

text \<open>
  \<open>icbinn_open\<close> opens the server's file with the protocol's bits of \<open>mode\<close> as flags and the mode
  bits 0600; it returns the server's descriptor or the negated errno.
\<close>

theorem remote_open:
  "observe (icbinn_open (server_CLIENT os) p mode (Some s)) =
     (if \<not> path_encodes p then (- 1, Some (world s))
      else if path_ok p
      then (case os_open os p (mode AND (O_WRONLY OR O_RDWR OR O_CREAT OR O_TRUNC))
                   (S_IRUSR OR S_IWUSR) (world s) of
              (Inl e, w) \<Rightarrow> (- int e, Some w)
            | (Inr fd, w) \<Rightarrow> (fd, Some w))
      else (- int ENOENT, Some (world s)))"
  by (simp add: observe_def icbinn_open_def icbinn_prot_open_1_svc_def get_pathname_len_cases
      open_flags_eq split: prod.split sum.split)

text \<open>
  \<open>icbinn_stat\<close> delivers the size and the kind of the file that \<open>lstat\<close> reports on the server,
  or its negated errno and an untouched structure; the kind is never the unknown value -1.
\<close>

theorem remote_stat:
  "\<exists>s'. icbinn_stat (server_CLIENT os) (Some p) (Some b) (Some s) =
     (if \<not> path_encodes p then (- 1, Some b, Some s')
      else if path_ok p
      then (case os_lstat os p (world s) of
              Inl e \<Rightarrow> (- int e, Some b, Some s')
            | Inr st \<Rightarrow>
                (0, Some (b\<lparr>is_type := set_icbinn_prot_type (st_mode st),
                            is_size := word_of_int (st_size st)\<rparr>), Some s'))
      else (- int ENOENT, Some b, Some s')) \<and> world s' = world s"
  by (cases "path_encodes p")
    (auto simp: icbinn_stat_def icbinn_prot_stat_1_svc_def get_pathname_len_cases split: sum.split)

text \<open>
  Once the server process is gone, every status call returns -1 and reports nothing else.
\<close>

theorem dead_server_reports:
  "icbinn_mkdir (server_CLIENT os) p None = (-1, None) \<and>
   icbinn_unlink (server_CLIENT os) p None = (-1, None) \<and>
   icbinn_close (server_CLIENT os) fd None = (-1, None) \<and>
   icbinn_open (server_CLIENT os) p mode None = (-1, None) \<and>
   icbinn_null (server_CLIENT os) None = (-1, None)"
  by (simp add: mkdir_r.dead_server unlink_r.dead_server close_r.dead_server icbinn_open_def
      icbinn_null_def)

text \<open>
  C36: \<open>icbinn_fallocate\<close> reports a failure of the server's \<open>fallocate\<close> as the positive errno, not as
  the negated one that every other call of the library returns.
\<close>

theorem fallocate_sign:
  "fst (icbinn_fallocate (server_CLIENT os) fd mode offset len (Some s)) =
     - sys_result (fst (os_fallocate os fd mode (sint offset) (sint len) (world s)))"
  by (simp add: icbinn_fallocate_def fallocate_h.performed errno_reply_def sys_result_def
      split: sum.split)

end
