(* ===== verification/Session_IO.thy ===== *)
theory Session_IO
  imports Session
begin

text \<open>
  Reading and writing files through the client library and the server: a transfer of any length,
  cut into chunks by the client and served chunk by chunk, does what one \<open>pread\<close> or \<open>pwrite\<close> of
  that length does on the server's file.
\<close>

section \<open>The server's errors are errno values\<close>

lemma pread_svc_errno:
  "fst (icbinn_prot_pread_1_svc os a s) = PreadERROR e \<Longrightarrow> 0 \<le> e"
  by (auto simp: icbinn_prot_pread_1_svc_def Let_def split: if_splits sum.splits)

interpretation served: errno_client "server_CLIENT os" for os :: "'w os"
proof
  fix a :: icbinn_prot_preadargs and w :: "'w server option" and e
  assume "fst (icbinn_prot_pread_1 (server_CLIENT os) a w) = Some (PreadERROR e)"
  then show "0 \<le> e" by (auto dest!: serve_reply intro: pread_svc_errno)
next
  fix a :: icbinn_prot_pwriteargs and w :: "'w server option" and e
  assume "fst (icbinn_prot_pwrite_1 (server_CLIENT os) a w) = Some (ErrnoERROR e)"
  then show "0 \<le> e" by (auto dest!: serve_reply intro: pwrite_h.reply_errno_nonneg)
qed

section \<open>Reading\<close>

lemma sint_small:
  assumes "unat (x :: u64) < 2 ^ 63"
  shows "sint x = int (unat x)"
proof -
  have "int (unat x) < int (2 ^ 63)"
    using assms by (rule of_nat_less_iff [THEN iffD2])
  then have "uint x < 2 ^ 63" by simp
  moreover have "- (2 ^ 63) \<le> uint x"
    by (rule minus_le_uint) simp
  ultimately have "signed_take_bit 63 (uint x) = uint x"
    by (simp add: signed_take_bit_int_eq_self_iff)
  then show ?thesis by (simp add: sint_uint)
qed

lemma uint_pos: "count \<noteq> 0 \<Longrightarrow> 0 < uint (count :: u64)"
  by (simp add: less_le uint_0_iff [symmetric])

lemma chunk_le_MAXDATA: "unat (chunk count) \<le> 65536"
  by (simp add: chunk_def word_less_nat_alt)

lemma pread_worker_content:
  assumes "regular_pread os content" and "content fd (world s) = Some bs"
    and "unat offset < 2 ^ 63" and "unat n \<le> 65536"
  defines "d \<equiv> take (unat n) (drop (unat offset) bs)"
  shows "\<exists>s'. icbinn_pread_worker (server_CLIENT os) fd buf pos n offset (Some s) =
      (int (length d), mem_write buf pos d, Some s') \<and> world s' = world s"
proof -
  have "os_pread os fd n (sint offset) (world s) = Inr d"
    using assms(1-3) by (simp add: regular_pread_def sint_small d_def)
  moreover have "\<not> 65536 < n"
    using assms(4) by (simp add: word_less_nat_alt)
  moreover have "length d \<le> unat n" "data_encodes d"
    using assms(4) by (simp_all add: d_def data_encodes_def)
  ultimately show ?thesis
    by (simp add: icbinn_pread_worker_def icbinn_prot_pread_1_svc_def)
qed

lemma word_of_int_length_eq:
  "k \<le> unat (n :: u64) \<Longrightarrow> of_nat k = n \<longleftrightarrow> k = unat n"
  by (auto simp: word_unat_eq_iff)

lemma unat_offset_add:
  "unat (offset :: u64) + unat n < 2 ^ 63 \<Longrightarrow> unat (offset + n) = unat offset + unat n"
  by (simp add: unat_word_ariths)

text \<open>One turn of the loop: it goes on after a whole chunk and stops at the end of the file.\<close>

lemma pread_loop_step:
  fixes count offset :: u64 and pos :: nat
  assumes "regular_pread os content" and "content fd (world s) = Some bs"
    and "unat offset < 2 ^ 63" and "count \<noteq> 0" and "0 \<le> rv"
  defines "n \<equiv> chunk count"
  defines "d \<equiv> take (unat n) (drop (unat offset) bs)"
  shows "\<exists>s1. world s1 = world s \<and>
    icbinn_pread_loop (server_CLIENT os) fd count rv (buf, pos, offset, Some s) =
      (if length d = unat n
       then icbinn_pread_loop (server_CLIENT os) fd (count - n) (rv + int (length d))
              (mem_write buf pos d, pos + unat n, offset + n, Some s1)
       else (rv + int (length d), mem_write buf pos d, pos, offset, Some s1))"
proof -
  obtain s1 where "icbinn_pread_worker (server_CLIENT os) fd buf pos n offset (Some s) =
      (int (length d), mem_write buf pos d, Some s1)" and w1: "world s1 = world s"
    using pread_worker_content [OF assms(1-3) chunk_le_MAXDATA, of buf pos count] by (auto simp: d_def n_def)
  then have call: "pread_call (server_CLIENT os) fd (chunk count) (buf, pos, offset, Some s) =
      (int (length d), mem_write buf pos d, pos, offset, Some s1)"
    by (simp add: pread_call_def n_def)
  have d: "word_of_int (int (length d)) = chunk count \<longleftrightarrow> length d = unat n"
    using word_of_int_length_eq [of "length d" n] by (simp add: d_def n_def)
  show ?thesis
  proof (cases "length d = unat n")
    case True
    then have "0 < int (length d)" using chunk_pos [OF assms(4)] by (simp add: n_def unat_gt_0 del: of_nat_unat)
    then show ?thesis
      using pread_t.loop_full [OF assms(4) call, of rv] d True w1 by (auto simp: pread_advance_def n_def)
  next
    case False
    then show ?thesis
      using pread_t.loop_short [OF assms(4) call, of rv] d assms(5) w1 by auto
  qed
qed

lemma pread_loop_content:
  assumes "regular_pread os content" and "content fd (world s) = Some bs"
    and "unat offset + unat count < 2 ^ 63" and "pos + unat count \<le> length buf" and "0 \<le> rv"
  shows "\<exists>pos' offset' s'. icbinn_pread_loop (server_CLIENT os) fd count rv (buf, pos, offset, Some s) =
      (rv + int (length (take (unat count) (drop (unat offset) bs))),
       mem_write buf pos (take (unat count) (drop (unat offset) bs)), pos', offset', Some s') \<and>
      world s' = world s"
  using assms(2-)
proof (induction count arbitrary: rv buf pos offset s rule: measure_induct_rule [where f = unat])
  case (less count)
  show ?case
  proof (cases "count = 0")
    case True
    then show ?thesis using less.prems by simp
  next
    case False
    let ?n = "chunk count" and ?all = "take (unat count) (drop (unat offset) bs)"
    define d where "d = take (unat ?n) (drop (unat offset) bs)"
    define rest where "rest = take (unat (count - ?n)) (drop (unat (offset + ?n)) bs)"
    have n: "unat ?n \<le> unat count" using chunk_le by (simp add: word_le_nat_alt)
    have off: "unat (offset + ?n) = unat offset + unat ?n"
      using less.prems(2) n by (intro unat_offset_add) simp
    have split: "?all = d @ rest" "length d \<noteq> unat ?n \<Longrightarrow> rest = []"
      using take_drop_split [OF n] by (auto simp: d_def rest_def off unat_sub_chunk)
    obtain s1 where w1: "world s1 = world s" and
      step: "icbinn_pread_loop (server_CLIENT os) fd count rv (buf, pos, offset, Some s) =
        (if length d = unat ?n
         then icbinn_pread_loop (server_CLIENT os) fd (count - ?n) (rv + int (length d))
                (mem_write buf pos d, pos + unat ?n, offset + ?n, Some s1)
         else (rv + int (length d), mem_write buf pos d, pos, offset, Some s1))"
      using pread_loop_step [OF assms(1) less.prems(1) _ False less.prems(4), of offset buf pos] less.prems(2)
      by (auto simp: d_def)
    have "\<exists>pos' offset' s'. icbinn_pread_loop (server_CLIENT os) fd (count - ?n) (rv + int (length d))
        (mem_write buf pos d, pos + unat ?n, offset + ?n, Some s1) =
      (rv + int (length d) + int (length rest), mem_write (mem_write buf pos d) (pos + unat ?n) rest,
       pos', offset', Some s') \<and> world s' = world s1" if "length d = unat ?n"
      unfolding rest_def using less.prems n off that w1
      by (intro less.IH chunk_decreases False) (simp_all add: unat_sub_chunk)
    moreover have "mem_write (mem_write buf pos d) (pos + unat ?n) rest = mem_write buf pos ?all"
      if "length d = unat ?n"
      using mem_write_append [of pos d rest buf] that less.prems(3) n split(1)
      by (simp add: rest_def unat_sub_chunk)
    ultimately show ?thesis
      using step split w1 by (cases "length d = unat ?n") auto
  qed
qed

section \<open>Writing\<close>

lemma sint_chunk: "sint (chunk count) = int (unat (chunk count))"
  using chunk_le_MAXDATA [of count] by (intro sint_small) simp

lemma pwrite_worker_content:
  fixes buf :: "byte list" and pos :: nat and count :: u64
  assumes "regular_pwrite os content" and "content fd (world s) = Some bs"
    and "unat offset < 2 ^ 63"
  defines "d \<equiv> take (unat (chunk count)) (drop pos buf)"
  shows "\<exists>s'. icbinn_pwrite_worker (server_CLIENT os) fd buf pos (chunk count) offset (Some s) =
      (int (unat (chunk count)), Some s') \<and> content fd (world s') = Some (splice (unat offset) d bs)"
proof -
  let ?a = "\<lparr>pwa_fd = fd, pwa_offset = offset, pwa_data = d\<rparr>"
  have len: "length d \<le> 65536"
    using chunk_le_MAXDATA [of count] by (simp add: d_def)
  have "fst (os_pwrite os fd d (sint offset) (world s)) = Inr (length d)"
    "content fd (snd (os_pwrite os fd d (sint offset) (world s))) = Some (splice (unat offset) d bs)"
    using assms(1-3) by (simp_all add: regular_pwrite_def sint_small)
  then have "fst (icbinn_prot_pwrite_1_svc os ?a s) = ErrnoOK"
    "content fd (world (snd (icbinn_prot_pwrite_1_svc os ?a s))) = Some (splice (unat offset) d bs)"
    using len by (simp_all add: pwrite_h.performed errno_reply_def)
  then show ?thesis
    using len by (simp add: icbinn_pwrite_worker_def sint_chunk d_def [symmetric] data_encodes_def)
qed

lemma pwrite_loop_content:
  assumes "regular_pwrite os content" and "content fd (world s) = Some bs"
    and "unat offset + unat count < 2 ^ 63" and "pos + unat count \<le> length buf" and "0 \<le> rv"
  shows "\<exists>pos' offset' s'. icbinn_pwrite_loop (server_CLIENT os) fd buf count rv (pos, offset, Some s) =
      (rv + int (unat count), pos', offset', Some s') \<and>
      content fd (world s') = Some (splice (unat offset) (take (unat count) (drop pos buf)) bs)"
  using assms(2-)
proof (induction count arbitrary: rv pos offset s bs rule: measure_induct_rule [where f = unat])
  case (less count)
  show ?case
  proof (cases "count = 0")
    case True
    then show ?thesis using less.prems by (simp add: splice_def)
  next
    case False
    let ?n = "chunk count"
    define d where "d = take (unat ?n) (drop pos buf)"
    define rest where "rest = take (unat (count - ?n)) (drop (pos + unat ?n) buf)"
    have n: "unat ?n \<le> unat count" using chunk_le by (simp add: word_le_nat_alt)
    obtain s1 where "icbinn_pwrite_worker (server_CLIENT os) fd buf pos ?n offset (Some s) =
        (int (unat ?n), Some s1)" and s1: "content fd (world s1) = Some (splice (unat offset) d bs)"
      using pwrite_worker_content [OF assms(1) less.prems(1), where offset = offset and count = count and pos = pos and buf = buf] less.prems(2)
      by (auto simp: d_def)
    then have call: "pwrite_call (server_CLIENT os) fd buf ?n (pos, offset, Some s) =
        (int (unat ?n), pos, offset, Some s1)"
      by (simp add: pwrite_call_def)
    have off: "unat (offset + ?n) = unat offset + unat ?n"
      using less.prems(2) n by (intro unat_offset_add) simp
    have whole: "take (unat count) (drop pos buf) = d @ rest" and d: "length d = unat ?n"
      using take_drop_split [OF n] less.prems(3) n by (simp_all add: d_def rest_def unat_sub_chunk)
    have "0 < int (unat ?n)"
      using chunk_pos [OF False] by (simp add: unat_gt_0 del: of_nat_unat)
    moreover have "word_of_int (int (unat ?n)) = ?n" by simp
    ultimately have step: "icbinn_pwrite_loop (server_CLIENT os) fd buf count rv (pos, offset, Some s) =
        icbinn_pwrite_loop (server_CLIENT os) fd buf (count - ?n) (rv + int (unat ?n))
          (pos + unat ?n, offset + ?n, Some s1)"
      using pwrite_t.loop_full [OF False call, of rv] by (simp add: pwrite_advance_def)
    have "\<exists>pos' offset' s'. icbinn_pwrite_loop (server_CLIENT os) fd buf (count - ?n)
          (rv + int (unat ?n)) (pos + unat ?n, offset + ?n, Some s1) =
        (rv + int (unat ?n) + int (unat (count - ?n)), pos', offset', Some s') \<and>
        content fd (world s') = Some (splice (unat (offset + ?n)) rest (splice (unat offset) d bs))"
      unfolding rest_def using less.prems n off
      by (intro less.IH chunk_decreases False s1) (simp_all add: unat_sub_chunk)
    moreover have "int (unat ?n) + int (unat (count - ?n)) = int (unat count)"
      using n by (simp only: unat_sub_chunk of_nat_diff)
    ultimately show ?thesis
      by (simp only: step whole off d [symmetric] splice_append add.assoc)
  qed
qed

section \<open>Whole transfers\<close>

lemma pread_content:
  fixes count offset :: u64
  assumes "regular_pread os content" and "content fd (world s) = Some bs"
    and "unat offset + unat count < 2 ^ 63" and "unat count \<le> length buf"
  shows "\<exists>s'. icbinn_pread (server_CLIENT os) fd buf count offset (Some s) =
      (int (length (take (unat count) (drop (unat offset) bs))),
       mem_write buf 0 (take (unat count) (drop (unat offset) bs)), Some s') \<and> world s' = world s"
proof -
  have "\<exists>pos' offset' s'. icbinn_pread_loop (server_CLIENT os) fd count 0 (buf, 0, offset, Some s) =
      (0 + int (length (take (unat count) (drop (unat offset) bs))),
       mem_write buf 0 (take (unat count) (drop (unat offset) bs)), pos', offset', Some s') \<and>
      world s' = world s"
    using assms by (intro pread_loop_content [where content = content]) simp_all
  then show ?thesis by (auto simp: icbinn_pread_def)
qed

lemma pwrite_content:
  fixes count offset :: u64
  assumes "regular_pwrite os content" and "content fd (world s) = Some bs"
    and "unat offset + unat count < 2 ^ 63" and "unat count \<le> length buf"
  shows "\<exists>s'. icbinn_pwrite (server_CLIENT os) fd buf count offset (Some s) = (int (unat count), Some s') \<and>
      content fd (world s') = Some (splice (unat offset) (take (unat count) buf) bs)"
proof -
  have "\<exists>pos' offset' s'. icbinn_pwrite_loop (server_CLIENT os) fd buf count 0 (0, offset, Some s) =
      (0 + int (unat count), pos', offset', Some s') \<and>
      content fd (world s') = Some (splice (unat offset) (take (unat count) (drop 0 buf)) bs)"
    using assms by (intro pwrite_loop_content) simp_all
  then show ?thesis by (auto simp: icbinn_pwrite_def)
qed

text \<open>
  C4: reading through the library. For a regular file on the server, \<open>icbinn_pread\<close> of any \<open>count\<close>,
  cut into chunks of at most ICBINN_MAXDATA bytes, delivers what one \<open>pread\<close> of that count
  delivers: the bytes between the offset and the end of the file, up to \<open>count\<close>, at the start of
  the caller's buffer, the rest of which stays; it returns their number, and nothing changes on
  the server's side.
\<close>

theorem remote_pread:
  fixes count offset :: u64
  assumes "regular_pread os content" and "content fd (world s) = Some bs"
    and "unat offset + unat count < 2 ^ 63" and "unat count \<le> length buf"
  defines "d \<equiv> take (unat count) (drop (unat offset) bs)"
  shows "\<exists>s'. icbinn_pread (server_CLIENT os) fd buf count offset (Some s) =
      (int (length d), mem_write buf 0 d, Some s') \<and> world s' = world s"
  unfolding d_def using assms(1-4) by (rule pread_content)

theorem remote_pread_witness:
  "\<exists>s'. icbinn_pread (server_CLIENT mem_os) 3 [9, 9, 9, 9] 4 2 (Some (server_start mem_example)) =
     (3, [3, 4, 5, 9], Some s') \<and> world s' = mem_example"
  using remote_pread [OF mem_regular_pread, of 3 "server_start mem_example" "[1, 2, 3, 4, 5]" 2 4 "[9, 9, 9, 9]"]
  by (simp add: mem_content_def mem_example_data mem_write_def)

text \<open>
  C5: writing through the library. For a regular file on the server, \<open>icbinn_pwrite\<close> of any
  \<open>count\<close> reports \<open>count\<close> bytes written and leaves the file as one \<open>pwrite\<close> of these bytes at the
  offset would: the order and the offsets of the chunks do not show.
\<close>

theorem remote_pwrite:
  fixes count offset :: u64
  assumes "regular_pwrite os content" and "content fd (world s) = Some bs"
    and "unat offset + unat count < 2 ^ 63" and "unat count \<le> length buf"
  shows "\<exists>s'. icbinn_pwrite (server_CLIENT os) fd buf count offset (Some s) = (int (unat count), Some s') \<and>
      content fd (world s') = Some (splice (unat offset) (take (unat count) buf) bs)"
  using assms by (rule pwrite_content)

theorem remote_pwrite_witness:
  "\<exists>s'. icbinn_pwrite (server_CLIENT mem_os) 3 [8, 9] 2 6 (Some (server_start mem_example)) = (2, Some s') \<and>
     mem_content 3 (world s') = Some [1, 2, 3, 4, 5, 0, 8, 9]"
  using remote_pwrite [OF mem_regular_pwrite, of 3 "server_start mem_example" "[1, 2, 3, 4, 5]" 6 2 "[8, 9]"]
  by (simp add: mem_content_def mem_example_data splice_def)

text \<open>
  C8: what was written is read back. After \<open>icbinn_pwrite\<close> of \<open>count\<close> bytes at an offset, a
  buffer of \<open>count\<close> bytes that \<open>icbinn_pread\<close> fills from the same offset holds exactly these bytes,
  and both calls report \<open>count\<close>.
\<close>

theorem pwrite_pread_roundtrip:
  fixes count offset :: u64
  assumes "regular_pread os content" and "regular_pwrite os content"
    and "content fd (world s) = Some bs"
    and "unat offset + unat count < 2 ^ 63" and "unat count \<le> length data" and "length buf = unat count"
  shows "\<exists>s' s''. icbinn_pwrite (server_CLIENT os) fd data count offset (Some s) = (int (unat count), Some s') \<and>
      icbinn_pread (server_CLIENT os) fd buf count offset (Some s') =
        (int (unat count), take (unat count) data, Some s'')"
proof -
  define d where "d = take (unat count) data"
  have len: "length d = unat count" using assms(5) by (simp add: d_def)
  obtain s' where w: "icbinn_pwrite (server_CLIENT os) fd data count offset (Some s) = (int (unat count), Some s')"
    and "content fd (world s') = Some (splice (unat offset) d bs)"
    using pwrite_content [OF assms(2-5)] by (auto simp: d_def)
  from pread_content [OF assms(1) this(2) assms(4), of buf] assms(6)
  obtain s'' where "icbinn_pread (server_CLIENT os) fd buf count offset (Some s') =
      (int (unat count), d, Some s'')"
    by (auto simp: len [symmetric] mem_write_def)
  with w show ?thesis by (auto simp: d_def)
qed

theorem pwrite_pread_roundtrip_witness:
  "\<exists>s' s''. icbinn_pwrite (server_CLIENT mem_os) 4 [8, 9] 2 6 (Some (server_start mem_example)) = (2, Some s') \<and>
     icbinn_pread (server_CLIENT mem_os) 4 [0, 0] 2 6 (Some s') = (2, [8, 9], Some s'')"
  using pwrite_pread_roundtrip [OF mem_regular_pread mem_regular_pwrite,
      of 4 "server_start mem_example" "[]" 6 2 "[8, 9]" "[0, 0]"]
  by (simp add: mem_content_def mem_example_data)

section \<open>Results and errors\<close>

text \<open>
  Over a server of this program neither \<open>icbinn_pread\<close> nor \<open>icbinn_pwrite\<close> ever reports more
  bytes than the caller asked for, whatever the system calls of the server return.
\<close>

theorem transfer_bounds:
  "fst (icbinn_pread (server_CLIENT os) fd buf count offset conn) \<le> uint count \<and>
   fst (icbinn_pwrite (server_CLIENT os) fd buf count offset conn) \<le> uint count"
  using served.pread_b.loop_bounds [of 0 os fd count "(buf, 0, offset, conn)"]
    served.pwrite_b.loop_bounds [of 0 os fd buf count "(0, offset, conn)"]
  by (auto simp: icbinn_pread_def icbinn_pwrite_def split: prod.split)

text \<open>
  When the first read on the server fails, \<open>icbinn_pread\<close> returns the negated errno and leaves
  the caller's buffer alone.
\<close>

theorem remote_pread_error:
  assumes "count \<noteq> 0" and "os_pread os fd (chunk count) (sint offset) (world s) = Inl e" and "e < 2 ^ 31"
  shows "\<exists>s'. icbinn_pread (server_CLIENT os) fd buf count offset (Some s) = (- int e, buf, Some s')"
proof -
  let ?x = "(buf, 0, offset, Some s)"
  have "\<not> 65536 < chunk count"
    using chunk_le_MAXDATA [of count] by (simp add: word_less_nat_alt)
  then obtain s' where "pread_call (server_CLIENT os) fd (chunk count) ?x = (- int e, buf, 0, offset, Some s')"
    using assms(2) by (simp add: pread_call_def icbinn_pread_worker_def icbinn_prot_pread_1_svc_def)
  from served.pread_b.first_error [OF assms(1) this] show ?thesis
    using assms(3) by (simp add: icbinn_pread_def)
qed

theorem remote_pread_error_witness:
  "\<exists>s'. icbinn_pread (server_CLIENT mem_os) 5 [1, 2] 2 0 (Some served_example) = (- 9, [1, 2], Some s')"
  using remote_pread_error [of 2 mem_os 5 0 served_example 9 "[1, 2]"]
  by (simp add: mem_os_def mem_pread_def mem_example_def)

text \<open>
  C35: a short write goes unnoticed. The server's handler looks only at whether \<open>pwrite\<close> failed, and
  the client reports the whole chunk: however few bytes the system call wrote, \<open>icbinn_pwrite\<close> of
  up to ICBINN_MAXDATA bytes reports all of them.
\<close>

theorem short_write_unnoticed:
  assumes "unat count \<le> ICBINN_PROT_MAXDATA"
    and "fst (os_pwrite os fd (take (unat count) buf) (sint offset) (world s)) = Inr written"
  shows "fst (icbinn_pwrite (server_CLIENT os) fd buf count offset (Some s)) = uint count"
proof (cases "count = 0")
  case True
  then show ?thesis by (simp add: icbinn_pwrite_def)
next
  case False
  have chunk: "chunk count = count"
    using assms(1) by (simp add: chunk_def word_less_nat_alt)
  let ?a = "\<lparr>pwa_fd = fd, pwa_offset = offset, pwa_data = take (unat count) buf\<rparr>"
  have "fst (icbinn_prot_pwrite_1_svc os ?a s) = ErrnoOK"
    using assms by (simp add: pwrite_h.reply_ok_iff)
  then have call: "pwrite_call (server_CLIENT os) fd buf (chunk count) (0, offset, Some s) =
      (uint count, 0, offset, Some (snd (icbinn_prot_pwrite_1_svc os ?a s)))"
    using sint_chunk [of count] assms(1)
    by (simp add: pwrite_call_def icbinn_pwrite_worker_def chunk data_encodes_def)
  have "0 < uint count" using False by (simp add: uint_pos)
  then show ?thesis
    using pwrite_t.loop_full [OF False call, of 0] chunk
    by (simp add: icbinn_pwrite_def pwrite_advance_def)
qed

theorem short_write_unnoticed_witness:
  "fst (icbinn_pwrite (server_CLIENT (mem_os\<lparr>os_pwrite := \<lambda>fd data off w. (Inr 0, w)\<rparr>)) 3 [8, 9] 2 0
     (Some served_example)) = 2"
  using short_write_unnoticed [of 2 "mem_os\<lparr>os_pwrite := \<lambda>fd data off w. (Inr 0, w)\<rparr>" 3 "[8, 9]" 0
      served_example 0]
  by simp

end
