(* ===== verification/Session_Dir.thy ===== *)
theory Session_Dir
  imports Session
begin

text \<open>
  Reading directories through the client library and the server: what the caller's array holds
  afterwards, and that walking a directory entry by entry lists all of it.
\<close>

section \<open>The whole directory, as the library shows it\<close>

definition dirents :: "'w os \<Rightarrow> string \<Rightarrow> 'w \<Rightarrow> string list \<Rightarrow> icbinn_dirent list" where
  "dirents os dir w ds =
     map (\<lambda>e. \<lparr>de_name = en_name e, de_type = en_type e\<rparr>) (visible_entries os (dir_base dir) w ds)"

lemma visible_entries_short:
  "e \<in> set (visible_entries os base w ds) \<Longrightarrow>
     length (en_name e) < ICBINN_PROT_MAXNAMELEN \<and> type_of_prot (en_type e) = Some (en_type e)"
  by (induction ds)
    (auto simp: visible_entry_def split: option.splits if_splits sum.splits)

text \<open>Copying a visible entry loses nothing: its name fits and its kind is known.\<close>

lemma dirents_eq:
  "map dirent_of_entry (visible_entries os (dir_base dir) w ds) = dirents os dir w ds"
  unfolding dirents_def
  by (rule map_cong [OF refl]) (auto simp: dirent_of_entry_def dest!: visible_entries_short)

lemma unat_ucast_small: "unat (x :: u64) < 2 ^ 32 \<Longrightarrow> unat (ucast x :: u32) = unat x"
  by (simp add: unsigned_ucast_eq take_bit_nat_eq_self)

lemma readdir_content:
  fixes offset count :: u64
  assumes "memory_available os" and "path_max os" and "opens_dir os dir (world s) ds"
    and "length ds < 2 ^ 32" and "unat offset < 2 ^ 32" and "unat count < 2 ^ 32"
    and "unat count \<le> length buf"
  defines "es \<equiv> take (unat count) (drop (unat offset) (dirents os dir (world s) ds))"
  shows "\<exists>s'. icbinn_readdir (server_CLIENT os) dir offset count buf (Some s) =
      Ret (int (length es), mem_write buf 0 es) (Some s') \<and> world s' = world s"
proof -
  let ?es = "take (unat (ucast count :: u32)) (drop (unat (ucast offset :: u32))
    (visible_entries os (dir_base dir) (world s) ds))"
  have es: "map dirent_of_entry ?es = es"
    using assms(5,6) by (simp add: take_map [symmetric] drop_map [symmetric] dirents_eq es_def unat_ucast_small)
  then have "length ?es = length es" by (metis length_map)
  moreover obtain eof s' where
    "icbinn_prot_readdir_1_svc os \<lparr>ra_dir = dir, ra_offset = ucast offset, ra_count = ucast count\<rparr> s =
       Ret (ReaddirOK ?es eof) s'" and "world s' = world s"
    using readdir_svc_content [OF assms(1-4)] by blast
  moreover have "length es \<le> length buf"
    using assms(7) by (simp add: es_def)
  moreover have "path_encodes dir"
    using readdir_svc_dir [of os "\<lparr>ra_dir = dir, ra_offset = 0, ra_count = 0\<rparr>" s ds] assms(2,3)
    by (simp add: path_encodes_def)
  moreover have "readdirres_encodes (ReaddirOK ?es eof)"
    by (auto simp: filename_encodes_def less_imp_le dest!: in_set_takeD in_set_dropD visible_entries_short)
  ultimately show ?thesis
    using es by (simp add: icbinn_readdir_def serve_outcome_def copy_entries_eq)
qed

text \<open>
  C10: \<open>icbinn_readdir\<close> on a directory of the server fills the caller's array with the entries from
  position \<open>offset\<close> on, at most \<open>count\<close> of them, and returns their number. Every entry has its full
  name and its kind, and the call stays inside an array of \<open>count\<close> elements.
\<close>

theorem remote_readdir:
  fixes offset count :: u64
  assumes "memory_available os" and "path_max os" and "opens_dir os dir (world s) ds"
    and "length ds < 2 ^ 32" and "unat offset < 2 ^ 32" and "unat count < 2 ^ 32"
    and "unat count \<le> length buf"
  defines "es \<equiv> take (unat count) (drop (unat offset) (dirents os dir (world s) ds))"
  shows "\<exists>s'. icbinn_readdir (server_CLIENT os) dir offset count buf (Some s) =
      Ret (int (length es), mem_write buf 0 es) (Some s') \<and> world s' = world s"
  unfolding es_def using assms(1-7) by (rule readdir_content)

lemma mem_example_dirents:
  "dirents mem_os ''/d'' mem_example [''.'', ''..'', ''f'', ''g''] =
     [\<lparr>de_name = ''f'', de_type = 0\<rparr>, \<lparr>de_name = ''g'', de_type = 0\<rparr>]"
  by (simp add: dirents_def dir_base_def mem_example_visible del: visible_entries_simps)

theorem remote_readdir_witness:
  "\<exists>s'. icbinn_readdir (server_CLIENT mem_os) ''/d'' 1 2
      [\<lparr>de_name = [], de_type = 9\<rparr>, \<lparr>de_name = [], de_type = 9\<rparr>] (Some served_example) =
    Ret (1, [\<lparr>de_name = ''g'', de_type = 0\<rparr>, \<lparr>de_name = [], de_type = 9\<rparr>]) (Some s') \<and>
    world s' = mem_example"
  using remote_readdir [OF mem_memory_available mem_path_max, of "''/d''" served_example
      "[''.'', ''..'', ''f'', ''g'']" 1 2 "[\<lparr>de_name = [], de_type = 9\<rparr>, \<lparr>de_name = [], de_type = 9\<rparr>]"]
  by (simp add: mem_example_opens mem_example_dirents mem_write_def)

section \<open>Entry by entry\<close>

lemma readent_content:
  assumes "memory_available os" and "path_max os" and "opens_dir os dir (world s) ds"
    and "length ds < 2 ^ 32" and "unat offset < 2 ^ 32"
  shows "\<exists>s'. icbinn_readent (server_CLIENT os) dir offset buf (Some s) =
      (if unat offset < length (dirents os dir (world s) ds)
       then Ret (0, dirents os dir (world s) ds ! unat offset) (Some s')
       else Ret (-1, buf) (Some s')) \<and> world s' = world s"
proof -
  let ?ds = "dirents os dir (world s) ds"
  obtain s' where "icbinn_readdir (server_CLIENT os) dir offset 1 [buf] (Some s) =
      Ret (int (length (take 1 (drop (unat offset) ?ds))), mem_write [buf] 0 (take 1 (drop (unat offset) ?ds)))
        (Some s')" and "world s' = world s"
    using readdir_content [OF assms, of 1 "[buf]"] by auto
  moreover have "take 1 (drop (unat offset) ?ds) =
      (if unat offset < length ?ds then [?ds ! unat offset] else [])"
    by (simp add: take_Suc_conv_app_nth hd_drop_conv_nth take_Suc)
  ultimately show ?thesis
    by (auto simp: icbinn_readent_def mem_write_def)
qed

text \<open>
  The position in a directory is sent as 32 bits: positions that differ by \<open>2\<^sup>3\<^sup>2\<close> are the same
  to the server, although the parameter of the call has 64.
\<close>

theorem readdir_offset_wraps:
  "icbinn_readdir c dir (offset + 2 ^ 32) count buf w = icbinn_readdir c dir offset count buf w"
proof -
  have "(ucast (offset + 2 ^ 32) :: u32) = ucast offset"
    by transfer (simp add: take_bit_eq_mod mod_mod_cancel)
  then show ?thesis by (simp add: icbinn_readdir_def)
qed

end
