(* ===== verification/Session_Trace.thy ===== *)
theory Session_Trace
  imports Session_IO Session_Dir
begin

text \<open>
  Whole sessions. A program that uses the client library makes one call after another, each of
  them chosen from the results it has seen so far. Run over a connection to the server, it sees the
  results, and leaves the file system, that it would if every call were made on the server's file
  system directly. The locale \<open>refined_calls\<close> lifts the refinement of one call to that of a session;
  it is used again for the FUSE file system.
\<close>

section \<open>Programs and sessions\<close>

text \<open>A program names its next call from the results so far; \<open>session\<close> runs it for \<open>n\<close> calls.\<close>

fun session :: "('q \<Rightarrow> 's \<Rightarrow> 'r \<times> 's) \<Rightarrow> ('r list \<Rightarrow> 'q) \<Rightarrow> nat \<Rightarrow> 'r list \<Rightarrow> 's \<Rightarrow> 'r list \<times> 's" where
  "session step prog 0 rs s = (rs, s)"
| "session step prog (Suc n) rs s =
     (case step (prog rs) s of (r, s') \<Rightarrow> session step prog n (rs @ [r]) s')"

lemma session_numeral [simp]:
  "session step prog (numeral k) rs s =
     (case step (prog rs) s of (r, s') \<Rightarrow> session step prog (pred_numeral k) (rs @ [r]) s')"
  by (simp add: numeral_eq_Suc)

locale refined_calls =
  fixes impl :: "'q \<Rightarrow> 's \<Rightarrow> 'r \<times> 's"
    and spec :: "'q \<Rightarrow> 'a \<Rightarrow> 'r \<times> 'a"
    and live :: "'s \<Rightarrow> bool"
    and abs :: "'s \<Rightarrow> 'a"
    and ok :: "'q \<Rightarrow> bool"
  assumes refines: "live s \<Longrightarrow> ok q \<Longrightarrow> impl q s = (r, s') \<Longrightarrow> live s' \<and> spec q (abs s) = (r, abs s')"
begin

lemma session_refines:
  "live s \<Longrightarrow> (\<And>rs. ok (prog rs)) \<Longrightarrow> session impl prog n rs s = (rs', s') \<Longrightarrow>
   live s' \<and> session spec prog n rs (abs s) = (rs', abs s')"
proof (induction n arbitrary: rs s)
  case (Suc n)
  obtain r s1 where step: "impl (prog rs) s = (r, s1)" by fastforce
  then have "live s1" "spec (prog rs) (abs s) = (r, abs s1)"
    using refines [OF Suc.prems(1) _ step] Suc.prems(2) by auto
  then show ?case
    using Suc.IH [of s1 "rs @ [r]"] Suc.prems(2,3) step by simp
qed simp

end

section \<open>The calls of the library\<close>

datatype lib_call =
    CNull
  | CMkdir string
  | CRmdir string
  | CUnlink string
  | CRename string string
  | CSymlink string string
  | CClose int
  | CFsync int
  | CFtruncate int u64
  | CLock int int
  | CFallocate int u32 u64 u64
  | COpen string u32
  | CStat string icbinn_stat_t
  | CStatfs string icbinn_statfs_t
  | CReadlink string "byte list" u64
  | CPread int "byte list" u64 u64
  | CPwrite int "byte list" u64 u64

datatype lib_result =
    Status int
  | StatResult int icbinn_stat_t
  | StatfsResult int icbinn_statfs_t
  | DataResult int "byte list"

definition status :: "int \<times> 's \<Rightarrow> lib_result \<times> 's" where
  "status r = (Status (fst r), snd r)"

fun lib_step :: "'c CLIENT \<Rightarrow> lib_call \<Rightarrow> 'c \<Rightarrow> lib_result \<times> 'c" where
  "lib_step c CNull w = status (icbinn_null c w)"
| "lib_step c (CMkdir p) w = status (icbinn_mkdir c p w)"
| "lib_step c (CRmdir p) w = status (icbinn_rmdir c p w)"
| "lib_step c (CUnlink p) w = status (icbinn_unlink c p w)"
| "lib_step c (CRename p q) w = status (icbinn_rename c p q w)"
| "lib_step c (CSymlink p q) w = status (icbinn_symlink c p q w)"
| "lib_step c (CClose fd) w = status (icbinn_close c fd w)"
| "lib_step c (CFsync fd) w = status (icbinn_fsync c fd w)"
| "lib_step c (CFtruncate fd len) w = status (icbinn_ftruncate c fd len w)"
| "lib_step c (CLock fd t) w = status (icbinn_lock c fd t w)"
| "lib_step c (CFallocate fd m off len) w = status (icbinn_fallocate c fd m off len w)"
| "lib_step c (COpen p m) w = status (icbinn_open c p m w)"
| "lib_step c (CStat p b) w = (case icbinn_stat c (Some p) (Some b) w of (rv, b', w') \<Rightarrow> (StatResult rv (the b'), w'))"
| "lib_step c (CStatfs p b) w = (case icbinn_statfs c (Some p) (Some b) w of (rv, b', w') \<Rightarrow> (StatfsResult rv (the b'), w'))"
| "lib_step c (CReadlink p b n) w =
     (case icbinn_readlink c (Some p) (Some b) n w of (rv, b', w') \<Rightarrow> (DataResult rv (the b'), w'))"
| "lib_step c (CPread fd b n off) w = (case icbinn_pread c fd b n off w of (rv, b', w') \<Rightarrow> (DataResult rv b', w'))"
| "lib_step c (CPwrite fd b n off) w = status (icbinn_pwrite c fd b n off w)"

text \<open>
  What the calls promise: the system calls of the server's file system. A path that the protocol
  cannot carry gives -1, one of its maximal length ENOENT, and neither is a system call.
\<close>

definition local_status :: "bool \<Rightarrow> bool \<Rightarrow> errno \<Rightarrow> (errno + 'b) \<times> 'w \<Rightarrow> 'w \<Rightarrow> lib_result \<times> 'w" where
  "local_status sent accepted refusal effect w =
     (if \<not> sent then (Status (-1), w)
      else if accepted then (Status (sys_result (fst effect)), snd effect)
      else (Status (- int refusal), w))"

definition local_path :: "string \<Rightarrow> (errno \<Rightarrow> 'r) \<Rightarrow> (errno + 'b) \<Rightarrow> ('b \<Rightarrow> 'r) \<Rightarrow> 'r" where
  "local_path p err effect f =
     (if \<not> path_encodes p then err 1
      else if \<not> path_ok p then err ENOENT
      else (case effect of Inl e \<Rightarrow> err e | Inr x \<Rightarrow> f x))"

fun local_step :: "'w os \<Rightarrow> lib_call \<Rightarrow> 'w \<Rightarrow> lib_result \<times> 'w" where
  "local_step os CNull w = (Status 0, w)"
| "local_step os (CMkdir p) w = local_status (path_encodes p) (path_ok p) ENOENT (os_mkdir os p S_IRWXU w) w"
| "local_step os (CRmdir p) w = local_status (path_encodes p) (path_ok p) ENOENT (os_rmdir os p w) w"
| "local_step os (CUnlink p) w = local_status (path_encodes p) (path_ok p) ENOENT (os_unlink os p w) w"
| "local_step os (CRename p q) w =
     local_status (path_encodes p \<and> path_encodes q) (path_ok p \<and> path_ok q) ENOENT (os_rename os p q w) w"
| "local_step os (CSymlink p q) w =
     local_status (path_encodes p \<and> path_encodes q) (path_ok p \<and> path_ok q) ENOENT (os_symlink os p q w) w"
| "local_step os (CClose fd) w = local_status True True 0 (os_close os fd w) w"
| "local_step os (CFsync fd) w = local_status True True 0 (os_fsync os fd w) w"
| "local_step os (CFtruncate fd len) w = local_status True True 0 (os_ftruncate os fd (sint len) w) w"
| "local_step os (CLock fd t) w = local_status True (t \<in> {0, 1, 2}) EINVAL (os_setlk os fd t w) w"
| "local_step os (CFallocate fd m off len) w =
     (case os_fallocate os fd m (sint off) (sint len) w of
        (Inl e, w') \<Rightarrow> (Status (int e), w') | (Inr _, w') \<Rightarrow> (Status 0, w'))"
| "local_step os (COpen p m) w =
     (if \<not> path_encodes p then (Status (-1), w)
      else if \<not> path_ok p then (Status (- int ENOENT), w)
      else (case os_open os p (m AND (O_WRONLY OR O_RDWR OR O_CREAT OR O_TRUNC)) (S_IRUSR OR S_IWUSR) w of
              (Inl e, w') \<Rightarrow> (Status (- int e), w') | (Inr fd, w') \<Rightarrow> (Status fd, w')))"
| "local_step os (CStat p b) w =
     (local_path p (\<lambda>e. StatResult (- int e) b) (os_lstat os p w)
        (\<lambda>st. StatResult 0 (b\<lparr>is_type := set_icbinn_prot_type (st_mode st), is_size := word_of_int (st_size st)\<rparr>)), w)"
| "local_step os (CStatfs p b) w =
     (local_path p (\<lambda>e. StatfsResult (- int e) b) (os_statvfs os p w)
        (\<lambda>v. StatfsResult 0 \<lparr>ifs_bsize = f_bsize v, ifs_blocks = f_blocks v, ifs_bfree = f_bfree v,
                             ifs_bavail = f_bavail v\<rparr>), w)"
| "local_step os (CReadlink p b n) w =
     (local_path p (\<lambda>e. DataResult (- int e) b) (os_readlink os p n w)
        (\<lambda>t. DataResult (int (length t)) (mem_write b 0 t)), w)"
| "local_step os (CPread fd b n off) w =
     (if n = 0 then (DataResult 0 b, w)
      else (case os_pread os fd n (sint off) w of
              Inl e \<Rightarrow> (DataResult (- int e) b, w) | Inr d \<Rightarrow> (DataResult (int (length d)) (mem_write b 0 d), w)))"
| "local_step os (CPwrite fd b n off) w =
     (if n = 0 then (Status 0, w)
      else (case os_pwrite os fd (take (unat n) b) (sint off) w of
              (Inl e, w') \<Rightarrow> (Status (- int e), w') | (Inr _, w') \<Rightarrow> (Status (uint n), w')))"

text \<open>A transfer of one system call: at most ICBINN_MAXDATA bytes.\<close>

fun single_call :: "lib_call \<Rightarrow> bool" where
  "single_call (CReadlink p b n) \<longleftrightarrow> unat n \<le> ICBINN_PROT_MAXDATA"
| "single_call (CPread fd b n off) \<longleftrightarrow> unat n \<le> ICBINN_PROT_MAXDATA"
| "single_call (CPwrite fd b n off) \<longleftrightarrow> unat n \<le> ICBINN_PROT_MAXDATA"
| "single_call _ \<longleftrightarrow> True"

section \<open>One call\<close>

definition served_as :: "'r \<times> 'w server option \<Rightarrow> 'r \<times> 'w \<Rightarrow> bool" where
  "served_as r r' \<longleftrightarrow> fst r = fst r' \<and> (\<exists>s'. snd r = Some s' \<and> world s' = snd r')"

lemma served_as_status:
  assumes "observe r = local_call sent accepted refusal effect w"
  shows "served_as (status r) (local_status sent accepted refusal effect w)"
  using assms by (auto simp: observe_def local_call_def local_status_def status_def served_as_def split: if_splits)

lemma status_calls_served:
  "served_as (lib_step (server_CLIENT os) CNull (Some s)) (local_step os CNull (world s))"
  "served_as (lib_step (server_CLIENT os) (CMkdir p) (Some s)) (local_step os (CMkdir p) (world s))"
  "served_as (lib_step (server_CLIENT os) (CRmdir p) (Some s)) (local_step os (CRmdir p) (world s))"
  "served_as (lib_step (server_CLIENT os) (CUnlink p) (Some s)) (local_step os (CUnlink p) (world s))"
  "served_as (lib_step (server_CLIENT os) (CRename p q) (Some s)) (local_step os (CRename p q) (world s))"
  "served_as (lib_step (server_CLIENT os) (CSymlink p q) (Some s)) (local_step os (CSymlink p q) (world s))"
  "served_as (lib_step (server_CLIENT os) (CClose fd) (Some s)) (local_step os (CClose fd) (world s))"
  "served_as (lib_step (server_CLIENT os) (CFsync fd) (Some s)) (local_step os (CFsync fd) (world s))"
  "served_as (lib_step (server_CLIENT os) (CFtruncate fd len) (Some s)) (local_step os (CFtruncate fd len) (world s))"
  using remote_path_calls [of os p s q] remote_fd_calls [of os fd s len]
  by (auto intro!: served_as_status)
    (simp add: served_as_def status_def icbinn_null_def icbinn_prot_null_1_svc_def)

lemma lock_served:
  "served_as (lib_step (server_CLIENT os) (CLock fd t) (Some s)) (local_step os (CLock fd t) (world s))"
  using remote_fd_calls [of os fd s _ t] by (auto intro!: served_as_status)

lemma fallocate_served:
  "served_as (lib_step (server_CLIENT os) (CFallocate fd m off len) (Some s)) (local_step os (CFallocate fd m off len) (world s))"
  by (auto simp: served_as_def status_def icbinn_fallocate_def fallocate_h.performed errno_reply_def
      split: prod.split sum.split)

lemma open_served:
  "served_as (lib_step (server_CLIENT os) (COpen p m) (Some s)) (local_step os (COpen p m) (world s))"
  by (auto simp: served_as_def status_def icbinn_open_def icbinn_prot_open_1_svc_def get_pathname_len_cases
      open_flags_eq split: prod.split sum.split)

lemma structure_calls_served:
  "served_as (lib_step (server_CLIENT os) (CStat p b) (Some s)) (local_step os (CStat p b) (world s))"
  "served_as (lib_step (server_CLIENT os) (CStatfs p v) (Some s)) (local_step os (CStatfs p v) (world s))"
  by (cases "path_encodes p";
      auto simp: served_as_def local_path_def icbinn_stat_def icbinn_statfs_def icbinn_prot_stat_1_svc_def
        icbinn_prot_statfs_1_svc_def get_pathname_len_cases split: sum.split)+

lemma not_above_MAXDATA: "unat n \<le> ICBINN_PROT_MAXDATA \<Longrightarrow> \<not> 65536 < (n :: u64)"
  by (simp add: word_less_nat_alt)

lemma readlink_served:
  assumes "reads_bounded os" and "unat n \<le> ICBINN_PROT_MAXDATA"
  shows "served_as (lib_step (server_CLIENT os) (CReadlink p b n) (Some s)) (local_step os (CReadlink p b n) (world s))"
proof -
  have "length t \<le> unat n \<and> data_encodes t" if "os_readlink os p n (world s) = Inr t" for t
    using assms that unfolding reads_bounded_def data_encodes_def by fastforce
  then show ?thesis
    using not_above_MAXDATA [OF assms(2)]
    by (cases "path_encodes p")
      (auto simp: served_as_def local_path_def icbinn_readlink_def icbinn_prot_readlink_1_svc_def
        get_pathname_len_cases Let_def split: sum.split)
qed

lemma chunk_single: "unat n \<le> ICBINN_PROT_MAXDATA \<Longrightarrow> chunk n = n"
  by (simp add: chunk_def word_less_nat_alt)

lemma pread_served:
  assumes "reads_bounded os" and "errno_int os" and "unat n \<le> ICBINN_PROT_MAXDATA"
  shows "served_as (lib_step (server_CLIENT os) (CPread fd b n off) (Some s)) (local_step os (CPread fd b n off) (world s))"
proof (cases "n = 0")
  case True
  then show ?thesis by (simp add: served_as_def icbinn_pread_def)
next
  case False
  note n = not_above_MAXDATA [OF assms(3)] chunk_single [OF assms(3)]
  show ?thesis
  proof (cases "os_pread os fd n (sint off) (world s)")
    case (Inl e)
    then obtain s' where call: "pread_call (server_CLIENT os) fd (chunk n) (b, 0, off, Some s) =
        (- int e, b, 0, off, Some s')" and "world s' = world s"
      using n by (simp add: pread_call_def icbinn_pread_worker_def icbinn_prot_pread_1_svc_def)
    moreover have "e < 2 ^ 31" using assms(2) Inl unfolding errno_int_def by blast
    ultimately show ?thesis
      using served.pread_b.first_error [OF False call] False Inl by (simp add: served_as_def icbinn_pread_def)
  next
    case (Inr d)
    then have d: "length d \<le> unat n" "data_encodes d"
      using assms(1,3) unfolding reads_bounded_def data_encodes_def by fastforce+
    then obtain s' where call: "pread_call (server_CLIENT os) fd (chunk n) (b, 0, off, Some s) =
        (int (length d), mem_write b 0 d, 0, off, Some s')" and s': "world s' = world s"
      using Inr n by (simp add: pread_call_def icbinn_pread_worker_def icbinn_prot_pread_1_svc_def)
    have "\<exists>pos off'. icbinn_pread_loop (server_CLIENT os) fd n 0 (b, 0, off, Some s) =
        (int (length d), mem_write b 0 d, pos, off', Some s')"
      using pread_t.loop_full [OF False call, of 0] pread_t.loop_short [OF False call, of 0] n(2)
      by (cases "of_nat (length d) = n") (auto simp: pread_advance_def Let_def)
    then show ?thesis using False Inr s' by (auto simp: served_as_def icbinn_pread_def)
  qed
qed

lemma pwrite_served:
  assumes "errno_int os" and "unat n \<le> ICBINN_PROT_MAXDATA"
  shows "served_as (lib_step (server_CLIENT os) (CPwrite fd b n off) (Some s)) (local_step os (CPwrite fd b n off) (world s))"
proof (cases "n = 0")
  case True
  then show ?thesis by (simp add: served_as_def status_def icbinn_pwrite_def)
next
  case False
  let ?d = "take (unat n) b"
  let ?a = "\<lparr>pwa_fd = fd, pwa_offset = off, pwa_data = ?d\<rparr>"
  obtain r w where eff: "os_pwrite os fd ?d (sint off) (world s) = (r, w)" by fastforce
  have n: "chunk n = n" "length ?d \<le> 65536" "sint n = uint n"
    using assms(2) chunk_single sint_chunk [of n] by simp_all
  obtain s' where svc: "icbinn_prot_pwrite_1_svc os ?a s = (errno_reply r, s')" and s': "world s' = w"
    using pwrite_h.performed [of ?a os s] n(2) eff by (cases "icbinn_prot_pwrite_1_svc os ?a s") auto
  show ?thesis
  proof (cases r)
    case (Inl e)
    then have call: "pwrite_call (server_CLIENT os) fd b (chunk n) (0, off, Some s) = (- int e, 0, off, Some s')"
      using n svc by (simp add: pwrite_call_def icbinn_pwrite_worker_def data_encodes_def errno_reply_def)
    moreover have "e < 2 ^ 31" using assms(1) Inl eff unfolding errno_int_def by (metis fst_conv)
    ultimately show ?thesis
      using served.pwrite_b.first_error [OF False call] False Inl eff s'
      by (simp add: served_as_def status_def icbinn_pwrite_def)
  next
    case (Inr k)
    then have call: "pwrite_call (server_CLIENT os) fd b (chunk n) (0, off, Some s) = (uint n, 0, off, Some s')"
      using n svc by (simp add: pwrite_call_def icbinn_pwrite_worker_def data_encodes_def errno_reply_def)
    then show ?thesis
      using pwrite_t.loop_full [OF False call, of 0] uint_pos [OF False] n(1) False Inr eff s'
      by (simp add: served_as_def status_def icbinn_pwrite_def pwrite_advance_def)
  qed
qed

lemmas calls_served =
  status_calls_served lock_served fallocate_served open_served structure_calls_served readlink_served
  pread_served pwrite_served

lemma lib_step_served:
  assumes "reads_bounded os" and "errno_int os" and "single_call q"
  shows "served_as (lib_step (server_CLIENT os) q (Some s)) (local_step os q (world s))"
  using assms by (cases q) (simp_all only: calls_served single_call.simps)

section \<open>Sessions\<close>

interpretation lib_r: refined_calls "lib_step (server_CLIENT os)" "local_step os" "\<lambda>conn. conn \<noteq> None" "\<lambda>conn. world (the conn)"
    "\<lambda>q. reads_bounded os \<and> errno_int os \<and> single_call q" for os :: "'w os"
proof
  fix conn conn' :: "'w server option" and q r
  assume "conn \<noteq> None" and ok: "reads_bounded os \<and> errno_int os \<and> single_call q"
    and "lib_step (server_CLIENT os) q conn = (r, conn')"
  then show "conn' \<noteq> None \<and> local_step os q (world (the conn)) = (r, world (the conn'))"
    using lib_step_served [of os q "the conn"] by (auto simp: served_as_def intro: prod_eqI)
qed

text \<open>
  A program gets over the connection the results that the system calls on the server's file system
  give, and leaves that file system in the same state.
\<close>

lemma remote_session:
  assumes "reads_bounded os" and "errno_int os" and "\<And>rs. single_call (prog rs)"
  shows "\<exists>s'. session (lib_step (server_CLIENT os)) prog n [] (Some s) =
      (fst (session (local_step os) prog n [] (world s)), Some s') \<and>
      world s' = snd (session (local_step os) prog n [] (world s))"
proof -
  obtain rs conn where run: "session (lib_step (server_CLIENT os)) prog n [] (Some s) = (rs, conn)"
    by fastforce
  show ?thesis
    using lib_r.session_refines [OF _ _ run] assms run by auto
qed

end
