(* ===== verification/Dbusrpc.thy ===== *)
theory Dbusrpc
  imports Server
begin

text \<open>
  Which directory a client is served: \<open>libicbinn/server/dbusrpc.c\<close>. The management daemon that is
  asked over D-Bus is the parameter record \<open>xenmgr\<close>; its answer is a list of directories separated by
  commas, one for each listening socket.
\<close>

record 'w xenmgr =
  xm_init :: "'w \<Rightarrow> bool"
  xm_find_vm_by_domid :: "int \<Rightarrow> 'w \<Rightarrow> string option"
  xm_vm_icbinn_path :: "string \<Rightarrow> 'w \<Rightarrow> string option option"

text \<open>The loop that moves \<open>ptr\<close> behind the next comma \<open>i\<close> times; None when a comma is missing.\<close>

fun skip_fields :: "nat \<Rightarrow> string \<Rightarrow> string option" where
  "skip_fields 0 ptr = Some ptr"
| "skip_fields (Suc i) ptr =
     (case dropWhile (\<lambda>c. c \<noteq> CHR '','') ptr of [] \<Rightarrow> None | _ # rest \<Rightarrow> skip_fields i rest)"

definition path_field :: "int \<Rightarrow> nat \<Rightarrow> nat \<Rightarrow> string \<Rightarrow> 'w server \<Rightarrow> string option \<times> 'w server" where
  "path_field domid buf_size path_index value s =
     (case skip_fields path_index value of
        None \<Rightarrow>
          (None, error_msg ''not enough fields in icbinn-path to find number %d for domid %d''
                   [MInt (int path_index), MInt domid] s)
      | Some ptr \<Rightarrow>
          (let p = takeWhile (\<lambda>c. c \<noteq> CHR '','') ptr in
           if length p \<ge> buf_size then
             (None, error_msg ''icbinn-path number %d for domid %d too long''
                      [MInt (int path_index), MInt domid] s)
           else if p = [] then
             (None, error_msg ''failed to get icbinn-path number %d for domid %d''
                      [MInt (int path_index), MInt domid] s)
           else (Some (take buf_size p), s)))"

text \<open>
  \<open>have_xcdbus\<close> says whether the server was built with HAVE_LIBXCDBUS. None is the result -1.
\<close>

definition get_icbinn_path ::
  "bool \<Rightarrow> 'w xenmgr \<Rightarrow> int \<Rightarrow> nat \<Rightarrow> nat \<Rightarrow> 'w server \<Rightarrow> string option \<times> 'w server" where
  "get_icbinn_path have_xcdbus xm domid buf_size path_index s =
     (if have_xcdbus then
        (if \<not> xm_init xm (world s) then (None, error_msg ''failed to init xcdbus connection'' [] s)
         else
           (case xm_find_vm_by_domid xm domid (world s) of
              None \<Rightarrow> (None, error_msg ''failed to find vm by domid %d'' [MInt domid] s)
            | Some obj_path \<Rightarrow>
                (case xm_vm_icbinn_path xm obj_path (world s) of
                   None \<Rightarrow> (None, error_msg ''failed to get icbinn-path for domid %d'' [MInt domid] s)
                 | Some None \<Rightarrow>
                     (None, error_msg ''null value received when trying to get icbinn-path for domid %d''
                              [MInt domid] s)
                 | Some (Some value) \<Rightarrow> path_field domid buf_size path_index value s)))
      else (Some (take buf_size ''./''), s))"

section \<open>It is the field of that number\<close>

fun fields :: "string \<Rightarrow> string list" where
  "fields [] = [[]]"
| "fields (c # cs) =
     (if c = CHR '','' then [] # fields cs else (c # hd (fields cs)) # tl (fields cs))"

lemma fields_not_Nil [simp]: "fields v \<noteq> []"
  by (induction v rule: fields.induct) auto

lemma hd_fields: "hd (fields v) = takeWhile (\<lambda>c. c \<noteq> CHR '','') v"
  by (induction v rule: fields.induct) auto

lemma tl_fields:
  "tl (fields v) = (case dropWhile (\<lambda>c. c \<noteq> CHR '','') v of [] \<Rightarrow> [] | _ # rest \<Rightarrow> fields rest)"
  by (induction v rule: fields.induct) auto

lemma skip_fields_nth:
  "skip_fields i v = None \<and> length (fields v) \<le> i \<or>
   (\<exists>p. skip_fields i v = Some p \<and> i < length (fields v) \<and> takeWhile (\<lambda>c. c \<noteq> CHR '','') p = fields v ! i)"
proof (induction i arbitrary: v)
  case 0
  then show ?case by (simp add: hd_fields [symmetric] hd_conv_nth)
next
  case (Suc i)
  obtain f fs where v: "fields v = f # fs" by (cases "fields v") simp_all
  show ?case
  proof (cases "dropWhile (\<lambda>c. c \<noteq> CHR '','') v")
    case Nil
    then have "fs = []" using v tl_fields [of v] unfolding Nil by simp
    then show ?thesis using v unfolding skip_fields.simps Nil by simp
  next
    case (Cons c rest)
    then have "fs = fields rest" using v tl_fields [of v] by simp
    then show ?thesis using Suc [of rest] v Cons by auto
  qed
qed

lemma get_icbinn_path_world:
  "world (snd (get_icbinn_path have_xcdbus xm domid n i s)) = world s"
  by (simp add: get_icbinn_path_def path_field_def Let_def split: option.split)

text \<open>
  C25: the directory a client is served is the field of its socket's number in the comma-separated
  answer of the management daemon, provided there is such a field, it is not empty and it fits the
  buffer; in every other case the lookup fails, and it never changes anything but the log.
\<close>

theorem get_icbinn_path_field:
  assumes "xm_init xm (world s)" and "xm_find_vm_by_domid xm domid (world s) = Some vm"
    and "xm_vm_icbinn_path xm vm (world s) = Some (Some paths)"
  shows "fst (get_icbinn_path True xm domid buf_size i s) =
    (if i < length (fields paths) \<and> fields paths ! i \<noteq> [] \<and> length (fields paths ! i) < buf_size
     then Some (fields paths ! i) else None) \<and>
    world (snd (get_icbinn_path True xm domid buf_size i s)) = world s"
  using assms skip_fields_nth [of i paths]
  by (auto simp: get_icbinn_path_def path_field_def Let_def)

text \<open>A daemon of the examples, which knows one machine with two directories.\<close>

definition toy_xenmgr :: "'w xenmgr" where
  "toy_xenmgr =
     \<lparr>xm_init = (\<lambda>w. True),
      xm_find_vm_by_domid = (\<lambda>d w. if d = 7 then Some ''/vm/7'' else None),
      xm_vm_icbinn_path = (\<lambda>p w. Some (Some ''/a,/srv/b''))\<rparr>"

theorem get_icbinn_path_field_witness:
  "fst (get_icbinn_path True toy_xenmgr 7 4096 1 (server_start ())) = Some ''/srv/b'' \<and>
   fst (get_icbinn_path True toy_xenmgr 7 4096 2 (server_start ())) = None"
  using get_icbinn_path_field [of toy_xenmgr "server_start ()" 7 "''/vm/7''" "''/a,/srv/b''" 4096 1]
    get_icbinn_path_field [of toy_xenmgr "server_start ()" 7 "''/vm/7''" "''/a,/srv/b''" 4096 2]
  by (simp add: toy_xenmgr_def)

end
