(* ===== verification/Clnt_create.thy ===== *)
theory Clnt_create
  imports Icbinn_Prot
begin

text \<open>
  Connecting to a server: \<open>libicbinn/src/client.c\<close> and \<open>xmalloc\<close> of \<open>libicbinn/src/util.c\<close>. The socket
  calls and the constructor and destructor of the RPC library are the parameter record \<open>net\<close>. The
  state counts what the code is responsible for: \<open>socks\<close> are the descriptors that \<open>socket\<close> returned and
  nobody has closed, \<open>vc_fds\<close> the live RPC handles with their descriptors, \<open>icbs\<close> the number of
  live \<open>ICBINN\<close> objects.
\<close>

datatype address_family = AF_INET | AF_INETV4V

record sockaddr_in =
  sin_family :: address_family
  sin_port :: "16 word"
  sin_addr :: u32

record 'n net =
  net_socket :: "address_family \<Rightarrow> 'n \<Rightarrow> (errno + int) \<times> 'n"
  net_inet_pton :: "string \<Rightarrow> u32 option"
  net_gethostbyname :: "string \<Rightarrow> 'n \<Rightarrow> u32 option \<times> 'n"
  net_connect :: "int \<Rightarrow> sockaddr_in \<Rightarrow> 'n \<Rightarrow> (errno + unit) \<times> 'n"
  net_close :: "int \<Rightarrow> 'n \<Rightarrow> 'n"
  net_clnt_vc_create :: "int \<Rightarrow> sockaddr_in \<Rightarrow> 'n \<Rightarrow> int option \<times> 'n"
  net_clnt_destroy :: "int \<Rightarrow> 'n \<Rightarrow> 'n"
  net_malloc :: "'n \<Rightarrow> bool \<times> 'n"

record 'n clnt =
  nworld :: 'n
  socks :: "int list"
  vc_fds :: "(int \<times> int) list"
  icbs :: int

record ICBINN =
  icb_c :: "int option"

text \<open>The status of a process that called \<open>abort\<close>.\<close>

abbreviation (input) aborted :: int where "aborted \<equiv> 134"

definition xmalloc :: "'n net \<Rightarrow> 'n clnt \<Rightarrow> (unit, 'n clnt) outcome" where
  "xmalloc net s =
     (case net_malloc net (nworld s) of
        (False, w) \<Rightarrow> Exit aborted (s\<lparr>nworld := w\<rparr>)
      | (True, w) \<Rightarrow> Ret () (s\<lparr>nworld := w, icbs := icbs s + 1\<rparr>))"

definition close_sock :: "'n net \<Rightarrow> int \<Rightarrow> 'n clnt \<Rightarrow> 'n clnt" where
  "close_sock net fd s = s\<lparr>nworld := net_close net fd (nworld s), socks := remove1 fd (socks s)\<rparr>"

definition icbinn_clnt_create_by_fd ::
  "'n net \<Rightarrow> int \<Rightarrow> sockaddr_in \<Rightarrow> 'n clnt \<Rightarrow> (ICBINN option, 'n clnt) outcome" where
  "icbinn_clnt_create_by_fd net sockfd sa s =
     (case net_clnt_vc_create net sockfd sa (nworld s) of
        (None, w) \<Rightarrow> Ret None (s\<lparr>nworld := w\<rparr>)
      | (Some c, w) \<Rightarrow>
          (case xmalloc net (s\<lparr>nworld := w, vc_fds := (c, sockfd) # vc_fds s\<rparr>) of
             Ret _ s' \<Rightarrow> Ret (Some \<lparr>icb_c = Some c\<rparr>) s'
           | Exit n s' \<Rightarrow> Exit n s'
           | Fault \<Rightarrow> Fault))"

text \<open>
  The two functions that open a connected socket: Inl for their -1, Inr for the descriptor, with
  the address they filled in.
\<close>

definition net_socket_new :: "'n net \<Rightarrow> address_family \<Rightarrow> 'n clnt \<Rightarrow> int option \<times> 'n clnt" where
  "net_socket_new net family s =
     (case net_socket net family (nworld s) of
        (Inl _, w) \<Rightarrow> (None, s\<lparr>nworld := w\<rparr>)
      | (Inr fd, w) \<Rightarrow> (Some fd, s\<lparr>nworld := w, socks := fd # socks s\<rparr>))"

definition connect_sock ::
  "'n net \<Rightarrow> int \<Rightarrow> sockaddr_in \<Rightarrow> 'n clnt \<Rightarrow> (int \<times> sockaddr_in) option \<times> 'n clnt" where
  "connect_sock net sockfd sa s =
     (case net_connect net sockfd sa (nworld s) of
        (Inl _, w) \<Rightarrow> (None, s\<lparr>nworld := w\<rparr>)
      | (Inr _, w) \<Rightarrow> (Some (sockfd, sa), s\<lparr>nworld := w\<rparr>))"

definition open_tcp_socket ::
  "'n net \<Rightarrow> string option \<Rightarrow> int \<Rightarrow> 'n clnt \<Rightarrow> (int \<times> sockaddr_in) option \<times> 'n clnt" where
  "open_tcp_socket net host port s =
     (case host of
        None \<Rightarrow> (None, s)
      | Some h \<Rightarrow>
          (let port = (if port = 0 then ICBINN_PROT_PORT else port) in
           case net_socket_new net AF_INET s of
             (None, s1) \<Rightarrow> (None, s1)
           | (Some sockfd, s1) \<Rightarrow>
               (case net_inet_pton net h of
                  Some a \<Rightarrow>
                    connect_sock net sockfd
                      \<lparr>sin_family = AF_INET, sin_port = word_of_int port, sin_addr = a\<rparr> s1
                | None \<Rightarrow>
                    (case net_gethostbyname net h (nworld s1) of
                       (None, w) \<Rightarrow> (None, s1\<lparr>nworld := w\<rparr>)
                     | (Some a, w) \<Rightarrow>
                         connect_sock net sockfd
                           \<lparr>sin_family = AF_INET, sin_port = word_of_int port, sin_addr = a\<rparr>
                           (s1\<lparr>nworld := w\<rparr>)))))"

text \<open>\<open>have_v4v\<close> says whether the library was built with HAVE_LIBV4V.\<close>

definition v4v_addr :: "int \<Rightarrow> u32" where
  "v4v_addr domid = 0x1000000 OR word_of_int domid"

definition open_v4v_socket ::
  "bool \<Rightarrow> 'n net \<Rightarrow> int \<Rightarrow> int \<Rightarrow> 'n clnt \<Rightarrow> (int \<times> sockaddr_in) option \<times> 'n clnt" where
  "open_v4v_socket have_v4v net domid port s =
     (if have_v4v then
        (let port = (if port = 0 then ICBINN_PROT_PORT else port) in
         case net_socket_new net AF_INETV4V s of
           (None, s1) \<Rightarrow> (None, s1)
         | (Some sockfd, s1) \<Rightarrow>
             connect_sock net sockfd
               \<lparr>sin_family = AF_INET, sin_port = word_of_int port, sin_addr = v4v_addr domid\<rparr> s1)
      else (None, s))"

text \<open>The common end of the two constructors.\<close>

definition clnt_create_on ::
  "'n net \<Rightarrow> (int \<times> sockaddr_in) option \<times> 'n clnt \<Rightarrow> (ICBINN option, 'n clnt) outcome" where
  "clnt_create_on net opened =
     (case opened of
        (None, s) \<Rightarrow> Ret None s
      | (Some (sockfd, sa), s) \<Rightarrow>
          (case icbinn_clnt_create_by_fd net sockfd sa s of
             Ret None s' \<Rightarrow> Ret None (close_sock net sockfd s')
           | r \<Rightarrow> r))"

definition icbinn_clnt_create_tcp ::
  "'n net \<Rightarrow> string option \<Rightarrow> int \<Rightarrow> 'n clnt \<Rightarrow> (ICBINN option, 'n clnt) outcome" where
  "icbinn_clnt_create_tcp net host port s = clnt_create_on net (open_tcp_socket net host port s)"

definition icbinn_clnt_create_v4v ::
  "bool \<Rightarrow> 'n net \<Rightarrow> int \<Rightarrow> int \<Rightarrow> 'n clnt \<Rightarrow> (ICBINN option, 'n clnt) outcome" where
  "icbinn_clnt_create_v4v have_v4v net domid port s =
     clnt_create_on net (open_v4v_socket have_v4v net domid port s)"

text \<open>
  \<open>CLSET_FD_CLOSE\<close> makes \<open>clnt_destroy\<close> close the descriptor of the handle too.
\<close>

definition icbinn_clnt_destroy :: "'n net \<Rightarrow> ICBINN option \<Rightarrow> 'n clnt \<Rightarrow> 'n clnt" where
  "icbinn_clnt_destroy net icb s =
     (case icb of
        None \<Rightarrow> s
      | Some i \<Rightarrow>
          (let s1 =
             (case icb_c i of
                None \<Rightarrow> s
              | Some c \<Rightarrow>
                  s\<lparr>nworld := net_clnt_destroy net c (nworld s),
                    socks := (case map_of (vc_fds s) c of None \<Rightarrow> socks s | Some fd \<Rightarrow> remove1 fd (socks s)),
                    vc_fds := filter (\<lambda>e. fst e \<noteq> c) (vc_fds s)\<rparr>)
           in s1\<lparr>icbs := icbs s1 - 1\<rparr>))"

section \<open>What the constructors leave behind\<close>

definition resources :: "'n clnt \<Rightarrow> int list \<times> (int \<times> int) list \<times> int" where
  "resources s = (socks s, vc_fds s, icbs s)"

lemmas clnt_defs = icbinn_clnt_create_tcp_def icbinn_clnt_create_v4v_def clnt_create_on_def
  open_tcp_socket_def open_v4v_socket_def net_socket_new_def connect_sock_def
  icbinn_clnt_create_by_fd_def xmalloc_def close_sock_def Let_def

lemmas clnt_splits = option.splits prod.splits sum.splits bool.splits if_splits

text \<open>A constructor that returns an object has opened one socket and made one handle for it.\<close>

lemma clnt_create_on_Some:
  assumes "clnt_create_on net (opened, s) = Ret (Some icb) s'"
  shows "\<exists>fd sa c. opened = Some (fd, sa) \<and> icb = \<lparr>icb_c = Some c\<rparr> \<and>
    resources s' = (socks s, (c, fd) # vc_fds s, icbs s + 1)"
  using assms by (auto simp: clnt_defs resources_def split: clnt_splits)

lemma clnt_create_on_None:
  assumes "clnt_create_on net (opened, s) = Ret None s'"
  shows "resources s' = (case opened of None \<Rightarrow> resources s
     | Some (fd, sa) \<Rightarrow> (remove1 fd (socks s), vc_fds s, icbs s))"
  using assms by (auto simp: clnt_defs resources_def split: clnt_splits)

lemma open_tcp_socket_Some:
  "open_tcp_socket net host port s = (Some (fd, sa), s') \<Longrightarrow>
     resources s' = (fd # socks s, vc_fds s, icbs s)"
  by (auto simp: clnt_defs resources_def split: clnt_splits)

lemma open_v4v_socket_Some:
  "open_v4v_socket have_v4v net domid port s = (Some (fd, sa), s') \<Longrightarrow>
     resources s' = (fd # socks s, vc_fds s, icbs s)"
  by (auto simp: clnt_defs resources_def split: clnt_splits)

lemma destroy_undoes:
  assumes "resources s' = (fd # sk, (c, fd) # vcs, n + 1)" and "c \<notin> fst ` set vcs"
  shows "resources (icbinn_clnt_destroy net (Some \<lparr>icb_c = Some c\<rparr>) s') = (sk, vcs, n)"
proof -
  have "filter (\<lambda>e. fst e \<noteq> c) vcs = vcs"
    using assms(2) by (intro filter_True) auto
  then show ?thesis using assms(1) by (simp add: icbinn_clnt_destroy_def resources_def)
qed

text \<open>The RPC library gives a new handle a name that no live handle has.\<close>

definition fresh_handles :: "'n net \<Rightarrow> 'n clnt \<Rightarrow> bool" where
  "fresh_handles net s \<longleftrightarrow>
     (\<forall>fd sa w c w'. net_clnt_vc_create net fd sa w = (Some c, w') \<longrightarrow> c \<notin> fst ` set (vc_fds s))"

lemma create_destroy_on:
  assumes "clnt_create_on net (Some (fd, sa), s1) = Ret (Some icb) s'" and "fresh_handles net s"
    and "resources s1 = (fd # socks s, vc_fds s, icbs s)"
  shows "resources (icbinn_clnt_destroy net (Some icb) s') = resources s"
proof -
  obtain c where icb: "icb = \<lparr>icb_c = Some c\<rparr>"
    and s': "resources s' = (fd # socks s, (c, fd) # vc_fds s, icbs s + 1)"
    using clnt_create_on_Some [OF assms(1)] assms(3) by (auto simp: resources_def)
  obtain w' where "net_clnt_vc_create net fd sa (nworld s1) = (Some c, w')"
    using assms(1) icb by (auto simp: clnt_defs split: clnt_splits)
  then have "c \<notin> fst ` set (vc_fds s)"
    using assms(2) unfolding fresh_handles_def by blast
  then show ?thesis
    using destroy_undoes [OF s'] by (simp add: icb resources_def)
qed

text \<open>
  A connection that was made, over TCP or V4V, is given back completely: after
  \<open>icbinn_clnt_destroy\<close> of the object a constructor returned, the open sockets, the RPC handles and
  the allocated objects are what they were before the constructor was called.
\<close>

theorem create_destroy_balanced:
  assumes "fresh_handles net s"
    and "icbinn_clnt_create_tcp net host port s = Ret (Some icb) s' \<or>
      icbinn_clnt_create_v4v have_v4v net domid port s = Ret (Some icb) s'"
  shows "resources (icbinn_clnt_destroy net (Some icb) s') = resources s"
  using assms(2)
proof
  assume "icbinn_clnt_create_tcp net host port s = Ret (Some icb) s'"
  then obtain fd sa s1 where "open_tcp_socket net host port s = (Some (fd, sa), s1)"
    and "clnt_create_on net (Some (fd, sa), s1) = Ret (Some icb) s'"
    by (auto simp: icbinn_clnt_create_tcp_def clnt_create_on_def split: clnt_splits)
  then show ?thesis using create_destroy_on assms(1) open_tcp_socket_Some by blast
next
  assume "icbinn_clnt_create_v4v have_v4v net domid port s = Ret (Some icb) s'"
  then obtain fd sa s1 where "open_v4v_socket have_v4v net domid port s = (Some (fd, sa), s1)"
    and "clnt_create_on net (Some (fd, sa), s1) = Ret (Some icb) s'"
    by (auto simp: icbinn_clnt_create_v4v_def clnt_create_on_def split: clnt_splits)
  then show ?thesis using create_destroy_on assms(1) open_v4v_socket_Some by blast
qed

text \<open>A network of the examples: descriptors and handles count up; nobody listens on port 1.\<close>

definition toy_net :: "int net" where
  "toy_net =
     \<lparr>net_socket = (\<lambda>f w. (Inr w, w + 1)),
      net_inet_pton = (\<lambda>h. if h = ''10.0.0.1'' then Some 0x0A000001 else None),
      net_gethostbyname = (\<lambda>h w. (None, w)),
      net_connect = (\<lambda>fd sa w. if sin_port sa = 1 then (Inl 111, w) else (Inr (), w)),
      net_close = (\<lambda>fd w. w),
      net_clnt_vc_create = (\<lambda>fd sa w. (Some 1000, w)),
      net_clnt_destroy = (\<lambda>c w. w),
      net_malloc = (\<lambda>w. (True, w))\<rparr>"

definition toy_clnt :: "int clnt" where
  "toy_clnt = \<lparr>nworld = 3, socks = [], vc_fds = [], icbs = 0\<rparr>"

theorem create_destroy_balanced_witness:
  "\<exists>icb s'. icbinn_clnt_create_tcp toy_net (Some ''10.0.0.1'') 0 toy_clnt = Ret (Some icb) s' \<and>
     socks s' = [3] \<and> resources (icbinn_clnt_destroy toy_net (Some icb) s') = ([], [], 0)"
proof -
  obtain icb s' where s': "icbinn_clnt_create_tcp toy_net (Some ''10.0.0.1'') 0 toy_clnt = Ret (Some icb) s'"
    and "socks s' = [3]"
    by (simp add: clnt_defs toy_net_def toy_clnt_def)
  moreover have "fresh_handles toy_net toy_clnt"
    by (simp add: fresh_handles_def toy_clnt_def)
  ultimately show ?thesis
    using create_destroy_balanced [of toy_net toy_clnt] by (force simp: resources_def toy_clnt_def)
qed

text \<open>
  C39: a constructor that cannot connect leaks its socket. When \<open>connect\<close> fails, the TCP
  constructor returns NULL and the descriptor it opened stays open, with nothing left that refers
  to it.
\<close>

theorem connect_failure_leaks:
  assumes "net_socket net AF_INET (nworld s) = (Inr fd, w1)" and "net_inet_pton net host = Some a"
    and "\<And>sa w. fst (net_connect net fd sa w) = Inl e"
  shows "\<exists>s'. icbinn_clnt_create_tcp net (Some host) port s = Ret None s' \<and>
    resources s' = (fd # socks s, vc_fds s, icbs s)"
proof -
  have "\<exists>w'. net_connect net fd sa w = (Inl e, w')" for sa w
    using assms(3) [of sa w] by (cases "net_connect net fd sa w") simp
  then obtain w' where "net_connect net fd \<lparr>sin_family = AF_INET,
      sin_port = word_of_int (if port = 0 then ICBINN_PROT_PORT else port), sin_addr = a\<rparr> w1 = (Inl e, w')"
    by blast
  then show ?thesis
    using assms(1,2) by (auto simp: clnt_defs resources_def)
qed

theorem connect_failure_leaks_witness:
  "\<exists>s'. icbinn_clnt_create_tcp (toy_net\<lparr>net_connect := \<lambda>fd sa w. (Inl 111, w)\<rparr>) (Some ''10.0.0.1'') 0 toy_clnt =
     Ret None s' \<and> resources s' = ([3], [], 0)"
  using connect_failure_leaks [of "toy_net\<lparr>net_connect := \<lambda>fd sa w. (Inl 111, w)\<rparr>" toy_clnt 3 4
      "''10.0.0.1''" "0x0A000001" 111 0]
  by (simp add: toy_net_def toy_clnt_def)

end
