(* ===== verification/Svc_main.thy ===== *)
theory Svc_main
  imports Server_Inv Dbusrpc Clnt_create
begin

text \<open>
  The server process, \<open>libicbinn/server/svc_main.c\<close>: options, listening sockets, accepting a client,
  the child that confines itself to the client's directory, and the loop that serves it.

  The calls this file makes beyond those of \<open>server.c\<close> are the parameter record \<open>host\<close>: sockets,
  process control, and the RPC library's server side. \<open>ho_svc_wait\<close> is \<open>select\<close> on the RPC library's
  descriptors together with the decoding of the requests that \<open>svc_getreqset\<close> then dispatches:
  an errno, a timeout (None), or the requests. What goes to standard error is left out.
\<close>

record 'w host =
  ho_socket :: "address_family \<Rightarrow> 'w \<Rightarrow> (errno + int) \<times> 'w"
  ho_setsockopt :: "int \<Rightarrow> 'w \<Rightarrow> (errno + unit) \<times> 'w"
  ho_bind :: "int \<Rightarrow> sockaddr_in \<Rightarrow> 'w \<Rightarrow> (errno + unit) \<times> 'w"
  ho_listen :: "int \<Rightarrow> int \<Rightarrow> 'w \<Rightarrow> (errno + unit) \<times> 'w"
  ho_getfl :: "int \<Rightarrow> 'w \<Rightarrow> errno + u64"
  ho_setfl :: "int \<Rightarrow> u64 \<Rightarrow> 'w \<Rightarrow> (errno + unit) \<times> 'w"
  ho_select :: "int list \<Rightarrow> 'w \<Rightarrow> (errno + int list) \<times> 'w"
  ho_accept :: "int \<Rightarrow> 'w \<Rightarrow> (errno + int \<times> sockaddr_in) \<times> 'w"
  ho_signal :: "'w \<Rightarrow> (errno + unit) \<times> 'w"
  ho_fork :: "'w \<Rightarrow> (errno + nat) \<times> 'w"
  ho_chdir :: "string \<Rightarrow> 'w \<Rightarrow> (errno + unit) \<times> 'w"
  ho_chroot :: "string \<Rightarrow> 'w \<Rightarrow> (errno + unit) \<times> 'w"
  ho_svc_fd_create :: "int \<Rightarrow> 'w \<Rightarrow> bool \<times> 'w"
  ho_svc_register :: "'w \<Rightarrow> bool \<times> 'w"
  ho_fd_isset :: "int \<Rightarrow> 'w \<Rightarrow> bool"
  ho_write_nothing :: "int \<Rightarrow> 'w \<Rightarrow> errno + nat"
  ho_svc_wait :: "'w \<Rightarrow> (errno + icbinn_request list option) \<times> 'w"

abbreviation (input) O_NONBLOCK :: u64 where "O_NONBLOCK \<equiv> 2048"
abbreviation (input) MAX_ICBINN_SOCKETS :: nat where "MAX_ICBINN_SOCKETS \<equiv> 16"

text \<open>The macros \<open>fatal\<close>, \<open>warning\<close> and \<open>info\<close>.\<close>

definition fatal :: "string \<Rightarrow> msg_arg list \<Rightarrow> 'w server \<Rightarrow> ('a, 'w server) outcome" where
  "fatal fmt args s = (case message MESSAGE_FATAL fmt args s of Exit n s' \<Rightarrow> Exit n s' | _ \<Rightarrow> Fault)"

definition logged :: "u32 \<Rightarrow> string \<Rightarrow> msg_arg list \<Rightarrow> 'w server \<Rightarrow> 'w server" where
  "logged level fmt args s =
     (case message level fmt args s of Ret _ s' \<Rightarrow> s' | Exit _ s' \<Rightarrow> s' | Fault \<Rightarrow> s)"

definition on_world :: "('w \<Rightarrow> 'a \<times> 'w) \<Rightarrow> 'w server \<Rightarrow> 'a \<times> 'w server" where
  "on_world f s = (case f (world s) of (r, w) \<Rightarrow> (r, s\<lparr>world := w\<rparr>))"

section \<open>Options\<close>

text \<open>What \<open>getopt\<close> delivers; the argument of a port option may be missing.\<close>

datatype svc_opt = Opt_port "string option" | Opt_t | Opt_unknown

record svc_opts =
  so_port :: "int list"
  so_num :: nat
  so_tflag :: int

definition svc_no_opts :: "bool \<Rightarrow> svc_opts" where
  "svc_no_opts have_v4v =
     \<lparr>so_port = (replicate MAX_ICBINN_SOCKETS 0)[0 := ICBINN_PROT_PORT], so_num = 0,
      so_tflag = (if have_v4v then 0 else 1)\<rparr>"

fun svc_options :: "svc_opt list \<Rightarrow> svc_opts \<Rightarrow> 'w server \<Rightarrow> (svc_opts, 'w server) outcome" where
  "svc_options [] so s = Ret so s"
| "svc_options (Opt_port optarg # opts) so s =
     (if so_num so = MAX_ICBINN_SOCKETS then
        fatal ''attempting to listen to too many sockets - maximum is %d'' [MInt (int MAX_ICBINN_SOCKETS)] s
      else
        (case optarg of
           None \<Rightarrow> Exit 1 s
         | Some a \<Rightarrow>
             if so_num so < length (so_port so)
             then svc_options opts (so\<lparr>so_port := (so_port so)[so_num so := atoi a], so_num := so_num so + 1\<rparr>) s
             else Fault))"
| "svc_options (Opt_t # opts) so s = svc_options opts (so\<lparr>so_tflag := so_tflag so + 1\<rparr>) s"
| "svc_options (Opt_unknown # opts) so s = Exit 1 s"

section \<open>Listening\<close>

definition svc_create_socket ::
  "bool \<Rightarrow> 'w host \<Rightarrow> int \<Rightarrow> int \<Rightarrow> 'w server \<Rightarrow> (int, 'w server) outcome" where
  "svc_create_socket have_v4v ho port use_tcp s =
     andthen
       (if use_tcp = 0 then
          (if have_v4v then Ret () s else fatal ''no v4v support'' [] s)
        else Ret () s)
       (\<lambda>_ s. case on_world (ho_socket ho (if use_tcp = 0 then AF_INETV4V else AF_INET)) s of
          (Inl e, s1) \<Rightarrow>
            (if use_tcp = 0 then fatal ''failed to create socket: errno %d'' [MInt (int e)] s1
             else
               (case on_world (ho_setsockopt ho (-1)) s1 of
                  (Inl e', s2) \<Rightarrow> fatal ''failed to create socket: errno %d'' [MInt (int e')] s2
                | (Inr _, s2) \<Rightarrow> fatal ''failed to create socket: errno %d'' [MInt (int e)] s2))
        | (Inr sockfd, s1) \<Rightarrow>
            (let s2 = (if use_tcp = 0 then s1 else snd (on_world (ho_setsockopt ho sockfd) s1));
                 saddr = \<lparr>sin_family = AF_INET, sin_port = word_of_int port, sin_addr = 0\<rparr>
             in case on_world (ho_bind ho sockfd saddr) s2 of
                  (Inl e, s3) \<Rightarrow> fatal ''bind failed: errno %d'' [MInt (int e)] s3
                | (Inr _, s3) \<Rightarrow>
                    (case on_world (ho_listen ho sockfd 5) s3 of
                       (Inl e, s4) \<Rightarrow> fatal ''listen failed: errno %d'' [MInt (int e)] s4
                     | (Inr _, s4) \<Rightarrow>
                         (let arg = (case ho_getfl ho sockfd (world s4) of Inl _ \<Rightarrow> - 1 | Inr fl \<Rightarrow> fl) in
                          case on_world (ho_setfl ho sockfd (arg OR O_NONBLOCK)) s4 of
                            (Inl e, s5) \<Rightarrow>
                              fatal ''failed to switch to non-blocking mode, errno is %d'' [MInt (int e)] s5
                          | (Inr _, s5) \<Rightarrow> Ret sockfd s5))))"

text \<open>The loop that opens the sockets for \<open>port[0]\<close> up to \<open>port[num - 1]\<close>.\<close>

fun svc_open_sockets ::
  "bool \<Rightarrow> 'w host \<Rightarrow> int \<Rightarrow> int list \<Rightarrow> 'w server \<Rightarrow> (int list, 'w server) outcome" where
  "svc_open_sockets have_v4v ho tflag [] s = Ret [] s"
| "svc_open_sockets have_v4v ho tflag (port # ports) s =
     andthen (svc_create_socket have_v4v ho port tflag s) (\<lambda>fd s1.
       if fd < 0 then
         fatal ''Failed to open listening socket tcp=%d port=%d'' [MInt tflag, MInt port] s1
       else andthen (svc_open_sockets have_v4v ho tflag ports s1) (\<lambda>fds s2. Ret (fd # fds) s2))"

section \<open>Accepting\<close>

text \<open>The loop over the listening sockets from number \<open>i\<close> on; None is its result -1.\<close>

fun svc_accept_loop ::
  "'w host \<Rightarrow> int list \<Rightarrow> nat \<Rightarrow> int list \<Rightarrow> 'w server \<Rightarrow> (int \<times> nat \<times> sockaddr_in) option \<times> 'w server" where
  "svc_accept_loop ho ready i [] s = (None, s)"
| "svc_accept_loop ho ready i (fd # fds) s =
     (if fd \<notin> set ready then svc_accept_loop ho ready (i + 1) fds s
      else
        (case on_world (ho_accept ho fd) s of
           (Inl e, s1) \<Rightarrow>
             svc_accept_loop ho ready (i + 1) fds (logged MESSAGE_WARNING ''accept failed: errno %d'' [MInt (int e)] s1)
         | (Inr (svfd, addr), s1) \<Rightarrow> (Some (svfd, i, addr), s1)))"

definition svc_accept_one_connexion ::
  "'w host \<Rightarrow> int list \<Rightarrow> 'w server \<Rightarrow> (int \<times> nat \<times> sockaddr_in) option \<times> 'w server" where
  "svc_accept_one_connexion ho sockfds s =
     (case on_world (ho_select ho sockfds) s of
        (Inl e, s1) \<Rightarrow>
          (None, logged MESSAGE_WARNING ''select on accept fds failed with errno %d'' [MInt (int e)] s1)
      | (Inr ready, s1) \<Rightarrow> if ready = [] then (None, s1) else svc_accept_loop ho ready 0 sockfds s1)"

section \<open>Serving\<close>

definition check_client_alive :: "'w host \<Rightarrow> int \<Rightarrow> 'w server \<Rightarrow> (unit, 'w server) outcome" where
  "check_client_alive ho svfd s =
     (if svfd = -1 then fatal ''invalid server fd, exiting'' [] s
      else if ho_getfl ho svfd (world s) = Inl EBADF then
        fatal ''client seems to have closed the connection, exiting'' [] s
      else
        (let err = (case ho_write_nothing ho svfd (world s) of Inl _ \<Rightarrow> - 1 | Inr n \<Rightarrow> int n) in
         if err \<ge> 0 then Ret () s
         else if err = - int EAGAIN then Ret () s
         else fatal ''client does not seem alive, exiting'' [] s))"

fun svc_dispatch :: "'w os \<Rightarrow> icbinn_request list \<Rightarrow> 'w server \<Rightarrow> (icbinn_reply list, 'w server) outcome" where
  "svc_dispatch os [] s = Ret [] s"
| "svc_dispatch os (req # reqs) s =
     andthen (icbinn_prot_program_1 os req s) (\<lambda>rep s1.
       andthen (svc_dispatch os reqs s1) (\<lambda>reps s2. Ret (rep # reps) s2))"

text \<open>One round of \<open>svc_input_loop\<close>, with the replies it sent.\<close>

definition svc_input_round ::
  "'w os \<Rightarrow> 'w host \<Rightarrow> int \<Rightarrow> 'w server \<Rightarrow> (icbinn_reply list, 'w server) outcome" where
  "svc_input_round os ho svfd s =
     andthen (if \<not> ho_fd_isset ho svfd (world s) then check_client_alive ho svfd s else Ret () s)
       (\<lambda>_ s1. case on_world (ho_svc_wait ho) s1 of
          (Inl e, s2) \<Rightarrow> Ret [] (logged MESSAGE_WARNING ''select failed with errno %d'' [MInt (int e)] s2)
        | (Inr None, s2) \<Rightarrow> andthen (check_client_alive ho svfd s2) (\<lambda>_ s3. Ret [] s3)
        | (Inr (Some reqs), s2) \<Rightarrow> svc_dispatch os reqs s2)"

text \<open>The loop never returns: what it does is the states it goes through.\<close>

inductive svc_input_loop :: "'w os \<Rightarrow> 'w host \<Rightarrow> int \<Rightarrow> 'w server \<Rightarrow> 'w server \<Rightarrow> bool" for os ho svfd s where
  entered: "svc_input_loop os ho svfd s s"
| round: "svc_input_loop os ho svfd s s1 \<Longrightarrow> svc_input_round os ho svfd s1 = Ret reps s2 \<Longrightarrow>
     svc_input_loop os ho svfd s s2"

section \<open>The child\<close>

definition client_domid :: "sockaddr_in \<Rightarrow> int" where
  "client_domid cl_addr = uint (sin_addr cl_addr AND 0xffff)"

text \<open>Making the directory when it is missing; failures of \<open>mkdir\<close> are ignored.\<close>

definition ensure_dir :: "'w os \<Rightarrow> string \<Rightarrow> 'w server \<Rightarrow> 'w server" where
  "ensure_dir os path s =
     (if os_stat os path (world s) = Inl ENOENT then snd (on_world (os_mkdir os path S_IRWXU) s) else s)"

definition confine ::
  "'w os \<Rightarrow> 'w host \<Rightarrow> string \<Rightarrow> 'w server \<Rightarrow> (unit, 'w server) outcome" where
  "confine os ho path s =
     (case on_world (ho_chdir ho path) (ensure_dir os path s) of
        (Inl e, s1) \<Rightarrow> fatal ''chdir to icbinn-path %s failed: errno %d'' [MStr path, MInt (int e)] s1
      | (Inr _, s1) \<Rightarrow>
          (case on_world (ho_chroot ho path) s1 of
             (Inl e, s2) \<Rightarrow> fatal ''chroot to icbinn-path %s failed: errno %d'' [MStr path, MInt (int e)] s2
           | (Inr _, s2) \<Rightarrow> Ret () s2))"

text \<open>Handing the connection to the RPC library.\<close>

definition svc_attach :: "'w host \<Rightarrow> int \<Rightarrow> 'w server \<Rightarrow> (unit, 'w server) outcome" where
  "svc_attach ho svfd s =
     (case on_world (ho_svc_fd_create ho svfd) s of
        (False, s1) \<Rightarrow> fatal ''cannot create server fd'' [] s1
      | (True, s1) \<Rightarrow>
          (case on_world (ho_svc_register ho) s1 of
             (False, s2) \<Rightarrow> fatal ''unable to register (ICBINN_PROT_PROGRAM, ICBINN_PROT_VERSION, 0).'' [] s2
           | (True, s2) \<Rightarrow> Ret () s2))"

text \<open>The block that looks the client's directory up and moves into it.\<close>

definition svc_enter_path ::
  "bool \<Rightarrow> 'w os \<Rightarrow> 'w host \<Rightarrow> 'w xenmgr \<Rightarrow> nat \<Rightarrow> int \<Rightarrow> 'w server \<Rightarrow> (unit, 'w server) outcome" where
  "svc_enter_path have_xcdbus os ho xm socket_index cl_domid s =
     (case get_icbinn_path have_xcdbus xm cl_domid ICBINN_PROT_MAXPATHLEN socket_index s of
        (None, s1) \<Rightarrow>
          fatal ''failed to get icbinn-path number %d for domid %d'' [MInt (int socket_index), MInt cl_domid] s1
      | (Some path, s1) \<Rightarrow>
          confine os ho path
            (logged MESSAGE_INFO ''icbinn-path number %d is %s'' [MInt (int socket_index), MStr path] s1))"

text \<open>The child from \<open>fork\<close> to the call of \<open>svc_input_loop\<close>.\<close>

definition svc_child ::
  "bool \<Rightarrow> 'w os \<Rightarrow> 'w host \<Rightarrow> 'w xenmgr \<Rightarrow> int list \<Rightarrow> int \<Rightarrow> nat \<Rightarrow> sockaddr_in \<Rightarrow> 'w server \<Rightarrow>
   (unit, 'w server) outcome" where
  "svc_child have_xcdbus os ho xm sockfds svfd socket_index cl_addr s =
     (let s1 = logged MESSAGE_INFO ''in child, index of accepted connection = %d'' [MInt (int socket_index)] s;
          s2 = fold (\<lambda>fd s. snd (on_world (os_close os fd) s)) sockfds s1;
          cl_domid = client_domid cl_addr;
          s3 = logged MESSAGE_INFO ''client dom_id = %d'' [MInt cl_domid] s2
      in andthen (init_rand os s3) (\<lambda>_ s4.
           andthen (svc_enter_path have_xcdbus os ho xm socket_index cl_domid s4) (\<lambda>_ s5.
             svc_attach ho svfd s5)))"

section \<open>main\<close>

text \<open>
  The first half of a round of the accept loop: a connection, if there is one, and the \<open>fork\<close> for it,
  with what \<open>fork\<close> returned to the process.
\<close>

definition svc_accept_fork ::
  "'w host \<Rightarrow> int list \<Rightarrow> 'w server \<Rightarrow> ((nat \<times> int \<times> nat \<times> sockaddr_in) option, 'w server) outcome" where
  "svc_accept_fork ho sockfds s =
     (case svc_accept_one_connexion ho sockfds s of
        (None, s1) \<Rightarrow> Ret None s1
      | (Some (svfd, socket_index, cl_addr), s1) \<Rightarrow>
          if svfd < 0 then Ret None s1
          else
            (case on_world (ho_fork ho) s1 of
               (Inl e, s2) \<Rightarrow> fatal ''fork failed: errno %d'' [MInt (int e)] s2
             | (Inr chld, s2) \<Rightarrow> Ret (Some (chld, svfd, socket_index, cl_addr)) s2))"

text \<open>A round of the accept loop: None in the parent, the served descriptor in a child.\<close>

definition svc_main_round ::
  "bool \<Rightarrow> 'w os \<Rightarrow> 'w host \<Rightarrow> 'w xenmgr \<Rightarrow> int list \<Rightarrow> 'w server \<Rightarrow> (int option, 'w server) outcome" where
  "svc_main_round have_xcdbus os ho xm sockfds s =
     andthen (svc_accept_fork ho sockfds s) (\<lambda>r s2.
       case r of
         None \<Rightarrow> Ret None s2
       | Some (chld, svfd, socket_index, cl_addr) \<Rightarrow>
           if chld = 0 then
             andthen (svc_child have_xcdbus os ho xm sockfds svfd socket_index cl_addr s2)
               (\<lambda>_ s3. Ret (Some svfd) s3)
           else Ret None (snd (on_world (os_close os svfd) s2)))"

text \<open>From the start of the process to the accept loop: the listening sockets.\<close>

definition svc_main_setup ::
  "bool \<Rightarrow> 'w host \<Rightarrow> svc_opt list \<Rightarrow> 'w server \<Rightarrow> (int list, 'w server) outcome" where
  "svc_main_setup have_v4v ho opts s =
     andthen (svc_options opts (svc_no_opts have_v4v) s) (\<lambda>so s1.
       let num = (if so_num so = 0 then 1 else so_num so) in
       case on_world (ho_signal ho) s1 of
         (Inl e, s2) \<Rightarrow> fatal ''signal failed: errno %d'' [MInt (int e)] s2
       | (Inr _, s2) \<Rightarrow> svc_open_sockets have_v4v ho (so_tflag so) (take num (so_port so)) s2)"

text \<open>
  The states of the processes: the parent that listens, and a child that serves a descriptor.
\<close>

inductive svc_process ::
  "bool \<Rightarrow> bool \<Rightarrow> 'w os \<Rightarrow> 'w host \<Rightarrow> 'w xenmgr \<Rightarrow> svc_opt list \<Rightarrow> 'w \<Rightarrow> int list \<Rightarrow> int option \<Rightarrow> 'w server \<Rightarrow> bool"
  for have_v4v have_xcdbus os ho xm opts w0 where
  listening: "svc_main_setup have_v4v ho opts (server_start w0) = Ret sockfds s \<Longrightarrow>
     svc_process have_v4v have_xcdbus os ho xm opts w0 sockfds None s"
| accepted: "svc_process have_v4v have_xcdbus os ho xm opts w0 sockfds None s \<Longrightarrow>
     svc_main_round have_xcdbus os ho xm sockfds s = Ret who s' \<Longrightarrow>
     svc_process have_v4v have_xcdbus os ho xm opts w0 sockfds who s'"
| served: "svc_process have_v4v have_xcdbus os ho xm opts w0 sockfds (Some svfd) s \<Longrightarrow>
     svc_input_loop os ho svfd s s' \<Longrightarrow>
     svc_process have_v4v have_xcdbus os ho xm opts w0 sockfds (Some svfd) s'"

end
