(* ===== verification/Svc_Props.thy ===== *)
theory Svc_Props
  imports Svc_main Server_Props
begin

text \<open>
  Properties of the server process: the bound on its sockets, what is accepted, what a child has
  done by the time it serves, the invariant of the request handlers carried through the process,
  and the check that a client is alive.
\<close>

section \<open>Messages keep the invariant\<close>

lemma fatal_exits [simp]: "fatal fmt args s = Exit 1 (s\<lparr>slog := slog s @ [(''Fatal'', fmt, args)]\<rparr>)"
  by (simp add: fatal_def)

lemma logged_eq: "logged l fmt args s = s\<lparr>slog := slog s @ [(message_level l, fmt, args)]\<rparr>"
  by (simp add: logged_def message_def Let_def)

lemma logged_statics [simp]: "world (logged l fmt args s) = world s" "server_inv (logged l fmt args s) = server_inv s"
  by (simp_all add: logged_eq server_inv_def)

lemma on_world_inv [simp]: "server_inv (snd (on_world f s)) = server_inv s"
  by (simp add: on_world_def split: prod.split)

lemma on_world_invD: "on_world f s = (r, s') \<Longrightarrow> server_inv s' = server_inv s"
  by (auto simp: on_world_def split: prod.splits)

lemma on_world_eq: "on_world f s = (r, s') \<longleftrightarrow> f (world s) = (r, world s') \<and> s' = s\<lparr>world := world s'\<rparr>"
  by (auto simp: on_world_def split: prod.splits)

section \<open>Options and sockets\<close>

lemma svc_options_bounds:
  assumes "length (so_port so) = 16" and "so_num so \<le> 16"
  shows "svc_options opts so s \<noteq> Fault \<and>
    (\<forall>so' s'. svc_options opts so s = Ret so' s' \<longrightarrow>
       s' = s \<and> length (so_port so') = 16 \<and> so_num so' \<le> 16)"
  using assms
  by (induction opts so s rule: svc_options.induct) (auto split: option.split)

lemma svc_create_socket_no_fault: "svc_create_socket have_v4v ho port use_tcp s \<noteq> Fault"
  by (auto simp: svc_create_socket_def Let_def split: prod.split sum.split)

text \<open>A step that, if it returns, leaves the handlers' invariant as it was.\<close>

definition keeps_inv :: "('a, 'w server) outcome \<Rightarrow> 'w server \<Rightarrow> bool" where
  "keeps_inv r s \<longleftrightarrow> (\<forall>a s'. r = Ret a s' \<longrightarrow> server_inv s' = server_inv s)"

lemma keeps_inv_simps [simp]:
  "keeps_inv (Ret a s') s \<longleftrightarrow> server_inv s' = server_inv s" "keeps_inv (Exit n s') s" "keeps_inv Fault s"
  by (simp_all add: keeps_inv_def)

lemma keeps_inv_andthen:
  "keeps_inv r s \<Longrightarrow> (\<And>a s'. server_inv s' = server_inv s \<Longrightarrow> keeps_inv (f a s') s) \<Longrightarrow> keeps_inv (andthen r f) s"
  by (cases r) simp_all

lemma keeps_inv_on_world:
  assumes "server_inv s1 = server_inv s"
    and "\<And>e s'. server_inv s' = server_inv s \<Longrightarrow> keeps_inv (A e s') s"
    and "\<And>x s'. server_inv s' = server_inv s \<Longrightarrow> keeps_inv (B x s') s"
  shows "keeps_inv (case on_world f s1 of (Inl e, s') \<Rightarrow> A e s' | (Inr x, s') \<Rightarrow> B x s') s"
proof -
  obtain r s' where "on_world f s1 = (r, s')" by fastforce
  then show ?thesis
    using assms on_world_invD [of f s1 r s'] by (cases r) simp_all
qed

lemma svc_create_socket_inv: "keeps_inv (svc_create_socket have_v4v ho port use_tcp s) s"
  unfolding svc_create_socket_def Let_def
  by (intro keeps_inv_andthen keeps_inv_on_world) (simp_all add: keeps_inv_on_world)

lemma svc_open_sockets_result:
  "svc_open_sockets have_v4v ho tflag ports s \<noteq> Fault \<and>
   (\<forall>fds s'. svc_open_sockets have_v4v ho tflag ports s = Ret fds s' \<longrightarrow>
      length fds = length ports \<and> server_inv s' = server_inv s)"
proof (induction ports arbitrary: s)
  case (Cons port ports)
  then show ?case
    using svc_create_socket_no_fault [of have_v4v ho port tflag s]
       svc_create_socket_inv [of have_v4v ho port tflag s] by (auto simp: keeps_inv_def)
qed simp

lemma svc_main_setup_result:
  "svc_main_setup have_v4v ho opts s \<noteq> Fault \<and>
   (\<forall>fds s'. svc_main_setup have_v4v ho opts s = Ret fds s' \<longrightarrow>
      1 \<le> length fds \<and> length fds \<le> 16 \<and> server_inv s' = server_inv s)"
proof (cases "svc_options opts (svc_no_opts have_v4v) s")
  case (Ret so s1)
  have "length (so_port (svc_no_opts have_v4v)) = 16" "so_num (svc_no_opts have_v4v) \<le> 16"
    by (simp_all add: svc_no_opts_def)
  from svc_options_bounds [OF this, of opts s] Ret
  have so: "s1 = s" "length (so_port so) = 16" "so_num so \<le> 16" by auto
  obtain r s2 where sig: "on_world (ho_signal ho) s = (r, s2)" by fastforce
  show ?thesis
    using svc_open_sockets_result [of have_v4v ho "so_tflag so"
        "take (if so_num so = 0 then 1 else so_num so) (so_port so)" s2] so on_world_invD [OF sig]
    by (auto simp: svc_main_setup_def Ret sig Let_def min_def split: sum.split)
next
  case Fault
  then show ?thesis using svc_options_bounds [of "svc_no_opts have_v4v" opts s] by (simp add: svc_no_opts_def)
qed (simp add: svc_main_setup_def)

text \<open>
  C26: however many ports are named on the command line, the server never writes behind its arrays
  of ports and sockets, and when it gets to the accept loop it listens on at least one and at most
  sixteen sockets.
\<close>

theorem svc_setup_bounded:
  "svc_main_setup have_v4v ho opts s \<noteq> Fault \<and>
   (svc_main_setup have_v4v ho opts s = Ret sockfds s' \<longrightarrow> 1 \<le> length sockfds \<and> length sockfds \<le> 16)"
  using svc_main_setup_result [of have_v4v ho opts s] by blast

section \<open>Accepting\<close>

lemma nth_Cons_shift: "Suc i \<le> j \<Longrightarrow> (x # xs) ! (j - i) = xs ! (j - Suc i)"
  by (simp add: nth_Cons')

lemma svc_accept_loop_result:
  assumes "svc_accept_loop ho ready i fds s = (r, s')"
  shows "server_inv s' = server_inv s \<and>
    (\<forall>svfd j addr. r = Some (svfd, j, addr) \<longrightarrow> i \<le> j \<and> j < i + length fds \<and> fds ! (j - i) \<in> set ready \<and>
       (\<exists>w. ho_accept ho (fds ! (j - i)) w = (Inr (svfd, addr), world s')))"
  using assms
proof (induction fds arbitrary: i s)
  case (Cons fd fds)
  obtain a s1 where a: "on_world (ho_accept ho fd) s = (a, s1)" by fastforce
  have later: ?case if "svc_accept_loop ho ready (Suc i) fds s2 = (r, s')" "server_inv s2 = server_inv s" for s2
    using Cons.IH [OF that(1)] that(2) by (auto simp: nth_Cons_shift Suc_le_eq)
  show ?case
  proof (cases "fd \<in> set ready")
    case True
    show ?thesis
    proof (cases a)
      case (Inl e)
      then show ?thesis
        using Cons.prems True a on_world_invD [OF a]
        by (intro later [of "logged MESSAGE_WARNING ''accept failed: errno %d'' [MInt (int e)] s1"]) simp_all
    next
      case (Inr p)
      then obtain svfd addr where "r = Some (svfd, i, addr)" "s' = s1" "a = Inr (svfd, addr)"
        using Cons.prems True a by (cases p) auto
      then show ?thesis
        using a True on_world_invD [OF a] by (auto simp: on_world_eq)
    qed
  next
    case False
    then show ?thesis using Cons.prems by (intro later [of s]) simp_all
  qed
qed simp

lemma svc_accept_result:
  assumes "svc_accept_one_connexion ho sockfds s = (r, s')"
  shows "server_inv s' = server_inv s \<and>
    (\<forall>svfd j addr. r = Some (svfd, j, addr) \<longrightarrow> j < length sockfds \<and>
       (\<exists>w. ho_accept ho (sockfds ! j) w = (Inr (svfd, addr), world s')))"
proof -
  obtain a s1 where a: "on_world (ho_select ho sockfds) s = (a, s1)" by fastforce
  show ?thesis
    using assms on_world_invD [OF a] svc_accept_loop_result [of ho _ 0 sockfds s1 r s']
    by (cases a) (auto simp: svc_accept_one_connexion_def a split: if_splits)
qed

section \<open>The child\<close>

lemma init_rand_keeps: "keeps_inv (init_rand os s) s"
  by (auto simp: keeps_inv_def init_rand_def server_inv_def split: prod.splits sum.splits)

lemma get_icbinn_path_inv [simp]:
  "server_inv (snd (get_icbinn_path have_xcdbus xm domid n i s)) = server_inv s"
  by (simp add: get_icbinn_path_def path_field_def Let_def split: option.split)

lemma ensure_dir_inv [simp]: "server_inv (ensure_dir os path s) = server_inv s"
  by (simp add: ensure_dir_def)

lemma confine_keeps: "keeps_inv (confine os ho path s) s"
  unfolding confine_def by (intro keeps_inv_on_world) simp_all

lemma close_all_inv [simp]:
  "server_inv (fold (\<lambda>fd s. snd (on_world (os_close os fd) s)) fds s) = server_inv s"
  by (induction fds arbitrary: s) simp_all

text \<open>
  A process whose world is \<open>w\<close> has just been confined to \<open>path\<close>: it changed its directory and then its
  root to it, both without error, and did nothing in between.
\<close>

definition confined :: "'w host \<Rightarrow> string \<Rightarrow> 'w \<Rightarrow> bool" where
  "confined ho path w \<longleftrightarrow>
     (\<exists>w0 w1. ho_chdir ho path w0 = (Inr (), w1) \<and> ho_chroot ho path w1 = (Inr (), w))"

lemma confine_confined: "confine os ho path s = Ret () s' \<Longrightarrow> confined ho path (world s')"
  by (fastforce simp: confine_def confined_def on_world_def split: prod.splits sum.splits)

lemma svc_enter_path_result:
  assumes "svc_enter_path have_xcdbus os ho xm idx domid s = Ret () s'"
  shows "server_inv s' = server_inv s \<and>
    (\<exists>path. fst (get_icbinn_path have_xcdbus xm domid ICBINN_PROT_MAXPATHLEN idx s) = Some path \<and>
       confined ho path (world s'))"
proof -
  obtain p s1 where g: "get_icbinn_path have_xcdbus xm domid ICBINN_PROT_MAXPATHLEN idx s = (p, s1)"
    by fastforce
  then have s1: "server_inv s1 = server_inv s"
    by (metis get_icbinn_path_inv snd_conv)
  obtain path where p: "p = Some path"
    using assms g by (cases p) (simp_all add: svc_enter_path_def)
  let ?s = "logged MESSAGE_INFO ''icbinn-path number %d is %s'' [MInt (int idx), MStr path] s1"
  have c: "confine os ho path ?s = Ret () s'"
    using assms g p by (simp add: svc_enter_path_def)
  then show ?thesis
    using confine_keeps [of os ho path ?s] confine_confined [OF c] g p s1 by (simp add: keeps_inv_def)
qed

lemma svc_attach_result:
  assumes "svc_attach ho svfd s = Ret () s'"
  shows "server_inv s' = server_inv s \<and>
    (\<exists>w. ho_svc_fd_create ho svfd (world s) = (True, w) \<and> ho_svc_register ho w = (True, world s'))"
  using assms
  by (auto simp: svc_attach_def on_world_def split: prod.splits bool.splits)

text \<open>What a child has done by the time it serves.\<close>

lemma svc_child_result:
  assumes "svc_child have_xcdbus os ho xm sockfds svfd idx addr s = Ret () s'"
  shows "server_inv s' = server_inv s \<and>
    (\<exists>s0 s4 path w w1. init_rand os s0 = Ret () s4 \<and>
       fst (get_icbinn_path have_xcdbus xm (client_domid addr) ICBINN_PROT_MAXPATHLEN idx s4) = Some path \<and>
       confined ho path w \<and>
       ho_svc_fd_create ho svfd w = (True, w1) \<and> ho_svc_register ho w1 = (True, world s'))"
proof -
  define s0 where "s0 = logged MESSAGE_INFO ''client dom_id = %d'' [MInt (client_domid addr)]
    (fold (\<lambda>fd s. snd (on_world (os_close os fd) s)) sockfds
      (logged MESSAGE_INFO ''in child, index of accepted connection = %d'' [MInt (int idx)] s))"
  obtain s4 s5 where r: "init_rand os s0 = Ret () s4"
    and e: "svc_enter_path have_xcdbus os ho xm idx (client_domid addr) s4 = Ret () s5"
    and a: "svc_attach ho svfd s5 = Ret () s'"
    using assms by (auto simp: svc_child_def Let_def s0_def)
  have "server_inv s4 = server_inv s"
    using init_rand_keeps [of os s0] r by (simp add: keeps_inv_def s0_def)
  then show ?thesis
    using svc_enter_path_result [OF e] svc_attach_result [OF a] r by blast
qed

section \<open>Serving\<close>

lemma check_client_alive_result:
  "check_client_alive ho svfd s = Ret () s \<or> (\<exists>s'. check_client_alive ho svfd s = Exit 1 s')"
  by (simp add: check_client_alive_def Let_def)

lemma program_safe: "path_max os \<Longrightarrow> icbinn_prot_program_1 os req s \<noteq> Fault"
  using readdir_svc_safe by (cases req) (auto simp: ret_def split: outcome.split)

lemma svc_dispatch_safe: "path_max os \<Longrightarrow> svc_dispatch os reqs s \<noteq> Fault"
  by (induction reqs arbitrary: s) (auto simp: program_safe)

lemma svc_dispatch_inv:
  "reads_bounded os \<Longrightarrow> svc_dispatch os reqs s = Ret reps s' \<Longrightarrow> server_inv s \<Longrightarrow> server_inv s'"
  by (induction reqs arbitrary: s reps) (auto dest: program_inv)

lemma svc_input_round_inv:
  assumes "reads_bounded os" and "svc_input_round os ho svfd s = Ret reps s'" and "server_inv s"
  shows "server_inv s'"
proof -
  obtain r s2 where wt: "on_world (ho_svc_wait ho) s = (r, s2)" by fastforce
  have s2: "server_inv s2" using on_world_invD [OF wt] assms(3) by simp
  have "(case r of Inl e \<Rightarrow> Ret [] (logged MESSAGE_WARNING ''select failed with errno %d'' [MInt (int e)] s2)
      | Inr None \<Rightarrow> andthen (check_client_alive ho svfd s2) (\<lambda>_ s3. Ret [] s3)
      | Inr (Some reqs) \<Rightarrow> svc_dispatch os reqs s2) = Ret reps s'"
    using assms(2) wt check_client_alive_result [of ho svfd s]
    by (auto simp: svc_input_round_def split: if_splits sum.splits)
  then show ?thesis
    using s2 svc_dispatch_inv [OF assms(1)] check_client_alive_result [of ho svfd s2]
    by (auto split: sum.splits option.splits)
qed

lemma svc_input_loop_inv:
  assumes "svc_input_loop os ho svfd s s'" and "reads_bounded os" and "server_inv s"
  shows "server_inv s'"
  using assms by (induction rule: svc_input_loop.induct) (blast intro: svc_input_round_inv)+

lemma svc_accept_fork_result:
  assumes "svc_accept_fork ho sockfds s = Ret r s'"
  shows "server_inv s' = server_inv s \<and>
    (\<forall>chld svfd idx addr. r = Some (chld, svfd, idx, addr) \<longrightarrow> idx < length sockfds \<and>
       (\<exists>wa wb. ho_accept ho (sockfds ! idx) wa = (Inr (svfd, addr), wb)))"
proof -
  obtain a s1 where a: "svc_accept_one_connexion ho sockfds s = (a, s1)" by fastforce
  obtain f s2 where f: "on_world (ho_fork ho) s1 = (f, s2)" by fastforce
  show ?thesis
    using assms svc_accept_result [OF a] on_world_invD [OF f]
    by (auto simp: svc_accept_fork_def a f split: option.splits prod.splits if_splits sum.splits) blast+
qed

lemma svc_main_round_result:
  assumes "svc_main_round have_xcdbus os ho xm sockfds s = Ret who s'"
  shows "server_inv s' = server_inv s \<and>
    (\<forall>svfd. who = Some svfd \<longrightarrow>
      (\<exists>idx addr s4 path w w1. idx < length sockfds \<and> (\<exists>wa wb. ho_accept ho (sockfds ! idx) wa = (Inr (svfd, addr), wb)) \<and>
       fst (get_icbinn_path have_xcdbus xm (client_domid addr) ICBINN_PROT_MAXPATHLEN idx s4) = Some path \<and>
       confined ho path w \<and> ho_svc_fd_create ho svfd w = (True, w1) \<and> ho_svc_register ho w1 = (True, world s')))"
proof -
  obtain r s2 where a: "svc_accept_fork ho sockfds s = Ret r s2"
    using assms by (auto simp: svc_main_round_def)
  note acc = svc_accept_fork_result [OF a]
  show ?thesis
  proof (cases "\<exists>svfd idx addr. r = Some (0, svfd, idx, addr)")
    case True
    then obtain svfd idx addr where r: "r = Some (0, svfd, idx, addr)" by blast
    then have c: "svc_child have_xcdbus os ho xm sockfds svfd idx addr s2 = Ret () s'" and "who = Some svfd"
      using assms a by (auto simp: svc_main_round_def)
    moreover have "server_inv s2 = server_inv s" "idx < length sockfds"
      "\<exists>wa wb. ho_accept ho (sockfds ! idx) wa = (Inr (svfd, addr), wb)"
      using acc r by auto
    ultimately show ?thesis using svc_child_result [OF c] by blast
  next
    case False
    then show ?thesis
      using assms a acc by (auto simp: svc_main_round_def split: option.splits if_splits)
  qed
qed

section \<open>Every process of the server\<close>

lemma process_keeps_inv:
  assumes "svc_process have_v4v have_xcdbus os ho xm opts w0 sockfds who s" and "reads_bounded os"
  shows "server_inv s"
  using assms
proof (induction rule: svc_process.induct)
  case (listening sockfds s)
  then show ?case
    using svc_main_setup_result [of have_v4v ho opts "server_start w0"] server_start_inv [of w0] by auto
next
  case (accepted sockfds s who s')
  then show ?case using svc_main_round_result [OF accepted.hyps(2)] by simp
next
  case (served sockfds svfd s s')
  then show ?case by (blast intro: svc_input_loop_inv)
qed

text \<open>
  Every process of the server, the one that listens and each child that serves, keeps the
  invariant of the request handlers: nothing done before the first request and between requests
  disturbs it.
\<close>

theorem process_invariant:
  assumes "reads_bounded os" and "svc_process have_v4v have_xcdbus os ho xm opts w0 sockfds who s"
  shows "server_inv s"
  using process_keeps_inv [OF assms(2,1)] .

section \<open>A run\<close>

text \<open>A host of the examples: one client, from domain 7, whose connection is descriptor 21.\<close>

definition toy_host :: "mem_fs host" where
  "toy_host =
     \<lparr>ho_socket = (\<lambda>f w. (Inr 20, w)), ho_setsockopt = (\<lambda>fd w. (Inr (), w)),
      ho_bind = (\<lambda>fd sa w. (Inr (), w)), ho_listen = (\<lambda>fd n w. (Inr (), w)),
      ho_getfl = (\<lambda>fd w. Inr 0), ho_setfl = (\<lambda>fd fl w. (Inr (), w)),
      ho_select = (\<lambda>fds w. (Inr fds, w)),
      ho_accept = (\<lambda>fd w. (Inr (21, \<lparr>sin_family = AF_INET, sin_port = 1024, sin_addr = v4v_addr 7\<rparr>), w)),
      ho_signal = (\<lambda>w. (Inr (), w)), ho_fork = (\<lambda>w. (Inr 0, w)),
      ho_chdir = (\<lambda>p w. (Inr (), w)), ho_chroot = (\<lambda>p w. (Inr (), w\<lparr>mf_root := p\<rparr>)),
      ho_svc_fd_create = (\<lambda>fd w. (True, w)), ho_svc_register = (\<lambda>w. (True, w)),
      ho_fd_isset = (\<lambda>fd w. True), ho_write_nothing = (\<lambda>fd w. Inr 0),
      ho_svc_wait = (\<lambda>w. (Inr (Some [ICBINN_PROT_NULL]), w))\<rparr>"

lemma toy_domid: "client_domid \<lparr>sin_family = AF_INET, sin_port = 1024, sin_addr = v4v_addr 7\<rparr> = 7"
  by (simp add: client_domid_def v4v_addr_def)

lemma default_ports: "take (Suc 0) (so_port (svc_no_opts have_v4v)) = [ICBINN_PROT_PORT]"
  by (simp add: svc_no_opts_def numeral_eq_Suc)

lemma default_opts: "so_num (svc_no_opts True) = 0" "so_tflag (svc_no_opts True) = 0"
  by (simp_all add: svc_no_opts_def)

lemma toy_setup:
  "svc_main_setup True toy_host [] (server_start mem_example) = Ret [20] (server_start mem_example)"
proof -
  have "svc_open_sockets True toy_host 0 [ICBINN_PROT_PORT] (server_start mem_example) =
      Ret [20] (server_start mem_example)"
    by (simp add: svc_create_socket_def toy_host_def on_world_def Let_def server_start_def)
  moreover have "on_world (ho_signal toy_host) (server_start mem_example) = (Inr (), server_start mem_example)"
    by (simp add: toy_host_def on_world_def server_start_def)
  ultimately show ?thesis
    by (simp add: svc_main_setup_def default_opts default_ports Let_def del: svc_open_sockets.simps)
qed

lemma toy_listens:
  "svc_process True True mem_os toy_host toy_xenmgr [] mem_example [20] None (server_start mem_example)"
  by (rule listening) (rule toy_setup)

lemma toy_serves: "\<exists>s. svc_process True True mem_os toy_host toy_xenmgr [] mem_example [20] (Some 21) s"
proof -
  have "\<exists>s. svc_main_round True mem_os toy_host toy_xenmgr [20] (server_start mem_example) = Ret (Some 21) s"
    by (simp add: svc_main_round_def svc_accept_fork_def svc_accept_one_connexion_def toy_host_def on_world_def svc_child_def
        toy_domid Let_def logged_eq init_rand_def mem_os_def mem_fd_def mem_open_def mem_example_def
        svc_enter_path_def get_icbinn_path_def path_field_def toy_xenmgr_def confine_def ensure_dir_def
        mem_stat_def svc_attach_def)
  then show ?thesis using toy_listens by (blast intro: accepted)
qed

theorem process_invariant_witness:
  "\<exists>s. svc_process True True mem_os toy_host toy_xenmgr [] mem_example [20] (Some 21) s \<and> server_inv s"
  using toy_serves process_invariant [OF mem_reads_bounded] by blast

theorem svc_setup_bounded_witness:
  "svc_main_setup True toy_host [] (server_start mem_example) = Ret [20] (server_start mem_example) \<and>
   1 \<le> length [20 :: int] \<and> length [20 :: int] \<le> 16"
  using toy_setup
    svc_setup_bounded [of True toy_host "[]" "server_start mem_example" "[20]" "server_start mem_example"]
  by blast

section \<open>One round\<close>

lemma svc_input_round_outcome:
  assumes "path_max os" and "svc_input_round os ho svfd s = r"
  shows "r \<noteq> Fault"
proof -
  obtain q s2 where wt: "on_world (ho_svc_wait ho) s = (q, s2)" by fastforce
  show ?thesis
    using assms wt check_client_alive_result [of ho svfd s] check_client_alive_result [of ho svfd s2]
      svc_dispatch_safe [OF assms(1)]
    by (auto simp: svc_input_round_def split: sum.splits option.splits if_splits)
qed



text \<open>
  C40: the check that a client is alive gives up on a client that is only slow. A write that would
  block fails with EAGAIN, but the code compares the result of \<open>write\<close>, which is -1, with -EAGAIN: the
  branch that should let the client live is never taken and the process exits.
\<close>

theorem eagain_kills_session:
  assumes "svfd \<noteq> -1" and "ho_getfl ho svfd (world s) \<noteq> Inl EBADF"
    and "ho_write_nothing ho svfd (world s) = Inl EAGAIN"
  shows "check_client_alive ho svfd s =
    Exit 1 (s\<lparr>slog := slog s @ [(''Fatal'', ''client does not seem alive, exiting'', [])]\<rparr>)"
  using assms by (simp add: check_client_alive_def)

theorem eagain_kills_session_witness:
  "\<exists>s'. check_client_alive (toy_host\<lparr>ho_write_nothing := \<lambda>fd w. Inl EAGAIN\<rparr>) 21 served_example = Exit 1 s'"
  using eagain_kills_session [of 21 "toy_host\<lparr>ho_write_nothing := \<lambda>fd w. Inl EAGAIN\<rparr>" served_example]
  by (simp add: toy_host_def)

section \<open>Addresses\<close>

lemma and_mask16: "uint (x AND 0xffff :: u32) = uint x mod 2 ^ 16"
proof -
  have "(0xffff :: u32) = mask 16" by (simp add: mask_eq_exp_minus_1)
  then have "x AND 0xffff = take_bit 16 x" by (simp add: take_bit_eq_mask)
  then show ?thesis by (simp add: take_bit_eq_mod uint_mod)
qed



end
