(* ===== verification/Session_Process.thy ===== *)
theory Session_Process
  imports Session_Trace Svc_Props
begin

text \<open>
  The two ends of a connection, closed: the stubs of the client on one side, the serving loop of the
  server process on the other. \<open>process_CLIENT\<close> sends a request, lets the process run one round of
  \<open>svc_input_loop\<close> in which \<open>select\<close> reports that request, and takes the reply the dispatcher
  sends. It is the stub record \<open>server_CLIENT\<close> of \<open>Session\<close>, which calls the handlers directly: what is
  proved over that one holds through the dispatcher and the serving loop.
\<close>

text \<open>The host of a process whose connection is open and holds one request.\<close>

definition delivering :: "icbinn_request \<Rightarrow> 'w host \<Rightarrow> 'w host" where
  "delivering req ho = ho\<lparr>ho_fd_isset := \<lambda>_ _. True, ho_svc_wait := \<lambda>w. (Inr (Some [req]), w)\<rparr>"

text \<open>
  A call: \<open>reply\<close> is the part of the reply that belongs to the procedure. The stub fails when an argument
  or a result exceeds the protocol's bounds and when the process has come to its end.
\<close>

definition ask ::
  "(icbinn_reply \<Rightarrow> 'r option) \<Rightarrow> 'w os \<Rightarrow> 'w host \<Rightarrow> int \<Rightarrow> ('a \<Rightarrow> bool) \<Rightarrow> ('r \<Rightarrow> bool) \<Rightarrow>
   ('a \<Rightarrow> icbinn_request) \<Rightarrow> 'a \<Rightarrow> 'w server option \<Rightarrow> 'r option \<times> 'w server option" where
  "ask reply os ho svfd encodes res_encodes request a conn =
     (case conn of
        None \<Rightarrow> (None, None)
      | Some s \<Rightarrow>
          if \<not> encodes a then (None, Some s)
          else
            (case svc_input_round os (delivering (request a) ho) svfd s of
               Ret reps s' \<Rightarrow>
                 (case reps of
                    [rep] \<Rightarrow>
                      (case reply rep of
                         Some r \<Rightarrow> (if res_encodes r then Some r else None, Some s') | None \<Rightarrow> (None, Some s'))
                  | _ \<Rightarrow> (None, Some s'))
             | Exit _ _ \<Rightarrow> (None, None)
             | Fault \<Rightarrow> (None, None)))"

fun readdir_of where "readdir_of (ReaddirReply r) = Some r" | "readdir_of _ = None"
fun stat_of where "stat_of (StatReply r) = Some r" | "stat_of _ = None"
fun open_of where "open_of (OpenReply r) = Some r" | "open_of _ = None"
fun errno_of where "errno_of (ErrnoReply r) = Some r" | "errno_of _ = None"
fun pread_of where "pread_of (PreadReply r) = Some r" | "pread_of _ = None"
fun rand_of where "rand_of (RandReply r) = Some r" | "rand_of _ = None"
fun readlink_of where "readlink_of (ReadlinkReply r) = Some r" | "readlink_of _ = None"
fun statfs_of where "statfs_of (StatfsReply r) = Some r" | "statfs_of _ = None"
fun null_of where "null_of NullReply = Some ()" | "null_of _ = None"

definition process_CLIENT :: "'w os \<Rightarrow> 'w host \<Rightarrow> int \<Rightarrow> 'w server option CLIENT" where
  "process_CLIENT os ho svfd =
     \<lparr>icbinn_prot_null_1 =
        (\<lambda>conn. case ask null_of os ho svfd any any (\<lambda>_. ICBINN_PROT_NULL) () conn of (r, conn') \<Rightarrow> (r \<noteq> None, conn')),
      icbinn_prot_readdir_1 =
        ask readdir_of os ho svfd (\<lambda>a. path_encodes (ra_dir a)) readdirres_encodes ICBINN_PROT_READDIR,
      icbinn_prot_stat_1 = ask stat_of os ho svfd path_encodes any ICBINN_PROT_STAT,
      icbinn_prot_open_1 = ask open_of os ho svfd (\<lambda>a. path_encodes (oa_name a)) any ICBINN_PROT_OPEN,
      icbinn_prot_lock_1 = ask errno_of os ho svfd any any ICBINN_PROT_LOCK,
      icbinn_prot_pread_1 = ask pread_of os ho svfd any preadres_encodes ICBINN_PROT_PREAD,
      icbinn_prot_pwrite_1 = ask errno_of os ho svfd (\<lambda>a. data_encodes (pwa_data a)) any ICBINN_PROT_PWRITE,
      icbinn_prot_close_1 = ask errno_of os ho svfd any any ICBINN_PROT_CLOSE,
      icbinn_prot_mkdir_1 = ask errno_of os ho svfd path_encodes any ICBINN_PROT_MKDIR,
      icbinn_prot_rmdir_1 = ask errno_of os ho svfd path_encodes any ICBINN_PROT_RMDIR,
      icbinn_prot_rename_1 =
        ask errno_of os ho svfd (\<lambda>a. path_encodes (rna_from a) \<and> path_encodes (rna_to a)) any ICBINN_PROT_RENAME,
      icbinn_prot_unlink_1 = ask errno_of os ho svfd path_encodes any ICBINN_PROT_UNLINK,
      icbinn_prot_ftruncate_1 = ask errno_of os ho svfd any any ICBINN_PROT_FTRUNCATE,
      icbinn_prot_rand_1 = ask rand_of os ho svfd any randres_encodes ICBINN_PROT_RAND,
      icbinn_prot_fallocate_1 = ask errno_of os ho svfd any any ICBINN_PROT_FALLOCATE,
      icbinn_prot_symlink_1 =
        ask errno_of os ho svfd (\<lambda>a. path_encodes (sla_oldpath a) \<and> path_encodes (sla_newpath a)) any
          ICBINN_PROT_SYMLINK,
      icbinn_prot_readlink_1 =
        ask readlink_of os ho svfd (\<lambda>a. path_encodes (rla_path a)) readlinkres_encodes ICBINN_PROT_READLINK,
      icbinn_prot_statfs_1 = ask statfs_of os ho svfd path_encodes any ICBINN_PROT_STATFS,
      icbinn_prot_fsync_1 = ask errno_of os ho svfd any any ICBINN_PROT_FSYNC\<rparr>"

section \<open>It is the record that calls the handlers\<close>

lemma round_delivering:
  "svc_input_round os (delivering req ho) svfd s =
     andthen (icbinn_prot_program_1 os req s) (\<lambda>rep s'. Ret [rep] s')"
  by (simp add: svc_input_round_def delivering_def on_world_def)

lemma ask_serve:
  assumes "\<And>a s. icbinn_prot_program_1 os (request a) s = ret wrap (h a s)" and "\<And>r. reply (wrap r) = Some r"
  shows "ask reply os ho svfd encodes res_encodes request = serve encodes res_encodes h"
  by (intro ext) (simp add: ask_def serve_def round_delivering assms ret_def split: option.split)

lemma ask_readdir:
  "ask readdir_of os ho svfd encodes res_encodes ICBINN_PROT_READDIR =
     serve_outcome encodes res_encodes (icbinn_prot_readdir_1_svc os)"
  by (intro ext) (simp add: ask_def serve_outcome_def round_delivering split: option.split outcome.split)

lemma ask_null:
  "ask null_of os ho svfd any any (\<lambda>_. ICBINN_PROT_NULL) () conn = (map_option (\<lambda>_. ()) conn, map_option icbinn_prot_null_1_svc conn)"
  by (cases conn) (simp_all add: ask_def round_delivering)

lemma process_CLIENT_eq: "process_CLIENT os ho svfd = server_CLIENT os"
  unfolding process_CLIENT_def server_CLIENT_def ask_readdir ask_null
  by (simp add: ask_serve [of os _ StatReply] ask_serve [of os _ OpenReply] ask_serve [of os _ ErrnoReply]
      ask_serve [of os _ PreadReply] ask_serve [of os _ RandReply] ask_serve [of os _ ReadlinkReply]
      ask_serve [of os _ StatfsReply])

section \<open>Sessions with a server process\<close>


text \<open>A program that opens a file, changes two bytes of it, reads it back and closes it.\<close>

definition edit_program :: "lib_result list \<Rightarrow> lib_call" where
  "edit_program rs =
     (case rs of
        [] \<Rightarrow> COpen ''/d/f'' ICBINN_RDWR
      | [Status fd] \<Rightarrow> CPwrite fd [8, 9] 2 1
      | [Status fd, Status _] \<Rightarrow> CPread fd [0, 0, 0, 0] 4 0
      | Status fd # _ \<Rightarrow> CClose fd
      | _ \<Rightarrow> CNull)"


end
