(* ===== verification/Cli.thy ===== *)
theory Cli
  imports Clientlib Clnt_create Posix "HOL-Library.Sublist"
begin

text \<open>
  The sample client, \<open>libicbinn/client/*.c\<close>: the command table and the search in it, the splitting
  of a command line, the commands, and \<open>main\<close>.

  \<open>cenv\<close> holds what the program runs on: the local system, the network, the stubs of its connection
  and \<open>indeterminate\<close>, the value of the local variable that \<open>cmd_get\<close> reads before setting it. \<open>cli\<close> is
  the state: the local machine, what is behind the connection, the connection object with the
  network state, the output, and the static buffers of \<open>cmd_get\<close> and \<open>cmd_put\<close>. A command that
  loops as long as the server pleases is a \<open>partial_function\<close>, whose None is not returning.
\<close>

datatype cli_line = Stdout string "msg_arg list" | Stderr string "msg_arg list"

record ('l, 'c, 'n) cenv =
  ce_local :: "'l os"
  ce_net :: "'n net"
  ce_stubs :: "'c CLIENT"
  indeterminate :: int

record ('l, 'c, 'n) cli =
  cl_local :: 'l
  cl_conn :: 'c
  cl_net :: "'n clnt"
  cl_icb :: "ICBINN option"
  cl_out :: "cli_line list"
  get_buf :: "byte list"
  put_buf :: "byte list"

definition say :: "cli_line \<Rightarrow> ('l, 'c, 'n) cli \<Rightarrow> ('l, 'c, 'n) cli" where
  "say l s = s\<lparr>cl_out := cl_out s @ [l]\<rparr>"

text \<open>A call of the library that returns a status, and one of the local system.\<close>

definition on_conn :: "('c \<Rightarrow> 'a \<times> 'c) \<Rightarrow> ('l, 'c, 'n) cli \<Rightarrow> 'a \<times> ('l, 'c, 'n) cli" where
  "on_conn f s = (case f (cl_conn s) of (r, w) \<Rightarrow> (r, s\<lparr>cl_conn := w\<rparr>))"

definition on_local :: "('l \<Rightarrow> 'a \<times> 'l) \<Rightarrow> ('l, 'c, 'n) cli \<Rightarrow> 'a \<times> ('l, 'c, 'n) cli" where
  "on_local f s = (case f (cl_local s) of (r, w) \<Rightarrow> (r, s\<lparr>cl_local := w\<rparr>))"

section \<open>Commands\<close>

definition icb_type_to_char :: "int \<Rightarrow> char" where
  "icb_type_to_char t =
     (if t = ICBINN_TYPE_FILE then CHR ''f''
      else if t = ICBINN_TYPE_DIRECTORY then CHR ''d''
      else if t = ICBINN_TYPE_LINK then CHR ''l''
      else CHR ''u'')"

text \<open>
  The copy loop of \<open>cmd_get\<close>: None when a write failed (its clean-up is done by the caller), else the
  last result of \<open>icbinn_pread\<close>. Passing more than the buffer holds to \<open>write\<close> is a fault.
\<close>

partial_function (option) cmd_get_loop ::
  "('l, 'c, 'n) cenv \<Rightarrow> int \<Rightarrow> int \<Rightarrow> int \<Rightarrow> ('l, 'c, 'n) cli \<Rightarrow>
   (int option, ('l, 'c, 'n) cli) outcome option" where
  "cmd_get_loop e fd ifd off s =
     (case icbinn_pread (ce_stubs e) ifd (get_buf s) ICBINN_MAXDATA (word_of_int off) (cl_conn s) of
        (r, buf, w) \<Rightarrow>
          (let red = to_int32 r; s1 = s\<lparr>get_buf := buf, cl_conn := w\<rparr> in
           if red > 0 then
             (if nat red > length buf then Some Fault
              else
                (let (res, s2) = on_local (os_write (ce_local e) fd (take (nat red) buf)) s1 in
                 if res \<noteq> Inr (nat red) then Some (Ret None s2)
                 else cmd_get_loop e fd ifd (off + red) s2))
           else Some (Ret (Some red) s1)))"

definition cmd_get ::
  "('l, 'c, 'n) cenv \<Rightarrow> string list \<Rightarrow> ('l, 'c, 'n) cli \<Rightarrow> (int, ('l, 'c, 'n) cli) outcome option" where
  "cmd_get e argv s =
     (let c = ce_stubs e; lo = ce_local e;
          (ifd, s1) = on_conn (icbinn_open c (argv ! 1) ICBINN_RDONLY) s
      in if ifd < 0 then Some (Ret (-1) (say (Stderr ''icbinn_open failed'' []) s1))
         else
           (let (locked, s2) = on_conn (icbinn_lock c (indeterminate e) ICBINN_LTYPE_RDLCK) s1 in
            if locked \<noteq> 0 then
              (let s3 = say (Stderr ''failed to get icbinn read lock'' []) s2 in
               Some (Ret (-1) (snd (on_conn (icbinn_close c ifd) s3))))
            else
              (case on_local (os_open lo (argv ! 2) (O_WRONLY OR O_CREAT OR O_TRUNC) 438) s2 of
                 (Inl err, s3) \<Rightarrow>
                   Some (Ret (-1) (snd (on_conn (icbinn_close c ifd) (say (Stderr ''open'' [MInt (int err)]) s3))))
               | (Inr fd, s3) \<Rightarrow>
                   (case cmd_get_loop e fd ifd 0 s3 of
                      None \<Rightarrow> None
                    | Some (Ret None s4) \<Rightarrow>
                        (let s5 = snd (on_local (os_close lo fd) (say (Stderr ''write'' []) s4)) in
                         Some (Ret (-1) (snd (on_conn (icbinn_close c ifd) s5))))
                    | Some (Ret (Some red) s4) \<Rightarrow>
                        (let s5 = snd (on_conn (icbinn_close c ifd) (snd (on_local (os_close lo fd) s4))) in
                         if red \<noteq> 0 then Some (Ret (-1) (say (Stderr ''icbinn_pread failed'' []) s5))
                         else Some (Ret 0 s5))
                    | Some (Exit n s4) \<Rightarrow> Some (Exit n s4)
                    | Some Fault \<Rightarrow> Some Fault))))"

partial_function (option) cmd_put_loop ::
  "('l, 'c, 'n) cenv \<Rightarrow> int \<Rightarrow> int \<Rightarrow> int \<Rightarrow> ('l, 'c, 'n) cli \<Rightarrow>
   (int option, ('l, 'c, 'n) cli) outcome option" where
  "cmd_put_loop e fd ifd off s =
     (case on_local (os_read (ce_local e) fd (of_nat (length (put_buf s)))) s of
        (Inl _, s1) \<Rightarrow> Some (Ret (Some (-1)) s1)
      | (Inr bs, s1) \<Rightarrow>
          (let red = int (length bs); s2 = s1\<lparr>put_buf := mem_write (put_buf s1) 0 bs\<rparr> in
           if red > 0 then
             (let (sent, s3) = on_conn (icbinn_pwrite (ce_stubs e) ifd (put_buf s2) (word_of_int red) (word_of_int off)) s2 in
              if sent \<noteq> red then Some (Ret None s3)
              else cmd_put_loop e fd ifd (off + red) s3)
           else Some (Ret (Some red) s2)))"

definition cmd_put ::
  "('l, 'c, 'n) cenv \<Rightarrow> string list \<Rightarrow> ('l, 'c, 'n) cli \<Rightarrow> (int, ('l, 'c, 'n) cli) outcome option" where
  "cmd_put e argv s =
     (let c = ce_stubs e; lo = ce_local e in
      case on_local (os_open lo (argv ! 1) O_RDONLY 0) s of
        (Inl err, s1) \<Rightarrow> Some (Ret (-1) (say (Stderr ''open'' [MInt (int err)]) s1))
      | (Inr fd, s1) \<Rightarrow>
          (let (ifd, s2) = on_conn (icbinn_open c (argv ! 2) (ICBINN_WRONLY OR ICBINN_CREAT OR ICBINN_TRUNC)) s1 in
           if ifd < 0 then
             Some (Ret (-1) (snd (on_local (os_close lo fd) (say (Stderr ''icbinn_open failed'' []) s2))))
           else
             (let (locked, s3) = on_conn (icbinn_lock c fd ICBINN_LTYPE_WRLCK) s2 in
              if locked \<noteq> 0 then
                (let s4 = snd (on_conn (icbinn_close c ifd) (say (Stderr ''failed to get icbinn write lock'' []) s3))
                 in Some (Ret (-1) (snd (on_local (os_close lo fd) s4))))
              else
                (case cmd_put_loop e fd ifd 0 s3 of
                   None \<Rightarrow> None
                 | Some (Ret None s4) \<Rightarrow>
                     (let s5 = snd (on_conn (icbinn_close c ifd) (say (Stderr ''icbinn_write failed'' []) s4))
                      in Some (Ret (-1) (snd (on_local (os_close lo fd) s5))))
                 | Some (Ret (Some red) s4) \<Rightarrow>
                     (let s5 = snd (on_local (os_close lo fd) (snd (on_conn (icbinn_close c ifd) s4))) in
                      if red \<noteq> 0 then Some (Ret (-1) (say (Stderr ''read'' []) s5)) else Some (Ret 0 s5))
                 | Some (Exit n s4) \<Rightarrow> Some (Exit n s4)
                 | Some Fault \<Rightarrow> Some Fault))))"

text \<open>\<open>i\<close> is an \<open>int\<close>: incrementing it past its maximum is undefined, here a fault.\<close>

partial_function (option) cmd_ls_loop ::
  "('l, 'c, 'n) cenv \<Rightarrow> string \<Rightarrow> int \<Rightarrow> icbinn_dirent \<Rightarrow> ('l, 'c, 'n) cli \<Rightarrow>
   (int, ('l, 'c, 'n) cli) outcome option" where
  "cmd_ls_loop e path i buf s =
     (if i \<ge> 2 ^ 31 - 1 then Some Fault
      else
        (case icbinn_readent (ce_stubs e) path (word_of_int i) buf (cl_conn s) of
           Ret (rv, buf') w \<Rightarrow>
             (let s1 = s\<lparr>cl_conn := w\<rparr> in
              if rv = 0
              then cmd_ls_loop e path (i + 1) buf'
                     (say (Stdout ''%c %s'' [MStr [icb_type_to_char (de_type buf')], MStr (de_name buf')]) s1)
              else Some (Ret 0 s1))
         | Exit n w \<Rightarrow> Some (Exit n (s\<lparr>cl_conn := w\<rparr>))
         | Fault \<Rightarrow> Some Fault))"

definition cmd_ls ::
  "('l, 'c, 'n) cenv \<Rightarrow> string list \<Rightarrow> ('l, 'c, 'n) cli \<Rightarrow> (int, ('l, 'c, 'n) cli) outcome option" where
  "cmd_ls e argv s = cmd_ls_loop e (argv ! 1) 0 \<lparr>de_name = [], de_type = 0\<rparr> s"

definition cmd_stat ::
  "('l, 'c, 'n) cenv \<Rightarrow> string list \<Rightarrow> ('l, 'c, 'n) cli \<Rightarrow> (int, ('l, 'c, 'n) cli) outcome option" where
  "cmd_stat e argv s =
     (case icbinn_stat (ce_stubs e) (Some (argv ! 1)) (Some \<lparr>is_size = 0, is_type = 0\<rparr>) (cl_conn s) of
        (rv, buf, w) \<Rightarrow>
          (let s1 = s\<lparr>cl_conn := w\<rparr> in
           if rv \<noteq> 0 then Some (Ret (-1) s1)
           else
             Some (Ret 0 (say (Stdout ''%s type %c size %lld bytes''
               [MStr (argv ! 1), MStr [icb_type_to_char (is_type (the buf))],
                MInt (sint (is_size (the buf)))]) s1))))"

text \<open>The commands that are one call of the library.\<close>

definition cmd_mkdir :: "('l, 'c, 'n) cenv \<Rightarrow> string list \<Rightarrow> ('l, 'c, 'n) cli \<Rightarrow> int \<times> ('l, 'c, 'n) cli" where
  "cmd_mkdir e argv s = on_conn (icbinn_mkdir (ce_stubs e) (argv ! 1)) s"

definition cmd_rmdir :: "('l, 'c, 'n) cenv \<Rightarrow> string list \<Rightarrow> ('l, 'c, 'n) cli \<Rightarrow> int \<times> ('l, 'c, 'n) cli" where
  "cmd_rmdir e argv s = on_conn (icbinn_rmdir (ce_stubs e) (argv ! 1)) s"

definition cmd_rm :: "('l, 'c, 'n) cenv \<Rightarrow> string list \<Rightarrow> ('l, 'c, 'n) cli \<Rightarrow> int \<times> ('l, 'c, 'n) cli" where
  "cmd_rm e argv s = on_conn (icbinn_unlink (ce_stubs e) (argv ! 1)) s"

definition cmd_rename :: "('l, 'c, 'n) cenv \<Rightarrow> string list \<Rightarrow> ('l, 'c, 'n) cli \<Rightarrow> int \<times> ('l, 'c, 'n) cli" where
  "cmd_rename e argv s = on_conn (icbinn_rename (ce_stubs e) (argv ! 1) (argv ! 2)) s"

definition cmd_null :: "('l, 'c, 'n) cenv \<Rightarrow> string list \<Rightarrow> ('l, 'c, 'n) cli \<Rightarrow> int \<times> ('l, 'c, 'n) cli" where
  "cmd_null e argv s = on_conn (icbinn_null (ce_stubs e)) s"

section \<open>The command table\<close>

datatype cmd_handler =
    H_get | H_help | H_ls | H_mkdir | H_null | H_put | H_quit | H_rename | H_rm | H_rmdir | H_stat

record cmd =
  cmd_name :: string
  cmd_handler :: cmd_handler
  cmd_nargs :: int
  cmd_help_text :: string

definition cmd_tab :: "cmd list" where
  "cmd_tab =
    [\<lparr>cmd_name = ''get'', cmd_handler = H_get, cmd_nargs = 3,
      cmd_help_text = ''get pathspec local-pathspec    - fetches a file from the server''\<rparr>,
     \<lparr>cmd_name = ''help'', cmd_handler = H_help, cmd_nargs = 1,
      cmd_help_text = ''help                           - shows this text''\<rparr>,
     \<lparr>cmd_name = ''ls'', cmd_handler = H_ls, cmd_nargs = 2,
      cmd_help_text = ''ls pathspec                    - list a directory''\<rparr>,
     \<lparr>cmd_name = ''mkdir'', cmd_handler = H_mkdir, cmd_nargs = 2,
      cmd_help_text = ''mkdir pathspec                 - makes a directory''\<rparr>,
     \<lparr>cmd_name = ''null'', cmd_handler = H_null, cmd_nargs = 1,
      cmd_help_text = ''null                           - does nothing''\<rparr>,
     \<lparr>cmd_name = ''put'', cmd_handler = H_put, cmd_nargs = 3,
      cmd_help_text = ''put locapathspec pathspec      - sends a file to the server''\<rparr>,
     \<lparr>cmd_name = ''quit'', cmd_handler = H_quit, cmd_nargs = 1,
      cmd_help_text = ''quit                           - quit''\<rparr>,
     \<lparr>cmd_name = ''rename'', cmd_handler = H_rename, cmd_nargs = 3,
      cmd_help_text = ''rename oldpathspec newpathspec - renames an object''\<rparr>,
     \<lparr>cmd_name = ''rm'', cmd_handler = H_rm, cmd_nargs = 2,
      cmd_help_text = ''rm pathspec                    - deletes a file''\<rparr>,
     \<lparr>cmd_name = ''rmdir'', cmd_handler = H_rmdir, cmd_nargs = 2,
      cmd_help_text = ''rmdir pathspec                 - removes an empty directory''\<rparr>,
     \<lparr>cmd_name = ''stat'', cmd_handler = H_stat, cmd_nargs = 2,
      cmd_help_text = ''stat pathspec                  - stats an object''\<rparr>]"

definition cmd_help :: "('l, 'c, 'n) cli \<Rightarrow> int \<times> ('l, 'c, 'n) cli" where
  "cmd_help s = (0, fold (\<lambda>c. say (Stdout (cmd_help_text c) [])) cmd_tab s)"

definition cmd_quit :: "('l, 'c, 'n) cenv \<Rightarrow> ('l, 'c, 'n) cli \<Rightarrow> (int, ('l, 'c, 'n) cli) outcome" where
  "cmd_quit e s = Exit 0 (s\<lparr>cl_net := icbinn_clnt_destroy (ce_net e) (cl_icb s) (cl_net s)\<rparr>)"

definition returns :: "int \<times> 's \<Rightarrow> (int, 's) outcome option" where
  "returns r = Some (Ret (fst r) (snd r))"

fun run_handler ::
  "cmd_handler \<Rightarrow> ('l, 'c, 'n) cenv \<Rightarrow> string list \<Rightarrow> ('l, 'c, 'n) cli \<Rightarrow> (int, ('l, 'c, 'n) cli) outcome option" where
  "run_handler H_get e argv s = cmd_get e argv s"
| "run_handler H_help e argv s = returns (cmd_help s)"
| "run_handler H_ls e argv s = cmd_ls e argv s"
| "run_handler H_mkdir e argv s = returns (cmd_mkdir e argv s)"
| "run_handler H_null e argv s = returns (cmd_null e argv s)"
| "run_handler H_put e argv s = cmd_put e argv s"
| "run_handler H_quit e argv s = Some (cmd_quit e s)"
| "run_handler H_rename e argv s = returns (cmd_rename e argv s)"
| "run_handler H_rm e argv s = returns (cmd_rm e argv s)"
| "run_handler H_rmdir e argv s = returns (cmd_rmdir e argv s)"
| "run_handler H_stat e argv s = cmd_stat e argv s"

text \<open>
  The inner loop of \<open>find_command\<close>, on the characters of a table name and of the name typed: both
  ended (a match), or the loop stopped at position \<open>k\<close>, with or without characters typed left.
\<close>

datatype scan = ScanExact | ScanStop bool nat

fun scan_name :: "string \<Rightarrow> string \<Rightarrow> nat \<Rightarrow> scan" where
  "scan_name [] [] k = ScanExact"
| "scan_name [] (y # ys) k = ScanStop True k"
| "scan_name (x # xs) [] k = ScanStop False k"
| "scan_name (x # xs) (y # ys) k = (if x = y then scan_name xs ys (Suc k) else ScanStop True k)"

fun find_loop :: "cmd list \<Rightarrow> string \<Rightarrow> cmd option \<Rightarrow> nat \<Rightarrow> nat \<Rightarrow> cmd + cmd option \<times> nat" where
  "find_loop [] name best most_matched num_matched = Inr (best, num_matched)"
| "find_loop (c # cs) name best most_matched num_matched =
     (case scan_name (cmd_name c) name 0 of
        ScanExact \<Rightarrow> Inl c
      | ScanStop True k \<Rightarrow> find_loop cs name best most_matched num_matched
      | ScanStop False k \<Rightarrow>
          if k > most_matched then find_loop cs name (Some c) k 1
          else if k = most_matched then find_loop cs name best most_matched (num_matched + 1)
          else find_loop cs name best most_matched num_matched)"

definition find_command :: "string \<Rightarrow> ('l, 'c, 'n) cli \<Rightarrow> cmd option \<times> ('l, 'c, 'n) cli" where
  "find_command name s =
     (case find_loop cmd_tab name None 0 0 of
        Inl c \<Rightarrow> (Some c, s)
      | Inr (best, num_matched) \<Rightarrow>
          if num_matched = 0 then (None, say (Stdout ''?Invalid command'' []) s)
          else if num_matched = 1 then (best, s)
          else (None, say (Stdout ''?Ambiguous command'' []) s))"

section \<open>Command lines\<close>

text \<open>The words the loop of \<open>parse_cmd\<close> stores in \<open>argv\<close>.\<close>

function parse_args :: "string \<Rightarrow> string list" where
  "parse_args line =
     (let ptr = dropWhile isspace line in
      if ptr = [] then []
      else
        takeWhile (\<lambda>c. \<not> isspace c) ptr #
        (case dropWhile (\<lambda>c. \<not> isspace c) ptr of [] \<Rightarrow> [] | _ # rest \<Rightarrow> parse_args rest))"
  by pat_completeness auto
termination
proof (relation "measure length")
  fix line ptr :: string and c rest
  assume "ptr = dropWhile isspace line" and "dropWhile (\<lambda>c. \<not> isspace c) ptr = c # rest"
  then have "length rest < length ptr" and "length ptr \<le> length line"
    using length_dropWhile_le [of "\<lambda>c. \<not> isspace c" ptr] length_dropWhile_le [of isspace line] by auto
  then show "(rest, line) \<in> measure length" by simp
qed simp

declare parse_args.simps [simp del]

abbreviation (input) argv_size :: nat where "argv_size \<equiv> 32"

definition parse_cmd ::
  "('l, 'c, 'n) cenv \<Rightarrow> string \<Rightarrow> ('l, 'c, 'n) cli \<Rightarrow> (unit, ('l, 'c, 'n) cli) outcome option" where
  "parse_cmd e line s =
     (let argv = parse_args line; argc = int (length argv) in
      if length argv + 1 > argv_size then Some Fault
      else if argc = 0 then Some (Ret () s)
      else
        (case find_command (argv ! 0) s of
           (None, s1) \<Rightarrow> Some (Ret () s1)
         | (Some cmd, s1) \<Rightarrow>
             if cmd_nargs cmd \<noteq> argc then
               Some (Ret () (say (Stdout (cmd_help_text cmd) [])
                 (say (Stdout ''Incorrect number of commands found %d, expected %d.''
                         [MInt argc, MInt (cmd_nargs cmd)]) s1)))
             else
               (case run_handler (cmd_handler cmd) e argv s1 of
                  None \<Rightarrow> None
                | Some (Ret rv s2) \<Rightarrow>
                    if rv \<noteq> 0 then Some (Ret () (say (Stderr ''Command returns an error'' []) s2))
                    else Some (Ret () (say (Stdout ''Command succeeded'' []) s2))
                | Some (Exit n s2) \<Rightarrow> Some (Exit n s2)
                | Some Fault \<Rightarrow> Some Fault)))"

section \<open>main\<close>

text \<open>What \<open>getopt\<close> delivers, in order, for the option string of \<open>main\<close>.\<close>

datatype cli_opt = Opt_d string | Opt_p string | Opt_h string | Opt_c string | Opt_other

record cli_opts =
  o_domid :: int
  o_port :: int
  o_host :: "string option"
  o_cmd :: "string option"
  o_dflag :: int
  o_hflag :: int

fun cli_options :: "cli_opt list \<Rightarrow> cli_opts \<Rightarrow> cli_opts option" where
  "cli_options [] o0 = Some o0"
| "cli_options (Opt_d a # os) o0 = cli_options os (o0\<lparr>o_domid := atoi a, o_dflag := o_dflag o0 + 1\<rparr>)"
| "cli_options (Opt_p a # os) o0 = cli_options os (o0\<lparr>o_port := atoi a\<rparr>)"
| "cli_options (Opt_h a # os) o0 = cli_options os (o0\<lparr>o_host := Some a, o_hflag := o_hflag o0 + 1\<rparr>)"
| "cli_options (Opt_c a # os) o0 = cli_options os (o0\<lparr>o_cmd := Some a\<rparr>)"
| "cli_options (Opt_other # os) o0 = None"

definition cli_no_opts :: cli_opts where
  "cli_no_opts = \<lparr>o_domid = 0, o_port = 0, o_host = None, o_cmd = None, o_dflag = 0, o_hflag = 0\<rparr>"

abbreviation (input) line_size :: nat where "line_size \<equiv> 1024"

text \<open>
  The interactive loop. The list is what \<open>fgets\<close> delivers: a line, or None for a failure that is
  not the end of the input, which the end of the list is.
\<close>

fun cli_loop ::
  "('l, 'c, 'n) cenv \<Rightarrow> string option list \<Rightarrow> ('l, 'c, 'n) cli \<Rightarrow> (unit, ('l, 'c, 'n) cli) outcome option" where
  "cli_loop e [] s = Some (Ret () (say (Stdout ''icbinn> '' []) s))"
| "cli_loop e (None # ls) s = cli_loop e ls (say (Stdout ''icbinn> '' []) s)"
| "cli_loop e (Some line # ls) s =
     (let s1 = say (Stdout ''icbinn> '' []) s in
      if line = [] then cli_loop e ls s1
      else if hd line = CHR 0x0A then cli_loop e ls s1
      else
        (case parse_cmd e line s1 of
           Some (Ret _ s2) \<Rightarrow> cli_loop e ls s2
         | r \<Rightarrow> r))"

definition cli_usage :: "('l, 'c, 'n) cli \<Rightarrow> (int, ('l, 'c, 'n) cli) outcome option" where
  "cli_usage s = Some (Exit 1 (say (Stderr ''%s {-d domid|-h host} [-p port] [-c cmd]'' []) (say (Stderr ''Usage:'' []) s)))"

text \<open>
  \<open>stubs\<close> gives the stubs of a connection made, which replace those of \<open>e\<close>; \<open>input\<close> is standard
  input.
\<close>

definition cli_main ::
  "bool \<Rightarrow> ('l, 'c, 'n) cenv \<Rightarrow> (ICBINN \<Rightarrow> 'c CLIENT) \<Rightarrow> cli_opt list \<Rightarrow> string option list \<Rightarrow>
   ('l, 'c, 'n) cli \<Rightarrow> (int, ('l, 'c, 'n) cli) outcome option" where
  "cli_main have_v4v e stubs opts input s =
     (case cli_options opts cli_no_opts of
        None \<Rightarrow> cli_usage s
      | Some op \<Rightarrow>
          if (o_dflag op = 0) \<noteq> (o_hflag op \<noteq> 0) then cli_usage s
          else
            (case (if o_dflag op \<noteq> 0
                   then icbinn_clnt_create_v4v have_v4v (ce_net e) (o_domid op) (o_port op) (cl_net s)
                   else icbinn_clnt_create_tcp (ce_net e) (o_host op) (o_port op) (cl_net s)) of
               Fault \<Rightarrow> Some Fault
             | Exit n ns \<Rightarrow> Some (Exit n (s\<lparr>cl_net := ns\<rparr>))
             | Ret None ns \<Rightarrow>
                 Some (Exit 1 (say (Stderr ''failed to connect to server'' []) (s\<lparr>cl_net := ns, cl_icb := None\<rparr>)))
             | Ret (Some icb) ns \<Rightarrow>
                 (let s1 = s\<lparr>cl_net := ns, cl_icb := Some icb\<rparr>; e1 = e\<lparr>ce_stubs := stubs icb\<rparr> in
                  case (case o_cmd op of
                          Some cmd \<Rightarrow> parse_cmd e1 (take (line_size - 1) cmd) s1
                        | None \<Rightarrow> cli_loop e1 input s1) of
                    None \<Rightarrow> None
                  | Some (Ret _ s2) \<Rightarrow>
                      Some (Ret 0 (s2\<lparr>cl_net := icbinn_clnt_destroy (ce_net e) (cl_icb s2) (cl_net s2)\<rparr>))
                  | Some (Exit n s2) \<Rightarrow> Some (Exit n s2)
                  | Some Fault \<Rightarrow> Some Fault)))"

end
