(* ===== verification/Selftest.thy ===== *)
theory Selftest
  imports Cli
begin

text \<open>
  The test program of the library, \<open>libicbinn/test/test.c\<close>: one definition per test, over the calls of
  \<open>Clientlib\<close>, the list of tests that \<open>test\<close> runs, the options and \<open>main\<close>. The state of a test is what is
  behind the connection. \<open>test_locals\<close> are the local variables of a test before it sets them.
  The lines \<open>if (call) return -1;\<close> of the source are \<open>fail_if\<close>, and a call whose result nobody looks
  at is \<open>ignoring\<close>.
\<close>

record test_locals =
  tl_stat :: icbinn_stat_t
  tl_buf :: "byte list"
  tl_dirents :: "icbinn_dirent list"

definition fail_if ::
  "(int \<Rightarrow> bool) \<Rightarrow> ('c \<Rightarrow> int \<times> 'c) \<Rightarrow> ('c \<Rightarrow> (int, 'c) outcome) \<Rightarrow> 'c \<Rightarrow> (int, 'c) outcome" where
  "fail_if bad call rest w = (case call w of (r, w') \<Rightarrow> if bad r then Ret (-1) w' else rest w')"

definition ignoring :: "('c \<Rightarrow> int \<times> 'c) \<Rightarrow> ('c \<Rightarrow> (int, 'c) outcome) \<Rightarrow> 'c \<Rightarrow> (int, 'c) outcome" where
  "ignoring call rest w = rest (snd (call w))"

section \<open>The C library\<close>

fun strcmp :: "string \<Rightarrow> string \<Rightarrow> int" where
  "strcmp [] [] = 0"
| "strcmp (c # cs) [] = of_char c"
| "strcmp [] (d # ds) = - of_char d"
| "strcmp (c # cs) (d # ds) = (if c = d then strcmp cs ds else of_char c - of_char d)"

fun memcmp :: "byte list \<Rightarrow> byte list \<Rightarrow> nat \<Rightarrow> int" where
  "memcmp (x # xs) (y # ys) (Suc n) = (if x = y then memcmp xs ys n else uint x - uint y)"
| "memcmp _ _ _ = 0"

text \<open>\<open>qsort (&buf[0], n, ...)\<close>: the first \<open>n\<close> elements are put in order.\<close>

fun insert_by :: "('a \<Rightarrow> 'a \<Rightarrow> int) \<Rightarrow> 'a \<Rightarrow> 'a list \<Rightarrow> 'a list" where
  "insert_by cmp x [] = [x]"
| "insert_by cmp x (y # ys) = (if cmp x y \<le> 0 then x # y # ys else y # insert_by cmp x ys)"

definition qsort :: "'a list \<Rightarrow> nat \<Rightarrow> ('a \<Rightarrow> 'a \<Rightarrow> int) \<Rightarrow> 'a list" where
  "qsort buf n cmp = foldr (insert_by cmp) (take n buf) [] @ drop n buf"

text \<open>The bytes of a string literal.\<close>

definition bytes :: "string \<Rightarrow> byte list" where
  "bytes s = map of_char s"

section \<open>Directories\<close>

definition test_null :: "'c CLIENT \<Rightarrow> 'c \<Rightarrow> (int, 'c) outcome" where
  "test_null c w = (case icbinn_null c w of (r, w') \<Rightarrow> Ret r w')"

definition test_cleanup :: "'c CLIENT \<Rightarrow> test_locals \<Rightarrow> 'c \<Rightarrow> (int, 'c) outcome" where
  "test_cleanup c l =
     ignoring (icbinn_rmdir c ''icbinntest/dir1'')
    (ignoring (icbinn_rmdir c ''icbinntest/dir2'')
    (ignoring (icbinn_rmdir c ''icbinntest/dir3'')
    (ignoring (icbinn_rmdir c ''icbinntest/dir4'')
    (ignoring (icbinn_unlink c ''icbinntest/file1'')
    (ignoring (icbinn_unlink c ''icbinntest/file2'')
    (ignoring (icbinn_unlink c ''icbinntest/file3'')
    (ignoring (icbinn_unlink c ''icbinntest/file4'')
    (ignoring (icbinn_rmdir c ''icbinntest'')
    (\<lambda>w. case icbinn_stat c (Some ''icbinntest'') (Some (tl_stat l)) w of
           (r, _, w') \<Rightarrow>
             if r = 0 then Ret (-1) w'
             else fail_if ((\<noteq>) 0) (icbinn_mkdir c ''icbinntest'') (Ret 0) w')))))))))"

definition test_mkdir :: "'c CLIENT \<Rightarrow> 'c \<Rightarrow> (int, 'c) outcome" where
  "test_mkdir c =
     fail_if ((\<noteq>) 0) (icbinn_mkdir c ''icbinntest/dir1'')
    (fail_if ((=) 0) (icbinn_mkdir c ''icbinntest/dir1'')
    (Ret 0))"

definition test_rmdir :: "'c CLIENT \<Rightarrow> 'c \<Rightarrow> (int, 'c) outcome" where
  "test_rmdir c =
     fail_if ((\<noteq>) 0) (icbinn_rmdir c ''icbinntest/dir1'')
    (fail_if ((=) 0) (icbinn_rmdir c ''icbinntest/dir1'')
    (Ret 0))"

definition test_renamedir :: "'c CLIENT \<Rightarrow> 'c \<Rightarrow> (int, 'c) outcome" where
  "test_renamedir c =
     fail_if ((\<noteq>) 0) (icbinn_mkdir c ''icbinntest/dir1'')
    (fail_if ((\<noteq>) 0) (icbinn_rename c ''icbinntest/dir1'' ''icbinntest/dir2'')
    (fail_if ((=) 0) (icbinn_rename c ''icbinntest/dir1'' ''icbinntest/dir2'')
    (fail_if ((\<noteq>) 0) (icbinn_rmdir c ''icbinntest/dir2'')
    (Ret 0))))"

section \<open>Files\<close>

text \<open>\<open>fd = icbinn_open (...); if (fd < 0) return -1;\<close>\<close>

definition open_or_fail ::
  "'c CLIENT \<Rightarrow> string \<Rightarrow> u32 \<Rightarrow> (int \<Rightarrow> 'c \<Rightarrow> (int, 'c) outcome) \<Rightarrow> 'c \<Rightarrow> (int, 'c) outcome" where
  "open_or_fail c name mode rest w =
     (case icbinn_open c name mode w of (fd, w') \<Rightarrow> if fd < 0 then Ret (-1) w' else rest fd w')"

text \<open>
  \<open>if (icbinn_pread (icb, fd, buf, 4, offset) != 4) return -1; if (memcmp (buf, data, 4)) return -1;\<close>
\<close>

definition read_back ::
  "'c CLIENT \<Rightarrow> int \<Rightarrow> byte list \<Rightarrow> u64 \<Rightarrow> byte list \<Rightarrow> (byte list \<Rightarrow> 'c \<Rightarrow> (int, 'c) outcome) \<Rightarrow> 'c \<Rightarrow>
   (int, 'c) outcome" where
  "read_back c fd buf offset data rest w =
     (case icbinn_pread c fd buf 4 offset w of
        (r, buf', w') \<Rightarrow>
          if r \<noteq> 4 then Ret (-1) w'
          else if memcmp buf' data 4 \<noteq> 0 then Ret (-1) w'
          else rest buf' w')"

definition test_fileio :: "'c CLIENT \<Rightarrow> test_locals \<Rightarrow> 'c \<Rightarrow> (int, 'c) outcome" where
  "test_fileio c l =
     open_or_fail c ''icbinntest/file1'' (ICBINN_RDWR OR ICBINN_CREAT OR ICBINN_TRUNC) (\<lambda>fd.
     fail_if ((\<noteq>) 4) (icbinn_pwrite c fd (bytes ''fish'') 4 0)
    (fail_if ((\<noteq>) 4) (icbinn_pwrite c fd (bytes ''soup'') 4 1024)
    (read_back c fd (tl_buf l) 0 (bytes ''fish'') (\<lambda>buf.
     read_back c fd buf 4 [0, 0, 0, 0] (\<lambda>buf.
     read_back c fd buf 1024 (bytes ''soup'') (\<lambda>buf w.
       case icbinn_pread c fd buf 4 1028 w of
         (r, _, w') \<Rightarrow>
           if r \<noteq> 0 then Ret (-1) w'
           else ignoring (icbinn_close c fd) (Ret 0) w'))))))"

definition test_renamefile :: "'c CLIENT \<Rightarrow> 'c \<Rightarrow> (int, 'c) outcome" where
  "test_renamefile c =
     fail_if ((\<noteq>) 0) (icbinn_rename c ''icbinntest/file1'' ''icbinntest/file2'')
    (fail_if ((=) 0) (icbinn_rename c ''icbinntest/file1'' ''icbinntest/file2'')
    (Ret 0))"

definition test_unlink :: "'c CLIENT \<Rightarrow> 'c \<Rightarrow> (int, 'c) outcome" where
  "test_unlink c =
     fail_if ((\<noteq>) 0) (icbinn_unlink c ''icbinntest/file2'')
    (fail_if ((=) 0) (icbinn_unlink c ''icbinntest/file2'')
    (Ret 0))"

definition test_ftruncate :: "'c CLIENT \<Rightarrow> 'c \<Rightarrow> (int, 'c) outcome" where
  "test_ftruncate c =
     open_or_fail c ''icbinntest/file2'' (ICBINN_RDWR OR ICBINN_CREAT OR ICBINN_TRUNC) (\<lambda>fd.
     fail_if ((\<noteq>) 0) (icbinn_ftruncate c fd 1234567890)
    (ignoring (icbinn_close c fd)
    (Ret 0)))"

text \<open>\<open>if (icbinn_stat (icb, path, &buf)) return -1;\<close> and the checks of \<open>buf\<close> that follow it.\<close>

definition stat_or_fail ::
  "'c CLIENT \<Rightarrow> string \<Rightarrow> icbinn_stat_t \<Rightarrow> (icbinn_stat_t \<Rightarrow> bool) \<Rightarrow> (icbinn_stat_t \<Rightarrow> 'c \<Rightarrow> (int, 'c) outcome) \<Rightarrow>
   'c \<Rightarrow> (int, 'c) outcome" where
  "stat_or_fail c path buf ok rest w =
     (case icbinn_stat c (Some path) (Some buf) w of
        (r, buf', w') \<Rightarrow>
          if r \<noteq> 0 then Ret (-1) w'
          else if \<not> ok (the buf') then Ret (-1) w'
          else rest (the buf') w')"

definition test_stat :: "'c CLIENT \<Rightarrow> test_locals \<Rightarrow> 'c \<Rightarrow> (int, 'c) outcome" where
  "test_stat c l =
     stat_or_fail c ''icbinntest/file1'' (tl_stat l) (\<lambda>buf. is_type buf = ICBINN_TYPE_FILE \<and> is_size buf = 1028) (\<lambda>buf.
     stat_or_fail c ''icbinntest/file2'' buf (\<lambda>buf. is_type buf = ICBINN_TYPE_FILE \<and> is_size buf = 1234567890) (\<lambda>buf.
     stat_or_fail c ''icbinntest/dir1'' buf (\<lambda>buf. is_type buf = ICBINN_TYPE_DIRECTORY) (\<lambda>_.
     Ret 0)))"

definition test_lock :: "'c CLIENT \<Rightarrow> 'c \<Rightarrow> (int, 'c) outcome" where
  "test_lock c =
     open_or_fail c ''icbinntest/file2'' ICBINN_RDWR (\<lambda>fd.
     fail_if ((\<noteq>) 0) (icbinn_lock c fd ICBINN_LTYPE_RDLCK)
    (fail_if ((\<noteq>) 0) (icbinn_lock c fd ICBINN_LTYPE_WRLCK)
    (fail_if ((\<noteq>) 0) (icbinn_lock c fd ICBINN_LTYPE_UNLCK)
    (fail_if ((\<noteq>) 0) (icbinn_lock c fd ICBINN_LTYPE_WRLCK)
    (fail_if ((\<noteq>) 0) (icbinn_lock c fd ICBINN_LTYPE_RDLCK)
    (fail_if ((\<noteq>) 0) (icbinn_lock c fd ICBINN_LTYPE_UNLCK)
    (ignoring (icbinn_close c fd)
    (Ret 0))))))))"

section \<open>Listing and random bytes\<close>

definition compare :: "icbinn_dirent \<Rightarrow> icbinn_dirent \<Rightarrow> int" where
  "compare a b = strcmp (de_name a) (de_name b)"

text \<open>\<open>if (icbinn_readent (icb, dir, offset, &buf[i])) return -1;\<close>\<close>

definition readent_or_fail ::
  "(int \<Rightarrow> bool) \<Rightarrow> 'c CLIENT \<Rightarrow> string \<Rightarrow> u64 \<Rightarrow> nat \<Rightarrow> icbinn_dirent list \<Rightarrow>
   (icbinn_dirent list \<Rightarrow> 'c \<Rightarrow> (int, 'c) outcome) \<Rightarrow> 'c \<Rightarrow> (int, 'c) outcome" where
  "readent_or_fail bad c dir offset i buf rest w =
     andthen (icbinn_readent c dir offset (buf ! i) w) (\<lambda>(r, e) w'.
       if bad r then Ret (-1) w' else rest (buf[i := e]) w')"

definition test_readdir :: "'c CLIENT \<Rightarrow> test_locals \<Rightarrow> 'c \<Rightarrow> (int, 'c) outcome" where
  "test_readdir c l =
     readent_or_fail ((\<noteq>) 0) c ''icbinntest'' 0 0 (tl_dirents l) (\<lambda>buf.
     readent_or_fail ((\<noteq>) 0) c ''icbinntest'' 1 1 buf (\<lambda>buf.
     readent_or_fail ((\<noteq>) 0) c ''icbinntest'' 2 2 buf (\<lambda>buf.
     readent_or_fail ((=) 0) c ''icbinntest'' 3 3 buf (\<lambda>buf w.
       let buf = qsort buf 3 compare in
       if strcmp (de_name (buf ! 0)) ''dir1'' \<noteq> 0 then Ret (-1) w
       else if de_type (buf ! 0) \<noteq> ICBINN_TYPE_DIRECTORY then Ret (-1) w
       else if strcmp (de_name (buf ! 1)) ''file1'' \<noteq> 0 then Ret (-1) w
       else if de_type (buf ! 1) \<noteq> ICBINN_TYPE_FILE then Ret (-1) w
       else if strcmp (de_name (buf ! 2)) ''file2'' \<noteq> 0 then Ret (-1) w
       else if de_type (buf ! 2) \<noteq> ICBINN_TYPE_FILE then Ret (-1) w
       else Ret 0 w))))"

abbreviation (input) ICBINN_RANDOM :: int where "ICBINN_RANDOM \<equiv> 0"
abbreviation (input) ICBINN_URANDOM :: int where "ICBINN_URANDOM \<equiv> 1"

definition test_rand :: "'c CLIENT \<Rightarrow> test_locals \<Rightarrow> 'c \<Rightarrow> (int, 'c) outcome" where
  "test_rand c l w =
     (case icbinn_rand c ICBINN_RANDOM (tl_buf l) 4 w of
        (n, buf, w1) \<Rightarrow>
          if n < 0 \<or> n > 4 then Ret (-1) w1
          else
            (case icbinn_rand c ICBINN_URANDOM buf 4 w1 of
               (n, _, w2) \<Rightarrow> if n < 0 \<or> n > 4 then Ret (-1) w2 else Ret 0 w2))"

section \<open>The run\<close>

record ('c, 'n) tester =
  te_conn :: 'c
  te_net :: "'n clnt"
  te_out :: "cli_line list"

definition tell :: "cli_line \<Rightarrow> ('c, 'n) tester \<Rightarrow> ('c, 'n) tester" where
  "tell line s = s\<lparr>te_out := te_out s @ [line]\<rparr>"

text \<open>The macro TEST, once for each test of the list.\<close>

fun run_tests ::
  "(string \<times> ('c \<Rightarrow> (int, 'c) outcome)) list \<Rightarrow> ('c, 'n) tester \<Rightarrow> (int, ('c, 'n) tester) outcome" where
  "run_tests [] s = Ret 0 s"
| "run_tests ((name, a) # ts) s =
     (case a (te_conn s) of
        Ret r w \<Rightarrow>
          if r \<noteq> 0 then Ret (-1) (tell (Stderr ''%s failed'' [MStr name]) (s\<lparr>te_conn := w\<rparr>))
          else run_tests ts (s\<lparr>te_conn := w\<rparr>)
      | Exit n w \<Rightarrow> Exit n (s\<lparr>te_conn := w\<rparr>)
      | Fault \<Rightarrow> Fault)"

text \<open>\<open>l i\<close> are the local variables that the \<open>i\<close>-th test finds on the stack.\<close>

definition test_list :: "'c CLIENT \<Rightarrow> (nat \<Rightarrow> test_locals) \<Rightarrow> (string \<times> ('c \<Rightarrow> (int, 'c) outcome)) list" where
  "test_list c l =
     [(''test_null'', test_null c),
      (''test_cleanup'', test_cleanup c (l 1)),
      (''test_mkdir'', test_mkdir c),
      (''test_rmdir'', test_rmdir c),
      (''test_renamedir'', test_renamedir c),
      (''test_fileio'', test_fileio c (l 5)),
      (''test_renamefile'', test_renamefile c),
      (''test_unlink'', test_unlink c),
      (''test_ftruncate'', test_ftruncate c),
      (''test_mkdir'', test_mkdir c),
      (''test_fileio'', test_fileio c (l 10)),
      (''test_stat'', test_stat c (l 11)),
      (''test_lock'', test_lock c),
      (''test_readdir'', test_readdir c (l 13)),
      (''test_rand'', test_rand c (l 14)),
      (''test_cleanup'', test_cleanup c (l 15))]"

definition test :: "'c CLIENT \<Rightarrow> (nat \<Rightarrow> test_locals) \<Rightarrow> ('c, 'n) tester \<Rightarrow> (int, ('c, 'n) tester) outcome" where
  "test c l s =
     andthen (run_tests (test_list c l) s) (\<lambda>r s'.
       if r \<noteq> 0 then Ret r s' else Ret 0 (tell (Stdout ''All tests pass'' []) s'))"

text \<open>What \<open>getopt\<close> delivers for the option string \<open>d:p:h:\<close>.\<close>

datatype test_opt = Topt_d string | Topt_p string | Topt_h string | Topt_other

record test_opts =
  to_domid :: int
  to_port :: int
  to_host :: "string option"
  to_dflag :: int
  to_hflag :: int

fun test_options :: "test_opt list \<Rightarrow> test_opts \<Rightarrow> test_opts option" where
  "test_options [] o0 = Some o0"
| "test_options (Topt_d a # os) o0 = test_options os (o0\<lparr>to_domid := atoi a, to_dflag := to_dflag o0 + 1\<rparr>)"
| "test_options (Topt_p a # os) o0 = test_options os (o0\<lparr>to_port := atoi a\<rparr>)"
| "test_options (Topt_h a # os) o0 = test_options os (o0\<lparr>to_host := Some a, to_hflag := to_hflag o0 + 1\<rparr>)"
| "test_options (Topt_other # os) o0 = None"

definition test_no_opts :: test_opts where
  "test_no_opts = \<lparr>to_domid = 0, to_port = 0, to_host = None, to_dflag = 0, to_hflag = 0\<rparr>"

definition test_usage :: "string \<Rightarrow> ('c, 'n) tester \<Rightarrow> (int, ('c, 'n) tester) outcome" where
  "test_usage name s =
     Exit 1 (tell (Stderr ''%s {-d domid|-h host} [-p port]'' [MStr name]) (tell (Stderr ''Usage:'' []) s))"

definition test_main ::
  "bool \<Rightarrow> 'n net \<Rightarrow> (ICBINN \<Rightarrow> 'c CLIENT) \<Rightarrow> (nat \<Rightarrow> test_locals) \<Rightarrow> string \<Rightarrow> test_opt list \<Rightarrow>
   ('c, 'n) tester \<Rightarrow> (int, ('c, 'n) tester) outcome" where
  "test_main have_v4v net stubs l argv0 opts s =
     (case test_options opts test_no_opts of
        None \<Rightarrow> test_usage argv0 s
      | Some op \<Rightarrow>
          if (to_dflag op = 0) \<noteq> (to_hflag op \<noteq> 0) then test_usage argv0 s
          else
            (case (if to_dflag op \<noteq> 0
                   then icbinn_clnt_create_v4v have_v4v net (to_domid op) (to_port op) (te_net s)
                   else icbinn_clnt_create_tcp net (to_host op) (to_port op) (te_net s)) of
               Fault \<Rightarrow> Fault
             | Exit n ns \<Rightarrow> Exit n (s\<lparr>te_net := ns\<rparr>)
             | Ret None ns \<Rightarrow> Exit 1 (tell (Stderr ''failed to connect to server'' []) (s\<lparr>te_net := ns\<rparr>))
             | Ret (Some icb) ns \<Rightarrow>
                 andthen (test (stubs icb) l (s\<lparr>te_net := ns\<rparr>)) (\<lambda>ret s'.
                   Ret ret (s'\<lparr>te_net := icbinn_clnt_destroy net (Some icb) (te_net s')\<rparr>))))"

end
