(* ===== verification/Posix_Tree.thy ===== *)
theory Posix_Tree
  imports Posix "HOL-Library.AList"
begin

text \<open>
  What POSIX documents of a directory tree: the calls that make, remove, rename and list its
  nodes, and those on open files. A \<open>tree_view\<close> is what a process sees of a world: the nodes by
  pathname, the regular files it has open for reading and writing, how many descriptors it may still
  open, and its descriptors of random devices. The tree is one the process may write to, with
  space left, no links and no other user. The predicate \<open>posix_tree\<close> collects the behaviour; a tree in memory at the
  end has all of it.
\<close>

datatype node = Dir | File "byte list" | Special

record tree_view =
  tv_nodes :: "string \<Rightarrow> node option"
  tv_open :: "int \<Rightarrow> string option"
  tv_room :: nat
  tv_devices :: "int set"

section \<open>Pathnames\<close>

fun components :: "string \<Rightarrow> string list" where
  "components [] = [[]]"
| "components (c # cs) =
     (if c = CHR ''/'' then [] # components cs
      else (case components cs of [] \<Rightarrow> [[c]] | n # ns \<Rightarrow> (c # n) # ns))"

text \<open>A name of at most NAME_MAX bytes, and a relative pathname made of such names.\<close>

definition plain_name :: "string \<Rightarrow> bool" where
  "plain_name n \<longleftrightarrow> n \<noteq> [] \<and> n \<noteq> ''.'' \<and> n \<noteq> ''..'' \<and> CHR ''/'' \<notin> set n \<and> length n \<le> 255"

definition plain :: "string \<Rightarrow> bool" where
  "plain p \<longleftrightarrow> length p < 4096 \<and> (\<forall>n\<in>set (components p). plain_name n)"

definition parent_dir :: "(string \<Rightarrow> node option) \<Rightarrow> string \<Rightarrow> bool" where
  "parent_dir f p \<longleftrightarrow>
     (CHR ''/'' \<in> set p \<longrightarrow> f (rev (tl (dropWhile (\<lambda>c. c \<noteq> CHR ''/'') (rev p)))) = Some Dir)"

definition creatable :: "(string \<Rightarrow> node option) \<Rightarrow> string \<Rightarrow> bool" where
  "creatable f p \<longleftrightarrow> plain p \<and> f p = None \<and> parent_dir f p"

definition nothing_below :: "(string \<Rightarrow> node option) \<Rightarrow> string \<Rightarrow> bool" where
  "nothing_below f p \<longleftrightarrow> (\<forall>q. f (p @ CHR ''/'' # q) = None)"

definition entry_names :: "(string \<Rightarrow> node option) \<Rightarrow> string \<Rightarrow> string set" where
  "entry_names f p = {n. plain_name n \<and> f (p @ CHR ''/'' # n) \<noteq> None}"

section \<open>Documented behaviour\<close>

text \<open>A call that succeeds or fails, and what the process sees afterwards.\<close>

definition succeeds :: "('w \<Rightarrow> tree_view) \<Rightarrow> (errno + 'b) \<times> 'w \<Rightarrow> tree_view \<Rightarrow> bool" where
  "succeeds view r t \<longleftrightarrow> (\<exists>x. fst r = Inr x) \<and> view (snd r) = t"

definition fails :: "('w \<Rightarrow> tree_view) \<Rightarrow> (errno + 'b) \<times> 'w \<Rightarrow> tree_view \<Rightarrow> bool" where
  "fails view r t \<longleftrightarrow> (\<exists>e>0. fst r = Inl e) \<and> view (snd r) = t"

definition tree_dirs :: "'w os \<Rightarrow> ('w \<Rightarrow> tree_view) \<Rightarrow> bool" where
  "tree_dirs os view \<longleftrightarrow>
    (\<forall>p w. creatable (tv_nodes (view w)) p \<longrightarrow>
       succeeds view (os_mkdir os p S_IRWXU w) ((view w)\<lparr>tv_nodes := (tv_nodes (view w))(p \<mapsto> Dir)\<rparr>)) \<and>
    (\<forall>p w. plain p \<longrightarrow> tv_nodes (view w) p \<noteq> None \<longrightarrow> fails view (os_mkdir os p S_IRWXU w) (view w)) \<and>
    (\<forall>p w. plain p \<longrightarrow> tv_nodes (view w) p = Some Dir \<longrightarrow> nothing_below (tv_nodes (view w)) p \<longrightarrow>
       succeeds view (os_rmdir os p w) ((view w)\<lparr>tv_nodes := (tv_nodes (view w))(p := None)\<rparr>)) \<and>
    (\<forall>p w. plain p \<longrightarrow> tv_nodes (view w) p = None \<longrightarrow> fails view (os_rmdir os p w) (view w))"

text \<open>
  A node that is open keeps its content when its name goes: the laws leave that case out, and that
  of a directory that takes what is in it along.
\<close>

definition tree_names :: "'w os \<Rightarrow> ('w \<Rightarrow> tree_view) \<Rightarrow> bool" where
  "tree_names os view \<longleftrightarrow>
    (\<forall>p n w. plain p \<longrightarrow> tv_nodes (view w) p = Some n \<longrightarrow> n \<noteq> Dir \<longrightarrow> p \<notin> ran (tv_open (view w)) \<longrightarrow>
       succeeds view (os_unlink os p w) ((view w)\<lparr>tv_nodes := (tv_nodes (view w))(p := None)\<rparr>)) \<and>
    (\<forall>p w. plain p \<longrightarrow> tv_nodes (view w) p = None \<longrightarrow> fails view (os_unlink os p w) (view w)) \<and>
    (\<forall>p q n w. plain p \<longrightarrow> tv_nodes (view w) p = Some n \<longrightarrow> nothing_below (tv_nodes (view w)) p \<longrightarrow>
       p \<notin> ran (tv_open (view w)) \<longrightarrow> creatable ((tv_nodes (view w))(p := None)) q \<longrightarrow> p \<noteq> q \<longrightarrow>
       succeeds view (os_rename os p q w)
         ((view w)\<lparr>tv_nodes := (tv_nodes (view w))(p := None, q \<mapsto> n)\<rparr>)) \<and>
    (\<forall>p q w. plain p \<longrightarrow> plain q \<longrightarrow> tv_nodes (view w) p = None \<longrightarrow> fails view (os_rename os p q w) (view w))"

definition opens_file :: "('w \<Rightarrow> tree_view) \<Rightarrow> (errno + int) \<times> 'w \<Rightarrow> string \<Rightarrow> tree_view \<Rightarrow> bool" where
  "opens_file view r p t \<longleftrightarrow>
     (\<exists>fd. fst r = Inr fd \<and> 0 \<le> fd \<and> tv_open t fd = None \<and>
        view (snd r) = t\<lparr>tv_open := (tv_open t)(fd \<mapsto> p), tv_room := tv_room t - 1\<rparr>)"

definition tree_open :: "'w os \<Rightarrow> ('w \<Rightarrow> tree_view) \<Rightarrow> bool" where
  "tree_open os view \<longleftrightarrow>
    (\<forall>p w. creatable (tv_nodes (view w)) p \<or> plain p \<and> (\<exists>bs. tv_nodes (view w) p = Some (File bs)) \<longrightarrow>
       0 < tv_room (view w) \<longrightarrow>
       opens_file view (os_open os p (O_RDWR OR O_CREAT OR O_TRUNC) (S_IRUSR OR S_IWUSR) w) p
         ((view w)\<lparr>tv_nodes := (tv_nodes (view w))(p \<mapsto> File [])\<rparr>)) \<and>
    (\<forall>p bs w. plain p \<longrightarrow> tv_nodes (view w) p = Some (File bs) \<longrightarrow> 0 < tv_room (view w) \<longrightarrow>
       opens_file view (os_open os p O_RDWR (S_IRUSR OR S_IWUSR) w) p (view w)) \<and>
    (\<forall>fd p w. tv_open (view w) fd = Some p \<longrightarrow>
       succeeds view (os_close os fd w)
         ((view w)\<lparr>tv_open := (tv_open (view w))(fd := None), tv_room := tv_room (view w) + 1\<rparr>))"

definition tree_files :: "'w os \<Rightarrow> ('w \<Rightarrow> tree_view) \<Rightarrow> bool" where
  "tree_files os view \<longleftrightarrow>
    (\<forall>fd p bs w. tv_open (view w) fd = Some p \<longrightarrow> tv_nodes (view w) p = Some (File bs) \<longrightarrow>
       (\<forall>n off. 0 \<le> off \<longrightarrow> os_pread os fd n off w = Inr (take (unat n) (drop (nat off) bs))) \<and>
       (\<forall>data off. 0 \<le> off \<longrightarrow>
          succeeds view (os_pwrite os fd data off w)
            ((view w)\<lparr>tv_nodes := (tv_nodes (view w))(p \<mapsto> File (splice (nat off) data bs))\<rparr>)) \<and>
       (\<forall>len. 0 \<le> len \<longrightarrow>
          succeeds view (os_ftruncate os fd len w)
            ((view w)\<lparr>tv_nodes := (tv_nodes (view w))
               (p \<mapsto> File (take (nat len) (bs @ replicate (nat len - length bs) 0)))\<rparr>)) \<and>
       (\<forall>l\<in>{F_RDLCK, F_WRLCK, F_UNLCK}. succeeds view (os_setlk os fd l w) (view w)))"

text \<open>What \<open>lstat\<close> reports of a node.\<close>

definition node_stat :: "node \<Rightarrow> file_stat \<Rightarrow> bool" where
  "node_stat n st =
     (case n of
        Dir \<Rightarrow> st_mode st AND S_IFMT = S_IFDIR
      | File bs \<Rightarrow> st_mode st AND S_IFMT = S_IFREG \<and> st_size st = int (length bs)
      | Special \<Rightarrow> st_mode st AND S_IFMT \<notin> {S_IFDIR, S_IFREG})"

definition tree_looks :: "'w os \<Rightarrow> ('w \<Rightarrow> tree_view) \<Rightarrow> bool" where
  "tree_looks os view \<longleftrightarrow>
    (\<forall>p w. plain p \<longrightarrow>
       (case tv_nodes (view w) p of
          None \<Rightarrow> \<exists>e>0. os_lstat os p w = Inl e
        | Some n \<Rightarrow> \<exists>st. os_lstat os p w = Inr st \<and> node_stat n st)) \<and>
    (\<forall>p w. plain p \<longrightarrow> tv_nodes (view w) p = Some Dir \<longrightarrow>
       (\<exists>st. os_stat os p w = Inr st \<and> node_stat Dir st) \<and>
       (\<exists>ds. os_opendir os p w = Inr ds \<and> distinct ds \<and> set ds = {''.'', ''..''} \<union> entry_names (tv_nodes (view w)) p)) \<and>
    (\<forall>fd n w. fd \<in> tv_devices (view w) \<longrightarrow> succeeds view (os_read os fd n w) (view w))"

definition posix_tree :: "'w os \<Rightarrow> ('w \<Rightarrow> tree_view) \<Rightarrow> bool" where
  "posix_tree os view \<longleftrightarrow>
     tree_dirs os view \<and> tree_names os view \<and> tree_open os view \<and> tree_files os view \<and> tree_looks os view"

text \<open>The laws as rules.\<close>

lemma tree_dirsD:
  assumes "posix_tree os view" and "view w = t"
  shows "creatable (tv_nodes t) p \<Longrightarrow>
      succeeds view (os_mkdir os p S_IRWXU w) (t\<lparr>tv_nodes := (tv_nodes t)(p \<mapsto> Dir)\<rparr>)"
    and "plain p \<Longrightarrow> tv_nodes t p \<noteq> None \<Longrightarrow> fails view (os_mkdir os p S_IRWXU w) t"
    and "plain p \<Longrightarrow> tv_nodes t p = Some Dir \<Longrightarrow> nothing_below (tv_nodes t) p \<Longrightarrow>
      succeeds view (os_rmdir os p w) (t\<lparr>tv_nodes := (tv_nodes t)(p := None)\<rparr>)"
    and "plain p \<Longrightarrow> tv_nodes t p = None \<Longrightarrow> fails view (os_rmdir os p w) t"
  using assms unfolding posix_tree_def tree_dirs_def by blast+

lemma tree_namesD:
  assumes "posix_tree os view" and "view w = t" and "plain p"
  shows "tv_nodes t p = Some n \<Longrightarrow> n \<noteq> Dir \<Longrightarrow> p \<notin> ran (tv_open t) \<Longrightarrow>
      succeeds view (os_unlink os p w) (t\<lparr>tv_nodes := (tv_nodes t)(p := None)\<rparr>)"
    and "tv_nodes t p = None \<Longrightarrow> fails view (os_unlink os p w) t"
    and "tv_nodes t p = Some n \<Longrightarrow> nothing_below (tv_nodes t) p \<Longrightarrow> p \<notin> ran (tv_open t) \<Longrightarrow>
      creatable ((tv_nodes t)(p := None)) q \<Longrightarrow> p \<noteq> q \<Longrightarrow>
      succeeds view (os_rename os p q w) (t\<lparr>tv_nodes := (tv_nodes t)(p := None, q \<mapsto> n)\<rparr>)"
    and "plain q \<Longrightarrow> tv_nodes t p = None \<Longrightarrow> fails view (os_rename os p q w) t"
  using assms unfolding posix_tree_def tree_names_def by blast+

lemma tree_openD:
  assumes "posix_tree os view" and "view w = t"
  shows "creatable (tv_nodes t) p \<or> plain p \<and> (\<exists>bs. tv_nodes t p = Some (File bs)) \<Longrightarrow> 0 < tv_room t \<Longrightarrow>
      opens_file view (os_open os p (O_RDWR OR O_CREAT OR O_TRUNC) (S_IRUSR OR S_IWUSR) w) p
        (t\<lparr>tv_nodes := (tv_nodes t)(p \<mapsto> File [])\<rparr>)"
    and "plain p \<Longrightarrow> tv_nodes t p = Some (File bs) \<Longrightarrow> 0 < tv_room t \<Longrightarrow>
      opens_file view (os_open os p O_RDWR (S_IRUSR OR S_IWUSR) w) p t"
    and "tv_open t fd = Some p \<Longrightarrow>
      succeeds view (os_close os fd w) (t\<lparr>tv_open := (tv_open t)(fd := None), tv_room := tv_room t + 1\<rparr>)"
  using assms unfolding posix_tree_def tree_open_def by blast+

lemma tree_filesD:
  assumes "posix_tree os view" and "view w = t" and "tv_open t fd = Some p" and "tv_nodes t p = Some (File bs)"
  shows "0 \<le> off \<Longrightarrow> os_pread os fd n off w = Inr (take (unat n) (drop (nat off) bs))"
    and "0 \<le> off \<Longrightarrow>
      succeeds view (os_pwrite os fd data off w) (t\<lparr>tv_nodes := (tv_nodes t)(p \<mapsto> File (splice (nat off) data bs))\<rparr>)"
    and "0 \<le> len \<Longrightarrow>
      succeeds view (os_ftruncate os fd len w)
        (t\<lparr>tv_nodes := (tv_nodes t)(p \<mapsto> File (take (nat len) (bs @ replicate (nat len - length bs) 0)))\<rparr>)"
    and "l \<in> {F_RDLCK, F_WRLCK, F_UNLCK} \<Longrightarrow> succeeds view (os_setlk os fd l w) t"
  using assms unfolding posix_tree_def tree_files_def by blast+

lemma tree_looksD:
  assumes "posix_tree os view" and "view w = t"
  shows "plain p \<Longrightarrow> tv_nodes t p = None \<Longrightarrow> \<exists>e>0. os_lstat os p w = Inl e"
    and "plain p \<Longrightarrow> tv_nodes t p = Some n \<Longrightarrow> \<exists>st. os_lstat os p w = Inr st \<and> node_stat n st"
    and "plain p \<Longrightarrow> tv_nodes t p = Some Dir \<Longrightarrow> \<exists>st. os_stat os p w = Inr st \<and> node_stat Dir st"
    and "plain p \<Longrightarrow> tv_nodes t p = Some Dir \<Longrightarrow>
      \<exists>ds. os_opendir os p w = Inr ds \<and> distinct ds \<and> set ds = {''.'', ''..''} \<union> entry_names (tv_nodes t) p"
    and "fd \<in> tv_devices t \<Longrightarrow> succeeds view (os_read os fd k w) t"
proof -
  have looks: "tree_looks os view" using assms(1) by (simp add: posix_tree_def)
  note lstat = looks [unfolded tree_looks_def, THEN conjunct1, rule_format, of p w]
    and dir = looks [unfolded tree_looks_def, THEN conjunct2, THEN conjunct1, rule_format, of p w]
    and device = looks [unfolded tree_looks_def, THEN conjunct2, THEN conjunct2, rule_format, of fd w k]
  show "plain p \<Longrightarrow> tv_nodes t p = None \<Longrightarrow> \<exists>e>0. os_lstat os p w = Inl e"
    and "plain p \<Longrightarrow> tv_nodes t p = Some n \<Longrightarrow> \<exists>st. os_lstat os p w = Inr st \<and> node_stat n st"
    using lstat assms(2) by simp_all
  show "plain p \<Longrightarrow> tv_nodes t p = Some Dir \<Longrightarrow> \<exists>st. os_stat os p w = Inr st \<and> node_stat Dir st"
    and "plain p \<Longrightarrow> tv_nodes t p = Some Dir \<Longrightarrow>
      \<exists>ds. os_opendir os p w = Inr ds \<and> distinct ds \<and> set ds = {''.'', ''..''} \<union> entry_names (tv_nodes t) p"
    by (rule dir [unfolded assms(2), THEN conjunct1]; assumption)
      (rule dir [unfolded assms(2), THEN conjunct2]; assumption)
  show "fd \<in> tv_devices t \<Longrightarrow> succeeds view (os_read os fd k w) t"
    using device unfolding assms(2) .
qed

section \<open>A tree in memory\<close>

record tree_fs =
  tf_nodes :: "(string \<times> node) list"
  tf_fds :: "int \<Rightarrow> string option"
  tf_devices :: "int set"

text \<open>The process may have 1024 descriptors.\<close>

definition free_fds :: "tree_fs \<Rightarrow> int list" where
  "free_fds w = filter (\<lambda>fd. tf_fds w fd = None \<and> fd \<notin> tf_devices w) [0..1023]"

definition tree_fs_view :: "tree_fs \<Rightarrow> tree_view" where
  "tree_fs_view w = \<lparr>tv_nodes = map_of (tf_nodes w), tv_open = tf_fds w |` ({0..1023} - tf_devices w),
     tv_room = length (free_fds w), tv_devices = tf_devices w\<rparr>"

definition node_mode :: "node \<Rightarrow> u32" where
  "node_mode n = (case n of Dir \<Rightarrow> S_IFDIR OR S_IRWXU | File _ \<Rightarrow> S_IFREG OR S_IRUSR OR S_IWUSR | Special \<Rightarrow> S_IFLNK)"

definition tree_stat :: "string \<Rightarrow> tree_fs \<Rightarrow> errno + file_stat" where
  "tree_stat p w =
     (if \<not> plain p then Inl ENOENT
      else (case map_of (tf_nodes w) p of
              None \<Rightarrow> Inl ENOENT
            | Some n \<Rightarrow>
                Inr \<lparr>st_mode = node_mode n, st_size = (case n of File bs \<Rightarrow> int (length bs) | _ \<Rightarrow> 0)\<rparr>))"

definition tree_opendir :: "string \<Rightarrow> tree_fs \<Rightarrow> errno + string list" where
  "tree_opendir p w =
     (if map_of (tf_nodes w) p \<noteq> Some Dir then Inl ENOENT
      else Inr (''.'' # ''..'' #
             remdups (filter plain_name
               (map (\<lambda>e. drop (length p + 1) (fst e))
                 (filter (\<lambda>e. take (length p + 1) (fst e) = p @ ''/'') (tf_nodes w))))))"

definition tree_put :: "string \<Rightarrow> node \<Rightarrow> tree_fs \<Rightarrow> tree_fs" where
  "tree_put p n w = w\<lparr>tf_nodes := AList.update p n (tf_nodes w)\<rparr>"

definition tree_remove :: "string \<Rightarrow> tree_fs \<Rightarrow> tree_fs" where
  "tree_remove p w = w\<lparr>tf_nodes := AList.delete p (tf_nodes w)\<rparr>"

definition tree_mkdir :: "string \<Rightarrow> tree_fs \<Rightarrow> (errno + unit) \<times> tree_fs" where
  "tree_mkdir p w = (if map_of (tf_nodes w) p \<noteq> None then (Inl 17, w) else (Inr (), tree_put p Dir w))"

definition tree_rmdir :: "string \<Rightarrow> tree_fs \<Rightarrow> (errno + unit) \<times> tree_fs" where
  "tree_rmdir p w =
     (if map_of (tf_nodes w) p \<noteq> Some Dir then (Inl ENOENT, w)
      else if \<exists>e\<in>set (tf_nodes w). take (length p + 1) (fst e) = p @ ''/'' then (Inl 39, w)
      else (Inr (), tree_remove p w))"

definition tree_unlink :: "string \<Rightarrow> tree_fs \<Rightarrow> (errno + unit) \<times> tree_fs" where
  "tree_unlink p w =
     (case map_of (tf_nodes w) p of
        None \<Rightarrow> (Inl ENOENT, w) | Some Dir \<Rightarrow> (Inl 21, w) | Some _ \<Rightarrow> (Inr (), tree_remove p w))"

definition tree_rename :: "string \<Rightarrow> string \<Rightarrow> tree_fs \<Rightarrow> (errno + unit) \<times> tree_fs" where
  "tree_rename p q w =
     (case map_of (tf_nodes w) p of
        None \<Rightarrow> (Inl ENOENT, w) | Some n \<Rightarrow> (Inr (), tree_put q n (tree_remove p w)))"

definition tree_open_fd :: "string \<Rightarrow> u32 \<Rightarrow> tree_fs \<Rightarrow> (errno + int) \<times> tree_fs" where
  "tree_open_fd p flags w =
     (case free_fds w of
        [] \<Rightarrow> (Inl 24, w)
      | fd # _ \<Rightarrow>
          (let w1 = w\<lparr>tf_fds := (tf_fds w)(fd \<mapsto> p)\<rparr> in
           case map_of (tf_nodes w) p of
             Some (File _) \<Rightarrow> (Inr fd, if flags AND O_TRUNC \<noteq> 0 then tree_put p (File []) w1 else w1)
           | None \<Rightarrow> if flags AND O_CREAT \<noteq> 0 then (Inr fd, tree_put p (File []) w1) else (Inl ENOENT, w)
           | _ \<Rightarrow> (Inl 21, w)))"

definition open_content :: "int \<Rightarrow> tree_fs \<Rightarrow> (string \<times> byte list) option" where
  "open_content fd w =
     (case tv_open (tree_fs_view w) fd of
        None \<Rightarrow> None
      | Some p \<Rightarrow> (case map_of (tf_nodes w) p of Some (File bs) \<Rightarrow> Some (p, bs) | _ \<Rightarrow> None))"

definition tree_close :: "int \<Rightarrow> tree_fs \<Rightarrow> (errno + unit) \<times> tree_fs" where
  "tree_close fd w =
     (if tv_open (tree_fs_view w) fd = None then (Inl EBADF, w)
      else (Inr (), w\<lparr>tf_fds := (tf_fds w)(fd := None)\<rparr>))"

definition tree_change :: "int \<Rightarrow> int \<Rightarrow> (byte list \<Rightarrow> byte list) \<Rightarrow> 'b \<Rightarrow> tree_fs \<Rightarrow> (errno + 'b) \<times> tree_fs" where
  "tree_change fd n f r w =
     (case open_content fd w of
        None \<Rightarrow> (Inl EBADF, w)
      | Some (p, bs) \<Rightarrow> if n < 0 then (Inl EINVAL, w) else (Inr r, tree_put p (File (f bs)) w))"

definition tree_os :: "tree_fs os" where
  "tree_os =
     \<lparr>os_open = (\<lambda>p flags mode. tree_open_fd p flags),
      os_close = tree_close,
      os_fsync = (\<lambda>fd w. (Inr (), w)),
      os_stat = tree_stat,
      os_lstat = tree_stat,
      os_statvfs = (\<lambda>p w. Inr \<lparr>f_bsize = 512, f_blocks = 100, f_bfree = 10, f_bavail = 9\<rparr>),
      os_opendir = tree_opendir,
      os_setlk = (\<lambda>fd t w. if open_content fd w = None then (Inl EBADF, w) else (Inr (), w)),
      os_readlink = (\<lambda>p n w. Inl EINVAL),
      os_symlink = (\<lambda>p q w. (Inl 1, w)),
      os_pread = (\<lambda>fd n off w. case open_content fd w of
                     None \<Rightarrow> Inl EBADF
                   | Some (_, bs) \<Rightarrow> if off < 0 then Inl EINVAL else Inr (take (unat n) (drop (nat off) bs))),
      os_pwrite = (\<lambda>fd data off. tree_change fd off (splice (nat off) data) (length data)),
      os_read = (\<lambda>fd n w. if fd \<in> tf_devices w then (Inr (replicate (min (unat n) 3) 7), w) else (Inl EBADF, w)),
      os_write = (\<lambda>fd data w. (Inl EBADF, w)),
      os_ftruncate = (\<lambda>fd len. tree_change fd len
                        (\<lambda>bs. take (nat len) (bs @ replicate (nat len - length bs) 0)) ()),
      os_fallocate = (\<lambda>fd mode off len w. (Inl 95, w)),
      os_mkdir = (\<lambda>p m. tree_mkdir p),
      os_rmdir = tree_rmdir,
      os_rename = tree_rename,
      os_unlink = tree_unlink,
      os_malloc = (\<lambda>n w. (True, w))\<rparr>"

section \<open>It has the documented behaviour\<close>

lemma tree_os_calls [simp]:
  "os_open tree_os = (\<lambda>p flags mode. tree_open_fd p flags)" "os_close tree_os = tree_close"
  "os_stat tree_os = tree_stat" "os_lstat tree_os = tree_stat" "os_opendir tree_os = tree_opendir"
  "os_mkdir tree_os = (\<lambda>p m. tree_mkdir p)" "os_rmdir tree_os = tree_rmdir" "os_rename tree_os = tree_rename"
  "os_unlink tree_os = tree_unlink"
  "os_pwrite tree_os = (\<lambda>fd data off. tree_change fd off (splice (nat off) data) (length data))"
  "os_ftruncate tree_os = (\<lambda>fd len. tree_change fd len (\<lambda>bs. take (nat len) (bs @ replicate (nat len - length bs) 0)) ())"
  by (simp_all add: tree_os_def)

lemma view_put [simp]:
  "tree_fs_view (tree_put p n w) = (tree_fs_view w)\<lparr>tv_nodes := (tv_nodes (tree_fs_view w))(p \<mapsto> n)\<rparr>"
  by (simp add: tree_fs_view_def tree_put_def free_fds_def update_conv')

lemma view_remove [simp]:
  "tree_fs_view (tree_remove p w) = (tree_fs_view w)\<lparr>tv_nodes := (tv_nodes (tree_fs_view w))(p := None)\<rparr>"
  by (simp add: tree_fs_view_def tree_remove_def free_fds_def delete_conv')

lemma view_nodes [simp]: "tv_nodes (tree_fs_view w) = map_of (tf_nodes w)"
  by (simp add: tree_fs_view_def)

lemma take_slash_iff: "take (length p + 1) x = p @ ''/'' \<longleftrightarrow> (\<exists>q. x = p @ CHR ''/'' # q)"
  by (metis append_Cons append_Nil append_assoc append_eq_conv_conj append_take_drop_id length_append_singleton Suc_eq_plus1)

lemma below_iff:
  "(\<exists>e\<in>set xs. take (length p + 1) (fst e) = p @ ''/'') \<longleftrightarrow> \<not> nothing_below (map_of xs) p"
  by (auto simp: nothing_below_def map_of_eq_None_iff image_iff take_slash_iff simp del: One_nat_def add_Suc_right)
    (metis fst_conv prod.collapse)+

lemma open_content_iff:
  "tv_open (tree_fs_view w) fd = Some p \<Longrightarrow> map_of (tf_nodes w) p = Some (File bs) \<Longrightarrow> open_content fd w = Some (p, bs)"
  by (simp add: open_content_def)

lemma tree_os_dirs: "tree_dirs tree_os tree_fs_view"
  unfolding tree_dirs_def
  by (simp add: succeeds_def fails_def tree_mkdir_def tree_rmdir_def below_iff creatable_def
      del: Bex_set One_nat_def add_Suc_right)

lemma tree_os_names: "tree_names tree_os tree_fs_view"
  unfolding tree_names_def
  by (auto simp: succeeds_def fails_def tree_unlink_def tree_rename_def split: node.split)

lemma open_fd_view:
  assumes "free_fds w = fd # fds"
  shows "0 \<le> fd" "tv_open (tree_fs_view w) fd = None"
    "tree_fs_view (w\<lparr>tf_fds := (tf_fds w)(fd \<mapsto> p)\<rparr>) =
      (tree_fs_view w)\<lparr>tv_open := (tv_open (tree_fs_view w))(fd \<mapsto> p), tv_room := tv_room (tree_fs_view w) - 1\<rparr>"
proof -
  have fd: "fd \<in> set (free_fds w)" using assms by simp
  then show "0 \<le> fd" and "tv_open (tree_fs_view w) fd = None"
    by (simp_all add: free_fds_def tree_fs_view_def restrict_map_def)
  have "free_fds (w\<lparr>tf_fds := (tf_fds w)(fd \<mapsto> p)\<rparr>) = remove1 fd (free_fds w)"
    by (simp add: free_fds_def distinct_remove1_removeAll removeAll_filter_not_eq conj_commute) (rule filter_cong; auto)
  then show "tree_fs_view (w\<lparr>tf_fds := (tf_fds w)(fd \<mapsto> p)\<rparr>) =
      (tree_fs_view w)\<lparr>tv_open := (tv_open (tree_fs_view w))(fd \<mapsto> p), tv_room := tv_room (tree_fs_view w) - 1\<rparr>"
    using fd by (simp add: tree_fs_view_def length_remove1 fun_upd_restrict_conv) (auto simp: free_fds_def)
qed

lemma close_fd_view:
  assumes "tv_open (tree_fs_view w) fd = Some p"
  shows "tree_fs_view (w\<lparr>tf_fds := (tf_fds w)(fd := None)\<rparr>) =
    (tree_fs_view w)\<lparr>tv_open := (tv_open (tree_fs_view w))(fd := None), tv_room := tv_room (tree_fs_view w) + 1\<rparr>"
proof -
  let ?w = "w\<lparr>tf_fds := (tf_fds w)(fd := None)\<rparr>"
  have fd: "fd \<in> {0..1023}" "fd \<notin> tf_devices w" "tf_fds w fd = Some p"
    using assms by (auto simp: tree_fs_view_def restrict_map_def split: if_splits)
  then have "set (free_fds ?w) = insert fd (set (free_fds w))" and "fd \<notin> set (free_fds w)"
    by (auto simp: free_fds_def)
  then have "card (set (free_fds ?w)) = card (set (free_fds w)) + 1" by simp
  then have "length (free_fds ?w) = length (free_fds w) + 1"
    by (metis (no_types, lifting) distinct_card distinct_filter distinct_upto free_fds_def)
  then show ?thesis
    using fd by (auto simp: tree_fs_view_def restrict_map_def)
qed

lemma tree_os_open: "tree_open tree_os tree_fs_view"
proof -
  have fds: "\<exists>fd fds. free_fds w = fd # fds" if "0 < tv_room (tree_fs_view w)" for w
    using that by (cases "free_fds w") (simp_all add: tree_fs_view_def)
  show ?thesis
    unfolding tree_open_def opens_file_def
    by (auto simp: tree_open_fd_def Let_def creatable_def open_fd_view succeeds_def tree_close_def close_fd_view
        dest!: fds)
qed

lemma tree_os_files: "tree_files tree_os tree_fs_view"
  unfolding tree_files_def
  by (auto simp: tree_change_def open_content_iff succeeds_def tree_os_def)

lemma node_stat_mode: "node_stat n \<lparr>st_mode = node_mode n, st_size = (case n of File bs \<Rightarrow> int (length bs) | _ \<Rightarrow> 0)\<rparr>"
  by (simp add: node_stat_def node_mode_def split: node.split)

lemma tree_opendir_names:
  assumes "map_of (tf_nodes w) p = Some Dir"
  shows "\<exists>ds. tree_opendir p w = Inr ds \<and> distinct ds \<and> set ds = {''.'', ''..''} \<union> entry_names (map_of (tf_nodes w)) p"
proof -
  let ?xs = "tf_nodes w"
  let ?below = "map (\<lambda>e. drop (length p + 1) (fst e)) (filter (\<lambda>e. take (length p + 1) (fst e) = p @ ''/'') ?xs)"
  let ?ds = "''.'' # ''..'' # remdups (filter plain_name ?below)"
  have "q \<in> set ?below \<longleftrightarrow> map_of ?xs (p @ CHR ''/'' # q) \<noteq> None" for q
    unfolding map_of_eq_None_iff take_slash_iff by (force simp: image_iff)
  then have "set (filter plain_name ?below) = entry_names (map_of ?xs) p"
    by (auto simp: entry_names_def)
  then have "set ?ds = {''.'', ''..''} \<union> entry_names (map_of ?xs) p" by auto
  moreover have "distinct ?ds" by (simp add: plain_name_def)
  ultimately show ?thesis using assms by (simp only: tree_opendir_def if_False not_True_eq_False simp_thms) blast
qed

lemma tree_stat_node:
  "plain p \<Longrightarrow> map_of (tf_nodes w) p = Some n \<Longrightarrow> \<exists>st. tree_stat p w = Inr st \<and> node_stat n st"
  by (simp add: tree_stat_def node_stat_mode)

lemma tree_os_looks: "tree_looks tree_os tree_fs_view"
  unfolding tree_looks_def tree_os_calls view_nodes
proof (intro conjI allI impI)
  fix p w assume "plain p"
  then show "case map_of (tf_nodes w) p of None \<Rightarrow> \<exists>e>0. tree_stat p w = Inl e
      | Some n \<Rightarrow> \<exists>st. tree_stat p w = Inr st \<and> node_stat n st"
    using tree_stat_node by (auto simp: tree_stat_def split: option.split)
next
  fix fd n w assume "fd \<in> tv_devices (tree_fs_view w)"
  then show "succeeds tree_fs_view (os_read tree_os fd n w) (tree_fs_view w)"
    by (simp add: succeeds_def tree_os_def tree_fs_view_def)
qed (erule (1) tree_stat_node, erule tree_opendir_names)

lemma tree_os_posix: "posix_tree tree_os tree_fs_view"
  by (simp add: posix_tree_def tree_os_dirs tree_os_names tree_os_open tree_os_files tree_os_looks)

lemma tree_os_documented:
  "reads_bounded tree_os" "path_max tree_os" "memory_available tree_os" "errno_int tree_os"
  by (auto simp: reads_bounded_def path_max_def memory_available_def errno_int_def tree_os_def tree_stat_def plain_def
      plain_name_def tree_change_def split: option.splits if_splits)

end
