(* ===== verification/Session_Tree.thy ===== *)
theory Session_Tree
  imports Session_Trace Posix_Tree
begin

text \<open>
  A connection to a server on a directory tree, as a program sees it: what every call of the library
  does to the tree. The locale \<open>file_service\<close> is that contract; the library over the server is an
  instance of it wherever the server's system calls behave as \<open>Posix_Tree\<close> says.
\<close>

section \<open>The server keeps its random sources\<close>

definition keeps_random :: "'w server \<Rightarrow> 'w server option \<Rightarrow> bool" where
  "keeps_random s conn \<longleftrightarrow> (\<forall>s'. conn = Some s' \<longrightarrow> random_fd s' = random_fd s \<and> urandom_fd s' = urandom_fd s)"

definition handler_keeps :: "('a \<Rightarrow> 'w server \<Rightarrow> 'r \<times> 'w server) \<Rightarrow> bool" where
  "handler_keeps h \<longleftrightarrow>
     (\<forall>a s. random_fd (snd (h a s)) = random_fd s \<and> urandom_fd (snd (h a s)) = urandom_fd s)"

lemma handler_keeps_statics: "(\<And>a s. statics_kept s (snd (h a s))) \<Longrightarrow> handler_keeps h"
  by (simp add: handler_keeps_def statics_kept_def)

lemma handlers_keep:
  "handler_keeps (icbinn_prot_stat_1_svc os)" "handler_keeps (icbinn_prot_statfs_1_svc os)"
  "handler_keeps (icbinn_prot_open_1_svc os)" "handler_keeps (icbinn_prot_lock_1_svc os)"
  "handler_keeps (icbinn_prot_symlink_1_svc os)" "handler_keeps (icbinn_prot_ftruncate_1_svc os)"
  "handler_keeps (icbinn_prot_fallocate_1_svc os)" "handler_keeps (icbinn_prot_pwrite_1_svc os)"
  "handler_keeps (icbinn_prot_close_1_svc os)" "handler_keeps (icbinn_prot_fsync_1_svc os)"
  "handler_keeps (icbinn_prot_mkdir_1_svc os)" "handler_keeps (icbinn_prot_rmdir_1_svc os)"
  "handler_keeps (icbinn_prot_unlink_1_svc os)" "handler_keeps (icbinn_prot_rename_1_svc os)"
  "handler_keeps (icbinn_prot_pread_1_svc os)" "handler_keeps (icbinn_prot_readlink_1_svc os)"
  "handler_keeps (icbinn_prot_rand_1_svc os)"
  by (rule handler_keeps_statics, rule handler_statics)+
    (simp_all add: handler_keeps_def icbinn_prot_pread_1_svc_def icbinn_prot_readlink_1_svc_def
      icbinn_prot_rand_1_svc_def get_pathname_len_cases Let_def split: sum.split prod.split)

lemma serve_keeps:
  "handler_keeps h \<Longrightarrow> keeps_random s conn \<Longrightarrow> keeps_random s (snd (serve encodes res_encodes h a conn))"
  by (cases conn) (simp_all add: keeps_random_def handler_keeps_def serve_def)

lemmas stubs_keep = handlers_keep [THEN serve_keeps]

lemma workers_state:
  "snd (snd (icbinn_pread_worker c fd buf pos n off w)) =
     snd (icbinn_prot_pread_1 c \<lparr>pra_fd = fd, pra_offset = off, pra_count = n\<rparr> w)"
  "snd (icbinn_pwrite_worker c fd buf pos n off w) =
     snd (icbinn_prot_pwrite_1 c \<lparr>pwa_fd = fd, pwa_offset = off, pwa_data = take (unat n) (drop pos buf)\<rparr> w)"
  "snd (snd (icbinn_rand_worker c src buf pos n w)) = snd (icbinn_prot_rand_1 c \<lparr>rda_count = n, rda_src = src\<rparr> w)"
  by (simp_all add: icbinn_pread_worker_def icbinn_pwrite_worker_def icbinn_rand_worker_def
      split: prod.split option.split icbinn_prot_preadres.split icbinn_prot_errnostat.split icbinn_prot_randres.split)

lemma pread_keeps:
  assumes "keeps_random s conn"
  shows "keeps_random s (snd (snd (icbinn_pread (server_CLIENT os) fd buf n off conn)))"
proof -
  have "\<exists>k :: nat. keeps_random s (snd (snd (snd (snd (icbinn_pread_loop (server_CLIENT os) fd n 0 (buf, 0, off, conn))))))"
    by (rule pread_t.loop_keeps [where J = "\<lambda>k x. keeps_random s (snd (snd (snd x)))"])
      (simp_all add: assms pread_advance_def pread_call_def workers_state stubs_keep split_beta)
  then show ?thesis by (simp add: icbinn_pread_def split_beta)
qed

lemma pwrite_keeps:
  assumes "keeps_random s conn"
  shows "keeps_random s (snd (icbinn_pwrite (server_CLIENT os) fd buf n off conn))"
proof -
  have "\<exists>k :: nat. keeps_random s (snd (snd (snd (icbinn_pwrite_loop (server_CLIENT os) fd buf n 0 (0, off, conn)))))"
    by (rule pwrite_t.loop_keeps [where J = "\<lambda>k x. keeps_random s (snd (snd x))"])
      (simp_all add: assms pwrite_advance_def pwrite_call_def workers_state stubs_keep split_beta)
  then show ?thesis by (simp add: icbinn_pwrite_def split_beta)
qed

lemma calls_state:
  "snd (icbinn_lock c fd t w) = snd (icbinn_prot_lock_1 c \<lparr>la_fd = fd, la_type = t\<rparr> w)"
  "snd (icbinn_rename c p q w) = snd (icbinn_prot_rename_1 c \<lparr>rna_from = p, rna_to = q\<rparr> w)"
  "snd (icbinn_symlink c p q w) = snd (icbinn_prot_symlink_1 c \<lparr>sla_oldpath = p, sla_newpath = q\<rparr> w)"
  "snd (icbinn_ftruncate c fd len w) = snd (icbinn_prot_ftruncate_1 c \<lparr>fta_fd = fd, fta_length = len\<rparr> w)"
  "snd (icbinn_open c p m w) = snd (icbinn_prot_open_1 c \<lparr>oa_name = p, oa_mode = m\<rparr> w)"
  "snd (icbinn_fallocate c fd mo off len w) =
     snd (icbinn_prot_fallocate_1 c \<lparr>faa_fd = fd, faa_mode = mo, faa_offset = off, faa_length = len\<rparr> w)"
  "snd (snd (icbinn_stat c (Some p) (Some b) w)) = snd (icbinn_prot_stat_1 c p w)"
  "snd (snd (icbinn_statfs c (Some p) (Some v) w)) = snd (icbinn_prot_statfs_1 c p w)"
  "snd (snd (icbinn_readlink c (Some p) (Some d) n w)) =
     snd (icbinn_prot_readlink_1 c \<lparr>rla_path = p, rla_bufsz = n\<rparr> w)"
  by (simp_all add: client_defs icbinn_open_def icbinn_fallocate_def icbinn_stat_def icbinn_statfs_def icbinn_readlink_def
      split: prod.split option.split icbinn_prot_errnostat.split icbinn_prot_openres.split
        icbinn_prot_statres.split icbinn_prot_statfsres.split icbinn_prot_readlinkres.split)

lemma lib_step_keeps:
  assumes "keeps_random s conn"
  shows "keeps_random s (snd (lib_step (server_CLIENT os) q conn))"
proof (cases q)
  case CNull
  then show ?thesis
    using assms by (simp add: status_def icbinn_null_def icbinn_prot_null_1_svc_def keeps_random_def split: option.split)
qed (simp_all add: status_def split_beta assms stubs_keep calls_state mkdir_c.call_state rmdir_c.call_state
    unlink_c.call_state close_c.call_state fsync_c.call_state pread_keeps pwrite_keeps)

section \<open>The contract\<close>

text \<open>From every state in \<open>P\<close> the call returns a result in \<open>R\<close> and a state in \<open>Q\<close>.\<close>

definition gives :: "('c \<Rightarrow> 'r \<times> 'c) \<Rightarrow> ('c \<Rightarrow> bool) \<Rightarrow> ('r \<Rightarrow> bool) \<Rightarrow> ('c \<Rightarrow> bool) \<Rightarrow> bool" where
  "gives call P R Q \<longleftrightarrow> (\<forall>w. P w \<longrightarrow> R (fst (call w)) \<and> Q (snd (call w)))"

text \<open>The structure that \<open>icbinn_stat\<close> fills for a node, and the entry that \<open>icbinn_readent\<close> fills.\<close>

definition stat_shows :: "node \<Rightarrow> icbinn_stat_t \<Rightarrow> bool" where
  "stat_shows n b =
     (case n of
        Dir \<Rightarrow> is_type b = ICBINN_TYPE_DIRECTORY
      | File bs \<Rightarrow> is_type b = ICBINN_TYPE_FILE \<and> is_size b = of_nat (length bs)
      | Special \<Rightarrow> is_type b \<notin> {ICBINN_TYPE_DIRECTORY, ICBINN_TYPE_FILE})"

definition entry_shows :: "node \<Rightarrow> icbinn_dirent \<Rightarrow> bool" where
  "entry_shows n e =
     (case n of
        Dir \<Rightarrow> de_type e = ICBINN_TYPE_DIRECTORY
      | File _ \<Rightarrow> de_type e = ICBINN_TYPE_FILE
      | Special \<Rightarrow> de_type e \<notin> {ICBINN_TYPE_DIRECTORY, ICBINN_TYPE_FILE})"

definition small_dir :: "(string \<Rightarrow> node option) \<Rightarrow> string \<Rightarrow> bool" where
  "small_dir f dir \<longleftrightarrow> plain dir \<and> f dir = Some Dir \<and> card (entry_names f dir) < 2 ^ 31 \<and>
     (\<forall>n\<in>entry_names f dir. plain (dir @ CHR ''/'' # n))"

locale file_service =
  fixes c :: "'c CLIENT"
    and holds :: "tree_view \<Rightarrow> 'c \<Rightarrow> bool"
    and listing :: "string \<Rightarrow> 'c \<Rightarrow> icbinn_dirent list"
  assumes null: "gives (icbinn_null c) (holds t) ((=) 0) (holds t)"
    and mkdir_new: "creatable (tv_nodes t) p \<Longrightarrow>
      gives (icbinn_mkdir c p) (holds t) ((=) 0) (holds (t\<lparr>tv_nodes := (tv_nodes t)(p \<mapsto> Dir)\<rparr>))"
    and mkdir_old: "plain p \<Longrightarrow> tv_nodes t p \<noteq> None \<Longrightarrow> gives (icbinn_mkdir c p) (holds t) ((\<noteq>) 0) (holds t)"
    and rmdir_empty: "plain p \<Longrightarrow> tv_nodes t p = Some Dir \<Longrightarrow> nothing_below (tv_nodes t) p \<Longrightarrow>
      gives (icbinn_rmdir c p) (holds t) ((=) 0) (holds (t\<lparr>tv_nodes := (tv_nodes t)(p := None)\<rparr>))"
    and rmdir_none: "plain p \<Longrightarrow> tv_nodes t p = None \<Longrightarrow> gives (icbinn_rmdir c p) (holds t) ((\<noteq>) 0) (holds t)"
    and unlink_file: "plain p \<Longrightarrow> tv_nodes t p = Some x \<Longrightarrow> x \<noteq> Dir \<Longrightarrow> p \<notin> ran (tv_open t) \<Longrightarrow>
      gives (icbinn_unlink c p) (holds t) ((=) 0) (holds (t\<lparr>tv_nodes := (tv_nodes t)(p := None)\<rparr>))"
    and unlink_none: "plain p \<Longrightarrow> tv_nodes t p = None \<Longrightarrow> gives (icbinn_unlink c p) (holds t) ((\<noteq>) 0) (holds t)"
    and rename_new: "plain p \<Longrightarrow> tv_nodes t p = Some x \<Longrightarrow> nothing_below (tv_nodes t) p \<Longrightarrow> p \<notin> ran (tv_open t) \<Longrightarrow>
      creatable ((tv_nodes t)(p := None)) q \<Longrightarrow> p \<noteq> q \<Longrightarrow>
      gives (icbinn_rename c p q) (holds t) ((=) 0) (holds (t\<lparr>tv_nodes := (tv_nodes t)(p := None, q \<mapsto> x)\<rparr>))"
    and rename_none: "plain p \<Longrightarrow> plain q \<Longrightarrow> tv_nodes t p = None \<Longrightarrow>
      gives (icbinn_rename c p q) (holds t) ((\<noteq>) 0) (holds t)"
    and open_new: "creatable (tv_nodes t) p \<or> plain p \<and> (\<exists>bs. tv_nodes t p = Some (File bs)) \<Longrightarrow> 0 < tv_room t \<Longrightarrow> holds t w \<Longrightarrow>
      \<exists>fd w'. icbinn_open c p (ICBINN_RDWR OR ICBINN_CREAT OR ICBINN_TRUNC) w = (fd, w') \<and> 0 \<le> fd \<and> tv_open t fd = None \<and>
        holds (t\<lparr>tv_nodes := (tv_nodes t)(p \<mapsto> File []), tv_open := (tv_open t)(fd \<mapsto> p), tv_room := tv_room t - 1\<rparr>) w'"
    and open_old: "plain p \<Longrightarrow> tv_nodes t p = Some (File bs) \<Longrightarrow> 0 < tv_room t \<Longrightarrow> holds t w \<Longrightarrow>
      \<exists>fd w'. icbinn_open c p ICBINN_RDWR w = (fd, w') \<and> 0 \<le> fd \<and> tv_open t fd = None \<and>
        holds (t\<lparr>tv_open := (tv_open t)(fd \<mapsto> p), tv_room := tv_room t - 1\<rparr>) w'"
    and close: "tv_open t fd = Some p \<Longrightarrow>
      gives (icbinn_close c fd) (holds t) ((=) 0) (holds (t\<lparr>tv_open := (tv_open t)(fd := None), tv_room := tv_room t + 1\<rparr>))"
    and pwrite: "tv_open t fd = Some p \<Longrightarrow> tv_nodes t p = Some (File bs) \<Longrightarrow> n \<noteq> 0 \<Longrightarrow> unat n \<le> ICBINN_PROT_MAXDATA \<Longrightarrow> unat off < 2 ^ 63 \<Longrightarrow>
      gives (icbinn_pwrite c fd d n off) (holds t) ((=) (uint n))
        (holds (t\<lparr>tv_nodes := (tv_nodes t)(p \<mapsto> File (splice (unat off) (take (unat n) d) bs))\<rparr>))"
    and pread: "tv_open t fd = Some p \<Longrightarrow> tv_nodes t p = Some (File bs) \<Longrightarrow> n \<noteq> 0 \<Longrightarrow> unat n \<le> ICBINN_PROT_MAXDATA \<Longrightarrow> unat off < 2 ^ 63 \<Longrightarrow>
      d = take (unat n) (drop (unat off) bs) \<Longrightarrow> holds t w \<Longrightarrow>
      \<exists>w'. icbinn_pread c fd buf n off w = (int (length d), mem_write buf 0 d, w') \<and> holds t w'"
    and ftruncate: "tv_open t fd = Some p \<Longrightarrow> tv_nodes t p = Some (File bs) \<Longrightarrow> unat len < 2 ^ 63 \<Longrightarrow>
      gives (icbinn_ftruncate c fd len) (holds t) ((=) 0)
        (holds (t\<lparr>tv_nodes := (tv_nodes t)(p \<mapsto> File (take (unat len) (bs @ replicate (unat len - length bs) 0)))\<rparr>))"
    and lock: "tv_open t fd = Some p \<Longrightarrow> tv_nodes t p = Some (File bs) \<Longrightarrow> l \<in> {0, 1, 2} \<Longrightarrow>
      gives (icbinn_lock c fd l) (holds t) ((=) 0) (holds t)"
    and stat_none: "plain p \<Longrightarrow> holds t w \<Longrightarrow> tv_nodes t p = None \<Longrightarrow>
      \<exists>r b' w'. icbinn_stat c (Some p) (Some b) w = (r, b', w') \<and> r \<noteq> 0 \<and> holds t w'"
    and stat_node: "plain p \<Longrightarrow> holds t w \<Longrightarrow> tv_nodes t p = Some x \<Longrightarrow>
      \<exists>b' w'. icbinn_stat c (Some p) (Some b) w = (0, Some b', w') \<and> stat_shows x b' \<and> holds t w'"
    and readent: "small_dir (tv_nodes t) dir \<Longrightarrow> unat off < 2 ^ 32 \<Longrightarrow> holds t w \<Longrightarrow>
      \<exists>w'. icbinn_readent c dir off e w =
          Ret (if unat off < length (listing dir w) then (0, listing dir w ! unat off) else (-1, e)) w' \<and>
        holds t w' \<and> listing dir w' = listing dir w"
    and listed: "small_dir (tv_nodes t) dir \<Longrightarrow> holds t w \<Longrightarrow>
      distinct (map de_name (listing dir w)) \<and> de_name ` set (listing dir w) = entry_names (tv_nodes t) dir \<and>
      (\<forall>e\<in>set (listing dir w). entry_shows (the (tv_nodes t (dir @ CHR ''/'' # de_name e))) e)"
    and rand: "src \<in> {0, 1} \<Longrightarrow> unat n \<le> ICBINN_PROT_MAXDATA \<Longrightarrow> holds t w \<Longrightarrow>
      \<exists>r b w'. icbinn_rand c src buf n w = (r, b, w') \<and> 0 \<le> r \<and> r \<le> uint n \<and> holds t w'"

section \<open>The library over the server keeps it\<close>

definition tree_connection :: "'w os \<Rightarrow> ('w \<Rightarrow> tree_view) \<Rightarrow> tree_view \<Rightarrow> 'w server option \<Rightarrow> bool" where
  "tree_connection os view t conn \<longleftrightarrow>
     posix_tree os view \<and> reads_bounded os \<and> errno_int os \<and> path_max os \<and> memory_available os \<and>
     (\<exists>s. conn = Some s \<and> view (world s) = t \<and> random_fd s \<in> tv_devices t \<and> urandom_fd s \<in> tv_devices t)"

lemma step_on_tree:
  assumes "tree_connection os view t conn" and "single_call q"
    and "\<And>w. posix_tree os view \<Longrightarrow> view w = t \<Longrightarrow>
      tv_devices (view (snd (local_step os q w))) = tv_devices t \<and>
      P (fst (local_step os q w)) (view (snd (local_step os q w)))"
  shows "\<exists>t'. P (fst (lib_step (server_CLIENT os) q conn)) t' \<and>
    tree_connection os view t' (snd (lib_step (server_CLIENT os) q conn))"
proof -
  obtain s where s: "conn = Some s" "view (world s) = t" and dev: "random_fd s \<in> tv_devices t" "urandom_fd s \<in> tv_devices t"
    and os: "posix_tree os view" "reads_bounded os" "errno_int os" "path_max os" "memory_available os"
    using assms(1) by (auto simp: tree_connection_def)
  obtain s' where s': "snd (lib_step (server_CLIENT os) q conn) = Some s'" "world s' = snd (local_step os q (world s))"
    and r: "fst (lib_step (server_CLIENT os) q conn) = fst (local_step os q (world s))"
    using lib_step_served [OF os(2,3) assms(2), of s] s(1) by (auto simp: served_as_def)
  have "keeps_random s (snd (lib_step (server_CLIENT os) q conn))"
    by (rule lib_step_keeps) (simp add: s keeps_random_def)
  then have "random_fd s' = random_fd s" "urandom_fd s' = urandom_fd s"
    by (simp_all add: keeps_random_def s')
  then show ?thesis
    using assms(3) [OF os(1) s(2)] os dev r s' by (auto simp: tree_connection_def)
qed

text \<open>A status call, whose local counterpart is a system call on plain paths.\<close>

lemma status_on_tree:
  assumes "\<And>conn. lib_step (server_CLIENT os) q conn = status (call conn)" and "single_call q"
    and "tv_devices t' = tv_devices t"
    and "\<And>w. posix_tree os view \<Longrightarrow> view w = t \<Longrightarrow>
      \<exists>n w'. local_step os q w = (Status n, w') \<and> R n \<and> view w' = t'"
  shows "gives call (tree_connection os view t) R (tree_connection os view t')"
  unfolding gives_def
proof (intro allI impI)
  fix conn assume conn: "tree_connection os view t conn"
  have "\<exists>t1. (\<exists>n. fst (lib_step (server_CLIENT os) q conn) = Status n \<and> R n \<and> t1 = t') \<and>
      tree_connection os view t1 (snd (lib_step (server_CLIENT os) q conn))"
    by (rule step_on_tree [OF conn assms(2)]) (use assms(3,4) in fastforce)
  then show "R (fst (call conn)) \<and> tree_connection os view t' (snd (call conn))"
    by (auto simp: assms(1) status_def)
qed

lemma plain_path: "plain p \<Longrightarrow> path_encodes p \<and> length p < ICBINN_PROT_MAXPATHLEN"
  by (simp add: plain_def path_encodes_def)

lemma creatable_path: "creatable f p \<Longrightarrow> path_encodes p \<and> length p < ICBINN_PROT_MAXPATHLEN"
  by (simp add: creatable_def plain_path)

lemma status_succeeds:
  assumes "\<And>conn. lib_step (server_CLIENT os) q conn = status (call conn)" and "single_call q"
    and "\<And>w. local_step os q w = local_status True True e (effect w) w"
    and "\<And>w. posix_tree os view \<Longrightarrow> view w = t \<Longrightarrow> succeeds view (effect w) t'"
    and "tv_devices t' = tv_devices t"
  shows "gives call (tree_connection os view t) ((=) 0) (tree_connection os view t')"
  by (rule status_on_tree [OF assms(1,2,5)])
    (use assms(4) in \<open>fastforce simp: assms(3) local_status_def sys_result_def succeeds_def\<close>)

lemma status_fails:
  assumes "\<And>conn. lib_step (server_CLIENT os) q conn = status (call conn)" and "single_call q"
    and "\<And>w. local_step os q w = local_status True True e (effect w) w"
    and "\<And>w. posix_tree os view \<Longrightarrow> view w = t \<Longrightarrow> fails view (effect w) t"
  shows "gives call (tree_connection os view t) ((\<noteq>) 0) (tree_connection os view t)"
  by (rule status_on_tree [OF assms(1,2) refl])
    (use assms(4) in \<open>fastforce simp: assms(3) local_status_def sys_result_def fails_def\<close>)

lemma mkdir_on_tree:
  "creatable (tv_nodes t) p \<Longrightarrow> gives (icbinn_mkdir (server_CLIENT os) p) (tree_connection os view t) ((=) 0)
     (tree_connection os view (t\<lparr>tv_nodes := (tv_nodes t)(p \<mapsto> Dir)\<rparr>))"
  "plain p \<Longrightarrow> tv_nodes t p \<noteq> None \<Longrightarrow>
     gives (icbinn_mkdir (server_CLIENT os) p) (tree_connection os view t) ((\<noteq>) 0) (tree_connection os view t)"
  by (rule status_succeeds [where q = "CMkdir p", OF _ _ _ tree_dirsD(1)]; simp add: creatable_path)
    (rule status_fails [where q = "CMkdir p", OF _ _ _ tree_dirsD(2)]; simp add: plain_path)

lemma rmdir_on_tree:
  "plain p \<Longrightarrow> tv_nodes t p = Some Dir \<Longrightarrow> nothing_below (tv_nodes t) p \<Longrightarrow>
     gives (icbinn_rmdir (server_CLIENT os) p) (tree_connection os view t) ((=) 0)
       (tree_connection os view (t\<lparr>tv_nodes := (tv_nodes t)(p := None)\<rparr>))"
  "plain p \<Longrightarrow> tv_nodes t p = None \<Longrightarrow>
     gives (icbinn_rmdir (server_CLIENT os) p) (tree_connection os view t) ((\<noteq>) 0) (tree_connection os view t)"
  by (rule status_succeeds [where q = "CRmdir p", OF _ _ _ tree_dirsD(3)]; simp add: plain_path)
    (rule status_fails [where q = "CRmdir p", OF _ _ _ tree_dirsD(4)]; simp add: plain_path)

lemma unlink_on_tree:
  "plain p \<Longrightarrow> tv_nodes t p = Some n \<Longrightarrow> n \<noteq> Dir \<Longrightarrow> p \<notin> ran (tv_open t) \<Longrightarrow>
     gives (icbinn_unlink (server_CLIENT os) p) (tree_connection os view t) ((=) 0)
       (tree_connection os view (t\<lparr>tv_nodes := (tv_nodes t)(p := None)\<rparr>))"
  "plain p \<Longrightarrow> tv_nodes t p = None \<Longrightarrow>
     gives (icbinn_unlink (server_CLIENT os) p) (tree_connection os view t) ((\<noteq>) 0) (tree_connection os view t)"
  by (rule status_succeeds [where q = "CUnlink p", OF _ _ _ tree_namesD(1)]; simp add: plain_path)
    (rule status_fails [where q = "CUnlink p", OF _ _ _ tree_namesD(2)]; simp add: plain_path)

lemma rename_on_tree:
  "plain p \<Longrightarrow> tv_nodes t p = Some n \<Longrightarrow> nothing_below (tv_nodes t) p \<Longrightarrow> p \<notin> ran (tv_open t) \<Longrightarrow>
     creatable ((tv_nodes t)(p := None)) q \<Longrightarrow> p \<noteq> q \<Longrightarrow>
     gives (icbinn_rename (server_CLIENT os) p q) (tree_connection os view t) ((=) 0)
       (tree_connection os view (t\<lparr>tv_nodes := (tv_nodes t)(p := None, q \<mapsto> n)\<rparr>))"
  "plain p \<Longrightarrow> plain q \<Longrightarrow> tv_nodes t p = None \<Longrightarrow>
     gives (icbinn_rename (server_CLIENT os) p q) (tree_connection os view t) ((\<noteq>) 0) (tree_connection os view t)"
  by (rule status_succeeds [where q = "CRename p q", OF _ _ _ tree_namesD(3)]; simp add: plain_path creatable_path)
    (rule status_fails [where q = "CRename p q", OF _ _ _ tree_namesD(4)]; simp add: plain_path)

lemma null_on_tree:
  "gives (icbinn_null (server_CLIENT os)) (tree_connection os view t) ((=) 0) (tree_connection os view t)"
  by (rule status_on_tree [where q = CNull]) simp_all

lemma close_on_tree:
  "tv_open t fd = Some p \<Longrightarrow>
     gives (icbinn_close (server_CLIENT os) fd) (tree_connection os view t) ((=) 0)
       (tree_connection os view (t\<lparr>tv_open := (tv_open t)(fd := None), tv_room := tv_room t + 1\<rparr>))"
  by (rule status_succeeds [where q = "CClose fd", OF _ _ _ tree_openD(3)]) simp_all

lemma sint_off: "unat (off :: u64) < 2 ^ 63 \<Longrightarrow> 0 \<le> sint off \<and> nat (sint off) = unat off"
  by (simp add: sint_small)

lemma ftruncate_on_tree:
  assumes "tv_open t fd = Some p" and "tv_nodes t p = Some (File bs)" and "unat len < 2 ^ 63"
  shows "gives (icbinn_ftruncate (server_CLIENT os) fd len) (tree_connection os view t) ((=) 0)
    (tree_connection os view
       (t\<lparr>tv_nodes := (tv_nodes t)(p \<mapsto> File (take (unat len) (bs @ replicate (unat len - length bs) 0)))\<rparr>))"
proof -
  have "0 \<le> sint len" and len: "nat (sint len) = unat len" using sint_off [OF assms(3)] by simp_all
  then show ?thesis
    unfolding len [symmetric]
    by (intro status_succeeds [where q = "CFtruncate fd len", OF _ _ _ tree_filesD(3) [OF _ _ assms(1,2)]]) simp_all
qed

lemma lock_on_tree:
  assumes "tv_open t fd = Some p" and "tv_nodes t p = Some (File bs)" and "l \<in> {0, 1, 2}"
  shows "gives (icbinn_lock (server_CLIENT os) fd l) (tree_connection os view t) ((=) 0) (tree_connection os view t)"
  by (rule status_succeeds [where q = "CLock fd l" and e = EINVAL, OF _ _ _ tree_filesD(4)]) (use assms in simp_all)

lemma open_on_tree:
  assumes "tree_connection os view t conn" and "path_encodes p" and "path_ok p"
    and "\<And>w. posix_tree os view \<Longrightarrow> view w = t \<Longrightarrow>
      opens_file view (os_open os p (m AND (O_WRONLY OR O_RDWR OR O_CREAT OR O_TRUNC)) (S_IRUSR OR S_IWUSR) w) p t1"
    and "tv_devices t1 = tv_devices t" and "tv_open t1 = tv_open t"
  shows "\<exists>fd conn'. icbinn_open (server_CLIENT os) p m conn = (fd, conn') \<and> 0 \<le> fd \<and> tv_open t fd = None \<and>
    tree_connection os view (t1\<lparr>tv_open := (tv_open t)(fd \<mapsto> p), tv_room := tv_room t1 - 1\<rparr>) conn'"
proof -
  have "\<exists>t'. (\<exists>fd. fst (lib_step (server_CLIENT os) (COpen p m) conn) = Status fd \<and> 0 \<le> fd \<and> tv_open t fd = None \<and>
        t' = t1\<lparr>tv_open := (tv_open t)(fd \<mapsto> p), tv_room := tv_room t1 - 1\<rparr>) \<and>
      tree_connection os view t' (snd (lib_step (server_CLIENT os) (COpen p m) conn))"
  proof (rule step_on_tree [OF assms(1)])
    fix w assume "posix_tree os view" and "view w = t"
    from assms(4) [OF this] assms(2,3,5,6) show
      "tv_devices (view (snd (local_step os (COpen p m) w))) = tv_devices t \<and>
       (\<exists>fd. fst (local_step os (COpen p m) w) = Status fd \<and> 0 \<le> fd \<and> tv_open t fd = None \<and>
        view (snd (local_step os (COpen p m) w)) = t1\<lparr>tv_open := (tv_open t)(fd \<mapsto> p), tv_room := tv_room t1 - 1\<rparr>)"
      by (auto simp: opens_file_def split: prod.split)
  qed simp
  then show ?thesis by (cases "icbinn_open (server_CLIENT os) p m conn") (auto simp: status_def)
qed

lemma pwrite_on_tree:
  assumes "tv_open t fd = Some p" and "tv_nodes t p = Some (File bs)" and "n \<noteq> 0" and "unat n \<le> ICBINN_PROT_MAXDATA"
    and "unat off < 2 ^ 63"
  shows "gives (icbinn_pwrite (server_CLIENT os) fd d n off) (tree_connection os view t) ((=) (uint n))
    (tree_connection os view (t\<lparr>tv_nodes := (tv_nodes t)(p \<mapsto> File (splice (unat off) (take (unat n) d) bs))\<rparr>))"
proof (rule status_on_tree [where q = "CPwrite fd d n off"])
  fix w assume "posix_tree os view" and "view w = t"
  from tree_filesD(2) [OF this assms(1,2), of "sint off" "take (unat n) d"] show
    "\<exists>k w'. local_step os (CPwrite fd d n off) w = (Status k, w') \<and> uint n = k \<and>
      view w' = t\<lparr>tv_nodes := (tv_nodes t)(p \<mapsto> File (splice (unat off) (take (unat n) d) bs))\<rparr>"
    using assms(3) sint_off [OF assms(5)] by (auto simp: succeeds_def split: prod.split)
qed (use assms(4) in simp_all)

lemma pread_on_tree:
  assumes "tv_open t fd = Some p" and "tv_nodes t p = Some (File bs)" and "n \<noteq> 0" and "unat n \<le> ICBINN_PROT_MAXDATA"
    and "unat off < 2 ^ 63" and "d = take (unat n) (drop (unat off) bs)" and "tree_connection os view t conn"
  shows "\<exists>conn'. icbinn_pread (server_CLIENT os) fd buf n off conn = (int (length d), mem_write buf 0 d, conn') \<and>
    tree_connection os view t conn'"
proof -
  have "\<exists>t'. (fst (lib_step (server_CLIENT os) (CPread fd buf n off) conn) = DataResult (int (length d)) (mem_write buf 0 d) \<and> t' = t) \<and>
      tree_connection os view t' (snd (lib_step (server_CLIENT os) (CPread fd buf n off) conn))"
  proof (rule step_on_tree [OF assms(7)])
    fix w assume "posix_tree os view" and "view w = t"
    from tree_filesD(1) [OF this assms(1,2), of "sint off" n] \<open>view w = t\<close> show
      "tv_devices (view (snd (local_step os (CPread fd buf n off) w))) = tv_devices t \<and>
       fst (local_step os (CPread fd buf n off) w) = DataResult (int (length d)) (mem_write buf 0 d) \<and>
       view (snd (local_step os (CPread fd buf n off) w)) = t"
      using assms(3,6) sint_off [OF assms(5)] by simp
  qed (use assms(4) in simp)
  then show ?thesis by (cases "icbinn_pread (server_CLIENT os) fd buf n off conn") auto
qed

lemma type_of_node:
  assumes "node_stat n st"
  shows "n = Dir \<Longrightarrow> set_icbinn_prot_type (st_mode st) = ICBINN_TYPE_DIRECTORY"
    and "n = File bs \<Longrightarrow> set_icbinn_prot_type (st_mode st) = ICBINN_TYPE_FILE"
    and "n = Special \<Longrightarrow> set_icbinn_prot_type (st_mode st) \<notin> {ICBINN_TYPE_DIRECTORY, ICBINN_TYPE_FILE}"
  using assms
  by (auto simp: node_stat_def set_icbinn_prot_type_def S_ISLNK_def S_ISDIR_def S_ISREG_def)

lemma stat_shows_node:
  "node_stat n st \<Longrightarrow>
     stat_shows n (b\<lparr>is_type := set_icbinn_prot_type (st_mode st), is_size := word_of_int (st_size st)\<rparr>)"
  using type_of_node [of n st] by (cases n) (auto simp: stat_shows_def node_stat_def)

lemma stat_on_tree:
  assumes "plain p" and "tree_connection os view t conn"
  shows "tv_nodes t p = None \<Longrightarrow>
      \<exists>r b' conn'. icbinn_stat (server_CLIENT os) (Some p) (Some b) conn = (r, b', conn') \<and> r \<noteq> 0 \<and> tree_connection os view t conn'"
    and "tv_nodes t p = Some n \<Longrightarrow>
      \<exists>b' conn'. icbinn_stat (server_CLIENT os) (Some p) (Some b) conn = (0, Some b', conn') \<and> stat_shows n b' \<and>
        tree_connection os view t conn'"
proof -
  let ?r = "lib_step (server_CLIENT os) (CStat p b) conn"
  define P where "P r t' \<longleftrightarrow> t' = t \<and>
    (case tv_nodes t p of
       None \<Rightarrow> \<exists>k b'. r = StatResult k b' \<and> k \<noteq> 0
     | Some n \<Rightarrow> \<exists>b'. r = StatResult 0 b' \<and> stat_shows n b')" for r t'
  have "\<exists>t'. P (fst ?r) t' \<and> tree_connection os view t' (snd ?r)"
  proof (rule step_on_tree [OF assms(2)])
    fix w assume w: "posix_tree os view" "view w = t"
    show "tv_devices (view (snd (local_step os (CStat p b) w))) = tv_devices t \<and>
        P (fst (local_step os (CStat p b) w)) (view (snd (local_step os (CStat p b) w)))"
    proof (cases "tv_nodes t p")
      case None
      then obtain e where "0 < e" "os_lstat os p w = Inl e" using tree_looksD(1) [OF w assms(1)] by blast
      then show ?thesis using None w(2) by (simp add: P_def local_path_def)
    next
      case (Some n)
      then obtain st where st: "os_lstat os p w = Inr st" "node_stat n st" using tree_looksD(2) [OF w assms(1)] by blast
      show ?thesis
        using Some w(2) st(1) stat_shows_node [OF st(2), of b] plain_path [OF assms(1)]
        by (simp add: P_def local_path_def)
    qed
  qed simp
  then have r: "P (fst ?r) t" "tree_connection os view t (snd ?r)" by (auto simp: P_def)
  have some: "\<exists>b'. fst (snd (icbinn_stat (server_CLIENT os) (Some p) (Some b) conn)) = Some b'"
    by (simp add: icbinn_stat_def split: prod.split option.split icbinn_prot_statres.split)
  show "tv_nodes t p = None \<Longrightarrow>
      \<exists>r b' conn'. icbinn_stat (server_CLIENT os) (Some p) (Some b) conn = (r, b', conn') \<and> r \<noteq> 0 \<and> tree_connection os view t conn'"
    using r by (cases "icbinn_stat (server_CLIENT os) (Some p) (Some b) conn") (auto simp: P_def)
  show "tv_nodes t p = Some n \<Longrightarrow>
      \<exists>b' conn'. icbinn_stat (server_CLIENT os) (Some p) (Some b) conn = (0, Some b', conn') \<and> stat_shows n b' \<and>
        tree_connection os view t conn'"
    using r some by (cases "icbinn_stat (server_CLIENT os) (Some p) (Some b) conn") (auto simp: P_def)
qed

section \<open>Directories and random bytes\<close>

lemma readdir_svc_keeps:
  assumes "icbinn_prot_readdir_1_svc os a s = Ret r s'"
  shows "random_fd s' = random_fd s \<and> urandom_fd s' = urandom_fd s"
  using assms
  by (auto simp: icbinn_prot_readdir_1_svc_def readdir_collect_def readdir_free_previous_def get_pathname_len_cases Let_def
      dest!: readdir_loop_statics split: if_splits sum.splits outcome.splits icbinn_prot_readdirres.splits)

lemma readent_keeps:
  assumes "icbinn_readent (server_CLIENT os) dir off e (Some s) = Ret r conn"
  shows "keeps_random s conn"
  using assms
  by (auto simp: icbinn_readent_def icbinn_readdir_def serve_outcome_def keeps_random_def dest!: readdir_svc_keeps
      split: if_splits outcome.splits option.splits prod.splits icbinn_prot_readdirres.splits)

definition dir_listing :: "'w os \<Rightarrow> string \<Rightarrow> 'w server option \<Rightarrow> icbinn_dirent list" where
  "dir_listing os dir conn =
     (case conn of
        None \<Rightarrow> []
      | Some s \<Rightarrow> (case os_opendir os dir (world s) of Inl _ \<Rightarrow> [] | Inr ds \<Rightarrow> dirents os dir (world s) ds))"

lemma components_nonempty [simp]: "components p \<noteq> []"
  by (cases p) (simp_all split: list.split)

lemma components_append: "components (p @ CHR ''/'' # q) = components p @ components q"
  by (induction p) (simp_all split: list.split)

lemma plain_dir_base:
  assumes "plain dir"
  shows "dir_base dir = dir @ ''/''"
proof (cases dir rule: rev_cases)
  case Nil
  then show ?thesis using assms by (simp add: plain_def plain_name_def)
next
  case (snoc xs c)
  then show ?thesis
    using assms components_append [of xs "[]"] by (auto simp: dir_base_def plain_def plain_name_def)
qed

text \<open>A directory of the tree opens, and every name in it is shown with the kind of its node.\<close>

lemma opens_on_tree:
  assumes "small_dir (tv_nodes t) dir" and "posix_tree os view" and "view w = t"
  obtains ds where "opens_dir os dir w ds" and "distinct ds" and "length ds < 2 ^ 32"
    and "set ds = {''.'', ''..''} \<union> entry_names (tv_nodes t) dir"
proof -
  have dir: "plain dir" "tv_nodes t dir = Some Dir" "card (entry_names (tv_nodes t) dir) < 2 ^ 31"
    using assms(1) by (simp_all add: small_dir_def)
  obtain st ds where st: "os_stat os dir w = Inr st" "node_stat Dir st" and ds: "os_opendir os dir w = Inr ds" "distinct ds"
    "set ds = {''.'', ''..''} \<union> entry_names (tv_nodes t) dir"
    using tree_looksD(3,4) [OF assms(2,3) dir(1,2)] by blast
  have "length ds \<le> card {''.'', ''..''} + card (entry_names (tv_nodes t) dir)"
    using card_Un_le [of "{''.'', ''..''}" "entry_names (tv_nodes t) dir"] distinct_card [OF ds(2)] ds(3) by simp
  then have "length ds < 2 ^ 32" using dir(3) by simp
  moreover have "opens_dir os dir w ds"
    using st ds(1) by (simp add: opens_dir_def node_stat_def S_ISDIR_def)
  ultimately show ?thesis using that ds by blast
qed

lemma visible_on_tree:
  assumes "small_dir (tv_nodes t) dir" and "posix_tree os view" and "view w = t" and "d \<in> entry_names (tv_nodes t) dir"
  shows "\<exists>e. visible_entry os (dir_base dir) w d = Some e \<and> en_name e = d \<and>
    entry_shows (the (tv_nodes t (dir @ CHR ''/'' # d))) \<lparr>de_name = d, de_type = en_type e\<rparr>"
proof -
  obtain n where n: "tv_nodes t (dir @ CHR ''/'' # d) = Some n" and d: "plain_name d" "plain (dir @ CHR ''/'' # d)"
    and dir: "plain dir"
    using assms(1,4) by (auto simp: small_dir_def entry_names_def)
  obtain st where st: "os_lstat os (dir @ CHR ''/'' # d) w = Inr st" "node_stat n st"
    using tree_looksD(2) [OF assms(2,3) d(2) n] by blast
  have "entry_shows n \<lparr>de_name = d, de_type = set_icbinn_prot_type (st_mode st)\<rparr>"
    using type_of_node [OF st(2)] by (cases n) (auto simp: entry_shows_def)
  then show ?thesis
    using n st(1) d(1) by (auto simp: visible_entry_def plain_dir_base [OF dir] plain_name_def)
qed

lemma visible_names:
  assumes "\<And>d. d \<in> set ds \<Longrightarrow> d \<noteq> ''.'' \<Longrightarrow> d \<noteq> ''..'' \<Longrightarrow> \<exists>e. visible_entry os base w d = Some e \<and> en_name e = d"
  shows "map en_name (visible_entries os base w ds) = filter (\<lambda>d. d \<noteq> ''.'' \<and> d \<noteq> ''..'') ds"
  using assms
proof (induction ds)
  case (Cons d ds)
  show ?case
  proof (cases "d = ''.'' \<or> d = ''..''")
    case True
    then have "visible_entry os base w d = None" by (auto simp: visible_entry_def)
    then show ?thesis using Cons True by auto
  next
    case False
    then obtain e where "visible_entry os base w d = Some e" "en_name e = d" using Cons.prems [of d] by auto
    then show ?thesis using Cons False by auto
  qed
qed simp

lemma visible_entriesD:
  "e \<in> set (visible_entries os base w ds) \<Longrightarrow> \<exists>d\<in>set ds. visible_entry os base w d = Some e"
  by (induction ds) (auto split: option.splits)

lemma listing_on_tree:
  assumes "small_dir (tv_nodes t) dir" and "tree_connection os view t conn"
  shows "distinct (map de_name (dir_listing os dir conn)) \<and>
    de_name ` set (dir_listing os dir conn) = entry_names (tv_nodes t) dir \<and>
    (\<forall>e\<in>set (dir_listing os dir conn). entry_shows (the (tv_nodes t (dir @ CHR ''/'' # de_name e))) e)"
proof -
  obtain s where s: "conn = Some s" and w: "posix_tree os view" "view (world s) = t"
    using assms(2) by (auto simp: tree_connection_def)
  obtain ds where ds: "opens_dir os dir (world s) ds" "distinct ds"
    "set ds = {''.'', ''..''} \<union> entry_names (tv_nodes t) dir"
    using opens_on_tree [OF assms(1) w] by metis
  let ?vs = "visible_entries os (dir_base dir) (world s) ds"
  have vs: "dir_listing os dir conn = map (\<lambda>e. \<lparr>de_name = en_name e, de_type = en_type e\<rparr>) ?vs"
    using ds(1) by (auto simp: dir_listing_def s opens_dir_def dirents_def split: sum.splits)
  have names: "map en_name ?vs = filter (\<lambda>d. d \<noteq> ''.'' \<and> d \<noteq> ''..'') ds"
    by (rule visible_names) (use visible_on_tree [OF assms(1) w] ds(3) in auto)
  have "entry_shows (the (tv_nodes t (dir @ CHR ''/'' # en_name e))) \<lparr>de_name = en_name e, de_type = en_type e\<rparr>"
    if v: "e \<in> set ?vs" for e
  proof -
    obtain d where "d \<in> set ds" and e: "visible_entry os (dir_base dir) (world s) d = Some e"
      using visible_entriesD [OF v] by blast
    moreover have "d \<noteq> ''.''" "d \<noteq> ''..''" using e by (simp_all add: visible_entry_def split: if_splits)
    ultimately have "d \<in> entry_names (tv_nodes t) dir" using ds(3) by simp
    from visible_on_tree [OF assms(1) w this] e show ?thesis by auto
  qed
  moreover have "de_name ` set (dir_listing os dir conn) = set (map en_name ?vs)"
    by (simp add: vs image_image)
  moreover have "set (map en_name ?vs) = entry_names (tv_nodes t) dir"
    unfolding names using ds(3) by (auto simp: entry_names_def plain_name_def)
  moreover have "distinct (map en_name ?vs)" unfolding names using ds(2) by simp
  ultimately show ?thesis by (simp add: vs comp_def)
qed

lemma readent_on_tree:
  assumes "small_dir (tv_nodes t) dir" and "unat off < 2 ^ 32" and "tree_connection os view t conn"
  shows "\<exists>conn'. icbinn_readent (server_CLIENT os) dir off e conn =
      Ret (if unat off < length (dir_listing os dir conn) then (0, dir_listing os dir conn ! unat off) else (-1, e)) conn' \<and>
    tree_connection os view t conn' \<and> dir_listing os dir conn' = dir_listing os dir conn"
proof -
  obtain s where s: "conn = Some s" and w: "posix_tree os view" "view (world s) = t"
    and os: "path_max os" "memory_available os" and dev: "random_fd s \<in> tv_devices t" "urandom_fd s \<in> tv_devices t"
    using assms(3) by (auto simp: tree_connection_def)
  obtain ds where ds: "opens_dir os dir (world s) ds" "length ds < 2 ^ 32"
    using opens_on_tree [OF assms(1) w] by metis
  have listing: "dir_listing os dir conn = dirents os dir (world s) ds"
    using ds(1) by (auto simp: dir_listing_def s opens_dir_def split: sum.splits)
  obtain s' where s': "icbinn_readent (server_CLIENT os) dir off e conn =
      Ret (if unat off < length (dir_listing os dir conn) then (0, dir_listing os dir conn ! unat off) else (-1, e)) (Some s')"
      "world s' = world s"
    using readent_content [OF os(2,1) ds assms(2), of e] listing unfolding s by (auto split: if_splits)
  then have "random_fd s' = random_fd s" "urandom_fd s' = urandom_fd s"
    using readent_keeps [of os dir off e s] s by (auto simp: keeps_random_def)
  moreover have "dir_listing os dir (Some s') = dir_listing os dir conn"
    by (simp only: dir_listing_def s option.case s'(2))
  ultimately show ?thesis
    using s' assms(3) s by (auto simp: tree_connection_def)
qed

lemma rand_on_tree:
  assumes "src \<in> {0, 1}" and "unat n \<le> ICBINN_PROT_MAXDATA" and "tree_connection os view t conn"
  shows "\<exists>r b conn'. icbinn_rand (server_CLIENT os) src buf n conn = (r, b, conn') \<and> 0 \<le> r \<and> r \<le> uint n \<and>
    tree_connection os view t conn'"
proof (cases "n = 0")
  case True
  then show ?thesis using assms(3) by (simp add: icbinn_rand_def)
next
  case False
  obtain s where s: "conn = Some s" and w: "posix_tree os view" "view (world s) = t"
    and os: "reads_bounded os" and dev: "random_fd s \<in> tv_devices t" "urandom_fd s \<in> tv_devices t"
    using assms(3) by (auto simp: tree_connection_def)
  define fd where "fd = (if src = 0 then random_fd s else urandom_fd s)"
  have fd: "fd \<in> tv_devices t" using dev by (simp add: fd_def)
  obtain bs w' where rd: "os_read os fd n (world s) = (Inr bs, w')" and w': "view w' = t"
    using tree_looksD(5) [OF w, of fd n] fd by (cases "os_read os fd n (world s)") (auto simp: succeeds_def)
  have bs: "length bs \<le> unat n" using os rd unfolding reads_bounded_def by blast
  then have "data_encodes bs" using assms(2) by (simp add: data_encodes_def)
  then obtain conn' where call: "rand_call (server_CLIENT os) src n (buf, 0, conn) =
      (int (length bs), mem_write buf 0 bs, 0, conn')" and conn': "tree_connection os view t conn'"
    using rd assms s w' bs not_above_MAXDATA [OF assms(2)]
    by (auto simp: rand_call_def icbinn_rand_worker_def icbinn_prot_rand_1_svc_def fd_def Let_def tree_connection_def split: if_splits)
  note one = chunk_single [OF assms(2)]
  then have call': "rand_call (server_CLIENT os) src (chunk n) (buf, 0, conn) = (int (length bs), mem_write buf 0 bs, 0, conn')"
    using call by simp
  have "\<exists>b pos. icbinn_rand_loop (server_CLIENT os) src n 0 (buf, 0, conn) = (int (length bs), b, pos, conn')"
    using rand_t.loop_full [OF False call', of 0] rand_t.loop_short [OF False call', of 0] one
    by (cases "of_nat (length bs) = n") (auto simp: rand_advance_def Let_def)
  then show ?thesis using conn' bs by (auto simp: icbinn_rand_def intro!: length_le_uint)
qed

lemma open_new_on_tree:
  assumes "creatable (tv_nodes t) p \<or> plain p \<and> (\<exists>bs. tv_nodes t p = Some (File bs))" and "0 < tv_room t"
    and "tree_connection os view t conn"
  shows "\<exists>fd conn'. icbinn_open (server_CLIENT os) p (ICBINN_RDWR OR ICBINN_CREAT OR ICBINN_TRUNC) conn = (fd, conn') \<and>
    0 \<le> fd \<and> tv_open t fd = None \<and>
    tree_connection os view
      (t\<lparr>tv_nodes := (tv_nodes t)(p \<mapsto> File []), tv_open := (tv_open t)(fd \<mapsto> p), tv_room := tv_room t - 1\<rparr>) conn'"
proof -
  let ?t1 = "t\<lparr>tv_nodes := (tv_nodes t)(p \<mapsto> File [])\<rparr>" and ?m = "ICBINN_RDWR OR ICBINN_CREAT OR ICBINN_TRUNC"
  have law: "opens_file view (os_open os p (?m AND (O_WRONLY OR O_RDWR OR O_CREAT OR O_TRUNC)) (S_IRUSR OR S_IWUSR) w) p ?t1"
    if "posix_tree os view" "view w = t" for w
    using tree_openD(1) [OF that assms(1,2)] by simp
  have "path_encodes p" "path_ok p" using assms(1) plain_path creatable_path by blast+
  from open_on_tree [OF assms(3) this law] show ?thesis by simp
qed

lemma open_old_on_tree:
  assumes "plain p" and "tv_nodes t p = Some (File bs)" and "0 < tv_room t" and "tree_connection os view t conn"
  shows "\<exists>fd conn'. icbinn_open (server_CLIENT os) p ICBINN_RDWR conn = (fd, conn') \<and> 0 \<le> fd \<and> tv_open t fd = None \<and>
    tree_connection os view (t\<lparr>tv_open := (tv_open t)(fd \<mapsto> p), tv_room := tv_room t - 1\<rparr>) conn'"
proof -
  have law: "opens_file view (os_open os p (ICBINN_RDWR AND (O_WRONLY OR O_RDWR OR O_CREAT OR O_TRUNC)) (S_IRUSR OR S_IWUSR) w) p t"
    if "posix_tree os view" "view w = t" for w
    using tree_openD(2) [OF that assms(1-3)] by simp
  have "path_encodes p" "path_ok p" using plain_path [OF assms(1)] by simp_all
  from open_on_tree [OF assms(4) this law] show ?thesis by simp
qed

interpretation tree_s: file_service "server_CLIENT os" "tree_connection os view" "dir_listing os"
  for os :: "'w os" and view
  by unfold_locales
    (fact null_on_tree mkdir_on_tree rmdir_on_tree unlink_on_tree rename_on_tree open_new_on_tree open_old_on_tree
      close_on_tree pwrite_on_tree pread_on_tree ftruncate_on_tree lock_on_tree stat_on_tree readent_on_tree
      listing_on_tree rand_on_tree)+

end
