(* ===== verification/Selftest_Pass.thy ===== *)
theory Selftest_Pass
  imports Selftest Session_Tree Session_Process
begin

text \<open>
  The test program passes. Its tests are proved once over the contract \<open>file_service\<close> of a connection to a
  directory tree, in a small logic of calls that return what a test expects; the contract's
  instance, the library over the server, gives the result for the program as it runs.
\<close>

section \<open>Tests that pass\<close>

text \<open>From every state in \<open>P\<close> the test returns 0 in a state in \<open>Q\<close>.\<close>

definition passes :: "('c \<Rightarrow> (int, 'c) outcome) \<Rightarrow> ('c \<Rightarrow> bool) \<Rightarrow> ('c \<Rightarrow> bool) \<Rightarrow> bool" where
  "passes a P Q \<longleftrightarrow> (\<forall>w. P w \<longrightarrow> (\<exists>w'. a w = Ret 0 w' \<and> Q w'))"

lemma passes_return: "(\<And>w. P w \<Longrightarrow> Q w) \<Longrightarrow> passes (Ret 0) P Q"
  by (simp add: passes_def)

lemma passes_fail_if:
  assumes "gives call P good R" and "\<And>r. good r \<Longrightarrow> \<not> fails_on r" and "passes rest R Q"
  shows "passes (fail_if fails_on call rest) P Q"
  using assms by (auto simp: passes_def gives_def fail_if_def split: prod.split)

lemma passes_ignoring:
  assumes "gives call P good R" and "passes rest R Q"
  shows "passes (ignoring call rest) P Q"
  using assms by (auto simp: passes_def gives_def ignoring_def)

lemma passes_open:
  assumes "\<And>w. P w \<Longrightarrow> \<exists>fd w'. icbinn_open c p m w = (fd, w') \<and> 0 \<le> fd \<and> A fd \<and> R fd w'"
    and "\<And>fd. A fd \<Longrightarrow> passes (rest fd) (R fd) Q"
  shows "passes (open_or_fail c p m rest) P Q"
  unfolding passes_def
proof (intro allI impI)
  fix w assume "P w"
  then obtain fd w' where "icbinn_open c p m w = (fd, w')" "0 \<le> fd" "A fd" "R fd w'" using assms(1) by blast
  then show "\<exists>w'. open_or_fail c p m rest w = Ret 0 w' \<and> Q w'"
    using assms(2) [of fd] by (auto simp: open_or_fail_def passes_def)
qed

lemma memcmp_refl [simp]: "memcmp xs xs n = 0"
proof (induction xs arbitrary: n)
  case (Cons x xs)
  then show ?case by (cases n) simp_all
qed simp

section \<open>Names in the test directory\<close>

lemma plain_test_paths [simp]:
  "plain ''icbinntest''" "plain ''icbinntest/dir1''" "plain ''icbinntest/dir2''" "plain ''icbinntest/dir3''"
  "plain ''icbinntest/dir4''" "plain ''icbinntest/file1''" "plain ''icbinntest/file2''" "plain ''icbinntest/file3''"
  "plain ''icbinntest/file4''"
  by (simp_all add: plain_def plain_name_def)

lemma parent_test_paths [simp]:
  "parent_dir f ''icbinntest''"
  "parent_dir f ''icbinntest/dir1'' \<longleftrightarrow> f ''icbinntest'' = Some Dir"
  "parent_dir f ''icbinntest/dir2'' \<longleftrightarrow> f ''icbinntest'' = Some Dir"
  "parent_dir f ''icbinntest/file1'' \<longleftrightarrow> f ''icbinntest'' = Some Dir"
  "parent_dir f ''icbinntest/file2'' \<longleftrightarrow> f ''icbinntest'' = Some Dir"
  by (simp_all add: parent_dir_def)

text \<open>
  What a run may find: the test directory may be there, with nothing in it but empty directories and
  files that the clean-up removes; no file of it is open, and a descriptor can be opened.
\<close>

definition test_dirs :: "string list" where
  "test_dirs = [''dir1'', ''dir2'', ''dir3'', ''dir4'']"

definition test_files :: "string list" where
  "test_files = [''file1'', ''file2'', ''file3'', ''file4'']"

definition leftovers :: "(string \<Rightarrow> node option) \<Rightarrow> bool" where
  "leftovers f \<longleftrightarrow>
     (f ''icbinntest'' = None \<or> f ''icbinntest'' = Some Dir) \<and>
     (\<forall>q n. f (''icbinntest/'' @ q) = Some n \<longrightarrow> (if n = Dir then q \<in> set test_dirs else q \<in> set test_files))"

definition testable :: "tree_view \<Rightarrow> bool" where
  "testable t \<longleftrightarrow> (\<forall>q. ''icbinntest/'' @ q \<notin> ran (tv_open t)) \<and> 0 < tv_room t"

text \<open>The tree with an empty test directory.\<close>

definition sweep :: "(string \<Rightarrow> node option) \<Rightarrow> string \<Rightarrow> node option" where
  "sweep f p = (if p = ''icbinntest'' then Some Dir else if take 11 p = ''icbinntest/'' then None else f p)"

lemma sweep_simps [simp]:
  "sweep f ''icbinntest'' = Some Dir"
  "sweep f (CHR ''i'' # CHR ''c'' # CHR ''b'' # CHR ''i'' # CHR ''n'' # CHR ''n'' # CHR ''t'' # CHR ''e'' # CHR ''s'' # CHR ''t'' #
     CHR ''/'' # q) = None"
  by (simp_all add: sweep_def)

lemma view_updates [simp]:
  "t\<lparr>tv_open := a, tv_room := r, tv_nodes := f\<rparr> = t\<lparr>tv_nodes := f, tv_open := a, tv_room := r\<rparr>"
  by (cases t) simp

definition removable :: "(string \<Rightarrow> node option) \<Rightarrow> string \<Rightarrow> bool" where
  "removable f p \<longleftrightarrow> plain p \<and> (f p = None \<or> f p = Some Dir) \<and> nothing_below f p"

lemma removable_upd [simp]: "removable f p \<Longrightarrow> removable (f(q := None)) p"
  by (auto simp: removable_def nothing_below_def)

definition unlinkable :: "(string \<Rightarrow> node option) \<Rightarrow> string \<Rightarrow> bool" where
  "unlinkable f p \<longleftrightarrow> plain p \<and> f p \<noteq> Some Dir"

lemma unlinkable_upd [simp]: "unlinkable f p \<Longrightarrow> unlinkable (f(q := None)) p"
  by (auto simp: unlinkable_def)

context file_service
begin

lemma rmdir_any:
  assumes "removable (tv_nodes t) p"
  shows "gives (icbinn_rmdir c p) (holds t) (\<lambda>_. True) (holds (t\<lparr>tv_nodes := (tv_nodes t)(p := None)\<rparr>))"
proof (cases "tv_nodes t p")
  case None
  then have "t\<lparr>tv_nodes := (tv_nodes t)(p := None)\<rparr> = t" by (simp add: fun_upd_idem)
  then show ?thesis using rmdir_none [of p t] assms None by (simp add: removable_def gives_def)
next
  case (Some n)
  then show ?thesis using rmdir_empty [of p t] assms by (auto simp: removable_def gives_def)
qed

lemma unlink_any:
  assumes "unlinkable (tv_nodes t) p" and "p \<notin> ran (tv_open t)"
  shows "gives (icbinn_unlink c p) (holds t) (\<lambda>_. True) (holds (t\<lparr>tv_nodes := (tv_nodes t)(p := None)\<rparr>))"
proof (cases "tv_nodes t p")
  case None
  then have "t\<lparr>tv_nodes := (tv_nodes t)(p := None)\<rparr> = t" by (simp add: fun_upd_idem)
  then show ?thesis using unlink_none [of p t] assms None by (simp add: unlinkable_def gives_def)
next
  case (Some n)
  then show ?thesis using unlink_file [of p t n] assms by (auto simp: unlinkable_def gives_def)
qed

lemma test_null_passes: "passes (test_null c) (holds t) (holds t)"
  using null [of t] by (auto simp: passes_def test_null_def gives_def split: prod.split)

lemma test_mkdir_passes:
  assumes "creatable (tv_nodes t) ''icbinntest/dir1''"
  shows "passes (test_mkdir c) (holds t) (holds (t\<lparr>tv_nodes := (tv_nodes t)(''icbinntest/dir1'' \<mapsto> Dir)\<rparr>))"
  unfolding test_mkdir_def
  by (intro passes_fail_if [OF mkdir_new [OF assms]] passes_fail_if [OF mkdir_old] passes_return) simp_all

lemma test_rmdir_passes:
  assumes "tv_nodes t ''icbinntest/dir1'' = Some Dir" and "nothing_below (tv_nodes t) ''icbinntest/dir1''"
  shows "passes (test_rmdir c) (holds t) (holds (t\<lparr>tv_nodes := (tv_nodes t)(''icbinntest/dir1'' := None)\<rparr>))"
  unfolding test_rmdir_def
  by (intro passes_fail_if [OF rmdir_empty [OF _ assms]] passes_fail_if [OF rmdir_none] passes_return) simp_all

lemma test_renamedir_passes:
  assumes "tv_nodes t ''icbinntest'' = Some Dir" and "\<And>q. tv_nodes t (''icbinntest/'' @ q) = None" and "testable t"
  shows "passes (test_renamedir c) (holds t) (holds t)"
proof -
  let ?d1 = "''icbinntest/dir1''" and ?d2 = "''icbinntest/dir2''"
  let ?t1 = "t\<lparr>tv_nodes := (tv_nodes t)(?d1 \<mapsto> Dir)\<rparr>" and ?t2 = "t\<lparr>tv_nodes := (tv_nodes t)(?d2 \<mapsto> Dir)\<rparr>"
  note free = assms(1) assms(2) [simplified]
  have idem: "(tv_nodes t)(?d1 := None) = tv_nodes t" "(tv_nodes t)(?d2 := None) = tv_nodes t"
    by (simp_all add: fun_upd_idem free)
  have mk: "gives (icbinn_mkdir c ?d1) (holds t) ((=) 0) (holds ?t1)"
    by (rule mkdir_new) (simp add: creatable_def free)
  have "?d1 \<notin> ran (tv_open t)"
    using assms(3) [unfolded testable_def, THEN conjunct1, rule_format, of "''dir1''"] by simp
  then have mv: "gives (icbinn_rename c ?d1 ?d2) (holds ?t1) ((=) 0) (holds ?t2)"
    using rename_new [of ?d1 ?t1 Dir ?d2] by (simp add: creatable_def nothing_below_def free idem)
  have gone: "gives (icbinn_rename c ?d1 ?d2) (holds ?t2) ((\<noteq>) 0) (holds ?t2)"
    by (rule rename_none) (simp_all add: free)
  have rm: "gives (icbinn_rmdir c ?d2) (holds ?t2) ((=) 0) (holds t)"
    using rmdir_empty [of ?d2 ?t2] by (simp add: nothing_below_def free idem)
  show ?thesis
    unfolding test_renamedir_def
    by (intro passes_fail_if [OF mk] passes_fail_if [OF mv] passes_fail_if [OF gone] passes_fail_if [OF rm] passes_return)
      simp_all
qed

lemma test_renamefile_passes:
  assumes "tv_nodes t ''icbinntest'' = Some Dir" and "tv_nodes t ''icbinntest/file1'' = Some n"
    and "tv_nodes t ''icbinntest/file2'' = None" and "nothing_below (tv_nodes t) ''icbinntest/file1''" and "testable t"
  shows "passes (test_renamefile c) (holds t)
    (holds (t\<lparr>tv_nodes := (tv_nodes t)(''icbinntest/file1'' := None, ''icbinntest/file2'' \<mapsto> n)\<rparr>))"
proof -
  have "''icbinntest/file1'' \<notin> ran (tv_open t)"
    using assms(5) [unfolded testable_def, THEN conjunct1, rule_format, of "''file1''"] by simp
  then show ?thesis
    unfolding test_renamefile_def
    by (intro passes_fail_if [OF rename_new [OF _ assms(2,4)]])
      (simp_all add: creatable_def assms passes_fail_if [OF rename_none] passes_return)
qed

lemma test_unlink_passes:
  assumes "tv_nodes t ''icbinntest/file2'' = Some (File bs)" and "testable t"
  shows "passes (test_unlink c) (holds t) (holds (t\<lparr>tv_nodes := (tv_nodes t)(''icbinntest/file2'' := None)\<rparr>))"
proof -
  have "''icbinntest/file2'' \<notin> ran (tv_open t)"
    using assms(2) [unfolded testable_def, THEN conjunct1, rule_format, of "''file2''"] by simp
  then show ?thesis
    unfolding test_unlink_def
    by (intro passes_fail_if [OF unlink_file [OF _ assms(1)]] passes_fail_if [OF unlink_none] passes_return) simp_all
qed

text \<open>A file that is open: the view of the tree while the test holds its descriptor.\<close>

lemma close_back:
  assumes "tv_open t fd = None" and "0 < tv_room t"
  shows "passes (ignoring (icbinn_close c fd) (Ret 0))
    (holds (t\<lparr>tv_open := (tv_open t)(fd \<mapsto> p), tv_room := tv_room t - 1\<rparr>)) (holds t)"
proof (rule passes_ignoring [OF close])
  have "(tv_open t)(fd := None) = tv_open t" using assms(1) by (simp add: fun_upd_idem)
  then show "passes (Ret 0)
      (holds ((t\<lparr>tv_open := (tv_open t)(fd \<mapsto> p), tv_room := tv_room t - 1\<rparr>)
        \<lparr>tv_open := (tv_open (t\<lparr>tv_open := (tv_open t)(fd \<mapsto> p), tv_room := tv_room t - 1\<rparr>))(fd := None),
         tv_room := tv_room (t\<lparr>tv_open := (tv_open t)(fd \<mapsto> p), tv_room := tv_room t - 1\<rparr>) + 1\<rparr>)) (holds t)"
    using assms(2) by (intro passes_return) simp
qed simp

lemma test_ftruncate_passes:
  assumes "creatable (tv_nodes t) ''icbinntest/file2''" and "testable t"
  shows "passes (test_ftruncate c) (holds t)
    (holds (t\<lparr>tv_nodes := (tv_nodes t)(''icbinntest/file2'' \<mapsto> File (replicate 1234567890 0))\<rparr>))"
proof -
  let ?p = "''icbinntest/file2''"
  let ?t = "t\<lparr>tv_nodes := (tv_nodes t)(?p \<mapsto> File (replicate 1234567890 0))\<rparr>"
  let ?held = "\<lambda>bs fd. t\<lparr>tv_nodes := (tv_nodes t)(?p \<mapsto> File bs), tv_open := (tv_open t)(fd \<mapsto> ?p), tv_room := tv_room t - 1\<rparr>"
  have room: "0 < tv_room t" using assms(2) by (simp add: testable_def)
  have cut: "gives (icbinn_ftruncate c fd 1234567890) (holds (?held [] fd)) ((=) 0)
      (holds (?held (replicate 1234567890 0) fd))" for fd
    using ftruncate [of "?held [] fd" fd ?p "[]" 1234567890] by simp
  show ?thesis
    unfolding test_ftruncate_def
    by (rule passes_open [where A = "\<lambda>fd. tv_open t fd = None", OF open_new]; (rule passes_fail_if [OF cut])?)
      (use assms(1) room close_back [of ?t] in auto)
qed

text \<open>Reading four bytes back, where the file has them.\<close>

lemma passes_read_back:
  assumes "tv_open t fd = Some p" and "tv_nodes t p = Some (File bs)" and "take 4 (drop (unat off) bs) = data"
    and "unat off < 2 ^ 63" and "length data = 4" and "length buf = 4"
    and "\<And>b. length b = 4 \<Longrightarrow> passes (rest b) (holds t) Q"
  shows "passes (read_back c fd buf off data rest) (holds t) Q"
  unfolding passes_def
proof (intro allI impI)
  fix w assume "holds t w"
  then obtain w' where w': "icbinn_pread c fd buf 4 off w = (4, mem_write buf 0 data, w')" "holds t w'"
    using pread [OF assms(1,2) _ _ assms(4), of 4 data w buf] assms(3,5) by auto
  have "mem_write buf 0 data = data" using assms(5,6) by (simp add: mem_write_def)
  then show "\<exists>w'. read_back c fd buf off data rest w = Ret 0 w' \<and> Q w'"
    using w' assms(7) [OF assms(5)] by (simp add: read_back_def passes_def)
qed

end

text \<open>What the test of reading and writing leaves in its file.\<close>

definition fish_soup :: "byte list" where
  "fish_soup = bytes ''fish'' @ replicate 1020 0 @ bytes ''soup''"

lemma fish_soup_length [simp]: "length fish_soup = 1028"
  by (simp add: fish_soup_def bytes_def)

lemma fish_soup_written: "splice 1024 (bytes ''soup'') (splice 0 (bytes ''fish'') []) = fish_soup"
  by (simp add: splice_def fish_soup_def bytes_def)

lemma fish_soup_read:
  "take 4 fish_soup = bytes ''fish''" "take 4 (drop 4 fish_soup) = [0, 0, 0, 0]"
  "take 4 (drop 1024 fish_soup) = bytes ''soup''" "drop 1028 fish_soup = []"
  by (simp_all add: fish_soup_def bytes_def numeral_eq_Suc)

lemma bytes_length: "length (bytes ''fish'') = 4" "length (bytes ''soup'') = 4"
  by (simp_all add: bytes_def)

context file_service
begin

lemma test_fileio_passes:
  assumes "creatable (tv_nodes t) ''icbinntest/file1''" and "testable t" and "length (tl_buf l) = 4"
  shows "passes (test_fileio c l) (holds t)
    (holds (t\<lparr>tv_nodes := (tv_nodes t)(''icbinntest/file1'' \<mapsto> File fish_soup)\<rparr>))"
proof -
  let ?p = "''icbinntest/file1''"
  let ?t = "t\<lparr>tv_nodes := (tv_nodes t)(?p \<mapsto> File fish_soup)\<rparr>"
  let ?held = "\<lambda>bs fd. t\<lparr>tv_nodes := (tv_nodes t)(?p \<mapsto> File bs), tv_open := (tv_open t)(fd \<mapsto> ?p), tv_room := tv_room t - 1\<rparr>"
  let ?fish = "splice 0 (bytes ''fish'') []"
  have room: "0 < tv_room t" using assms(2) by (simp add: testable_def)
  have opened: "\<exists>fd w'. icbinn_open c ?p (ICBINN_RDWR OR ICBINN_CREAT OR ICBINN_TRUNC) w = (fd, w') \<and> 0 \<le> fd \<and>
      tv_open t fd = None \<and> holds (?held [] fd) w'" if "holds t w" for w
    using open_new [OF _ room that] assms(1) by blast
  have fish: "gives (icbinn_pwrite c fd (bytes ''fish'') 4 0) (holds (?held [] fd)) ((=) 4) (holds (?held ?fish fd))" for fd
    using pwrite [of "?held [] fd" fd ?p "[]" 4 0 "bytes ''fish''"] by (simp add: bytes_length)
  have soup: "gives (icbinn_pwrite c fd (bytes ''soup'') 4 1024) (holds (?held ?fish fd)) ((=) 4) (holds (?held fish_soup fd))" for fd
    using pwrite [of "?held ?fish fd" fd ?p ?fish 4 1024 "bytes ''soup''"] by (simp add: bytes_length fish_soup_written)
  have last: "passes (\<lambda>w. case icbinn_pread c fd buf 4 1028 w of
         (r, _, w') \<Rightarrow> if r \<noteq> 0 then Ret (-1) w' else ignoring (icbinn_close c fd) (Ret 0) w')
       (holds (?held fish_soup fd)) (holds ?t)" if "tv_open t fd = None" for fd buf
    using close_back [of ?t fd ?p] that room pread [of "?held fish_soup fd" fd ?p fish_soup 4 1028 "[]" _ buf]
    by (fastforce simp: passes_def fish_soup_read)
  show ?thesis
    unfolding test_fileio_def
  proof (rule passes_open [OF opened], assumption, intro passes_fail_if [OF fish] passes_fail_if [OF soup])
    fix fd assume fd: "tv_open t fd = None"
    note rb = passes_read_back [of "?held fish_soup fd" fd ?p fish_soup]
    show "passes (read_back c fd (tl_buf l) 0 (bytes ''fish'') (\<lambda>buf. read_back c fd buf 4 [0, 0, 0, 0] (\<lambda>buf.
        read_back c fd buf 1024 (bytes ''soup'') (\<lambda>buf w. case icbinn_pread c fd buf 4 1028 w of
         (r, _, w') \<Rightarrow> if r \<noteq> 0 then Ret (-1) w' else ignoring (icbinn_close c fd) (Ret 0) w'))))
       (holds (?held fish_soup fd)) (holds ?t)"
      by (intro rb last fd) (simp_all add: fish_soup_read bytes_length assms(3))
  qed simp_all
qed

lemma passes_stat:
  assumes "plain p" and "tv_nodes t p = Some n" and "\<And>b. stat_shows n b \<Longrightarrow> ok b"
    and "\<And>b. passes (rest b) (holds t) Q"
  shows "passes (stat_or_fail c p buf ok rest) (holds t) Q"
  unfolding passes_def
proof (intro allI impI)
  fix w assume "holds t w"
  then obtain b w' where "icbinn_stat c (Some p) (Some buf) w = (0, Some b, w')" "stat_shows n b" "holds t w'"
    using stat_node [OF assms(1) _ assms(2)] by blast
  then show "\<exists>w'. stat_or_fail c p buf ok rest w = Ret 0 w' \<and> Q w'"
    using assms(3,4) by (simp add: stat_or_fail_def passes_def)
qed

lemma test_stat_passes:
  assumes "tv_nodes t ''icbinntest/file1'' = Some (File fish_soup)"
    and "tv_nodes t ''icbinntest/file2'' = Some (File (replicate 1234567890 0))"
    and "tv_nodes t ''icbinntest/dir1'' = Some Dir"
  shows "passes (test_stat c l) (holds t) (holds t)"
  unfolding test_stat_def
  by (intro passes_stat [OF _ assms(1)] passes_stat [OF _ assms(2)] passes_stat [OF _ assms(3)] passes_return)
    (simp_all add: stat_shows_def)

lemma test_lock_passes:
  assumes "tv_nodes t ''icbinntest/file2'' = Some (File bs)" and "testable t"
  shows "passes (test_lock c) (holds t) (holds t)"
proof -
  let ?p = "''icbinntest/file2''"
  let ?held = "\<lambda>fd. t\<lparr>tv_open := (tv_open t)(fd \<mapsto> ?p), tv_room := tv_room t - 1\<rparr>"
  have room: "0 < tv_room t" using assms(2) by (simp add: testable_def)
  have opened: "\<exists>fd w'. icbinn_open c ?p ICBINN_RDWR w = (fd, w') \<and> 0 \<le> fd \<and> tv_open t fd = None \<and> holds (?held fd) w'"
    if "holds t w" for w
    using open_old [OF _ assms(1) room that] by simp
  have locks: "gives (icbinn_lock c fd k) (holds (?held fd)) ((=) 0) (holds (?held fd))" if "k \<in> {0, 1, 2}" for fd k
    using lock [of "?held fd" fd ?p bs k] assms(1) that by simp
  show ?thesis
    unfolding test_lock_def
    by (rule passes_open [OF opened], assumption, intro passes_fail_if [OF locks] close_back room) simp_all
qed

lemma test_rand_passes: "passes (test_rand c l) (holds t) (holds t)"
  unfolding passes_def
proof (intro allI impI)
  fix w assume "holds t w"
  then obtain r b w1 where 1: "icbinn_rand c 0 (tl_buf l) 4 w = (r, b, w1)" "0 \<le> r" "r \<le> 4" "holds t w1"
    using rand [of 0 4 t w "tl_buf l"] by auto
  then obtain r' b' w2 where "icbinn_rand c 1 b 4 w1 = (r', b', w2)" "0 \<le> r'" "r' \<le> 4" "holds t w2"
    using rand [of 1 4 t w1 b] by auto
  then show "\<exists>w'. test_rand c l w = Ret 0 w' \<and> holds t w'"
    using 1 by (simp add: test_rand_def)
qed

end

section \<open>Listing the test directory\<close>

text \<open>The three entries of the test directory come out of the sort in order, however they were listed.\<close>

definition test_entries :: "icbinn_dirent list" where
  "test_entries = [\<lparr>de_name = ''dir1'', de_type = ICBINN_TYPE_DIRECTORY\<rparr>, \<lparr>de_name = ''file1'', de_type = ICBINN_TYPE_FILE\<rparr>,
     \<lparr>de_name = ''file2'', de_type = ICBINN_TYPE_FILE\<rparr>]"

text \<open>Three elements in ascending order, one way or the other.\<close>

lemma qsort_three:
  assumes "cmp a b \<le> 0" and "cmp a c \<le> 0" and "cmp b c \<le> 0" and "\<not> cmp b a \<le> 0" and "\<not> cmp c a \<le> 0" and "\<not> cmp c b \<le> 0"
    and "{x, y, z} = {a, b, c}" and "x \<noteq> y" and "x \<noteq> z" and "y \<noteq> z"
  shows "qsort [x, y, z, e] 3 cmp = [a, b, c, e]"
proof -
  have "x \<in> {a, b, c}" "y \<in> {a, b, c}" "z \<in> {a, b, c}" using assms(7) by blast+
  then show ?thesis using assms(1-6,8-) by (auto simp: qsort_def)
qed

lemma sort_test_entries:
  assumes "distinct es" and "set es = set test_entries"
  shows "\<exists>x y z. es = [x, y, z] \<and> qsort [x, y, z, e] 3 compare = test_entries @ [e]"
proof -
  have "length es = 3"
    using distinct_card [OF assms(1)] assms(2) by (simp add: test_entries_def)
  then obtain x y z where es: "es = [x, y, z]"
    by (auto simp: numeral_eq_Suc length_Suc_conv)
  then have "{x, y, z} = set test_entries" "x \<noteq> y" "x \<noteq> z" "y \<noteq> z"
    using assms by simp_all
  then have "qsort [x, y, z, e] 3 compare = test_entries @ [e]"
    unfolding test_entries_def append.simps list.set
    by (intro qsort_three) (simp_all add: compare_def)
  then show ?thesis using es by blast
qed

lemma set_test_entries:
  assumes "de_name ` set es = {''dir1'', ''file1'', ''file2''}"
    and "\<And>e. e \<in> set es \<Longrightarrow> de_type e = (if de_name e = ''dir1'' then ICBINN_TYPE_DIRECTORY else ICBINN_TYPE_FILE)"
  shows "set es = set test_entries"
proof -
  have "set es = (\<lambda>n. \<lparr>de_name = n, de_type = (if n = ''dir1'' then ICBINN_TYPE_DIRECTORY else ICBINN_TYPE_FILE)\<rparr>) `
      de_name ` set es"
    unfolding image_image by (rule image_cong [OF refl, of _ "\<lambda>e. e", unfolded image_ident]) (simp add: assms(2) [symmetric])
  then show ?thesis unfolding assms(1) by (simp add: test_entries_def)
qed

context file_service
begin

lemma passes_readent:
  assumes "small_dir (tv_nodes t) dir" and "unat off < 2 ^ 32"
    and "unat off < length es \<Longrightarrow> \<not> fails_on 0 \<and> passes (rest (buf[i := es ! unat off])) (\<lambda>w. holds t w \<and> listing dir w = es) Q"
    and "\<not> unat off < length es \<Longrightarrow> \<not> fails_on (-1) \<and> passes (rest (buf[i := buf ! i])) (\<lambda>w. holds t w \<and> listing dir w = es) Q"
  shows "passes (readent_or_fail fails_on c dir off i buf rest) (\<lambda>w. holds t w \<and> listing dir w = es) Q"
  unfolding passes_def
proof (intro allI impI)
  fix w assume w: "holds t w \<and> listing dir w = es"
  then obtain w' where "icbinn_readent c dir off (buf ! i) w =
      Ret (if unat off < length es then (0, es ! unat off) else (-1, buf ! i)) w'" "holds t w' \<and> listing dir w' = es"
    using readent [OF assms(1,2), of w "buf ! i"] by auto
  then show "\<exists>w'. readent_or_fail fails_on c dir off i buf rest w = Ret 0 w' \<and> Q w'"
    using assms(3,4) by (cases "unat off < length es") (simp_all add: readent_or_fail_def passes_def)
qed

lemma test_readdir_passes:
  assumes "tv_nodes t ''icbinntest'' = Some Dir" and "tv_nodes t ''icbinntest/dir1'' = Some Dir"
    and "tv_nodes t ''icbinntest/file1'' = Some (File bs)" and "tv_nodes t ''icbinntest/file2'' = Some (File bs')"
    and "entry_names (tv_nodes t) ''icbinntest'' = {''dir1'', ''file1'', ''file2''}" and "length (tl_dirents l) = 4"
  shows "passes (test_readdir c l) (holds t) (holds t)"
  unfolding passes_def
proof (intro allI impI)
  let ?dir = "''icbinntest''"
  have small: "small_dir (tv_nodes t) ?dir" using assms(1,5) by (simp add: small_dir_def)
  fix w assume w: "holds t w"
  define es where "es = listing ?dir w"
  have "distinct es" and names: "de_name ` set es = {''dir1'', ''file1'', ''file2''}"
    using listed [OF small w] assms(5) unfolding es_def by (auto simp: distinct_map)
  moreover have "de_type e = (if de_name e = ''dir1'' then ICBINN_TYPE_DIRECTORY else ICBINN_TYPE_FILE)" if "e \<in> set es" for e
  proof -
    have "entry_shows (the (tv_nodes t (?dir @ CHR ''/'' # de_name e))) e"
      using listed [OF small w] that unfolding es_def by blast
    moreover have "de_name e \<in> {''dir1'', ''file1'', ''file2''}" using that names by blast
    ultimately show ?thesis using assms(2-4) by (auto simp: entry_shows_def)
  qed
  ultimately have set_es: "set es = set test_entries" by (intro set_test_entries)
  obtain b0 b1 b2 b3 where buf: "tl_dirents l = [b0, b1, b2, b3]"
    using assms(6) by (auto simp: numeral_eq_Suc length_Suc_conv)
  obtain x y z where es: "es = [x, y, z]" and sorted: "qsort [x, y, z, b3] 3 compare = test_entries @ [b3]"
    using sort_test_entries [OF \<open>distinct es\<close> set_es] by blast
  have "passes (test_readdir c l) (\<lambda>w. holds t w \<and> listing ?dir w = es) (holds t)"
    unfolding test_readdir_def buf es
    by ((rule passes_readent [OF small], simp_all)+) (simp add: passes_def sorted test_entries_def)
  then show "\<exists>w'. test_readdir c l w = Ret 0 w' \<and> holds t w'"
    using w by (simp add: passes_def es_def)
qed

end

section \<open>Cleaning up\<close>

lemma test_names:
  "set test_dirs \<inter> set test_files = {}" "n \<in> set test_dirs \<or> n \<in> set test_files \<Longrightarrow> CHR ''/'' \<notin> set n"
  by (auto simp: test_dirs_def test_files_def)

lemma leftoversD:
  "leftovers f \<Longrightarrow> f (''icbinntest/'' @ q) = Some n \<Longrightarrow> if n = Dir then q \<in> set test_dirs else q \<in> set test_files"
  unfolding leftovers_def by blast

lemma leftovers_names:
  "leftovers f \<Longrightarrow> q \<notin> set test_dirs \<Longrightarrow> q \<notin> set test_files \<Longrightarrow> f (''icbinntest/'' @ q) = None"
  by (cases "f (''icbinntest/'' @ q)") (auto dest: leftoversD simp del: append_Cons split: if_splits)

lemma leftovers_removable:
  assumes "leftovers f" and "d \<in> set test_dirs"
  shows "removable f (''icbinntest/'' @ d)"
proof -
  have "f (''icbinntest/'' @ d) = Some n \<Longrightarrow> n = Dir" for n
    using leftoversD [OF assms(1), of d n] assms(2) test_names(1) by (auto split: if_splits)
  moreover have "f (''icbinntest/'' @ (d @ CHR ''/'' # q)) = None" for q
    by (rule leftovers_names [OF assms(1)]) (use test_names(2) [of "d @ CHR ''/'' # q"] in auto)
  moreover have "plain (''icbinntest/'' @ d)" using assms(2) by (auto simp: test_dirs_def)
  ultimately show ?thesis
    by (cases "f (''icbinntest/'' @ d)") (simp_all add: removable_def nothing_below_def)
qed

lemma leftovers_unlinkable:
  assumes "leftovers f" and "d \<in> set test_files"
  shows "unlinkable f (''icbinntest/'' @ d)"
proof -
  have "f (''icbinntest/'' @ d) \<noteq> Some Dir"
    using leftoversD [OF assms(1), of d Dir] assms(2) test_names(1) by auto
  moreover have "plain (''icbinntest/'' @ d)" using assms(2) by (auto simp: test_files_def)
  ultimately show ?thesis by (simp add: unlinkable_def)
qed

text \<open>The tree after the four directories and the four files are gone.\<close>

definition cleared :: "(string \<Rightarrow> node option) \<Rightarrow> string \<Rightarrow> node option" where
  "cleared f = f(''icbinntest/dir1'' := None, ''icbinntest/dir2'' := None, ''icbinntest/dir3'' := None,
     ''icbinntest/dir4'' := None, ''icbinntest/file1'' := None, ''icbinntest/file2'' := None,
     ''icbinntest/file3'' := None, ''icbinntest/file4'' := None)"

lemma cleared_below:
  assumes "leftovers f"
  shows "cleared f (''icbinntest/'' @ q) = None"
proof (cases "q \<in> set test_dirs \<or> q \<in> set test_files")
  case True
  then show ?thesis by (auto simp: cleared_def test_dirs_def test_files_def)
next
  case False
  then have "f (''icbinntest/'' @ q) = None" by (intro leftovers_names [OF assms]) auto
  then show ?thesis by (simp add: cleared_def)
qed

lemma cleared_sweep:
  assumes "leftovers f"
  shows "(cleared f)(''icbinntest'' \<mapsto> Dir) = sweep f"
proof
  fix p
  show "((cleared f)(''icbinntest'' \<mapsto> Dir)) p = sweep f p"
  proof (cases "take 11 p = ''icbinntest/''")
    case True
    then have "p = ''icbinntest/'' @ drop 11 p" by (metis append_take_drop_id)
    then show ?thesis using cleared_below [OF assms, of "drop 11 p"] True by (auto simp: sweep_def)
  next
    case False
    then have ne: "p \<noteq> ''icbinntest/'' @ q" for q by auto
    show ?thesis
      using False ne [of "''dir1''"] ne [of "''dir2''"] ne [of "''dir3''"] ne [of "''dir4''"]
        ne [of "''file1''"] ne [of "''file2''"] ne [of "''file3''"] ne [of "''file4''"]
      by (simp add: sweep_def cleared_def)
  qed
qed

context file_service
begin

lemma cleanup_end:
  assumes "leftovers f" and "tv_nodes t = cleared f"
  shows "passes (ignoring (icbinn_rmdir c ''icbinntest'')
      (\<lambda>w. case icbinn_stat c (Some ''icbinntest'') (Some b) w of
           (r, _, w') \<Rightarrow> if r = 0 then Ret (-1) w' else fail_if ((\<noteq>) 0) (icbinn_mkdir c ''icbinntest'') (Ret 0) w'))
    (holds t) (holds (t\<lparr>tv_nodes := sweep f\<rparr>))"
proof (rule passes_ignoring [OF rmdir_any])
  have "cleared f ''icbinntest'' = f ''icbinntest''" by (simp add: cleared_def)
  then show "removable (tv_nodes t) ''icbinntest''"
    using assms cleared_below [OF assms(1)] by (auto simp: removable_def leftovers_def nothing_below_def)
next
  let ?t = "t\<lparr>tv_nodes := (cleared f)(''icbinntest'' := None)\<rparr>"
  have mk: "passes (fail_if ((\<noteq>) 0) (icbinn_mkdir c ''icbinntest'') (Ret 0)) (holds ?t) (holds (t\<lparr>tv_nodes := sweep f\<rparr>))"
    by (intro passes_fail_if [OF mkdir_new] passes_return)
      (simp_all add: creatable_def cleared_sweep [OF assms(1), symmetric])
  show "passes (\<lambda>w. case icbinn_stat c (Some ''icbinntest'') (Some b) w of
           (r, _, w') \<Rightarrow> if r = 0 then Ret (-1) w' else fail_if ((\<noteq>) 0) (icbinn_mkdir c ''icbinntest'') (Ret 0) w')
    (holds (t\<lparr>tv_nodes := (tv_nodes t)(''icbinntest'' := None)\<rparr>)) (holds (t\<lparr>tv_nodes := sweep f\<rparr>))"
    unfolding passes_def assms(2)
  proof (intro allI impI)
    fix w assume "holds ?t w"
    then obtain r b' w' where "icbinn_stat c (Some ''icbinntest'') (Some b) w = (r, b', w')" "r \<noteq> 0" "holds ?t w'"
      using stat_none [of "''icbinntest''" ?t w b] by auto
    then show "\<exists>w'. (case icbinn_stat c (Some ''icbinntest'') (Some b) w of
           (r, _, w') \<Rightarrow> if r = 0 then Ret (-1) w' else fail_if ((\<noteq>) 0) (icbinn_mkdir c ''icbinntest'') (Ret 0) w') = Ret 0 w' \<and>
         holds (t\<lparr>tv_nodes := sweep f\<rparr>) w'"
      using mk by (simp add: passes_def)
  qed
qed

lemma test_cleanup_passes:
  assumes "leftovers (tv_nodes t)" and "testable t"
  shows "passes (test_cleanup c l) (holds t) (holds (t\<lparr>tv_nodes := sweep (tv_nodes t)\<rparr>))"
proof -
  note dirs = leftovers_removable [OF assms(1)] and files = leftovers_unlinkable [OF assms(1)]
  have R: "removable (tv_nodes t) ''icbinntest/dir1''" "removable (tv_nodes t) ''icbinntest/dir2''"
    "removable (tv_nodes t) ''icbinntest/dir3''" "removable (tv_nodes t) ''icbinntest/dir4''"
    using dirs [of "''dir1''"] dirs [of "''dir2''"] dirs [of "''dir3''"] dirs [of "''dir4''"] by (simp_all add: test_dirs_def)
  have U: "unlinkable (tv_nodes t) ''icbinntest/file1''" "unlinkable (tv_nodes t) ''icbinntest/file2''"
    "unlinkable (tv_nodes t) ''icbinntest/file3''" "unlinkable (tv_nodes t) ''icbinntest/file4''"
    using files [of "''file1''"] files [of "''file2''"] files [of "''file3''"] files [of "''file4''"]
    by (simp_all add: test_files_def)
  note closed = assms(2) [unfolded testable_def, THEN conjunct1, rule_format, simplified]
  note last = cleanup_end [OF assms(1), of "t\<lparr>tv_nodes := cleared (tv_nodes t)\<rparr>" "tl_stat l", simplified]
  show ?thesis
    unfolding test_cleanup_def
    by ((rule passes_ignoring [OF rmdir_any], simp add: R)+, (rule passes_ignoring [OF unlink_any], simp add: U, simp add: closed)+)
      (use last in \<open>simp add: cleared_def\<close>)
qed

end

section \<open>The whole run\<close>

text \<open>From every connection in \<open>P\<close> the tests all return 0, print nothing and leave the connection in \<open>Q\<close>.\<close>

definition all_pass :: "(string \<times> ('c \<Rightarrow> (int, 'c) outcome)) list \<Rightarrow> ('c \<Rightarrow> bool) \<Rightarrow> ('c \<Rightarrow> bool) \<Rightarrow> 'n itself \<Rightarrow> bool" where
  "all_pass ts P Q T \<longleftrightarrow>
     (\<forall>s :: ('c, 'n) tester. P (te_conn s) \<longrightarrow> (\<exists>w. run_tests ts s = Ret 0 (s\<lparr>te_conn := w\<rparr>) \<and> Q w))"

lemma all_pass_Nil: "all_pass [] P P T"
  unfolding all_pass_def by (metis run_tests.simps(1) tester.surjective tester.update_convs(1))

lemma all_pass_Cons:
  assumes "passes a P R" and "all_pass ts R Q (T :: 'n itself)"
  shows "all_pass ((name, a) # ts) P Q T"
  unfolding all_pass_def
proof (intro allI impI)
  fix s :: "('a, 'n) tester" assume "P (te_conn s)"
  then obtain w where w: "a (te_conn s) = Ret 0 w" "R w" using assms(1) by (auto simp: passes_def)
  then obtain w' where "run_tests ts (s\<lparr>te_conn := w\<rparr>) = Ret 0 (s\<lparr>te_conn := w, te_conn := w'\<rparr>)" "Q w'"
    using assms(2) [unfolded all_pass_def, rule_format, of "s\<lparr>te_conn := w\<rparr>"] by auto
  then show "\<exists>w. run_tests ((name, a) # ts) s = Ret 0 (s\<lparr>te_conn := w\<rparr>) \<and> Q w"
    using w by auto
qed

text \<open>The tree that the later tests look at.\<close>

definition populated :: "(string \<Rightarrow> node option) \<Rightarrow> string \<Rightarrow> node option" where
  "populated f = (sweep f)(''icbinntest/file2'' \<mapsto> File (replicate 1234567890 0), ''icbinntest/dir1'' \<mapsto> Dir,
     ''icbinntest/file1'' \<mapsto> File fish_soup)"

lemma populated_simps [simp]:
  "populated f ''icbinntest'' = Some Dir" "populated f ''icbinntest/dir1'' = Some Dir"
  "populated f ''icbinntest/file1'' = Some (File fish_soup)"
  "populated f ''icbinntest/file2'' = Some (File (replicate 1234567890 0))"
  by (simp_all add: populated_def)

lemma populated_entries: "entry_names (populated f) ''icbinntest'' = {''dir1'', ''file1'', ''file2''}"
  by (auto simp: entry_names_def populated_def plain_name_def)

lemma populated_leftovers: "leftovers (populated f)"
  by (auto simp: leftovers_def populated_def test_dirs_def test_files_def)

lemma populated_sweep: "sweep (populated f) = sweep f"
  by (rule ext) (auto simp: sweep_def populated_def)

lemma sweep_idem:
  "(sweep f)(''icbinntest/dir1'' := None) = sweep f" "(sweep f)(''icbinntest/file1'' := None) = sweep f"
  "(sweep f)(''icbinntest/file2'' := None) = sweep f"
  by (simp_all add: fun_upd_idem)

lemma testable_nodes [simp]: "testable (t\<lparr>tv_nodes := f\<rparr>) = testable t"
  by (simp add: testable_def)

context file_service
begin

lemma test_list_passes:
  assumes "leftovers (tv_nodes t)" and "testable t" and "\<And>i. length (tl_buf (l i)) = 4 \<and> length (tl_dirents (l i)) = 4"
  shows "all_pass (test_list c l) (holds t) (holds (t\<lparr>tv_nodes := sweep (tv_nodes t)\<rparr>)) T"
proof -
  let ?S = "sweep (tv_nodes t)" and ?T = "\<lambda>f. t\<lparr>tv_nodes := f\<rparr>"
  let ?d1 = "''icbinntest/dir1''" and ?f1 = "''icbinntest/file1''" and ?f2 = "''icbinntest/file2''"
  let ?X = "File fish_soup" and ?Z = "File (replicate 1234567890 0)" and ?P = "populated (tv_nodes t)"
  have creatable: "creatable ?S ?d1" "creatable ?S ?f1" "creatable ?S ?f2" "creatable (?S(?f2 \<mapsto> ?Z)) ?d1"
    "creatable (?S(?f2 \<mapsto> ?Z, ?d1 \<mapsto> Dir)) ?f1"
    by (simp_all add: creatable_def)
  have clean: "passes (test_cleanup c (l 1)) (holds t) (holds (?T ?S))"
    by (rule test_cleanup_passes [OF assms(1,2)])
  have mkdir: "passes (test_mkdir c) (holds (?T ?S)) (holds (?T (?S(?d1 \<mapsto> Dir))))"
    using test_mkdir_passes [of "?T ?S"] creatable(1) by simp
  have rmdir: "passes (test_rmdir c) (holds (?T (?S(?d1 \<mapsto> Dir)))) (holds (?T ?S))"
    using test_rmdir_passes [of "?T (?S(?d1 \<mapsto> Dir))"] by (simp add: nothing_below_def sweep_idem)
  have renamedir: "passes (test_renamedir c) (holds (?T ?S)) (holds (?T ?S))"
    using test_renamedir_passes [of "?T ?S"] assms(2) by simp
  have fileio: "passes (test_fileio c (l 5)) (holds (?T ?S)) (holds (?T (?S(?f1 \<mapsto> ?X))))"
    using test_fileio_passes [of "?T ?S" "l 5"] creatable(2) assms(2,3) by simp
  have renamefile: "passes (test_renamefile c) (holds (?T (?S(?f1 \<mapsto> ?X)))) (holds (?T (?S(?f2 \<mapsto> ?X))))"
    using test_renamefile_passes [of "?T (?S(?f1 \<mapsto> ?X))" ?X] assms(2) by (simp add: nothing_below_def sweep_idem)
  have unlink: "passes (test_unlink c) (holds (?T (?S(?f2 \<mapsto> ?X)))) (holds (?T ?S))"
    using test_unlink_passes [of "?T (?S(?f2 \<mapsto> ?X))" fish_soup] assms(2) by (simp add: sweep_idem)
  have ftruncate: "passes (test_ftruncate c) (holds (?T ?S)) (holds (?T (?S(?f2 \<mapsto> ?Z))))"
    using test_ftruncate_passes [of "?T ?S"] creatable(3) assms(2) by simp
  have mkdir': "passes (test_mkdir c) (holds (?T (?S(?f2 \<mapsto> ?Z)))) (holds (?T (?S(?f2 \<mapsto> ?Z, ?d1 \<mapsto> Dir))))"
    using test_mkdir_passes [of "?T (?S(?f2 \<mapsto> ?Z))"] creatable(4) by simp
  have fileio': "passes (test_fileio c (l 10)) (holds (?T (?S(?f2 \<mapsto> ?Z, ?d1 \<mapsto> Dir)))) (holds (?T ?P))"
    using test_fileio_passes [of "?T (?S(?f2 \<mapsto> ?Z, ?d1 \<mapsto> Dir))" "l 10"] creatable(5) assms(2,3)
    by (simp add: populated_def)
  have stat: "passes (test_stat c (l 11)) (holds (?T ?P)) (holds (?T ?P))"
    by (rule test_stat_passes) simp_all
  have lock: "passes (test_lock c) (holds (?T ?P)) (holds (?T ?P))"
    by (rule test_lock_passes) (simp_all add: assms(2))
  have readdir: "passes (test_readdir c (l 13)) (holds (?T ?P)) (holds (?T ?P))"
    by (rule test_readdir_passes) (simp_all add: populated_entries assms(3))
  have clean': "passes (test_cleanup c (l 15)) (holds (?T ?P)) (holds (?T ?S))"
    using test_cleanup_passes [of "?T ?P" "l 15"] by (simp add: populated_leftovers populated_sweep assms(2))
  show ?thesis
    unfolding test_list_def
    by (intro all_pass_Cons [OF test_null_passes] all_pass_Cons [OF clean] all_pass_Cons [OF mkdir] all_pass_Cons [OF rmdir]
        all_pass_Cons [OF renamedir] all_pass_Cons [OF fileio] all_pass_Cons [OF renamefile] all_pass_Cons [OF unlink]
        all_pass_Cons [OF ftruncate] all_pass_Cons [OF mkdir'] all_pass_Cons [OF fileio'] all_pass_Cons [OF stat]
        all_pass_Cons [OF lock] all_pass_Cons [OF readdir] all_pass_Cons [OF test_rand_passes] all_pass_Cons [OF clean']
        all_pass_Nil)
qed

lemma test_passes:
  fixes s :: "('c, 'n) tester"
  assumes "leftovers (tv_nodes t)" and "testable t" and "\<And>i. length (tl_buf (l i)) = 4 \<and> length (tl_dirents (l i)) = 4"
    and "holds t (te_conn s)"
  shows "\<exists>w. test c l s = Ret 0 (tell (Stdout ''All tests pass'' []) (s\<lparr>te_conn := w\<rparr>)) \<and>
    holds (t\<lparr>tv_nodes := sweep (tv_nodes t)\<rparr>) w"
  using test_list_passes [where T = "TYPE('n)", OF assms(1-3)] assms(4) by (force simp: all_pass_def test_def)

end

text \<open>A run of the program that finds its server.\<close>

definition test_connects ::
  "bool \<Rightarrow> 'n net \<Rightarrow> test_opt list \<Rightarrow> 'n clnt \<Rightarrow> ICBINN \<Rightarrow> 'n clnt \<Rightarrow> bool" where
  "test_connects have_v4v net opts n icb n' \<longleftrightarrow>
     (\<exists>op. test_options opts test_no_opts = Some op \<and> (to_dflag op = 0) = (to_hflag op \<noteq> 0) \<and>
        (if to_dflag op \<noteq> 0 then icbinn_clnt_create_v4v have_v4v net (to_domid op) (to_port op) n
         else icbinn_clnt_create_tcp net (to_host op) (to_port op) n) = Ret (Some icb) n')"

lemma test_main_connected:
  "test_connects have_v4v net opts (te_net te) icb n \<Longrightarrow>
   test_main have_v4v net stubs l argv0 opts te =
     andthen (test (stubs icb) l (te\<lparr>te_net := n\<rparr>)) (\<lambda>r te'.
       Ret r (te'\<lparr>te_net := icbinn_clnt_destroy net (Some icb) (te_net te')\<rparr>))"
  by (auto simp: test_connects_def test_main_def)

lemma test_connects_balanced:
  "test_connects have_v4v net opts n icb n' \<Longrightarrow> fresh_handles net n \<Longrightarrow>
     resources (icbinn_clnt_destroy net (Some icb) n') = resources n"
  by (auto simp: test_connects_def intro: create_destroy_balanced split: if_splits)

text \<open>
  C11: the test program of the library passes against the server. Connected to a serving process, through its loop
  and dispatcher, on a directory tree in which earlier runs have left no more than the clean-up
  removes, a run makes all sixteen tests succeed: \<open>main\<close> returns 0, it prints that all tests pass, it gives
  its connection back, and it leaves the tree as it was but for an empty test directory.
\<close>

theorem selftest_passes:
  assumes "posix_tree os view" and "reads_bounded os" and "errno_int os" and "path_max os" and "memory_available os"
    and "te_conn te = Some s" and "view (world s) = t" and "random_fd s \<in> tv_devices t" and "urandom_fd s \<in> tv_devices t"
    and "leftovers (tv_nodes t)" and "testable t"
    and "\<And>i. length (tl_buf (l i)) = 4 \<and> length (tl_dirents (l i)) = 4"
    and "test_connects have_v4v net opts (te_net te) icb n" and "fresh_handles net (te_net te)"
  shows "\<exists>te' s'. test_main have_v4v net (\<lambda>_. process_CLIENT os ho svfd) l argv0 opts te = Ret 0 te' \<and>
    te_out te' = te_out te @ [Stdout ''All tests pass'' []] \<and> resources (te_net te') = resources (te_net te) \<and>
    te_conn te' = Some s' \<and> view (world s') = t\<lparr>tv_nodes := sweep (tv_nodes t)\<rparr>"
proof -
  have "tree_connection os view t (te_conn (te\<lparr>te_net := n\<rparr>))"
    using assms(1-9) by (simp add: tree_connection_def)
  then obtain w where w: "test (server_CLIENT os) l (te\<lparr>te_net := n\<rparr>) =
      Ret 0 (tell (Stdout ''All tests pass'' []) (te\<lparr>te_net := n, te_conn := w\<rparr>))"
      "tree_connection os view (t\<lparr>tv_nodes := sweep (tv_nodes t)\<rparr>) w"
    using tree_s.test_passes [where l = l, OF assms(10-12)] by blast
  then show ?thesis
    using test_connects_balanced [OF assms(13,14)]
    by (auto simp: test_main_connected [OF assms(13)] process_CLIENT_eq tell_def tree_connection_def)
qed

text \<open>A server on a tree with a file left over from a run that was interrupted.\<close>

definition tree_example :: tree_fs where
  "tree_example = \<lparr>tf_nodes = [(''icbinntest'', Dir), (''icbinntest/file1'', File [1, 2]), (''kept'', File [3])],
     tf_fds = (\<lambda>_. None), tf_devices = {8, 9}\<rparr>"

definition tree_server :: "tree_fs server" where
  "tree_server = (server_start tree_example)\<lparr>random_fd := 8, urandom_fd := 9\<rparr>"

definition tree_host :: "tree_fs host" where
  "tree_host =
     \<lparr>ho_socket = (\<lambda>f w. (Inr 20, w)), ho_setsockopt = (\<lambda>fd w. (Inr (), w)),
      ho_bind = (\<lambda>fd sa w. (Inr (), w)), ho_listen = (\<lambda>fd n w. (Inr (), w)),
      ho_getfl = (\<lambda>fd w. Inr 0), ho_setfl = (\<lambda>fd fl w. (Inr (), w)), ho_select = (\<lambda>fds w. (Inr fds, w)),
      ho_accept = (\<lambda>fd w. (Inr (21, \<lparr>sin_family = AF_INET, sin_port = 1024, sin_addr = v4v_addr 7\<rparr>), w)),
      ho_signal = (\<lambda>w. (Inr (), w)), ho_fork = (\<lambda>w. (Inr 0, w)),
      ho_chdir = (\<lambda>p w. (Inr (), w)), ho_chroot = (\<lambda>p w. (Inr (), w)),
      ho_svc_fd_create = (\<lambda>fd w. (True, w)), ho_svc_register = (\<lambda>w. (True, w)),
      ho_fd_isset = (\<lambda>fd w. True), ho_write_nothing = (\<lambda>fd w. Inr 0), ho_svc_wait = (\<lambda>w. (Inr None, w))\<rparr>"

definition locals_example :: test_locals where
  "locals_example = \<lparr>tl_stat = \<lparr>is_size = 9, is_type = 9\<rparr>, tl_buf = [1, 2, 3, 4],
     tl_dirents = replicate 4 \<lparr>de_name = ''x'', de_type = 9\<rparr>\<rparr>"

lemma tree_example_testable:
  "leftovers (tv_nodes (tree_fs_view tree_example))" "testable (tree_fs_view tree_example)"
proof -
  show "leftovers (tv_nodes (tree_fs_view tree_example))"
    by (auto simp: leftovers_def tree_example_def test_dirs_def test_files_def split: if_splits)
  have "0 \<in> set (free_fds tree_example)"
    by (simp add: free_fds_def tree_example_def)
  then have "0 < length (free_fds tree_example)" by (rule length_pos_if_in_set)
  then show "testable (tree_fs_view tree_example)"
    by (simp add: testable_def tree_fs_view_def) (simp add: tree_example_def ran_def restrict_map_def)
qed

theorem selftest_passes_witness:
  "\<exists>te' s'. test_main False toy_net (\<lambda>_. process_CLIENT tree_os tree_host 21) (\<lambda>_. locals_example) ''test'' [Topt_h ''10.0.0.1'']
      \<lparr>te_conn = Some tree_server, te_net = toy_clnt, te_out = []\<rparr> = Ret 0 te' \<and>
    te_out te' = [Stdout ''All tests pass'' []] \<and> resources (te_net te') = ([], [], 0) \<and>
    te_conn te' = Some s' \<and> tv_nodes (tree_fs_view (world s')) ''kept'' = Some (File [3])"
proof -
  let ?te = "\<lparr>te_conn = Some tree_server, te_net = toy_clnt, te_out = []\<rparr>"
  let ?t = "tree_fs_view tree_example"
  obtain icb n where conn: "test_connects False toy_net [Topt_h ''10.0.0.1''] (te_net ?te) icb n"
    by (simp add: test_connects_def test_no_opts_def toy_net_def toy_clnt_def clnt_defs)
  have srv: "world tree_server = tree_example" "random_fd tree_server = 8" "urandom_fd tree_server = 9"
    by (simp_all add: tree_server_def)
  have dev: "tv_devices ?t = {8, 9}" by (simp add: tree_fs_view_def tree_example_def)
  have "\<exists>te' s'. test_main False toy_net (\<lambda>_. process_CLIENT tree_os tree_host 21) (\<lambda>_. locals_example) ''test'' [Topt_h ''10.0.0.1'']
      ?te = Ret 0 te' \<and>
    te_out te' = te_out ?te @ [Stdout ''All tests pass'' []] \<and> resources (te_net te') = resources (te_net ?te) \<and>
    te_conn te' = Some s' \<and> tree_fs_view (world s') = ?t\<lparr>tv_nodes := sweep (tv_nodes ?t)\<rparr>"
    by (rule selftest_passes [where s = tree_server, OF tree_os_posix tree_os_documented(1,4,2,3) _ _ _ _ tree_example_testable _ conn])
      (simp_all add: srv dev locals_example_def fresh_handles_def toy_clnt_def)
  moreover have "sweep (tv_nodes ?t) ''kept'' = Some (File [3])"
    by (simp add: sweep_def tree_example_def)
  ultimately show ?thesis by (auto simp: resources_def toy_clnt_def simp del: view_nodes)
qed

end
