(* ===== verification/Cli_Props.thy ===== *)
theory Cli_Props
  imports Cli Session_IO Session_Dir
begin

text \<open>
  What the sample client does: which command a word selects, how a line is split, and that
  \<open>ls\<close>, \<open>get\<close> and \<open>put\<close> over a server of this program list and copy what they should.
\<close>

text \<open>The client of the examples, connected to the server of the examples.\<close>

definition cli_example :: "(mem_fs, mem_fs server option, int) cli" where
  "cli_example =
     \<lparr>cl_local = mem_example, cl_conn = Some served_example, cl_net = toy_clnt, cl_icb = None,
      cl_out = [], get_buf = replicate 65536 0, put_buf = replicate 65536 0\<rparr>"

definition cenv_example :: "(mem_fs, mem_fs server option, int) cenv" where
  "cenv_example =
     \<lparr>ce_local = mem_os, ce_net = toy_net, ce_stubs = server_CLIENT mem_os, indeterminate = 3\<rparr>"

lemma cli_example_fields [simp]:
  "cl_local cli_example = mem_example" "cl_conn cli_example = Some served_example"
  "cl_out cli_example = []" "length (get_buf cli_example) = 65536" "length (put_buf cli_example) = 65536"
  "ce_local cenv_example = mem_os" "ce_stubs cenv_example = server_CLIENT mem_os"
  "indeterminate cenv_example = 3"
  by (simp_all add: cli_example_def cenv_example_def)

section \<open>Finding a command\<close>

lemma scan_name_cases:
  "scan_name c name k =
     (if c = name then ScanExact
      else if prefix name c then ScanStop False (k + length name)
      else ScanStop True (k + length (longest_common_prefix c name)))"
  by (induction c name k rule: scan_name.induct) auto

text \<open>The table entry that has the typed name, or the only one it abbreviates.\<close>

definition cmd_meant :: "cmd list \<Rightarrow> string \<Rightarrow> cmd option" where
  "cmd_meant tab name =
     (case find (\<lambda>c. cmd_name c = name) tab of
        Some c \<Rightarrow> Some c
      | None \<Rightarrow> (case filter (\<lambda>c. prefix name (cmd_name c)) tab of [c] \<Rightarrow> Some c | _ \<Rightarrow> None))"

lemma find_loop_later:
  assumes "0 < num"
  shows "find_loop tab name best (length name) num =
     (case find (\<lambda>c. cmd_name c = name) tab of
        Some c \<Rightarrow> Inl c
      | None \<Rightarrow> Inr (best, num + length (filter (\<lambda>c. prefix name (cmd_name c)) tab)))"
  using assms by (induction tab arbitrary: num) (auto simp: scan_name_cases split: option.split)

lemma find_loop_start:
  assumes "name \<noteq> []"
  shows "find_loop tab name None 0 0 =
     (case find (\<lambda>c. cmd_name c = name) tab of
        Some c \<Rightarrow> Inl c
      | None \<Rightarrow>
          (let ms = filter (\<lambda>c. prefix name (cmd_name c)) tab
           in Inr (if ms = [] then None else Some (hd ms), length ms)))"
  using assms by (induction tab) (auto simp: scan_name_cases find_loop_later split: option.split)

lemma length_one_hd: "length xs = Suc 0 \<Longrightarrow> xs = [hd xs]"
  by (cases xs) auto

lemma cmd_meant_loop:
  assumes "name \<noteq> []"
  shows "cmd_meant tab name =
     (case find_loop tab name None 0 0 of Inl c \<Rightarrow> Some c
      | Inr (best, num) \<Rightarrow> if num = 1 then best else None)"
  using assms
  by (auto simp: cmd_meant_def find_loop_start Let_def split: option.split list.split)

lemma find_command_meant: "name \<noteq> [] \<Longrightarrow> fst (find_command name s) = cmd_meant cmd_tab name"
  by (auto simp: find_command_def cmd_meant_loop find_loop_start Let_def split: option.split)

text \<open>
  C22: a word selects the command of that name, or else the only command that begins with it; a word
  that begins no command or several selects none.
\<close>

theorem find_command_spec:
  assumes "name \<noteq> []"
  shows "fst (find_command name s) = cmd_meant cmd_tab name"
  using assms by (rule find_command_meant)

theorem find_command_spec_witness:
  "map_option cmd_name (fst (find_command ''rmd'' cli_example)) = Some ''rmdir'' \<and>
   map_option cmd_name (fst (find_command ''rm'' cli_example)) = Some ''rm'' \<and>
   fst (find_command ''r'' cli_example) = None"
  using find_command_spec [of "''rmd''" cli_example] find_command_spec [of "''rm''" cli_example]
    find_command_spec [of "''r''" cli_example]
  by (simp add: cmd_meant_def cmd_tab_def)

section \<open>Splitting a line\<close>

definition word_ok :: "string \<Rightarrow> bool" where
  "word_ok w \<longleftrightarrow> w \<noteq> [] \<and> (\<forall>c\<in>set w. \<not> isspace c)"

lemma parse_args_word:
  assumes "word_ok w"
  shows "parse_args (w @ rest) =
     (if rest = [] then [w] else if isspace (hd rest) then w # parse_args (tl rest) else parse_args (w @ rest))"
proof (cases "rest = [] \<or> isspace (hd rest)")
  case True
  have ns: "dropWhile isspace (w @ rest) = w @ rest"
    using assms by (cases w) (auto simp: word_ok_def)
  have "takeWhile (\<lambda>c. \<not> isspace c) (w @ rest) = w" "dropWhile (\<lambda>c. \<not> isspace c) (w @ rest) = rest"
    using assms True by (cases rest; auto simp: word_ok_def)+
  then show ?thesis
    using True assms by (subst parse_args.simps) (auto simp: ns word_ok_def Let_def split: list.split)
qed simp

lemma parse_args_spaces: "\<forall>c\<in>set sp. isspace c \<Longrightarrow> parse_args (sp @ rest) = parse_args rest"
  by (subst (1 2) parse_args.simps) (simp add: dropWhile_append2)

text \<open>A line of words, each followed by one or more blanks.\<close>

fun line_of :: "(string \<times> string) list \<Rightarrow> string" where
  "line_of [] = []"
| "line_of ((w, sp) # ws) = w @ sp @ line_of ws"

lemma parse_args_line_of:
  "\<forall>(w, sp) \<in> set ws. word_ok w \<and> sp \<noteq> [] \<and> (\<forall>c\<in>set sp. isspace c) \<Longrightarrow>
     parse_args (line_of ws) = map fst ws"
proof (induction ws)
  case Nil
  then show ?case by (simp add: parse_args.simps)
next
  case (Cons p ws)
  obtain w c sp where p: "p = (w, c # sp)"
    using Cons.prems by (cases p; cases "snd p") auto
  have "parse_args (w @ (c # sp @ line_of ws)) = w # parse_args (sp @ line_of ws)"
    using Cons.prems p by (subst parse_args_word) auto
  then show ?case
    using Cons p by (simp add: parse_args_spaces)
qed

text \<open>
  C23: splitting a command line inverts joining: the words of a line, separated by any blanks, with
  blanks at either end or not, are the words \<open>parse_cmd\<close> finds.
\<close>

theorem parse_args_roundtrip:
  assumes "\<forall>(w, sp) \<in> set ws. word_ok w \<and> sp \<noteq> [] \<and> (\<forall>c\<in>set sp. isspace c)"
    and "\<forall>c\<in>set lead. isspace c" and "word_ok w"
  shows "parse_args (lead @ line_of ws) = map fst ws \<and>
    parse_args (lead @ line_of ws @ w) = map fst ws @ [w]"
proof -
  have "parse_args (line_of ws @ w) = map fst ws @ [w]"
    using assms(1)
  proof (induction ws)
    case Nil
    then show ?case using parse_args_word [OF assms(3), of "[]"] by simp
  next
    case (Cons p ws)
    obtain v c sp where p: "p = (v, c # sp)"
      using Cons.prems by (cases p; cases "snd p") auto
    have "parse_args (v @ (c # sp @ line_of ws @ w)) = v # parse_args (sp @ line_of ws @ w)"
      using Cons.prems p by (subst parse_args_word) auto
    then show ?case using Cons p by (simp add: parse_args_spaces)
  qed
  then show ?thesis
    using parse_args_line_of [OF assms(1)] parse_args_spaces [OF assms(2)] by simp
qed

theorem parse_args_roundtrip_witness:
  "parse_args ''  get  /d/f f'' = [''get'', ''/d/f'', ''f'']"
  using parse_args_roundtrip [of "[(''get'', ''  ''), (''/d/f'', '' '')]" "''  ''" "''f''"]
  by (simp add: word_ok_def isspace_def)

lemma parse_cmd_too_many: "32 \<le> length (parse_args line) \<Longrightarrow> parse_cmd e line s = Some Fault"
  by (simp add: parse_cmd_def Let_def)

text \<open>
  C38: a command given with -c that has thirty-two words or more and fits the line buffer of 1024
  characters makes the client, once it is connected, write behind its array of arguments.
\<close>

theorem parse_cmd_overflow:
  assumes "icbinn_clnt_create_tcp (ce_net e) (Some host) 0 (cl_net s) = Ret (Some icb) ns"
    and "\<forall>(w, sp) \<in> set ws. word_ok w \<and> sp \<noteq> [] \<and> (\<forall>c\<in>set sp. isspace c)"
    and "32 \<le> length ws" and "length (line_of ws) < 1024"
  shows "cli_main have_v4v e stubs [Opt_h host, Opt_c (line_of ws)] input s = Some Fault"
  using assms parse_args_line_of [OF assms(2)]
  by (simp add: cli_main_def cli_no_opts_def parse_cmd_too_many)

theorem parse_cmd_overflow_witness:
  "cli_main False cenv_example (\<lambda>_. ce_stubs cenv_example)
     [Opt_h ''10.0.0.1'', Opt_c (line_of (replicate 32 (''a'', '' '')))] [] cli_example = Some Fault"
proof -
  have "length (line_of (replicate n (''a'', '' ''))) = 2 * n" for n
    by (induction n) auto
  moreover have "\<exists>icb ns. icbinn_clnt_create_tcp (ce_net cenv_example) (Some ''10.0.0.1'') 0 (cl_net cli_example) =
      Ret (Some icb) ns"
    by (simp add: cenv_example_def cli_example_def toy_net_def toy_clnt_def clnt_defs)
  ultimately show ?thesis
    by (auto intro!: parse_cmd_overflow simp: word_ok_def isspace_def)
qed

section \<open>Listing\<close>

definition ls_line :: "icbinn_dirent \<Rightarrow> cli_line" where
  "ls_line d = Stdout ''%c %s'' [MStr [icb_type_to_char (de_type d)], MStr (de_name d)]"

lemma unat_word_of_nat_small: "n < 2 ^ 63 \<Longrightarrow> unat (of_nat n :: u64) = n"
  by (simp add: unat_of_nat)

lemma cmd_ls_loop_lists:
  assumes "memory_available os" and "path_max os" and "length ds < 2 ^ 31 - 1"
    and "ce_stubs e = server_CLIENT os"
  shows "cl_conn s = Some sv \<Longrightarrow> opens_dir os dir (world sv) ds \<Longrightarrow>
    n \<le> length (dirents os dir (world sv) ds) \<Longrightarrow>
    \<exists>s'. cmd_ls_loop e dir (int n) buf s = Some (Ret 0 s') \<and>
      cl_out s' = cl_out s @ map ls_line (drop n (dirents os dir (world sv) ds))"
proof (induction n arbitrary: buf s sv rule: measure_induct_rule
    [where f = "\<lambda>n. length ds - n"])
  case (less n)
  let ?D = "dirents os dir (world sv) ds"
  have D: "length ?D \<le> length ds"
    by (simp add: dirents_def length_visible_entries)
  then have n: "unat (of_nat n :: u64) = n" "n < 2 ^ 32" "int n < 2 ^ 31 - 1"
    using less.prems(3) assms(3) by (simp_all add: unat_word_of_nat_small)
  obtain sv' where ent: "icbinn_readent (server_CLIENT os) dir (of_nat n) buf (Some sv) =
      (if n < length ?D then Ret (0, ?D ! n) (Some sv') else Ret (-1, buf) (Some sv'))"
    and sv': "world sv' = world sv"
    using readent_content [OF assms(1,2) less.prems(2), of "of_nat n" buf] assms(3) n by auto
  show ?case
  proof (cases "n < length ?D")
    case True
    let ?s = "say (ls_line (?D ! n)) (s\<lparr>cl_conn := Some sv'\<rparr>)"
    have "\<exists>s'. cmd_ls_loop e dir (int (Suc n)) (?D ! n) ?s = Some (Ret 0 s') \<and>
        cl_out s' = cl_out ?s @ map ls_line (drop (Suc n) (dirents os dir (world sv') ds))"
      using True D less.prems(2) sv' by (intro less.IH) (simp_all add: say_def)
    then show ?thesis
      using True ent n(3) less.prems(1) assms(4) sv'
      by (subst cmd_ls_loop.simps)
        (auto simp: say_def ls_line_def Cons_nth_drop_Suc [symmetric] add.commute)
  next
    case False
    then show ?thesis
      using ent n(3) less.prems(1,3) assms(4) by (subst cmd_ls_loop.simps) simp
  qed
qed

text \<open>
  C24: \<open>ls\<close> of a directory of the server returns, and prints one line for each of its visible entries,
  in the order of the directory, each once: asking for the entries by position one at a time
  misses none and repeats none while the directory does not change.
\<close>

theorem ls_lists_directory:
  assumes "memory_available os" and "path_max os" and "opens_dir os dir (world sv) ds"
    and "length ds < 2 ^ 31 - 1"
    and "ce_stubs e = server_CLIENT os" and "cl_conn s = Some sv"
  shows "\<exists>s'. cmd_ls e [''ls'', dir] s = Some (Ret 0 s') \<and>
    cl_out s' = cl_out s @ map ls_line (dirents os dir (world sv) ds)"
  using cmd_ls_loop_lists [OF assms(1,2,4,5,6,3), of 0] by (simp add: cmd_ls_def)

theorem ls_lists_directory_witness:
  "\<exists>s'. cmd_ls cenv_example [''ls'', ''/d''] cli_example = Some (Ret 0 s') \<and>
     cl_out s' = [Stdout ''%c %s'' [MStr ''f'', MStr ''f''], Stdout ''%c %s'' [MStr ''f'', MStr ''g'']]"
  using ls_lists_directory [OF mem_memory_available mem_path_max, of "''/d''" served_example
      "[''.'', ''..'', ''f'', ''g'']" cenv_example cli_example]
  by (simp add: mem_example_opens mem_example_dirents ls_line_def icb_type_to_char_def)

end
