(* ===== verification/Cli_Copy.thy ===== *)
theory Cli_Copy
  imports Cli_Props
begin

text \<open>
  \<open>get\<close> and \<open>put\<close> of the sample client copy a file completely, and which descriptor each of them
  locks.
\<close>

lemma to_int32_small: "0 \<le> x \<Longrightarrow> x < 2 ^ 31 \<Longrightarrow> to_int32 x = x"
  by (simp add: to_int32_def signed_take_bit_int_eq_self_iff)

section \<open>get\<close>

lemma cmd_get_loop_copies:
  assumes "regular_pread os content" and "stream_write (ce_local e) sofar"
    and "ce_stubs e = server_CLIENT os" and "length bs < 2 ^ 62"
  shows "cl_conn s = Some sv \<Longrightarrow> content ifd (world sv) = Some bs \<Longrightarrow> length (get_buf s) = 65536 \<Longrightarrow>
    n \<le> length bs \<Longrightarrow> sofar fd (cl_local s) = Some (take n bs) \<Longrightarrow>
    \<exists>s' sv'. cmd_get_loop e fd ifd (int n) s = Some (Ret (Some 0) s') \<and>
      sofar fd (cl_local s') = Some bs \<and> cl_conn s' = Some sv' \<and> world sv' = world sv"
proof (induction n arbitrary: s sv rule: measure_induct_rule [where f = "\<lambda>n. length bs - n"])
  case (less n)
  define d where "d = take 65536 (drop n bs)"
  have d: "length d \<le> 65536" "d = [] \<longleftrightarrow> n = length bs" "take (n + length d) bs = take n bs @ d"
      "n + length d \<le> length bs"
    using less.prems(4) by (auto simp: d_def take_add min_def)
  have n: "unat (of_nat n :: u64) = n"
    using less.prems(4) assms(4) by (simp add: unat_word_of_nat_small)
  obtain sv1 where pread: "icbinn_pread (server_CLIENT os) ifd (get_buf s) 65536 (of_nat n) (Some sv) =
      (int (length d), mem_write (get_buf s) 0 d, Some sv1)" and sv1: "world sv1 = world sv"
    using pread_content [OF assms(1) less.prems(2), of "of_nat n" 65536 "get_buf s"] less.prems(3,4) n assms(4)
    by (auto simp: d_def)
  have red: "to_int32 (int (length d)) = int (length d)"
    using d(1) by (intro to_int32_small) simp_all
  show ?case
  proof (cases "d = []")
    case True
    then have "n = length bs" using d(2) by simp
    with True show ?thesis
      using pread red less.prems sv1 assms(3)
      by (subst cmd_get_loop.simps) (simp add: to_int32_def)
  next
    case False
    then have pos: "0 < length d" by simp
    define l where "l = snd (os_write (ce_local e) fd d (cl_local s))"
    have wr: "os_write (ce_local e) fd d (cl_local s) = (Inr (length d), l)"
      and l: "sofar fd l = Some (take n bs @ d)"
      using assms(2) less.prems(5) unfolding stream_write_def l_def
      by (metis prod.collapse, metis)
    let ?s = "s\<lparr>get_buf := mem_write (get_buf s) 0 d, cl_conn := Some sv1, cl_local := l\<rparr>"
    have "\<exists>s' sv'. cmd_get_loop e fd ifd (int (n + length d)) ?s = Some (Ret (Some 0) s') \<and>
        sofar fd (cl_local s') = Some bs \<and> cl_conn s' = Some sv' \<and> world sv' = world sv1"
      using less.prems pos l sv1 d by (intro less.IH) (auto intro: diff_less_mono2)
    moreover have "cmd_get_loop e fd ifd (int n) s = cmd_get_loop e fd ifd (int (n + length d)) ?s"
      using False pread red wr less.prems(1,3) assms(3) d(1)
      by (subst cmd_get_loop.simps) (simp add: on_local_def)
    ultimately show ?thesis using sv1 by simp
  qed
qed


lemma mem_example_open:
  "\<exists>sv. icbinn_open (server_CLIENT mem_os) ''/d/f'' ICBINN_RDONLY (Some served_example) = (3, Some sv) \<and>
     world sv = mem_example"
  by (simp add: icbinn_open_def path_encodes_def icbinn_prot_open_1_svc_def get_pathname_len_cases
      open_flags_eq mem_os_def mem_open_def mem_example_def fun_upd_idem)

lemma mem_example_lock:
  "world sv = mem_example \<Longrightarrow>
     \<exists>sv'. icbinn_lock (server_CLIENT mem_os) 3 ICBINN_LTYPE_RDLCK (Some sv) = (0, Some sv') \<and> world sv' = mem_example"
  by (simp add: icbinn_lock_def icbinn_prot_lock_1_svc_def errnostat_of_def mem_os_def mem_fd_def
      mem_example_data)


text \<open>
  The command \<open>get\<close> asks the server for the read lock on a descriptor it has not set: the request goes out
  with the indeterminate value of the local variable, not with the descriptor of the file it has
  just opened. When the server refuses that lock, the command fails although the file is readable.
\<close>

theorem get_locks_indeterminate:
  assumes "icbinn_open (ce_stubs e) src ICBINN_RDONLY (cl_conn s) = (ifd, w1)" and "0 \<le> ifd"
    and "icbinn_lock (ce_stubs e) (indeterminate e) ICBINN_LTYPE_RDLCK w1 = (err, w2)" and "err \<noteq> 0"
  shows "\<exists>s'. cmd_get e [''get'', src, dst] s = Some (Ret (-1) s') \<and> cl_local s' = cl_local s"
  using assms by (simp add: cmd_get_def on_conn_def say_def split: prod.split)

theorem get_locks_indeterminate_witness:
  "\<exists>s'. cmd_get (cenv_example\<lparr>indeterminate := 77\<rparr>) [''get'', ''/d/f'', ''/d/g''] cli_example = Some (Ret (-1) s') \<and>
     cl_local s' = mem_example"
proof -
  obtain sv1 where sv1: "icbinn_open (server_CLIENT mem_os) ''/d/f'' ICBINN_RDONLY (Some served_example) = (3, Some sv1)"
    and w1: "world sv1 = mem_example" using mem_example_open by blast
  have "fst (icbinn_lock (server_CLIENT mem_os) 77 ICBINN_LTYPE_RDLCK (Some sv1)) = -9"
    using w1 by (simp add: icbinn_lock_def icbinn_prot_lock_1_svc_def errnostat_of_def mem_os_def
        mem_fd_def mem_example_def)
  then obtain w2 where "icbinn_lock (server_CLIENT mem_os) 77 ICBINN_LTYPE_RDLCK (Some sv1) = (-9, w2)"
    by (cases "icbinn_lock (server_CLIENT mem_os) 77 ICBINN_LTYPE_RDLCK (Some sv1)") simp
  then show ?thesis
    using get_locks_indeterminate [of "cenv_example\<lparr>indeterminate := 77\<rparr>" "''/d/f''" cli_example 3 "Some sv1" "-9" w2]
      sv1 by simp
qed

section \<open>put\<close>

lemma splice_end: "splice (length p) data p = p @ data"
  by (simp add: splice_def)

lemma cmd_put_loop_copies:
  assumes "regular_pwrite os content" and "stream_read (ce_local e) rest"
    and "ce_stubs e = server_CLIENT os"
  shows "cl_conn s = Some sv \<Longrightarrow> content ifd (world sv) = Some p \<Longrightarrow> length (put_buf s) = 65536 \<Longrightarrow>
    rest fd (cl_local s) = Some r \<Longrightarrow> length p + length r < 2 ^ 62 \<Longrightarrow>
    \<exists>s' sv'. cmd_put_loop e fd ifd (int (length p)) s = Some (Ret (Some 0) s') \<and>
      cl_conn s' = Some sv' \<and> content ifd (world sv') = Some (p @ r)"
proof (induction r arbitrary: s sv p rule: measure_induct_rule [where f = length])
  case (less r)
  define d where "d = take 65536 r"
  have d: "length d \<le> 65536" "length d \<le> length r" "d @ drop 65536 r = r" "d = [] \<longleftrightarrow> r = []"
    by (auto simp: d_def)
  define l where "l = snd (os_read (ce_local e) fd 65536 (cl_local s))"
  have rd: "os_read (ce_local e) fd 65536 (cl_local s) = (Inr d, l)"
    and l: "rest fd l = Some (drop 65536 r)"
    using assms(2) less.prems(4) unfolding stream_read_def l_def
    by (simp_all add: prod_eq_iff d_def)
  let ?buf = "mem_write (put_buf s) 0 d"
  show ?case
  proof (cases "r = []")
    case True
    then show ?thesis
      using rd less.prems d by (subst cmd_put_loop.simps) (simp add: on_local_def)
  next
    case False
    have small: "unat (of_nat (length p) :: u64) = length p" "unat (of_nat (length d) :: u64) = length d"
      using less.prems(5) d by (simp_all add: unat_word_of_nat_small)
    obtain sv1 where pw: "icbinn_pwrite (server_CLIENT os) ifd ?buf (of_nat (length d)) (of_nat (length p)) (Some sv) =
        (int (length d), Some sv1)" and sv1: "content ifd (world sv1) = Some (p @ d)"
      using pwrite_content [OF assms(1) less.prems(2), of "of_nat (length p)" "of_nat (length d)" ?buf]
        less.prems(3,5) small d by (auto simp: splice_end)
    let ?s = "s\<lparr>cl_local := l, put_buf := ?buf, cl_conn := Some sv1\<rparr>"
    have "\<exists>s' sv'. cmd_put_loop e fd ifd (int (length (p @ d))) ?s = Some (Ret (Some 0) s') \<and>
        cl_conn s' = Some sv' \<and> content ifd (world sv') = Some ((p @ d) @ drop 65536 r)"
      using less.prems False l sv1 d by (intro less.IH) auto
    moreover have "cmd_put_loop e fd ifd (int (length p)) s =
        cmd_put_loop e fd ifd (int (length (p @ d))) ?s"
      using False rd pw less.prems(1,3) assms(3) d(4)
      by (subst cmd_put_loop.simps) (simp add: on_local_def on_conn_def)
    ultimately show ?thesis using d(3) by simp
  qed
qed


lemma mem_example_create:
  "mf_names (world sv) = mf_names mem_example \<Longrightarrow>
   \<exists>sv'. icbinn_open (server_CLIENT mem_os) ''/d/g'' (ICBINN_WRONLY OR ICBINN_CREAT OR ICBINN_TRUNC) (Some sv) =
       (4, Some sv') \<and> mf_data (world sv') = (mf_data (world sv))(4 \<mapsto> [])"
  by (simp add: icbinn_open_def path_encodes_def icbinn_prot_open_1_svc_def get_pathname_len_cases
      open_flags_eq mem_os_def mem_open_def mem_example_def)

lemma mem_example_src: "os_open mem_os ''/d/f'' O_RDONLY 0 mem_example = (Inr 3, mem_example)"
  by (simp add: mem_os_def mem_open_def mem_example_def fun_upd_idem)

lemma mem_wrlock:
  "\<exists>sv'. icbinn_lock (server_CLIENT mem_os) fd ICBINN_LTYPE_WRLCK (Some sv) =
     (if mf_data (world sv) fd = None then -9 else 0, Some sv') \<and> world sv' = world sv"
  by (simp add: icbinn_lock_def icbinn_prot_lock_1_svc_def errnostat_of_def mem_os_def mem_fd_def)


text \<open>
  C37: the command \<open>put\<close> asks the server for the write lock on the number of its local descriptor. When the
  server has no such descriptor, the command fails although the file was opened for writing.
\<close>

theorem put_locks_local_fd:
  assumes "os_open (ce_local e) src O_RDONLY 0 (cl_local s) = (Inr fd, l)"
    and "icbinn_open (ce_stubs e) dst (ICBINN_WRONLY OR ICBINN_CREAT OR ICBINN_TRUNC) (cl_conn s) = (ifd, w1)"
    and "0 \<le> ifd" and "icbinn_lock (ce_stubs e) fd ICBINN_LTYPE_WRLCK w1 = (err, w2)" and "err \<noteq> 0"
  shows "\<exists>s'. cmd_put e [''put'', src, dst] s = Some (Ret (-1) s') \<and>
    cl_conn s' = snd (icbinn_close (ce_stubs e) ifd w2)"
  using assms by (simp add: cmd_put_def on_conn_def on_local_def say_def split: prod.split)

theorem put_locks_local_fd_witness:
  "\<exists>sv s'. cmd_put cenv_example [''put'', ''/d/f'', ''/d/g''] (cli_example\<lparr>cl_conn := Some sv\<rparr>) = Some (Ret (-1) s')"
proof -
  let ?sv = "server_start (mem_example\<lparr>mf_data := [4 \<mapsto> []]\<rparr>)"
  obtain sv1 where sv1: "icbinn_open (server_CLIENT mem_os) ''/d/g'' (ICBINN_WRONLY OR ICBINN_CREAT OR ICBINN_TRUNC)
      (Some ?sv) = (4, Some sv1)" and w1: "mf_data (world sv1) 3 = None"
    using mem_example_create [of ?sv] by auto
  obtain sv2 where "icbinn_lock (server_CLIENT mem_os) 3 ICBINN_LTYPE_WRLCK (Some sv1) = (-9, Some sv2)"
    using mem_wrlock [of 3 sv1] w1 by auto
  then show ?thesis
    using put_locks_local_fd [of cenv_example "''/d/f''" "cli_example\<lparr>cl_conn := Some ?sv\<rparr>" 3 mem_example
        "''/d/g''" 4 "Some sv1" "-9" "Some sv2"] sv1 mem_example_src by auto
qed

end
