(* ===== verification/Cli_Session.thy ===== *)
theory Cli_Session
  imports Cli_Props
begin

text \<open>
  A whole run of the sample client: what its commands, its interactive loop and \<open>main\<close> do to the
  connection. Only \<open>quit\<close> and the end of \<open>main\<close> touch it, and each of them gives it back.
\<close>

section \<open>Commands leave the connection alone\<close>

definition same_conn :: "('l, 'c, 'n) cli \<Rightarrow> ('l, 'c, 'n) cli \<Rightarrow> bool" where
  "same_conn s s' \<longleftrightarrow> cl_net s' = cl_net s \<and> cl_icb s' = cl_icb s"

lemma same_conn_simps [simp]:
  "same_conn s s" "same_conn s (say l s') = same_conn s s'"
  "same_conn s (s'\<lparr>cl_conn := w\<rparr>) = same_conn s s'" "same_conn s (s'\<lparr>cl_local := l'\<rparr>) = same_conn s s'"
  "same_conn s (s'\<lparr>get_buf := b\<rparr>) = same_conn s s'" "same_conn s (s'\<lparr>put_buf := b\<rparr>) = same_conn s s'"
  "same_conn s (snd (on_conn f s')) = same_conn s s'" "same_conn s (snd (on_local g s')) = same_conn s s'"
  by (auto simp: same_conn_def say_def on_conn_def on_local_def split: prod.split)

lemma same_conn_trans: "same_conn s s' \<Longrightarrow> same_conn s' s'' \<Longrightarrow> same_conn s s''"
  by (simp add: same_conn_def)

lemma on_conn_same: "on_conn f s' = (r, s'') \<Longrightarrow> same_conn s s'' = same_conn s s'"
  by (auto simp: on_conn_def same_conn_def split: prod.splits)

lemma on_local_same: "on_local g s' = (r, s'') \<Longrightarrow> same_conn s s'' = same_conn s s'"
  by (auto simp: on_local_def same_conn_def split: prod.splits)

text \<open>A command that comes back leaves the connection as it was, and it does not exit.\<close>

definition keeps_conn :: "('l, 'c, 'n) cli \<Rightarrow> ('a, ('l, 'c, 'n) cli) outcome option \<Rightarrow> bool" where
  "keeps_conn s r \<longleftrightarrow>
     (case r of Some (Ret _ s') \<Rightarrow> same_conn s s' | Some (Exit _ _) \<Rightarrow> False | _ \<Rightarrow> True)"

lemma keeps_conn_simps [simp]:
  "keeps_conn s None" "keeps_conn s (Some Fault)" "keeps_conn s (Some (Ret a s')) = same_conn s s'"
  "\<not> keeps_conn s (Some (Exit n s'))"
  by (simp_all add: keeps_conn_def)

lemma cmd_get_loop_keeps: "cmd_get_loop e fd ifd off s = Some r \<Longrightarrow> keeps_conn s (Some r)"
proof (induction rule: cmd_get_loop.raw_induct [rotated, consumes 1, case_names step])
  case (step cmd_get_loop e fd ifd off s r)
  have "keeps_conn s (Some r)" if "cmd_get_loop e fd ifd off' s2 = Some r" "same_conn s s2" for off' s2
    using step(1) [OF that(1)] that(2) by (cases r) (auto intro: same_conn_trans)
  with step(2) show ?case
    by (auto simp: Let_def dest!: on_local_same [of _ _ _ _ s] split: prod.splits if_splits)
qed

lemma cmd_put_loop_keeps: "cmd_put_loop e fd ifd off s = Some r \<Longrightarrow> keeps_conn s (Some r)"
proof (induction rule: cmd_put_loop.raw_induct [rotated, consumes 1, case_names step])
  case (step cmd_put_loop e fd ifd off s r)
  have "keeps_conn s (Some r)" if "cmd_put_loop e fd ifd off' s2 = Some r" "same_conn s s2" for off' s2
    using step(1) [OF that(1)] that(2) by (cases r) (auto intro: same_conn_trans)
  with step(2) show ?case
    by (auto simp: Let_def dest!: on_local_same [of _ _ _ _ s] on_conn_same [of _ _ _ _ s]
        split: prod.splits if_splits sum.splits)
qed

lemma icbinn_readent_no_exit: "icbinn_readent c dir offset buf w \<noteq> Exit n w'"
  by (auto simp: icbinn_readent_def icbinn_readdir_def
      split: outcome.splits prod.splits option.splits icbinn_prot_readdirres.splits)

lemma cmd_ls_loop_keeps: "cmd_ls_loop e path i buf s = Some r \<Longrightarrow> keeps_conn s (Some r)"
proof (induction rule: cmd_ls_loop.raw_induct [rotated, consumes 1, case_names step])
  case (step cmd_ls_loop e path i buf s r)
  have "keeps_conn s (Some r)" if "cmd_ls_loop e path i' buf' s2 = Some r" "same_conn s s2" for i' buf' s2
    using step(1) [OF that(1)] that(2) by (cases r) (auto intro: same_conn_trans)
  with step(2) show ?case
    by (auto simp: Let_def icbinn_readent_no_exit split: outcome.splits prod.splits if_splits)
qed

lemma keeps_conn_after:
  "same_conn s s1 \<Longrightarrow> keeps_conn s1 r \<Longrightarrow> keeps_conn s r"
  by (auto simp: keeps_conn_def intro: same_conn_trans split: option.splits outcome.splits)

lemma loop_result_same:
  "cmd_get_loop e fd ifd off s1 = Some (Ret a s2) \<Longrightarrow> same_conn s s1 \<Longrightarrow> same_conn s s2"
  "cmd_put_loop e fd ifd off s1 = Some (Ret a s2) \<Longrightarrow> same_conn s s1 \<Longrightarrow> same_conn s s2"
  by (auto dest!: cmd_get_loop_keeps cmd_put_loop_keeps intro: same_conn_trans)

lemma loops_never_exit:
  "cmd_get_loop e fd ifd off s \<noteq> Some (Exit n s')" "cmd_put_loop e fd ifd off s \<noteq> Some (Exit n s')"
  by (auto dest!: cmd_get_loop_keeps cmd_put_loop_keeps)

lemma cmd_get_keeps: "keeps_conn s (cmd_get e argv s)"
  by (auto simp: cmd_get_def Let_def loops_never_exit
      dest!: on_conn_same [of _ _ _ _ s] on_local_same [of _ _ _ _ s] loop_result_same(1) [of _ _ _ _ _ _ _ s]
      split: prod.split sum.split option.split outcome.split)

lemma cmd_put_keeps: "keeps_conn s (cmd_put e argv s)"
  by (auto simp: cmd_put_def Let_def loops_never_exit
      dest!: on_conn_same [of _ _ _ _ s] on_local_same [of _ _ _ _ s] loop_result_same(2) [of _ _ _ _ _ _ _ s]
      split: prod.split sum.split option.split outcome.split)

lemma cmd_ls_keeps: "keeps_conn s (cmd_ls e argv s)"
  by (cases "cmd_ls e argv s") (simp_all add: cmd_ls_def cmd_ls_loop_keeps)

lemma cmd_stat_keeps: "keeps_conn s (cmd_stat e argv s)"
  by (simp add: cmd_stat_def Let_def split: prod.split)

lemma cmd_help_same:
  fixes s :: "('l, 'c, 'n) cli"
  shows "same_conn s (snd (cmd_help s))"
proof -
  have "same_conn s' (fold (\<lambda>c. say (Stdout (cmd_help_text c) [])) cs s')" for cs and s' :: "('l, 'c, 'n) cli"
  proof (induction cs arbitrary: s')
    case (Cons c cs)
    then show ?case using same_conn_trans [of s' "say (Stdout (cmd_help_text c) []) s'"] by simp
  qed simp
  then show ?thesis by (simp add: cmd_help_def)
qed

lemma run_handler_keeps: "h \<noteq> H_quit \<Longrightarrow> keeps_conn s (run_handler h e argv s)"
  by (cases h)
    (simp_all add: cmd_get_keeps cmd_put_keeps cmd_ls_keeps cmd_stat_keeps cmd_help_same returns_def
      cmd_mkdir_def cmd_rmdir_def cmd_rm_def cmd_rename_def cmd_null_def)

section \<open>The loop and main\<close>

text \<open>
  What a command line does to the connection: it leaves it alone and goes on, or it is \<open>quit\<close>, which
  gives it back and ends the process with status 0.
\<close>

definition conn_step :: "('l, 'c, 'n) cenv \<Rightarrow> ('l, 'c, 'n) cli \<Rightarrow> ('a, ('l, 'c, 'n) cli) outcome option \<Rightarrow> bool" where
  "conn_step e s r \<longleftrightarrow>
     (case r of
        Some (Ret _ s') \<Rightarrow> same_conn s s'
      | Some (Exit n s') \<Rightarrow> cl_net s' = icbinn_clnt_destroy (ce_net e) (cl_icb s) (cl_net s)
      | _ \<Rightarrow> True)"

lemma conn_step_simps [simp]:
  "conn_step e s None" "conn_step e s (Some Fault)" "conn_step e s (Some (Ret a s')) = same_conn s s'"
  "conn_step e s (Some (Exit n s')) \<longleftrightarrow> cl_net s' = icbinn_clnt_destroy (ce_net e) (cl_icb s) (cl_net s)"
  by (simp_all add: conn_step_def)

lemma conn_step_after: "same_conn s s1 \<Longrightarrow> conn_step e s1 r \<Longrightarrow> conn_step e s r"
  by (auto simp: conn_step_def same_conn_def split: option.splits outcome.splits)

lemma run_handler_step: "conn_step e s (run_handler h e argv s)"
proof (cases "h = H_quit")
  case True
  then show ?thesis by (simp add: cmd_quit_def)
next
  case False
  then show ?thesis
    using run_handler_keeps [OF False, of s e argv]
    by (auto simp: keeps_conn_def conn_step_def split: option.splits outcome.splits)
qed

lemma find_command_same: "find_command name s = (c, s') \<Longrightarrow> same_conn s s'"
  by (auto simp: find_command_def split: sum.splits prod.splits if_splits)

lemma parse_cmd_step: "conn_step e s (parse_cmd e line s)"
proof -
  let ?argv = "parse_args line"
  obtain c s1 where f: "find_command (?argv ! 0) s = (c, s1)" by fastforce
  note same = find_command_same [OF f]
  have run: "conn_step e s (run_handler h e ?argv s1)" for h
    using same run_handler_step by (rule conn_step_after)
  show ?thesis
  proof (cases c)
    case None
    then show ?thesis using same by (simp add: parse_cmd_def Let_def f)
  next
    case (Some cmd)
    then show ?thesis
      using same run [of "cmd_handler cmd"]
      by (auto simp: parse_cmd_def Let_def f split: option.split outcome.split)
  qed
qed

lemma cli_loop_step: "conn_step e s (cli_loop e input s)"
proof (induction e input s rule: cli_loop.induct)
  case (2 e ls s)
  then show ?case using conn_step_after [of s "say (Stdout ''icbinn> '' []) s"] by simp
next
  case (3 e line ls s)
  let ?s1 = "say (Stdout ''icbinn> '' []) s"
  have s1: "same_conn s ?s1" by simp
  have p: "conn_step e s (parse_cmd e line ?s1)"
    using s1 parse_cmd_step by (rule conn_step_after)
  show ?case
  proof (cases "line = [] \<or> hd line = CHR 0x0A")
    case True
    then show ?thesis using 3(1,2) conn_step_after [OF s1] by (cases "line = []") (auto simp: Let_def)
  next
    case False
    then show ?thesis
      using p 3(3) [OF refl] conn_step_after [of s] by (auto split: option.split outcome.split)
  qed
qed simp

text \<open>\<open>main\<close> on a connection it has made.\<close>

lemma cli_main_run:
  assumes "conn_step e s1 r" and "cl_icb s1 = Some icb"
    and "(case r of
            None \<Rightarrow> None
          | Some (Ret _ s2) \<Rightarrow>
              Some (Ret 0 (s2\<lparr>cl_net := icbinn_clnt_destroy (ce_net e) (cl_icb s2) (cl_net s2)\<rparr>))
          | Some (Exit n s2) \<Rightarrow> Some (Exit n s2)
          | Some Fault \<Rightarrow> Some Fault) = Some fin"
    and "fin = Ret n s' \<or> fin = Exit m s'"
  shows "cl_net s' = icbinn_clnt_destroy (ce_net e) (Some icb) (cl_net s1)"
  using assms by (auto simp: same_conn_def split: option.splits outcome.splits)

end
