(* ===== verification/Svc_Confine.thy ===== *)
theory Svc_Confine
  imports Svc_Props
begin

text \<open>
  Two properties of a child of the server over its whole life: it never answers a request outside
  its client's directory, and it answers every request it receives. The first rests on a frame:
  whatever part of the world the system calls of the handlers leave alone, every request leaves
  alone, and the root directory of a process is such a part.
\<close>

section \<open>What a request leaves alone\<close>

text \<open>Code that leaves \<open>part\<close> of the world as it is in \<open>s\<close>, whether it returns or ends the process.\<close>

definition out_keeps :: "('w \<Rightarrow> 'r) \<Rightarrow> 'w server \<Rightarrow> ('a, 'w server) outcome \<Rightarrow> bool" where
  "out_keeps part s r \<longleftrightarrow>
     (case r of
        Ret _ s' \<Rightarrow> part (world s') = part (world s)
      | Exit _ s' \<Rightarrow> part (world s') = part (world s)
      | Fault \<Rightarrow> True)"

lemma out_keeps_simps [simp]:
  "out_keeps part s (Ret a s') \<longleftrightarrow> part (world s') = part (world s)"
  "out_keeps part s (Exit n s') \<longleftrightarrow> part (world s') = part (world s)"
  "out_keeps part s Fault"
  by (simp_all add: out_keeps_def)

lemma out_keeps_from: "out_keeps part s1 r \<Longrightarrow> part (world s1) = part (world s) \<Longrightarrow> out_keeps part s r"
  by (cases r) simp_all

lemma out_keeps_andthen:
  "out_keeps part s r \<Longrightarrow> (\<And>a s'. part (world s') = part (world s) \<Longrightarrow> out_keeps part s (f a s')) \<Longrightarrow>
   out_keeps part s (andthen r f)"
  by (cases r) simp_all

lemma on_world_keeps:
  "call_keeps part f \<Longrightarrow> on_world f s = (r, s') \<Longrightarrow> part (world s') = part (world s)"
  by (auto simp: on_world_eq dest: call_keepsD)

lemma snd_on_world_keeps [simp]: "call_keeps part f \<Longrightarrow> part (world (snd (on_world f s))) = part (world s)"
  using on_world_keeps by (metis prod.collapse)

lemma readdir_loop_frame:
  assumes "\<forall>n. call_keeps part (os_malloc os n)"
  shows "out_keeps part s (readdir_loop os base offset count doffset dcount dp ds acc s)"
proof (induction ds arbitrary: doffset dcount dp acc s)
  case (Cons d ds)
  show ?case
  proof (cases "os_malloc os 24 (world s)")
    case (Pair m w)
    obtain m' w' where m': "os_malloc os (length d + 1) w = (m', w')" by fastforce
    have w: "part w = part (world s)" "part w' = part (world s)"
      using assms Pair m' call_keepsD [of part "os_malloc os 24" "world s" m w]
        call_keepsD [of part "os_malloc os (length d + 1)" w m' w'] by simp_all
    show ?thesis
      using Pair m' w Cons.IH
      by (auto intro: out_keeps_from [OF Cons.IH] split: sum.split bool.split)
  qed
qed simp

lemma readdir_svc_frame:
  assumes "\<forall>n. call_keeps part (os_malloc os n)"
  shows "out_keeps part s (icbinn_prot_readdir_1_svc os a s)"
proof -
  have loop: "out_keeps part s
      (case readdir_loop os base (ra_offset a) (ra_count a) 0 0 None ds [] s1 of
         Ret (es, dp) s' \<Rightarrow> Ret (ReaddirOK es (dp = None)) (s'\<lparr>rd_result := ReaddirOK es (dp = None)\<rparr>)
       | Exit n s' \<Rightarrow> Exit n s' | Fault \<Rightarrow> Fault)" if "world s1 = world s" for s1 base ds
    using readdir_loop_frame [OF assms, of s1 base "ra_offset a" "ra_count a" 0 0 None ds "[]"] that
    by (auto split: outcome.split)
  then have "out_keeps part s (readdir_collect os a len ds s1)" if "world s1 = world s" for s1 len ds
    using that unfolding readdir_collect_def Let_def by (simp split del: outcome.split)
  then show ?thesis
    by (simp add: icbinn_prot_readdir_1_svc_def readdir_free_previous_def get_pathname_len_cases Let_def
        split: sum.split icbinn_prot_readdirres.split)
qed

lemma open_svc_frame:
  assumes "\<And>p f m. call_keeps part (os_open os p f m)"
  shows "part (world (snd (icbinn_prot_open_1_svc os a s))) = part (world s)"
  by (auto simp: icbinn_prot_open_1_svc_def get_pathname_len_cases dest!: assms [THEN call_keepsD]
      split: prod.split sum.split)

lemma rand_svc_frame:
  assumes "\<And>fd n. call_keeps part (os_read os fd n)"
  shows "part (world (snd (icbinn_prot_rand_1_svc os a s))) = part (world s)"
  by (auto simp: icbinn_prot_rand_1_svc_def Let_def dest!: assms [THEN call_keepsD] split: prod.split sum.split)

lemma looking_svc_world:
  "world (snd (icbinn_prot_stat_1_svc os a s)) = world s"
  "world (snd (icbinn_prot_statfs_1_svc os a s)) = world s"
  "world (snd (icbinn_prot_readlink_1_svc os b s)) = world s"
  "world (snd (icbinn_prot_pread_1_svc os c s)) = world s"
  by (simp_all add: server_defs get_pathname_len_cases Let_def split: sum.split)

lemmas handler_frames =
  lock_h.world_frame symlink_h.world_frame ftruncate_h.world_frame fallocate_h.world_frame
  pwrite_h.world_frame close_h.world_frame fsync_h.world_frame mkdir_h.world_frame
  rmdir_h.world_frame unlink_h.world_frame rename_h.world_frame
  open_svc_frame rand_svc_frame looking_svc_world

lemma program_frame:
  assumes "os_keeps part os"
  shows "out_keeps part s (icbinn_prot_program_1 os req s)"
proof (cases req)
  case (ICBINN_PROT_READDIR a)
  then show ?thesis
    using readdir_svc_frame [of part os s a] assms
    by (auto simp: os_keeps_def out_keeps_def split: outcome.splits)
qed (use assms in \<open>simp_all add: os_keeps_def ret_def icbinn_prot_null_1_svc_def handler_frames\<close>)

lemma svc_dispatch_frame: "os_keeps part os \<Longrightarrow> out_keeps part s (svc_dispatch os reqs s)"
proof (induction reqs arbitrary: s)
  case (Cons req reqs)
  then show ?case
    by (auto intro!: out_keeps_andthen program_frame intro: out_keeps_from [OF Cons.IH])
qed simp

lemma check_client_alive_frame: "out_keeps part s (check_client_alive ho svfd s)"
  by (simp add: check_client_alive_def Let_def)

lemma svc_input_round_frame:
  fixes os :: "'w os"
  assumes "os_keeps part os" and "call_keeps part (ho_svc_wait ho)"
  shows "out_keeps part s (svc_input_round os ho svfd s)"
  unfolding svc_input_round_def
proof (rule out_keeps_andthen)
  fix a :: unit and s1 :: "'w server"
  assume s1: "part (world s1) = part (world s)"
  obtain r s2 where wt: "on_world (ho_svc_wait ho) s1 = (r, s2)" by fastforce
  have s2: "part (world s2) = part (world s)"
    using on_world_keeps [OF assms(2) wt] s1 by simp
  show "out_keeps part s (case on_world (ho_svc_wait ho) s1 of
      (Inl e, s2) \<Rightarrow> Ret [] (logged MESSAGE_WARNING ''select failed with errno %d'' [MInt (int e)] s2)
    | (Inr None, s2) \<Rightarrow> andthen (check_client_alive ho svfd s2) (\<lambda>_ s3. Ret [] s3)
    | (Inr (Some reqs), s2) \<Rightarrow> svc_dispatch os reqs s2)"
    using s2 out_keeps_from [OF check_client_alive_frame s2]
    by (auto simp: wt intro: out_keeps_andthen out_keeps_from [OF svc_dispatch_frame [OF assms(1)]]
        split: sum.split option.split)
qed (simp add: check_client_alive_frame)

lemma svc_input_round_kept:
  "os_keeps part os \<Longrightarrow> call_keeps part (ho_svc_wait ho) \<Longrightarrow> svc_input_round os ho svfd s = Ret reps s' \<Longrightarrow>
   part (world s') = part (world s)"
  by (metis svc_input_round_frame out_keeps_simps(1))

lemma svc_input_loop_frame:
  assumes "svc_input_loop os ho svfd s s'" and "os_keeps part os" and "call_keeps part (ho_svc_wait ho)"
  shows "part (world s') = part (world s)"
  using assms by (induction rule: svc_input_loop.induct) (auto dest: svc_input_round_kept)

section \<open>Confinement\<close>

text \<open>
  What is documented of the root directory \<open>root w\<close> of a process: \<open>chroot\<close> makes it the directory named,
  and no call that the process makes afterwards changes it.
\<close>

definition root_documented :: "'w os \<Rightarrow> 'w host \<Rightarrow> ('w \<Rightarrow> string) \<Rightarrow> bool" where
  "root_documented os ho root \<longleftrightarrow>
     (\<forall>p w w'. ho_chroot ho p w = (Inr (), w') \<longrightarrow> root w' = p) \<and>
     os_keeps root os \<and> (\<forall>fd. call_keeps root (ho_svc_fd_create ho fd)) \<and>
     call_keeps root (ho_svc_register ho) \<and> call_keeps root (ho_svc_wait ho)"

lemma confined_root: "root_documented os ho root \<Longrightarrow> confined ho path w \<Longrightarrow> root w = path"
  unfolding root_documented_def confined_def by blast

lemma attached_root:
  assumes "root_documented os ho root" and "ho_svc_fd_create ho fd w = (True, w1)"
    and "ho_svc_register ho w1 = (True, w2)"
  shows "root w2 = root w"
  using assms call_keepsD [of root "ho_svc_fd_create ho fd" w True w1]
    call_keepsD [of root "ho_svc_register ho" w1 True w2]
  by (simp add: root_documented_def)

text \<open>The directory the lookup names for the client accepted as \<open>svfd\<close> on one of the sockets.\<close>

definition client_dir ::
  "bool \<Rightarrow> 'w host \<Rightarrow> 'w xenmgr \<Rightarrow> int list \<Rightarrow> int \<Rightarrow> string \<Rightarrow> bool" where
  "client_dir have_xcdbus ho xm sockfds svfd path \<longleftrightarrow>
     (\<exists>idx addr wa wb s. idx < length sockfds \<and> ho_accept ho (sockfds ! idx) wa = (Inr (svfd, addr), wb) \<and>
        fst (get_icbinn_path have_xcdbus xm (client_domid addr) ICBINN_PROT_MAXPATHLEN idx s) = Some path)"

lemma process_root:
  assumes "svc_process have_v4v have_xcdbus os ho xm opts w0 sockfds who s"
    and "root_documented os ho root" and "who = Some svfd"
  shows "client_dir have_xcdbus ho xm sockfds svfd (root (world s))"
  using assms
proof (induction rule: svc_process.induct)
  case (accepted sockfds s who s')
  from svc_main_round_result [OF accepted.hyps(2)] accepted.prems(2)
  obtain idx addr s4 path w w1 wa wb where "idx < length sockfds"
    and "ho_accept ho (sockfds ! idx) wa = (Inr (svfd, addr), wb)"
    and "fst (get_icbinn_path have_xcdbus xm (client_domid addr) ICBINN_PROT_MAXPATHLEN idx s4) = Some path"
    and c: "confined ho path w" "ho_svc_fd_create ho svfd w = (True, w1)" "ho_svc_register ho w1 = (True, world s')"
    by blast
  moreover have "root (world s') = path"
    using confined_root [OF accepted.prems(1) c(1)] attached_root [OF accepted.prems(1) c(2,3)] by simp
  ultimately show ?case unfolding client_dir_def by blast
next
  case (served sockfds svfd' s s')
  then have "root (world s') = root (world s)"
    by (auto simp: root_documented_def intro: svc_input_loop_frame)
  then show ?case using served by simp
qed simp

text \<open>
  Confinement of one process. In every state in which a process serves a descriptor, before, between and after
  requests, its root directory is the one that the management daemon names for the domain that
  connected and for the number of the socket it connected to: no request is answered
  outside its client's directory.
\<close>

theorem serving_confined:
  assumes "svc_process have_v4v have_xcdbus os ho xm opts w0 sockfds (Some svfd) s"
    and "root_documented os ho root"
  shows "\<exists>idx addr wa wb s4. idx < length sockfds \<and>
    ho_accept ho (sockfds ! idx) wa = (Inr (svfd, addr), wb) \<and>
    fst (get_icbinn_path have_xcdbus xm (client_domid addr) ICBINN_PROT_MAXPATHLEN idx s4) =
      Some (root (world s))"
  using process_root [OF assms refl] unfolding client_dir_def .

lemma toy_root_documented: "root_documented mem_os toy_host mf_root"
  by (auto simp: root_documented_def mem_os_keeps_root toy_host_def call_keeps_def)

theorem serving_confined_witness:
  "\<exists>s. svc_process True True mem_os toy_host toy_xenmgr [] mem_example [20] (Some 21) s \<and> mf_root (world s) = ''/a''"
proof -
  obtain s where p: "svc_process True True mem_os toy_host toy_xenmgr [] mem_example [20] (Some 21) s"
    using toy_serves ..
  from serving_confined [OF p toy_root_documented] obtain idx addr wa wb and s4 :: "mem_fs server"
    where "idx < length [20 :: int]" and acc: "ho_accept toy_host ([20] ! idx) wa = (Inr (21, addr), wb)"
      and g: "fst (get_icbinn_path True toy_xenmgr (client_domid addr) ICBINN_PROT_MAXPATHLEN idx s4) =
        Some (mf_root (world s))"
    by blast
  moreover have "client_domid addr = 7"
    using acc toy_domid by (simp add: toy_host_def)
  ultimately have "mf_root (world s) = ''/a''"
    by (simp add: get_icbinn_path_def path_field_def toy_xenmgr_def)
  then show ?thesis using p by blast
qed

section \<open>Every request is answered\<close>

lemma svc_dispatch_answers:
  assumes "path_max os" and "memory_available os"
  shows "\<exists>reps s'. svc_dispatch os reqs s = Ret reps s' \<and> list_all2 reply_for reqs reps"
proof (induction reqs arbitrary: s)
  case (Cons req reqs)
  obtain rep s1 where "icbinn_prot_program_1 os req s = Ret rep s1" and "reply_for req rep"
    using program_answers [OF assms] by blast
  moreover obtain reps s2 where "svc_dispatch os reqs s1 = Ret reps s2" and "list_all2 reply_for reqs reps"
    using Cons by blast
  ultimately show ?case by simp
qed simp

text \<open>
  Progress of one process. A process that serves a client and receives requests, however many at a time,
  answers each of them in order with a reply of its kind and goes on serving: on a system with
  the documented path limit and memory to spare no request stops it.
\<close>

theorem requests_answered:
  assumes "svc_process have_v4v have_xcdbus os ho xm opts w0 sockfds (Some svfd) s"
    and "path_max os" and "memory_available os"
    and "ho_fd_isset ho svfd (world s)" and "fst (ho_svc_wait ho (world s)) = Inr (Some reqs)"
  shows "\<exists>reps s'. svc_input_round os ho svfd s = Ret reps s' \<and> list_all2 reply_for reqs reps \<and>
    svc_process have_v4v have_xcdbus os ho xm opts w0 sockfds (Some svfd) s'"
proof -
  obtain s2 where "on_world (ho_svc_wait ho) s = (Inr (Some reqs), s2)"
    using assms(5) by (cases "ho_svc_wait ho (world s)") (simp add: on_world_def)
  then obtain reps s' where r: "svc_input_round os ho svfd s = Ret reps s'" "list_all2 reply_for reqs reps"
    using svc_dispatch_answers [OF assms(2,3), of reqs s2] assms(4) by (auto simp: svc_input_round_def)
  then show ?thesis using served [OF assms(1) svc_input_loop.round [OF entered r(1)]] by blast
qed

theorem requests_answered_witness:
  "\<exists>s reps s'. svc_process True True mem_os toy_host toy_xenmgr [] mem_example [20] (Some 21) s \<and>
     svc_input_round mem_os toy_host 21 s = Ret reps s' \<and> list_all2 reply_for [ICBINN_PROT_NULL] reps"
proof -
  obtain s where p: "svc_process True True mem_os toy_host toy_xenmgr [] mem_example [20] (Some 21) s"
    using toy_serves ..
  then show ?thesis
    using requests_answered [OF p mem_path_max mem_memory_available, of "[ICBINN_PROT_NULL]"]
    by (auto simp: toy_host_def)
qed

end
