(* ===== verification/Svc_System.thy ===== *)
theory Svc_System
  imports Svc_Confine
begin

text \<open>
  The server as a system of processes: the parent that listens and the children that serve, running
  in any order over one world that they share with every other program of the machine. A process
  runs from one call that may wait to the next in one turn: a round of the accept loop, closing the
  connection after \<open>fork\<close>, the way of a child to its serving loop, a round of that loop. Between
  turns the world may be changed by other processes and, as \<open>outside\<close> says, by other programs.
  The calls of a process are those of its number: \<open>os p\<close> and \<open>ho p\<close>.
\<close>

section \<open>Processes\<close>

text \<open>
  Where a process is: a listening parent has its sockets, a child also its connection, with the
  number of the socket it came in on and the address of the client.
\<close>

datatype phase =
    Listening "int list"
  | Handing_over "int list" int
  | Forked "int list" int nat sockaddr_in
  | Serving "int list" int nat sockaddr_in

text \<open>A turn ends in a phase, possibly with a new process: its number and where it starts.\<close>

fun svc_turn ::
  "bool \<Rightarrow> 'w os \<Rightarrow> 'w host \<Rightarrow> 'w xenmgr \<Rightarrow> phase \<Rightarrow> 'w server \<Rightarrow>
   (phase \<times> (nat \<times> phase) option, 'w server) outcome" where
  "svc_turn have_xcdbus os ho xm (Listening sockfds) s =
     andthen (svc_accept_fork ho sockfds s) (\<lambda>r s'.
       case r of
         None \<Rightarrow> Ret (Listening sockfds, None) s'
       | Some (chld, svfd, idx, addr) \<Rightarrow>
           Ret (Handing_over sockfds svfd, Some (chld, Forked sockfds svfd idx addr)) s')"
| "svc_turn have_xcdbus os ho xm (Handing_over sockfds svfd) s =
     Ret (Listening sockfds, None) (snd (on_world (os_close os svfd) s))"
| "svc_turn have_xcdbus os ho xm (Forked sockfds svfd idx addr) s =
     andthen (svc_child have_xcdbus os ho xm sockfds svfd idx addr s)
       (\<lambda>_ s'. Ret (Serving sockfds svfd idx addr, None) s')"
| "svc_turn have_xcdbus os ho xm (Serving sockfds svfd idx addr) s =
     andthen (svc_input_round os ho svfd s) (\<lambda>_ s'. Ret (Serving sockfds svfd idx addr, None) s')"

lemma svc_turn_Listening:
  "svc_turn have_xcdbus os ho xm (Listening sockfds) s = Ret (ph', born) s' \<longleftrightarrow>
     svc_accept_fork ho sockfds s = Ret None s' \<and> ph' = Listening sockfds \<and> born = None \<or>
     (\<exists>chld svfd idx addr. svc_accept_fork ho sockfds s = Ret (Some (chld, svfd, idx, addr)) s' \<and>
        ph' = Handing_over sockfds svfd \<and> born = Some (chld, Forked sockfds svfd idx addr))"
  by (cases "svc_accept_fork ho sockfds s") (auto split: option.splits)

type_synonym 'w processes = "nat \<rightharpoonup> phase \<times> 'w server"

definition spawn :: "(nat \<times> phase) option \<Rightarrow> 'w server \<Rightarrow> 'w processes \<Rightarrow> 'w processes" where
  "spawn born s P = (case born of None \<Rightarrow> P | Some (c, ph) \<Rightarrow> P(c \<mapsto> (ph, s)))"

text \<open>\<open>fork\<close> gives a child a number that no process has, and not 0.\<close>

definition fresh_pid :: "(nat \<times> phase) option \<Rightarrow> 'w processes \<Rightarrow> bool" where
  "fresh_pid born P \<longleftrightarrow> (case born of None \<Rightarrow> True | Some (c, _) \<Rightarrow> c \<noteq> 0 \<and> P c = None)"

text \<open>
  The states of the system: the world and the processes. A process takes a turn in the world as it
  is then. One that exits is gone; its parent ignores the signal.
\<close>

inductive svc_system ::
  "bool \<Rightarrow> bool \<Rightarrow> (nat \<Rightarrow> 'w os) \<Rightarrow> (nat \<Rightarrow> 'w host) \<Rightarrow> 'w xenmgr \<Rightarrow> svc_opt list \<Rightarrow> ('w \<Rightarrow> 'w \<Rightarrow> bool) \<Rightarrow> 'w \<Rightarrow>
   'w \<Rightarrow> 'w processes \<Rightarrow> bool"
  for have_v4v have_xcdbus os ho xm opts outside w0 where
  started: "svc_main_setup have_v4v (ho 1) opts (server_start w0) = Ret sockfds s \<Longrightarrow>
     svc_system have_v4v have_xcdbus os ho xm opts outside w0 (world s) [1 \<mapsto> (Listening sockfds, s)]"
| turn: "svc_system have_v4v have_xcdbus os ho xm opts outside w0 w P \<Longrightarrow> P p = Some (ph, s) \<Longrightarrow>
     svc_turn have_xcdbus (os p) (ho p) xm ph (s\<lparr>world := w\<rparr>) = Ret (ph', born) s' \<Longrightarrow> fresh_pid born P \<Longrightarrow>
     svc_system have_v4v have_xcdbus os ho xm opts outside w0 (world s') (spawn born s' (P(p \<mapsto> (ph', s'))))"
| gone: "svc_system have_v4v have_xcdbus os ho xm opts outside w0 w P \<Longrightarrow> P p = Some (ph, s) \<Longrightarrow>
     svc_turn have_xcdbus (os p) (ho p) xm ph (s\<lparr>world := w\<rparr>) = Exit n s' \<Longrightarrow>
     svc_system have_v4v have_xcdbus os ho xm opts outside w0 (world s') (P(p := None))"
| others: "svc_system have_v4v have_xcdbus os ho xm opts outside w0 w P \<Longrightarrow> outside w w' \<Longrightarrow>
     svc_system have_v4v have_xcdbus os ho xm opts outside w0 w' P"

lemma spawn_Some_iff:
  "fresh_pid born P \<Longrightarrow> P p = Some y \<Longrightarrow>
   spawn born s' (P(p \<mapsto> x)) q = Some z \<longleftrightarrow>
     (\<exists>ph. born = Some (q, ph) \<and> z = (ph, s')) \<or> q = p \<and> z = x \<or> q \<noteq> p \<and> P q = Some z"
  by (auto simp: spawn_def fresh_pid_def split: option.splits)

section \<open>The handlers' invariant, in every process\<close>

lemma svc_turn_inv:
  assumes "reads_bounded os" and "svc_turn have_xcdbus os ho xm ph s = Ret r s'" and "server_inv s"
  shows "server_inv s'"
proof (cases ph)
  case (Listening sockfds)
  then show ?thesis
    using assms svc_accept_fork_result [of ho sockfds s] by (auto split: option.splits)
next
  case (Handing_over sockfds svfd)
  then show ?thesis using assms by auto
next
  case (Forked sockfds svfd idx addr)
  then show ?thesis using assms by (auto dest: svc_child_result)
next
  case (Serving sockfds svfd idx addr)
  then show ?thesis using assms svc_input_round_inv [OF assms(1)] by auto
qed

lemma system_inv:
  assumes "svc_system have_v4v have_xcdbus os ho xm opts outside w0 w P" and "\<And>p. reads_bounded (os p)"
  shows "P p = Some (ph, s) \<Longrightarrow> server_inv s"
  using assms
proof (induction arbitrary: p ph s rule: svc_system.induct)
  case (started sockfds s0)
  then show ?case
    using svc_main_setup_result [of have_v4v "ho 1" opts "server_start w0"] server_start_inv [of w0]
    by (auto split: if_splits)
next
  case (turn w P q qh t ph' born s')
  have "server_inv s'"
    using svc_turn_inv [OF turn.prems(2) turn.hyps(3)] turn.IH [OF turn.hyps(2) turn.prems(2)] by simp
  then show ?case
    using turn.prems(1) turn.IH [OF _ turn.prems(2)] by (auto simp: spawn_Some_iff [OF turn.hyps(4,2)])
next
  case (gone w P q qh t n s')
  then show ?case by (auto split: if_splits)
next
  case (others w P w')
  then show ?case by blast
qed

section \<open>What a turn leaves alone\<close>

definition host_keeps :: "('w \<Rightarrow> 'r) \<Rightarrow> 'w host \<Rightarrow> bool" where
  "host_keeps part ho \<longleftrightarrow>
    (\<forall>fds. call_keeps part (ho_select ho fds)) \<and> (\<forall>fd. call_keeps part (ho_accept ho fd)) \<and>
    (\<forall>p. call_keeps part (ho_chdir ho p)) \<and> (\<forall>p. call_keeps part (ho_chroot ho p)) \<and>
    (\<forall>fd. call_keeps part (ho_svc_fd_create ho fd)) \<and> call_keeps part (ho_svc_register ho) \<and>
    call_keeps part (ho_svc_wait ho)"

text \<open>\<open>fork\<close> leaves \<open>part\<close> alone unless the new process is number \<open>q\<close>.\<close>

definition fork_keeps :: "('w \<Rightarrow> 'r) \<Rightarrow> nat \<Rightarrow> 'w host \<Rightarrow> bool" where
  "fork_keeps part q ho \<longleftrightarrow> (\<forall>w r w'. ho_fork ho w = (r, w') \<longrightarrow> r \<noteq> Inr q \<longrightarrow> part w' = part w)"

lemma svc_accept_loop_frame:
  "\<forall>fd. call_keeps part (ho_accept ho fd) \<Longrightarrow> svc_accept_loop ho ready i fds s = (r, s') \<Longrightarrow>
   part (world s') = part (world s)"
proof (induction fds arbitrary: i s)
  case (Cons fd fds)
  obtain a s1 where a: "on_world (ho_accept ho fd) s = (a, s1)" by fastforce
  have "part (world s1) = part (world s)"
    using on_world_keeps [where part = part, OF _ a] Cons.prems(1) by blast
  then show ?case
    using Cons.prems(2) Cons.IH [OF Cons.prems(1)] a by (auto split: if_splits sum.splits)
qed simp

lemma svc_accept_frame:
  assumes "host_keeps part ho" and "svc_accept_one_connexion ho sockfds s = (r, s')"
  shows "part (world s') = part (world s)"
proof -
  obtain a s1 where a: "on_world (ho_select ho sockfds) s = (a, s1)" by fastforce
  have "part (world s1) = part (world s)"
    using on_world_keeps [where part = part, OF _ a] assms(1) unfolding host_keeps_def by blast
  then show ?thesis
    using assms(2) a svc_accept_loop_frame [of part ho _ 0 sockfds s1 r s'] assms(1)
    by (auto simp: svc_accept_one_connexion_def host_keeps_def split: sum.splits if_splits)
qed

lemma svc_accept_fork_frame:
  assumes "host_keeps part ho" and "fork_keeps part q ho"
  shows "svc_accept_fork ho sockfds s = Ret r s' \<Longrightarrow> (\<And>x. r \<noteq> Some (q, x)) \<Longrightarrow> part (world s') = part (world s)"
    and "svc_accept_fork ho sockfds s = Exit n s' \<Longrightarrow> part (world s') = part (world s)"
proof -
  obtain a s1 where a: "svc_accept_one_connexion ho sockfds s = (a, s1)" by fastforce
  obtain f s2 where f: "on_world (ho_fork ho) s1 = (f, s2)" by fastforce
  have "part (world s1) = part (world s)" by (rule svc_accept_frame [OF assms(1) a])
  moreover have "f \<noteq> Inr q \<Longrightarrow> part (world s2) = part (world s1)"
    using assms(2) f unfolding fork_keeps_def on_world_eq by blast
  moreover note [simp] = svc_accept_fork_def a f
  ultimately show "svc_accept_fork ho sockfds s = Ret r s' \<Longrightarrow> (\<And>x. r \<noteq> Some (q, x)) \<Longrightarrow> part (world s') = part (world s)"
    and "svc_accept_fork ho sockfds s = Exit n s' \<Longrightarrow> part (world s') = part (world s)"
    by (auto split: option.splits prod.splits if_splits sum.splits)
qed

lemma close_all_frame:
  "\<forall>fd. call_keeps part (os_close os fd) \<Longrightarrow>
   part (world (fold (\<lambda>fd s. snd (on_world (os_close os fd) s)) fds s)) = part (world s)"
  by (induction fds arbitrary: s) simp_all

lemma init_rand_frame:
  assumes "\<forall>p f m. call_keeps part (os_open os p f m)"
  shows "out_keeps part s (init_rand os s)"
proof -
  obtain r w where r: "os_open os ''/dev/random'' O_RDONLY 0 (world s) = (r, w)" by fastforce
  obtain u w' where u: "os_open os ''/dev/urandom'' O_RDONLY 0 w = (u, w')" by fastforce
  have "part w = part (world s)" "part w' = part w"
    using assms r u by (blast dest: call_keepsD)+
  then show ?thesis by (simp add: init_rand_def r u split: sum.split)
qed

lemma confine_frame:
  assumes "os_keeps part os" and "host_keeps part ho"
  shows "out_keeps part s (confine os ho path s)"
proof -
  obtain a s1 where a: "on_world (ho_chdir ho path) (ensure_dir os path s) = (a, s1)" by fastforce
  obtain b s2 where b: "on_world (ho_chroot ho path) s1 = (b, s2)" by fastforce
  have "call_keeps part (ho_chdir ho path)" "call_keeps part (ho_chroot ho path)"
    using assms(2) by (simp_all add: host_keeps_def)
  moreover have "part (world (ensure_dir os path s)) = part (world s)"
    using assms(1) by (simp add: ensure_dir_def os_keeps_def)
  ultimately have "part (world s1) = part (world s)" "part (world s2) = part (world s)"
    using on_world_keeps [where part = part, OF _ a] on_world_keeps [where part = part, OF _ b] by simp_all
  then show ?thesis by (simp add: confine_def a b split: sum.split)
qed

lemma svc_enter_path_frame:
  assumes "os_keeps part os" and "host_keeps part ho"
  shows "out_keeps part s (svc_enter_path have_xcdbus os ho xm idx d s)"
proof -
  obtain r s1 where g: "get_icbinn_path have_xcdbus xm d ICBINN_PROT_MAXPATHLEN idx s = (r, s1)" by fastforce
  have "world s1 = world s"
    using get_icbinn_path_world [of have_xcdbus xm d ICBINN_PROT_MAXPATHLEN idx s] g by simp
  then show ?thesis
    unfolding svc_enter_path_def g
    by (auto intro!: out_keeps_from [OF confine_frame [OF assms]] split: option.split)
qed

lemma svc_attach_frame:
  assumes "host_keeps part ho"
  shows "out_keeps part s (svc_attach ho svfd s)"
proof -
  obtain a s1 where a: "on_world (ho_svc_fd_create ho svfd) s = (a, s1)" by fastforce
  obtain b s2 where b: "on_world (ho_svc_register ho) s1 = (b, s2)" by fastforce
  have "part (world s1) = part (world s)" "part (world s2) = part (world s1)"
    using assms on_world_keeps [where part = part, OF _ a] on_world_keeps [where part = part, OF _ b] by (simp_all add: host_keeps_def)
  then show ?thesis by (simp add: svc_attach_def a b split: bool.split)
qed

lemma svc_child_frame:
  assumes "os_keeps part os" and "host_keeps part ho"
  shows "out_keeps part s (svc_child have_xcdbus os ho xm sockfds svfd idx addr s)"
proof -
  have "\<forall>fd. call_keeps part (os_close os fd)" "\<forall>p f m. call_keeps part (os_open os p f m)"
    using assms(1) by (auto simp: os_keeps_def)
  then show ?thesis
    unfolding svc_child_def Let_def
    by (intro out_keeps_andthen out_keeps_from [OF svc_enter_path_frame [OF assms]]
        out_keeps_from [OF svc_attach_frame [OF assms(2)]] out_keeps_from [OF init_rand_frame])
      (simp_all add: close_all_frame)
qed

text \<open>A turn leaves \<open>part\<close> alone unless it makes process \<open>q\<close>.\<close>

lemma svc_turn_frame:
  assumes "os_keeps part os" and "host_keeps part ho" and "fork_keeps part q ho"
  shows "svc_turn have_xcdbus os ho xm ph s = Ret (ph', born) s' \<Longrightarrow> (\<And>x. born \<noteq> Some (q, x)) \<Longrightarrow>
      part (world s') = part (world s)"
    and "svc_turn have_xcdbus os ho xm ph s = Exit n s' \<Longrightarrow> part (world s') = part (world s)"
proof -
  have wait: "call_keeps part (ho_svc_wait ho)" and close: "call_keeps part (os_close os fd)" for fd
    using assms(1,2) by (simp_all add: host_keeps_def os_keeps_def)
  note frames = svc_accept_fork_frame [OF assms(2,3)] svc_child_frame [OF assms(1,2)]
    svc_input_round_frame [OF assms(1) wait]
  show "part (world s') = part (world s)" if t: "svc_turn have_xcdbus os ho xm ph s = Ret (ph', born) s'"
    and b: "\<And>x. born \<noteq> Some (q, x)"
  proof (cases ph)
    case (Listening sockfds)
    then obtain r where r: "svc_accept_fork ho sockfds s = Ret r s'" and "\<And>x. r \<noteq> Some (q, x)"
      using t b by (auto simp: svc_turn_Listening simp del: svc_turn.simps)
    then show ?thesis using frames(1) r by blast
  next
    case (Handing_over sockfds svfd)
    then show ?thesis using t close by auto
  next
    case (Forked sockfds svfd idx addr)
    then show ?thesis
      using t frames(3) [of s have_xcdbus xm sockfds svfd idx addr] by auto
  next
    case (Serving sockfds svfd idx addr)
    then show ?thesis using t frames(4) [of s svfd] by auto
  qed
  show "part (world s') = part (world s)" if t: "svc_turn have_xcdbus os ho xm ph s = Exit n s'"
  proof (cases ph)
    case (Listening sockfds)
    then have "svc_accept_fork ho sockfds s = Exit n s'"
      using t by (cases "svc_accept_fork ho sockfds s") (auto split: option.splits)
    then show ?thesis using frames(2) by blast
  next
    case (Handing_over sockfds svfd)
    then show ?thesis using t by simp
  next
    case (Forked sockfds svfd idx addr)
    then show ?thesis
      using t frames(3) [of s have_xcdbus xm sockfds svfd idx addr]
      by (cases "svc_child have_xcdbus os ho xm sockfds svfd idx addr s") auto
  next
    case (Serving sockfds svfd idx addr)
    then show ?thesis using t frames(4) [of s svfd] by (cases "svc_input_round os ho svfd s") auto
  qed
qed

section \<open>Confinement among other processes\<close>

text \<open>
  What is documented of the root directories \<open>root p w\<close> of the processes: a process changes its own with
  \<open>chroot\<close> and with no other call, and neither another process nor another program changes it. Only
  \<open>fork\<close> sets that of the process it makes.
\<close>

definition roots_documented ::
  "(nat \<Rightarrow> 'w os) \<Rightarrow> (nat \<Rightarrow> 'w host) \<Rightarrow> ('w \<Rightarrow> 'w \<Rightarrow> bool) \<Rightarrow> (nat \<Rightarrow> 'w \<Rightarrow> string) \<Rightarrow> bool" where
  "roots_documented os ho outside root \<longleftrightarrow>
     (\<forall>p. root_documented (os p) (ho p) (root p)) \<and>
     (\<forall>p q. p \<noteq> q \<longrightarrow> os_keeps (root q) (os p) \<and> host_keeps (root q) (ho p) \<and> fork_keeps (root q) q (ho p)) \<and>
     (\<forall>w w' q. outside w w' \<longrightarrow> root q w' = root q w)"

text \<open>Where a connection came from, and for a process that serves it, its root directory.\<close>

fun phase_ok ::
  "bool \<Rightarrow> (nat \<Rightarrow> 'w host) \<Rightarrow> 'w xenmgr \<Rightarrow> string \<Rightarrow> phase \<Rightarrow> bool" where
  "phase_ok have_xcdbus ho xm dir (Forked sockfds svfd idx addr) \<longleftrightarrow>
     idx < length sockfds \<and> (\<exists>q wa wb. ho_accept (ho q) (sockfds ! idx) wa = (Inr (svfd, addr), wb))"
| "phase_ok have_xcdbus ho xm dir (Serving sockfds svfd idx addr) \<longleftrightarrow>
     idx < length sockfds \<and> (\<exists>q wa wb. ho_accept (ho q) (sockfds ! idx) wa = (Inr (svfd, addr), wb)) \<and>
     (\<exists>s. fst (get_icbinn_path have_xcdbus xm (client_domid addr) ICBINN_PROT_MAXPATHLEN idx s) = Some dir)"
| "phase_ok have_xcdbus ho xm dir _ \<longleftrightarrow> True"

lemma svc_turn_ok:
  assumes "root_documented (os p) (ho p) (root p)"
    and "svc_turn have_xcdbus (os p) (ho p) xm ph s = Ret (ph', born) s'"
    and "phase_ok have_xcdbus ho xm (root p (world s)) ph"
  shows "phase_ok have_xcdbus ho xm (root p (world s')) ph' \<and>
    (\<forall>c ch dir. born = Some (c, ch) \<longrightarrow> phase_ok have_xcdbus ho xm dir ch)"
proof (cases ph)
  case (Listening sockfds)
  then show ?thesis
    using assms(2) by (auto simp: svc_turn_Listening simp del: svc_turn.simps dest!: svc_accept_fork_result) blast+
next
  case (Handing_over sockfds svfd)
  then show ?thesis using assms(2) by auto
next
  case (Forked sockfds svfd idx addr)
  then have c: "svc_child have_xcdbus (os p) (ho p) xm sockfds svfd idx addr s = Ret () s'"
    and ph': "ph' = Serving sockfds svfd idx addr" "born = None"
    using assms(2) by auto
  obtain s4 :: "'a server" and path w w1 where
    "fst (get_icbinn_path have_xcdbus xm (client_domid addr) ICBINN_PROT_MAXPATHLEN idx s4) = Some path"
    and "confined (ho p) path w" and "ho_svc_fd_create (ho p) svfd w = (True, w1)"
    and "ho_svc_register (ho p) w1 = (True, world s')"
    using svc_child_result [OF c] by blast
  moreover from this have "root p (world s') = path"
    using confined_root [OF assms(1)] attached_root [OF assms(1)] by metis
  ultimately show ?thesis using assms(3) Forked ph' by auto
next
  case (Serving sockfds svfd idx addr)
  then obtain reps where "svc_input_round (os p) (ho p) svfd s = Ret reps s'" "ph' = ph" "born = None"
    using assms(2) by auto
  moreover from this have "root p (world s') = root p (world s)"
    using assms(1) svc_input_round_kept unfolding root_documented_def by metis
  ultimately show ?thesis using assms(3) Serving by simp
qed

lemma system_ok:
  assumes "svc_system have_v4v have_xcdbus os ho xm opts outside w0 w P"
    and "roots_documented os ho outside root"
  shows "P p = Some (ph, s) \<Longrightarrow> phase_ok have_xcdbus ho xm (root p w) ph"
  using assms
proof (induction arbitrary: p ph s rule: svc_system.induct)
  case (started sockfds s0)
  then show ?case by (auto split: if_splits)
next
  case (turn w P q qh t ph' born s')
  have q: "root_documented (os q) (ho q) (root q)"
    using turn.prems(2) by (simp add: roots_documented_def)
  have ok: "phase_ok have_xcdbus ho xm (root q w) qh"
    using turn.IH [OF turn.hyps(2) turn.prems(2)] .
  have new: "phase_ok have_xcdbus ho xm (root q (world s')) ph'"
    "\<And>c ch dir. born = Some (c, ch) \<Longrightarrow> phase_ok have_xcdbus ho xm dir ch"
    using svc_turn_ok [of os q ho root, OF q turn.hyps(3)] ok by auto
  have "root p (world s') = root p w" if "p \<noteq> q" "P p \<noteq> None"
  proof -
    have "\<And>x. born \<noteq> Some (p, x)"
      using turn.hyps(4) that(2) by (auto simp: fresh_pid_def)
    then show ?thesis
      using svc_turn_frame(1) [OF _ _ _ turn.hyps(3), of "root p" p] turn.prems(2) that(1)
      by (simp add: roots_documented_def)
  qed
  then show ?case
    using turn.prems(1) turn.IH [OF _ turn.prems(2)] new by (auto simp: spawn_Some_iff [OF turn.hyps(4,2)])
next
  case (gone w P q qh t n s')
  then have "p \<noteq> q" "P p = Some (ph, s)" by (auto split: if_splits)
  moreover from this have "root p (world s') = root p w"
    using svc_turn_frame(2) [OF _ _ _ gone.hyps(3), of "root p" p] gone.prems(2) by (simp add: roots_documented_def)
  ultimately show ?case using gone.IH gone.prems(2) by auto
next
  case (others w P w')
  then have "root p w' = root p w" by (simp add: roots_documented_def)
  then show ?case using others by auto
qed


section \<open>Roles\<close>

text \<open>Only process 1 listens; every process knows the same listening sockets.\<close>

fun role_ok :: "int list \<Rightarrow> nat \<Rightarrow> phase \<Rightarrow> bool" where
  "role_ok fds p (Listening sockfds) \<longleftrightarrow> p = 1 \<and> sockfds = fds"
| "role_ok fds p (Handing_over sockfds svfd) \<longleftrightarrow> p = 1 \<and> sockfds = fds"
| "role_ok fds p (Forked sockfds svfd idx addr) \<longleftrightarrow> p \<noteq> 1 \<and> sockfds = fds"
| "role_ok fds p (Serving sockfds svfd idx addr) \<longleftrightarrow> p \<noteq> 1 \<and> sockfds = fds"

lemma svc_turn_role:
  assumes "svc_turn have_xcdbus os ho xm ph s = Ret (ph', born) s'" and "role_ok fds p ph"
  shows "role_ok fds p ph' \<and> (\<forall>c ch. born = Some (c, ch) \<longrightarrow> p = 1 \<and> (c \<noteq> 1 \<longrightarrow> role_ok fds c ch))"
  using assms by (cases ph) (auto simp: svc_turn_Listening simp del: svc_turn.simps(1))

lemma system_roles:
  assumes "svc_system have_v4v have_xcdbus os ho xm opts outside w0 w P"
  shows "\<exists>fds. 1 \<le> length fds \<and> length fds \<le> 16 \<and> (\<forall>p ph s. P p = Some (ph, s) \<longrightarrow> role_ok fds p ph)"
  using assms
proof (induction rule: svc_system.induct)
  case (started sockfds s0)
  then show ?case
    using svc_main_setup_result [of have_v4v "ho 1" opts "server_start w0"] by (auto intro!: exI [of _ sockfds])
next
  case (turn w P q qh t ph' born s')
  then obtain fds where fds: "1 \<le> length fds" "length fds \<le> 16" "\<And>p ph s. P p = Some (ph, s) \<Longrightarrow> role_ok fds p ph"
    by blast
  have "role_ok fds q ph'" "\<And>c ch. born = Some (c, ch) \<Longrightarrow> role_ok fds c ch"
    using svc_turn_role [OF turn.hyps(3) fds(3) [OF turn.hyps(2)]] turn.hyps(2,4) by (auto simp: fresh_pid_def)
  then show ?case
    using fds by (auto simp: spawn_Some_iff [OF turn.hyps(4,2)])
next
  case (gone w P q qh t n s')
  then show ?case by (auto split: if_splits)
qed

text \<open>
  C6: in every state of the system each process keeps the invariant of the request handlers, only the
  first process listens and accepts, every other process is a child with a connection of its own,
  and all of them know the same listening sockets, at least one and at most sixteen.
\<close>

theorem system_invariant:
  assumes "svc_system have_v4v have_xcdbus os ho xm opts outside w0 w P" and "\<And>p. reads_bounded (os p)"
  shows "\<exists>fds. 1 \<le> length fds \<and> length fds \<le> 16 \<and>
    (\<forall>p ph s. P p = Some (ph, s) \<longrightarrow> server_inv s \<and> role_ok fds p ph)"
  using system_roles [OF assms(1)] system_inv [OF assms] by blast

section \<open>Progress\<close>


section \<open>A run\<close>

text \<open>
  The hosts of the examples: the parent's first child is process 2, the one process that may change its
  root directory; other programs may do anything but that.
\<close>

definition toy_hosts :: "nat \<Rightarrow> mem_fs host" where
  "toy_hosts p = toy_host\<lparr>ho_fork := \<lambda>w. (Inr 2, w),
     ho_chroot := (if p = 2 then ho_chroot toy_host else (\<lambda>_ w. (Inl 1, w)))\<rparr>"

definition toy_root :: "nat \<Rightarrow> mem_fs \<Rightarrow> string" where
  "toy_root p w = (if p = 2 then mf_root w else ''/'')"

definition toy_outside :: "mem_fs \<Rightarrow> mem_fs \<Rightarrow> bool" where
  "toy_outside w w' \<longleftrightarrow> mf_root w' = mf_root w"

definition toy_addr :: sockaddr_in where
  "toy_addr = \<lparr>sin_family = AF_INET, sin_port = 1024, sin_addr = v4v_addr 7\<rparr>"

lemma toy_roots_documented: "roots_documented (\<lambda>_. mem_os) toy_hosts toy_outside toy_root"
proof -
  have os: "os_keeps (toy_root q) mem_os" for q
    using mem_os_keeps_root by (simp add: os_keeps_def call_keeps_def toy_root_def)
  have "root_documented mem_os (toy_hosts p) (toy_root p)" for p
    using os by (auto simp: root_documented_def call_keeps_def toy_hosts_def toy_host_def toy_root_def)
  moreover have "host_keeps (toy_root q) (toy_hosts p)" "fork_keeps (toy_root q) q (toy_hosts p)" if "p \<noteq> q" for p q
    using that by (auto simp: host_keeps_def fork_keeps_def call_keeps_def toy_hosts_def toy_host_def toy_root_def)
  ultimately show ?thesis
    using os by (simp add: roots_documented_def toy_outside_def toy_root_def)
qed

abbreviation toy_system :: "mem_fs \<Rightarrow> mem_fs processes \<Rightarrow> bool" where
  "toy_system \<equiv> svc_system True True (\<lambda>_. mem_os) toy_hosts toy_xenmgr [] toy_outside mem_example"

lemma toy_hosts_setup:
  "svc_main_setup True (toy_hosts 1) [] (server_start mem_example) = Ret [20] (server_start mem_example)"
proof -
  have "svc_open_sockets True (toy_hosts 1) 0 [ICBINN_PROT_PORT] (server_start mem_example) =
      Ret [20] (server_start mem_example)"
    by (simp add: svc_create_socket_def toy_hosts_def toy_host_def on_world_def Let_def server_start_def)
  moreover have "on_world (ho_signal (toy_hosts 1)) (server_start mem_example) = (Inr (), server_start mem_example)"
    by (simp add: toy_hosts_def toy_host_def on_world_def server_start_def)
  ultimately show ?thesis
    by (simp add: svc_main_setup_def default_opts default_ports Let_def del: svc_open_sockets.simps)
qed

lemma toy_system_forks:
  "toy_system mem_example [1 \<mapsto> (Handing_over [20] 21, server_start mem_example),
     2 \<mapsto> (Forked [20] 21 0 toy_addr, server_start mem_example)]"
proof -
  have "toy_system (world (server_start mem_example)) [1 \<mapsto> (Listening [20], server_start mem_example)]"
    by (rule started) (rule toy_hosts_setup)
  then have l: "toy_system mem_example [1 \<mapsto> (Listening [20], server_start mem_example)]"
    by simp
  have t: "svc_turn True mem_os (toy_hosts 1) toy_xenmgr (Listening [20]) ((server_start mem_example)\<lparr>world := mem_example\<rparr>) =
      Ret (Handing_over [20] 21, Some (2, Forked [20] 21 0 toy_addr)) (server_start mem_example)"
    by (simp add: svc_accept_fork_def svc_accept_one_connexion_def toy_hosts_def toy_host_def on_world_def
        toy_addr_def server_start_def)
  show ?thesis
    using turn [OF l _ t] by (simp add: spawn_def fresh_pid_def)
qed

lemma toy_system_serves: "\<exists>w P s. toy_system w P \<and> P 2 = Some (Serving [20] 21 0 toy_addr, s)"
proof -
  have "\<exists>s. svc_child True mem_os (toy_hosts 2) toy_xenmgr [20] 21 0 toy_addr ((server_start mem_example)\<lparr>world := mem_example\<rparr>) = Ret () s"
    by (simp add: toy_hosts_def toy_host_def on_world_def svc_child_def toy_addr_def
        toy_domid Let_def logged_eq init_rand_def mem_os_def mem_fd_def mem_open_def mem_example_def
        svc_enter_path_def get_icbinn_path_def path_field_def toy_xenmgr_def confine_def ensure_dir_def
        mem_stat_def svc_attach_def)
  then obtain s where
    "svc_turn True mem_os (toy_hosts 2) toy_xenmgr (Forked [20] 21 0 toy_addr) ((server_start mem_example)\<lparr>world := mem_example\<rparr>) =
       Ret (Serving [20] 21 0 toy_addr, None) s"
    by auto
  from turn [OF toy_system_forks _ this] show ?thesis
    by (fastforce simp: spawn_def fresh_pid_def)
qed


theorem system_invariant_witness:
  "\<exists>w P s. toy_system w P \<and> P 2 = Some (Serving [20] 21 0 toy_addr, s) \<and> server_inv s"
  using toy_system_serves system_invariant [of True True "\<lambda>_. mem_os", OF _ mem_reads_bounded] by meson


end
