(* ===== verification/Fuse_fs.thy ===== *)
theory Fuse_fs
  imports Clientlib Clnt_create Posix
begin

text \<open>
  The FUSE file system, \<open>icbinn-fuse/src/icbinn-fs.c\<close>: every operation, the table \<open>icbinnfs_oper\<close> and
  \<open>main\<close>. An operation takes the stubs of the connection that \<open>get_icb\<close> yields and what is behind it.
  FUSE itself is a parameter: the function \<open>filler\<close> that takes directory entries and, in \<open>main\<close>, the
  function that runs the file system. A local variable that the code declares without a value is
  an argument (\<open>ist0\<close>, \<open>de0\<close>, \<open>b0\<close>, \<open>st0\<close>). Debug output has no counterpart.
\<close>

record fuse_file_info =
  fi_flags :: u32
  fi_fh :: u64

abbreviation (input) LOCK_SH :: u32 where "LOCK_SH \<equiv> 1"
abbreviation (input) LOCK_EX :: u32 where "LOCK_EX \<equiv> 2"
abbreviation (input) LOCK_UN :: u32 where "LOCK_UN \<equiv> 8"
abbreviation (input) MAX_SYMLINK_SIZE :: nat where "MAX_SYMLINK_SIZE \<equiv> 512"

text \<open>The conversions between \<open>int\<close> and the 64-bit file handle.\<close>

definition fd_of_fh :: "u64 \<Rightarrow> int" where
  "fd_of_fh fh = to_int32 (uint fh)"

definition translate_open_flags :: "u32 \<Rightarrow> u32" where
  "translate_open_flags f =
     (let xf = 0;
          xf = (if f AND O_CREAT \<noteq> 0 then xf OR ICBINN_CREAT else xf);
          xf = (if f AND O_TRUNC \<noteq> 0 then xf OR ICBINN_TRUNC else xf);
          xf = (if f AND O_WRONLY \<noteq> 0 then xf OR ICBINN_WRONLY else xf);
          xf = (if f AND O_RDWR \<noteq> 0 then xf OR ICBINN_RDWR else xf);
          xf = (if f AND O_RDONLY \<noteq> 0 then xf OR ICBINN_RDONLY else xf)
      in xf)"

definition translate_flock_flags :: "u32 \<Rightarrow> int" where
  "translate_flock_flags f =
     (if f AND LOCK_SH \<noteq> 0 then ICBINN_LTYPE_RDLCK
      else if f AND LOCK_EX \<noteq> 0 then ICBINN_LTYPE_WRLCK
      else if f AND LOCK_UN \<noteq> 0 then ICBINN_LTYPE_UNLCK
      else 0)"

section \<open>Attributes and directories\<close>

definition icbinnfs_getattr ::
  "'c CLIENT \<Rightarrow> icbinn_stat_t \<Rightarrow> string \<Rightarrow> file_stat \<Rightarrow> 'c \<Rightarrow> int \<times> file_stat \<times> 'c" where
  "icbinnfs_getattr c ist0 path stbuf w =
     (case icbinn_stat c (Some path) (Some ist0) w of
        (rv, ist, w') \<Rightarrow>
          if rv < 0 then (rv, stbuf, w')
          else
            (let zeroed = \<lparr>st_mode = 0, st_size = 0\<rparr>; t = is_type (the ist); sz = sint (is_size (the ist)) in
             if t = ICBINN_TYPE_LINK then (0, zeroed\<lparr>st_mode := S_IFLNK OR 420, st_size := sz\<rparr>, w')
             else if t = ICBINN_TYPE_FILE then (0, zeroed\<lparr>st_mode := S_IFREG OR 420, st_size := sz\<rparr>, w')
             else if t = ICBINN_TYPE_DIRECTORY then (0, zeroed\<lparr>st_mode := S_IFDIR OR 493, st_size := sz\<rparr>, w')
             else (- int ENOENT, zeroed, w')))"

text \<open>
  The loop of \<open>icbinnfs_readdir\<close>; \<open>b\<close> is FUSE's buffer. The path of an entry goes through a buffer of
  256 bytes.
\<close>

partial_function (option) icbinnfs_readdir_loop ::
  "'c CLIENT \<Rightarrow> icbinn_stat_t \<Rightarrow> (string \<Rightarrow> file_stat option \<Rightarrow> 'b \<Rightarrow> int \<times> 'b) \<Rightarrow> string \<Rightarrow> int \<Rightarrow>
   icbinn_dirent \<Rightarrow> 'b \<Rightarrow> 'c \<Rightarrow> (int \<times> 'b, 'c) outcome option" where
  "icbinnfs_readdir_loop c ist0 filler path i de b w =
     (if i \<ge> 2 ^ 31 - 1 then Some Fault
      else
        (case icbinn_readent c path (word_of_int i) de w of
           Ret (rv, de') w1 \<Rightarrow>
             if rv \<noteq> 0 then Some (Ret (0, b) w1)
             else
               (let e = take 255 (path @ ''/'' @ de_name de');
                    (statrv, st, w2) = icbinnfs_getattr c ist0 e \<lparr>st_mode = 0, st_size = 0\<rparr> w1;
                    (full, b') = filler (de_name de') (if statrv \<noteq> 0 then None else Some st) b
                in if full \<noteq> 0 then Some (Ret (- int ENOMEM, b') w2)
                   else icbinnfs_readdir_loop c ist0 filler path (i + 1) de' b' w2)
         | Exit n w1 \<Rightarrow> Some (Exit n w1)
         | Fault \<Rightarrow> Some Fault))"

definition icbinnfs_readdir ::
  "'c CLIENT \<Rightarrow> icbinn_stat_t \<Rightarrow> (string \<Rightarrow> file_stat option \<Rightarrow> 'b \<Rightarrow> int \<times> 'b) \<Rightarrow> string \<Rightarrow>
   icbinn_dirent \<Rightarrow> 'b \<Rightarrow> 'c \<Rightarrow> (int \<times> 'b, 'c) outcome option" where
  "icbinnfs_readdir c ist0 filler path de0 b w = icbinnfs_readdir_loop c ist0 filler path 0 de0 b w"

section \<open>Files\<close>

definition icbinnfs_open ::
  "'c CLIENT \<Rightarrow> string \<Rightarrow> fuse_file_info \<Rightarrow> 'c \<Rightarrow> int \<times> fuse_file_info \<times> 'c" where
  "icbinnfs_open c path fi w =
     (case icbinn_open c path (translate_open_flags (fi_flags fi)) w of
        (fd, w') \<Rightarrow> if fd \<ge> 0 then (0, fi\<lparr>fi_fh := word_of_int fd\<rparr>, w') else (fd, fi, w'))"

definition icbinnfs_create ::
  "'c CLIENT \<Rightarrow> string \<Rightarrow> u32 \<Rightarrow> fuse_file_info \<Rightarrow> 'c \<Rightarrow> int \<times> fuse_file_info \<times> 'c" where
  "icbinnfs_create c path mode fi w =
     (case icbinn_open c path (ICBINN_CREAT OR ICBINN_TRUNC OR ICBINN_WRONLY) w of
        (fd, w') \<Rightarrow> if fd \<ge> 0 then (0, fi\<lparr>fi_fh := word_of_int fd\<rparr>, w') else (fd, fi, w'))"

definition icbinnfs_read ::
  "'c CLIENT \<Rightarrow> byte list \<Rightarrow> u64 \<Rightarrow> int \<Rightarrow> fuse_file_info \<Rightarrow> 'c \<Rightarrow> int \<times> byte list \<times> 'c" where
  "icbinnfs_read c buf count offset fi w =
     (case icbinn_pread c (fd_of_fh (fi_fh fi)) buf count (word_of_int offset) w of
        (rv, buf', w') \<Rightarrow> (to_int32 rv, buf', w'))"

definition icbinnfs_write ::
  "'c CLIENT \<Rightarrow> byte list \<Rightarrow> u64 \<Rightarrow> int \<Rightarrow> fuse_file_info \<Rightarrow> 'c \<Rightarrow> int \<times> 'c" where
  "icbinnfs_write c buf count offset fi w =
     (case icbinn_pwrite c (fd_of_fh (fi_fh fi)) buf count (word_of_int offset) w of
        (rv, w') \<Rightarrow> (to_int32 rv, w'))"

definition icbinnfs_truncate :: "'c CLIENT \<Rightarrow> string \<Rightarrow> int \<Rightarrow> 'c \<Rightarrow> int \<times> 'c" where
  "icbinnfs_truncate c path offset w =
     (case icbinn_open c path ICBINN_WRONLY w of
        (fd, w1) \<Rightarrow>
          if fd < 0 then (fd, w1)
          else
            (case icbinn_ftruncate c fd (word_of_int offset) w1 of
               (rv, w2) \<Rightarrow> (rv, snd (icbinn_close c fd w2))))"

definition icbinnfs_ftruncate :: "'c CLIENT \<Rightarrow> int \<Rightarrow> fuse_file_info \<Rightarrow> 'c \<Rightarrow> int \<times> 'c" where
  "icbinnfs_ftruncate c offset fi w = icbinn_ftruncate c (fd_of_fh (fi_fh fi)) (word_of_int offset) w"

definition icbinnfs_unlink :: "'c CLIENT \<Rightarrow> string \<Rightarrow> 'c \<Rightarrow> int \<times> 'c" where
  "icbinnfs_unlink c path w = icbinn_unlink c path w"

definition icbinnfs_mkdir :: "'c CLIENT \<Rightarrow> string \<Rightarrow> u32 \<Rightarrow> 'c \<Rightarrow> int \<times> 'c" where
  "icbinnfs_mkdir c path mode w = icbinn_mkdir c path w"

definition icbinnfs_rmdir :: "'c CLIENT \<Rightarrow> string \<Rightarrow> 'c \<Rightarrow> int \<times> 'c" where
  "icbinnfs_rmdir c path w = icbinn_rmdir c path w"

definition icbinnfs_rename :: "'c CLIENT \<Rightarrow> string \<Rightarrow> string \<Rightarrow> 'c \<Rightarrow> int \<times> 'c" where
  "icbinnfs_rename c old new w = icbinn_rename c old new w"

definition icbinnfs_release :: "'c CLIENT \<Rightarrow> fuse_file_info \<Rightarrow> 'c \<Rightarrow> int \<times> 'c" where
  "icbinnfs_release c fi w = icbinn_close c (fd_of_fh (fi_fh fi)) w"

definition icbinnfs_fsync :: "'c CLIENT \<Rightarrow> fuse_file_info \<Rightarrow> 'c \<Rightarrow> int \<times> 'c" where
  "icbinnfs_fsync c fi w = icbinn_fsync c (fd_of_fh (fi_fh fi)) w"

definition icbinnfs_utimens :: "string \<Rightarrow> int" where
  "icbinnfs_utimens path = 0"

definition icbinnfs_getxattr :: "string \<Rightarrow> string \<Rightarrow> int" where
  "icbinnfs_getxattr path name = - int ENODATA"

section \<open>Links, file systems, locks\<close>

definition icbinnfs_symlink :: "'c CLIENT \<Rightarrow> string \<Rightarrow> string \<Rightarrow> 'c \<Rightarrow> int \<times> 'c" where
  "icbinnfs_symlink c oldpath newpath w = icbinn_symlink c oldpath newpath w"

text \<open>\<open>strncpy\<close>: the characters before the first NUL, padded with NULs to the length given.\<close>

definition strncpy :: "byte list \<Rightarrow> byte list \<Rightarrow> nat \<Rightarrow> byte list" where
  "strncpy dst src n =
     (let t = takeWhile (\<lambda>c. c \<noteq> 0) (take n src) in mem_write dst 0 (t @ replicate (n - length t) 0))"

definition icbinnfs_readlink ::
  "'c CLIENT \<Rightarrow> byte list \<Rightarrow> string \<Rightarrow> byte list \<Rightarrow> nat \<Rightarrow> 'c \<Rightarrow> int \<times> byte list \<times> 'c" where
  "icbinnfs_readlink c b0 path buf bufsz w =
     (case icbinn_readlink c (Some path) (Some b0) (of_nat MAX_SYMLINK_SIZE) w of
        (rv, b, w') \<Rightarrow>
          if rv \<ge> 0 then
            (let b1 = (the b)[(if rv < int MAX_SYMLINK_SIZE then nat rv else MAX_SYMLINK_SIZE - 1) := 0]
             in (0, strncpy buf b1 bufsz, w'))
          else (rv, buf, w'))"

definition icbinnfs_statfs ::
  "'c CLIENT \<Rightarrow> icbinn_statfs_t \<Rightarrow> string \<Rightarrow> file_statvfs \<Rightarrow> 'c \<Rightarrow> int \<times> file_statvfs \<times> 'c" where
  "icbinnfs_statfs c st0 path buf w =
     (case icbinn_statfs c (Some path) (Some st0) w of
        (rv, st, w') \<Rightarrow>
          (rv, if rv = 0 then \<lparr>f_bsize = ifs_bsize (the st), f_blocks = ifs_blocks (the st),
                               f_bfree = ifs_bfree (the st), f_bavail = ifs_bavail (the st)\<rparr>
               else buf, w'))"

definition icbinnfs_fallocate ::
  "'c CLIENT \<Rightarrow> u32 \<Rightarrow> int \<Rightarrow> int \<Rightarrow> fuse_file_info \<Rightarrow> 'c \<Rightarrow> int \<times> 'c" where
  "icbinnfs_fallocate c mode offset len fi w =
     icbinn_fallocate c (fd_of_fh (fi_fh fi)) mode (word_of_int offset) (word_of_int len) w"

definition icbinnfs_flock :: "'c CLIENT \<Rightarrow> fuse_file_info \<Rightarrow> u32 \<Rightarrow> 'c \<Rightarrow> int \<times> 'c" where
  "icbinnfs_flock c fi lock_op w = icbinn_lock c (fd_of_fh (fi_fh fi)) (translate_flock_flags lock_op) w"

section \<open>The table of operations\<close>

text \<open>
  The context that FUSE hands to an operation carries the data that \<open>main\<close> gave to FUSE: the connection.
\<close>

record icbinn_data =
  data_icb :: ICBINN

record fuse_context =
  private_data :: icbinn_data

definition get_icb :: "fuse_context \<Rightarrow> ICBINN" where
  "get_icb context = data_icb (private_data context)"

text \<open>The members of \<open>struct fuse_operations\<close> that the source names; None is a NULL pointer.\<close>

record ('c, 'b) fuse_operations =
  op_flock :: "(fuse_file_info \<Rightarrow> u32 \<Rightarrow> 'c \<Rightarrow> int \<times> 'c) option"
  op_getattr :: "(string \<Rightarrow> file_stat \<Rightarrow> 'c \<Rightarrow> int \<times> file_stat \<times> 'c) option"
  op_getxattr :: "(string \<Rightarrow> string \<Rightarrow> int) option"
  op_getdir :: "(string \<Rightarrow> 'c \<Rightarrow> int \<times> 'c) option"
  op_readdir :: "((string \<Rightarrow> file_stat option \<Rightarrow> 'b \<Rightarrow> int \<times> 'b) \<Rightarrow> string \<Rightarrow> 'b \<Rightarrow> 'c \<Rightarrow> (int \<times> 'b, 'c) outcome option) option"
  op_create :: "(string \<Rightarrow> u32 \<Rightarrow> fuse_file_info \<Rightarrow> 'c \<Rightarrow> int \<times> fuse_file_info \<times> 'c) option"
  op_open :: "(string \<Rightarrow> fuse_file_info \<Rightarrow> 'c \<Rightarrow> int \<times> fuse_file_info \<times> 'c) option"
  op_read :: "(byte list \<Rightarrow> u64 \<Rightarrow> int \<Rightarrow> fuse_file_info \<Rightarrow> 'c \<Rightarrow> int \<times> byte list \<times> 'c) option"
  op_write :: "(byte list \<Rightarrow> u64 \<Rightarrow> int \<Rightarrow> fuse_file_info \<Rightarrow> 'c \<Rightarrow> int \<times> 'c) option"
  op_truncate :: "(string \<Rightarrow> int \<Rightarrow> 'c \<Rightarrow> int \<times> 'c) option"
  op_ftruncate :: "(int \<Rightarrow> fuse_file_info \<Rightarrow> 'c \<Rightarrow> int \<times> 'c) option"
  op_fallocate :: "(u32 \<Rightarrow> int \<Rightarrow> int \<Rightarrow> fuse_file_info \<Rightarrow> 'c \<Rightarrow> int \<times> 'c) option"
  op_unlink :: "(string \<Rightarrow> 'c \<Rightarrow> int \<times> 'c) option"
  op_mkdir :: "(string \<Rightarrow> u32 \<Rightarrow> 'c \<Rightarrow> int \<times> 'c) option"
  op_rmdir :: "(string \<Rightarrow> 'c \<Rightarrow> int \<times> 'c) option"
  op_utimens :: "(string \<Rightarrow> int) option"
  op_rename :: "(string \<Rightarrow> string \<Rightarrow> 'c \<Rightarrow> int \<times> 'c) option"
  op_readlink :: "(string \<Rightarrow> byte list \<Rightarrow> nat \<Rightarrow> 'c \<Rightarrow> int \<times> byte list \<times> 'c) option"
  op_symlink :: "(string \<Rightarrow> string \<Rightarrow> 'c \<Rightarrow> int \<times> 'c) option"
  op_statfs :: "(string \<Rightarrow> file_statvfs \<Rightarrow> 'c \<Rightarrow> int \<times> file_statvfs \<times> 'c) option"
  op_fsync :: "(fuse_file_info \<Rightarrow> 'c \<Rightarrow> int \<times> 'c) option"
  op_release :: "(fuse_file_info \<Rightarrow> 'c \<Rightarrow> int \<times> 'c) option"

text \<open>What the local variables of the operations hold before they are set.\<close>

record fuse_locals =
  l_ist :: icbinn_stat_t
  l_de :: icbinn_dirent
  l_buf :: "byte list"
  l_st :: icbinn_statfs_t

abbreviation (input) FUSE_USE_VERSION :: nat where "FUSE_USE_VERSION \<equiv> 26"

definition icbinnfs_oper :: "'c CLIENT \<Rightarrow> fuse_locals \<Rightarrow> ('c, 'b) fuse_operations" where
  "icbinnfs_oper c l =
     \<lparr>op_flock = (if FUSE_USE_VERSION \<ge> 29 then Some (icbinnfs_flock c) else None),
      op_getattr = Some (icbinnfs_getattr c (l_ist l)),
      op_getxattr = Some icbinnfs_getxattr,
      op_getdir = None,
      op_readdir = Some (\<lambda>filler path b. icbinnfs_readdir c (l_ist l) filler path (l_de l) b),
      op_create = Some (icbinnfs_create c),
      op_open = Some (icbinnfs_open c),
      op_read = Some (icbinnfs_read c),
      op_write = Some (icbinnfs_write c),
      op_truncate = Some (icbinnfs_truncate c),
      op_ftruncate = Some (icbinnfs_ftruncate c),
      op_fallocate = Some (icbinnfs_fallocate c),
      op_unlink = Some (icbinnfs_unlink c),
      op_mkdir = Some (icbinnfs_mkdir c),
      op_rmdir = Some (icbinnfs_rmdir c),
      op_utimens = Some icbinnfs_utimens,
      op_rename = Some (icbinnfs_rename c),
      op_readlink = Some (icbinnfs_readlink c (l_buf l)),
      op_symlink = Some (icbinnfs_symlink c),
      op_statfs = Some (icbinnfs_statfs c (l_st l)),
      op_fsync = Some (icbinnfs_fsync c),
      op_release = Some (icbinnfs_release c)\<rparr>"

section \<open>main\<close>

datatype fuse_opt = FOpt_d string | FOpt_p string | FOpt_h string | FOpt_other

record fuse_opts =
  fo_domid :: int
  fo_port :: int
  fo_host :: "string option"
  fo_dflag :: int
  fo_hflag :: int

fun fuse_options :: "fuse_opt list \<Rightarrow> fuse_opts \<Rightarrow> fuse_opts" where
  "fuse_options [] o0 = o0"
| "fuse_options (FOpt_d a # os) o0 = fuse_options os (o0\<lparr>fo_domid := atoi a, fo_dflag := fo_dflag o0 + 1\<rparr>)"
| "fuse_options (FOpt_p a # os) o0 = fuse_options os (o0\<lparr>fo_port := atoi a\<rparr>)"
| "fuse_options (FOpt_h a # os) o0 = fuse_options os (o0\<lparr>fo_host := Some a, fo_hflag := fo_hflag o0 + 1\<rparr>)"
| "fuse_options (FOpt_other # os) o0 = fuse_options os o0"

definition fuse_no_opts :: fuse_opts where
  "fuse_no_opts = \<lparr>fo_domid = 0, fo_port = 0, fo_host = None, fo_dflag = 0, fo_hflag = 0\<rparr>"

text \<open>
  The argument vector for FUSE, built in an array of \<open>fuseargc\<close> elements by the loop of \<open>main\<close>; an
  access outside the array or outside \<open>argv\<close> is None.
\<close>

fun fuseargv_loop :: "string list \<Rightarrow> nat \<Rightarrow> nat \<Rightarrow> nat \<Rightarrow> string list \<Rightarrow> string list option" where
  "fuseargv_loop argv optind 0 i fuseargv = Some fuseargv"
| "fuseargv_loop argv optind (Suc k) i fuseargv =
     (if 1 + i < length fuseargv \<and> i + optind - 1 < length argv
      then fuseargv_loop argv optind k (i + 1) (fuseargv[1 + i := argv ! (i + optind - 1)])
      else None)"

definition fuseargv_of :: "string list \<Rightarrow> nat \<Rightarrow> string list option" where
  "fuseargv_of argv optind =
     (let fuseargc = 1 + length argv - (optind - 1);
          fuseargv = replicate fuseargc []
      in if fuseargc < 2 then None
         else fuseargv_loop argv optind (fuseargc - 2) 1 (fuseargv[0 := argv ! 0, 1 := ''-s'']))"

text \<open>The program's side of a run: its connections, and what it has written to standard error.\<close>

record 'n fuse_prog =
  fp_clnt :: "'n clnt"
  fp_stderr :: "(string \<times> msg_arg list) list"

definition complain :: "string \<Rightarrow> msg_arg list \<Rightarrow> 'n fuse_prog \<Rightarrow> 'n fuse_prog" where
  "complain fmt args s = s\<lparr>fp_stderr := fp_stderr s @ [(fmt, args)]\<rparr>"

definition fuse_usage :: "string \<Rightarrow> 'n fuse_prog \<Rightarrow> (int, 'n fuse_prog) outcome" where
  "fuse_usage name s =
     Exit 1 (complain ''%s {-d domid|-h host} [-p port] mountpoint [fuseargs]'' [MStr name]
       (complain ''Usage:'' [] s))"

text \<open>
  \<open>opts\<close> and \<open>optind\<close> are what \<open>getopt\<close> finds in \<open>argv\<close>; \<open>stubs\<close> are the stubs of a connection and \<open>l\<close>
  the values of unset variables. \<open>fuse_main\<close> runs the file system with the arguments, the table of
  operations, which finds its connection through the context, and the data for that context, and
  comes back with a status.
\<close>

definition icbinnfs_main ::
  "bool \<Rightarrow> 'n net \<Rightarrow> (ICBINN \<Rightarrow> 'c CLIENT) \<Rightarrow> fuse_locals \<Rightarrow>
   (string list \<Rightarrow> (fuse_context \<Rightarrow> ('c, 'b) fuse_operations) \<Rightarrow> icbinn_data \<Rightarrow> 'n clnt \<Rightarrow> int \<times> 'n clnt) \<Rightarrow>
   string list \<Rightarrow> fuse_opt list \<Rightarrow> nat \<Rightarrow> 'n fuse_prog \<Rightarrow> (int, 'n fuse_prog) outcome" where
  "icbinnfs_main have_v4v net stubs l fuse_main argv opts optind s =
     (let op = fuse_options opts fuse_no_opts in
      if (fo_dflag op = 0) \<noteq> (fo_hflag op \<noteq> 0) then fuse_usage (argv ! 0) s
      else
        (case fuseargv_of argv optind of
           None \<Rightarrow> Fault
         | Some fuseargv \<Rightarrow>
             (case (if fo_dflag op \<noteq> 0
                    then icbinn_clnt_create_v4v have_v4v net (fo_domid op) (fo_port op) (fp_clnt s)
                    else icbinn_clnt_create_tcp net (fo_host op) (fo_port op) (fp_clnt s)) of
                Fault \<Rightarrow> Fault
              | Exit n ns \<Rightarrow> Exit n (s\<lparr>fp_clnt := ns\<rparr>)
              | Ret None ns \<Rightarrow> Ret 1 (complain ''failed to connect to server'' [] (s\<lparr>fp_clnt := ns\<rparr>))
              | Ret (Some h) ns \<Rightarrow>
                  (case fuse_main fuseargv (\<lambda>context. icbinnfs_oper (stubs (get_icb context)) l)
                          \<lparr>data_icb = h\<rparr> ns of
                     (rv, ns') \<Rightarrow> Ret rv (s\<lparr>fp_clnt := icbinn_clnt_destroy net (Some h) ns'\<rparr>)))))"

end
