(* ===== verification/Fuse_Props.thy ===== *)
theory Fuse_Props
  imports Fuse_fs Session_IO Session_Dir
begin

text \<open>
  The FUSE file system over a server of this program: which flags reach the server, what reading
  a file, a directory and a link delivers, and the argument vector handed to FUSE.
\<close>

section \<open>Opening\<close>

lemma translate_open_flags_eq: "translate_open_flags f = f AND (O_WRONLY OR O_RDWR OR O_CREAT OR O_TRUNC)"
proof -
  have "translate_open_flags f = (((f AND 64) OR (f AND 512)) OR (f AND 1)) OR (f AND 2)"
    using flag_value [of f 0] flag_value [of f 1] flag_value [of f 6] flag_value [of f 9]
    by (elim disjE) (simp_all add: translate_open_flags_def Let_def)
  also have "\<dots> = f AND (O_WRONLY OR O_RDWR OR O_CREAT OR O_TRUNC)"
    by (simp only: bit.conj_disj_distrib ac_simps)
  finally show ?thesis .
qed

lemma server_open:
  "\<exists>s'. icbinn_open (server_CLIENT os) p mode (Some s) =
     (if \<not> path_encodes p then (- 1, Some s')
      else if path_ok p
      then (case os_open os p (mode AND (O_WRONLY OR O_RDWR OR O_CREAT OR O_TRUNC)) (S_IRUSR OR S_IWUSR) (world s) of
              (Inl e, w) \<Rightarrow> (- int e, Some s') | (Inr fd, w) \<Rightarrow> (fd, Some s'))
      else (- int ENOENT, Some s')) \<and>
     world s' = (if path_ok p then snd (os_open os p (mode AND (O_WRONLY OR O_RDWR OR O_CREAT OR O_TRUNC))
                                  (S_IRUSR OR S_IWUSR) (world s)) else world s)"
  by (cases "path_ok p"; cases "path_encodes p")
    (auto simp: icbinn_open_def icbinn_prot_open_1_svc_def get_pathname_len_cases open_flags_eq path_encodes_def
      split: prod.split sum.split)

text \<open>
  Opening a file through FUSE opens the server's file with the access mode, CREAT and TRUNC bits
  of the caller's flags and no others, and keeps the server's descriptor in the file handle.
\<close>

theorem fuse_open_flags:
  assumes "path_ok p" and "os_open os p (fi_flags fi AND (O_WRONLY OR O_RDWR OR O_CREAT OR O_TRUNC))
      (S_IRUSR OR S_IWUSR) (world s) = (Inr fd, w)" and "0 \<le> fd" and "fd < 2 ^ 31"
  shows "\<exists>s' fi'. icbinnfs_open (server_CLIENT os) p fi (Some s) = (0, fi', Some s') \<and> world s' = w \<and>
    fd_of_fh (fi_fh fi') = fd"
proof -
  have mask: "(fi_flags fi AND m) AND m = fi_flags fi AND m" for m :: u32
    by (simp add: and.assoc)
  have enc: "path_encodes p" using assms(1) by (simp add: path_encodes_def)
  obtain s' where "icbinn_open (server_CLIENT os) p (translate_open_flags (fi_flags fi)) (Some s) = (fd, Some s')"
    and "world s' = w"
    using server_open [of os p "translate_open_flags (fi_flags fi)" s] assms(1,2) enc
    unfolding translate_open_flags_eq mask by auto
  moreover have "fd_of_fh (word_of_int fd) = fd"
    using assms(3,4) by (simp add: fd_of_fh_def to_int32_def uint_word_of_int signed_take_bit_int_eq_self_iff)
  ultimately show ?thesis using assms(3) by (simp add: icbinnfs_open_def)
qed

theorem fuse_open_flags_witness:
  "\<exists>s' fi'. icbinnfs_open (server_CLIENT mem_os) ''/d/f'' \<lparr>fi_flags = 0x8002, fi_fh = 0\<rparr> (Some served_example) =
     (0, fi', Some s') \<and> fd_of_fh (fi_fh fi') = 3"
  using fuse_open_flags [of "''/d/f''" mem_os "\<lparr>fi_flags = 0x8002, fi_fh = 0\<rparr>" served_example 3]
  by (auto simp: mem_os_def mem_open_def mem_example_def)

text \<open>
  C33: the operation \<open>create\<close> ignores how the caller wants to use the new file: whatever flags are asked for, the
  file is opened on the server for writing only, so that a file created for reading and writing
  cannot be read through its descriptor.
\<close>

theorem fuse_create_write_only:
  assumes "path_ok p"
  shows "\<exists>rv fi' s'. icbinnfs_create (server_CLIENT os) p mode fi (Some s) = (rv, fi', Some s') \<and>
    fi_flags fi' = fi_flags fi \<and>
    world s' = snd (os_open os p (O_WRONLY OR O_CREAT OR O_TRUNC) (S_IRUSR OR S_IWUSR) (world s))"
proof -
  obtain r w where "os_open os p (O_WRONLY OR O_CREAT OR O_TRUNC) (S_IRUSR OR S_IWUSR) (world s) = (r, w)"
    by fastforce
  then show ?thesis
    using server_open [of os p "ICBINN_CREAT OR ICBINN_TRUNC OR ICBINN_WRONLY" s] assms
    by (cases r) (auto simp: icbinnfs_create_def path_encodes_def)
qed

theorem fuse_create_write_only_witness:
  "\<exists>rv fi' s'. icbinnfs_create (server_CLIENT mem_os) ''/d/g'' 0 \<lparr>fi_flags = O_RDWR, fi_fh = 0\<rparr> (Some served_example) =
     (rv, fi', Some s') \<and> fi_flags fi' = O_RDWR \<and>
     world s' = snd (os_open mem_os ''/d/g'' (O_WRONLY OR O_CREAT OR O_TRUNC) (S_IRUSR OR S_IWUSR) mem_example)"
  using fuse_create_write_only [of "''/d/g''" mem_os 0 "\<lparr>fi_flags = O_RDWR, fi_fh = 0\<rparr>" served_example] by simp

section \<open>Directories\<close>

text \<open>The attributes a path has through FUSE: None when it has none.\<close>

definition fuse_attr :: "'w os \<Rightarrow> string \<Rightarrow> 'w \<Rightarrow> file_stat option" where
  "fuse_attr os p w =
     (case os_lstat os p w of
        Inl _ \<Rightarrow> None
      | Inr st \<Rightarrow>
          (let sz = sint (word_of_int (st_size st) :: u64) in
           if S_ISLNK (st_mode st) then Some \<lparr>st_mode = S_IFLNK OR 420, st_size = sz\<rparr>
           else if S_ISDIR (st_mode st) then Some \<lparr>st_mode = S_IFDIR OR 493, st_size = sz\<rparr>
           else if S_ISREG (st_mode st) then Some \<lparr>st_mode = S_IFREG OR 420, st_size = sz\<rparr>
           else None))"

lemma getattr_server:
  assumes "errno_positive os" and "path_ok p"
  shows "\<exists>rv st s'. icbinnfs_getattr (server_CLIENT os) ist0 p sb (Some s) = (rv, st, Some s') \<and>
    world s' = world s \<and> (if rv \<noteq> 0 then None else Some st) = fuse_attr os p (world s)"
proof -
  have "path_encodes p" using assms(2) by (simp add: path_encodes_def)
  then have stat: "icbinn_stat (server_CLIENT os) (Some p) (Some ist0) (Some s) =
      (case os_lstat os p (world s) of
         Inl e \<Rightarrow> (- int e, Some ist0, Some s)
       | Inr st \<Rightarrow> (0, Some (ist0\<lparr>is_type := set_icbinn_prot_type (st_mode st),
                                  is_size := word_of_int (st_size st)\<rparr>), Some s))"
    using assms(2)
    by (simp add: icbinn_stat_def icbinn_prot_stat_1_svc_def get_pathname_len_cases split: sum.split)
  show ?thesis
  proof (cases "os_lstat os p (world s)")
    case (Inl e)
    then have "0 < e" using errno_positiveD(4) [OF assms(1), of p "world s"] by simp
    then show ?thesis using Inl by (simp add: icbinnfs_getattr_def stat fuse_attr_def)
  next
    case (Inr st)
    then show ?thesis
      by (simp add: icbinnfs_getattr_def stat fuse_attr_def set_icbinn_prot_type_def Let_def)
  qed
qed

definition fuse_entry :: "'w os \<Rightarrow> string \<Rightarrow> 'w \<Rightarrow> icbinn_dirent \<Rightarrow> string \<times> file_stat option" where
  "fuse_entry os path w d = (de_name d, fuse_attr os (take 255 (path @ ''/'' @ de_name d)) w)"

definition collect :: "string \<Rightarrow> file_stat option \<Rightarrow> (string \<times> file_stat option) list \<Rightarrow>
    int \<times> (string \<times> file_stat option) list" where
  "collect name st b = (0, b @ [(name, st)])"

lemma fuse_readdir_loop_lists:
  assumes "memory_available os" and "path_max os" and "errno_positive os" and "length ds < 2 ^ 31 - 1"
  shows "opens_dir os path (world sv) ds \<Longrightarrow> n \<le> length (dirents os path (world sv) ds) \<Longrightarrow>
    \<exists>sv'. icbinnfs_readdir_loop (server_CLIENT os) ist0 collect path (int n) de b (Some sv) =
      Some (Ret (0, b @ map (fuse_entry os path (world sv)) (drop n (dirents os path (world sv) ds))) (Some sv'))"
proof (induction n arbitrary: de b sv rule: measure_induct_rule [where f = "\<lambda>n. length ds - n"])
  case (less n)
  let ?D = "dirents os path (world sv) ds"
  have D: "length ?D \<le> length ds"
    by (simp add: dirents_def length_visible_entries)
  then have n: "unat (of_nat n :: u64) = n" "n < 2 ^ 32" "int n < 2 ^ 31 - 1"
    using less.prems(2) assms(4) by (simp_all add: unat_of_nat)
  obtain sv1 where ent: "icbinn_readent (server_CLIENT os) path (of_nat n) de (Some sv) =
      (if n < length ?D then Ret (0, ?D ! n) (Some sv1) else Ret (-1, de) (Some sv1))"
    and sv1: "world sv1 = world sv"
    using readent_content [OF assms(1,2) less.prems(1), of "of_nat n" de] assms(4) n by auto
  show ?case
  proof (cases "n < length ?D")
    case True
    define e where "e = take 255 (path @ CHR ''/'' # de_name (?D ! n))"
    have ok: "path_ok e" by (simp add: e_def)
    obtain rv st sv2 where g: "icbinnfs_getattr (server_CLIENT os) ist0 e \<lparr>st_mode = 0, st_size = 0\<rparr> (Some sv1) =
        (rv, st, Some sv2)" and sv2: "world sv2 = world sv"
      and st: "(if rv \<noteq> 0 then None else Some st) = fuse_attr os e (world sv)"
      using getattr_server [OF assms(3) ok, of ist0 "\<lparr>st_mode = 0, st_size = 0\<rparr>" sv1] sv1 by auto
    let ?b = "b @ [fuse_entry os path (world sv) (?D ! n)]"
    have "\<exists>sv'. icbinnfs_readdir_loop (server_CLIENT os) ist0 collect path (int (Suc n)) (?D ! n) ?b (Some sv2) =
        Some (Ret (0, ?b @ map (fuse_entry os path (world sv2)) (drop (Suc n) (dirents os path (world sv2) ds))) (Some sv'))"
      using True D less.prems(1) sv2 by (intro less.IH) simp_all
    then show ?thesis
      using True ent n(3) sv2 g st
      by (subst icbinnfs_readdir_loop.simps)
        (simp add: collect_def fuse_entry_def Cons_nth_drop_Suc [symmetric] add.commute e_def [symmetric]
          del: take_append)
  next
    case False
    then show ?thesis
      using ent n(3) less.prems(2) by (subst icbinnfs_readdir_loop.simps) simp
  qed
qed



section \<open>Reading and writing\<close>

lemma fd_of_fh_word: "0 \<le> fd \<Longrightarrow> fd < 2 ^ 31 \<Longrightarrow> fd_of_fh (word_of_int fd) = fd"
  by (simp add: fd_of_fh_def to_int32_def uint_word_of_int signed_take_bit_int_eq_self_iff)

lemma to_int32_count: "n \<le> unat (count :: u64) \<Longrightarrow> unat count < 2 ^ 31 \<Longrightarrow> to_int32 (int n) = int n"
  by (simp add: to_int32_def signed_take_bit_int_eq_self_iff)

lemma word_of_off: "0 \<le> off \<Longrightarrow> off < 2 ^ 62 \<Longrightarrow> unat (word_of_int off :: u64) = nat off"
proof -
  assume "0 \<le> off" "off < 2 ^ 62"
  then obtain n where "off = int n" "n < 2 ^ 62"
    by (metis nat_0_le nat_less_iff of_nat_numeral of_nat_power)
  then show ?thesis by (simp add: unat_of_nat)
qed

text \<open>
  C18: reading a file through FUSE, the server and the client library together, delivers the bytes of
  the server's file from the offset on, up to the size of the request, and reports their number.
\<close>

theorem fuse_read_content:
  assumes "regular_pread os content" and "content fd (world s) = Some bs"
    and "0 \<le> fd" and "fd < 2 ^ 31" and "0 \<le> offset" and "offset < 2 ^ 62"
    and "unat count < 2 ^ 31" and "unat count \<le> length buf"
  shows "\<exists>s'. icbinnfs_read (server_CLIENT os) buf count offset \<lparr>fi_flags = fl, fi_fh = word_of_int fd\<rparr> (Some s) =
    (int (length (take (unat count) (drop (nat offset) bs))),
     mem_write buf 0 (take (unat count) (drop (nat offset) bs)), Some s') \<and> world s' = world s"
proof -
  let ?d = "take (unat count) (drop (nat offset) bs)"
  have off: "unat (word_of_int offset :: u64) = nat offset" using assms(5,6) by (rule word_of_off)
  then have "unat (word_of_int offset :: u64) + unat count < 2 ^ 63"
    using assms(5-7) by simp
  then obtain s' where "icbinn_pread (server_CLIENT os) fd buf count (word_of_int offset) (Some s) =
      (int (length ?d), mem_write buf 0 ?d, Some s')" and "world s' = world s"
    using pread_content [OF assms(1,2) _ assms(8), of "word_of_int offset"] off by auto
  moreover have "to_int32 (int (length ?d)) = int (length ?d)"
    using assms(7) by (intro to_int32_count [of _ count]) simp_all
  ultimately show ?thesis
    using fd_of_fh_word [OF assms(3,4)] by (simp add: icbinnfs_read_def)
qed

theorem fuse_read_content_witness:
  "\<exists>s'. icbinnfs_read (server_CLIENT mem_os) [0, 0, 0] 3 1 \<lparr>fi_flags = 0, fi_fh = word_of_int 3\<rparr> (Some served_example) =
     (3, [2, 3, 4], Some s') \<and> world s' = mem_example"
  using fuse_read_content [OF mem_regular_pread, of 3 served_example "[1, 2, 3, 4, 5]" 1 3 "[0, 0, 0]" 0]
  by (simp add: mem_content_def mem_example_data mem_write_def)

text \<open>
  C19: what is written through FUSE is read back through FUSE. After a write of \<open>count\<close> bytes at an
  offset, of any length that FUSE's interface can report, a read of the same range delivers these
  bytes, and both report \<open>count\<close>.
\<close>

theorem fuse_write_read:
  assumes "regular_pread os content" and "regular_pwrite os content" and "content fd (world s) = Some bs"
    and "0 \<le> fd" and "fd < 2 ^ 31" and "0 \<le> offset" and "offset < 2 ^ 62"
    and "unat count < 2 ^ 31" and "unat count \<le> length data" and "length buf = unat count"
    and "fi_fh fi = word_of_int fd"
  shows "\<exists>s' s''. icbinnfs_write (server_CLIENT os) data count offset fi (Some s) = (int (unat count), Some s') \<and>
    content fd (world s') = Some (splice (nat offset) (take (unat count) data) bs) \<and>
    icbinnfs_read (server_CLIENT os) buf count offset fi (Some s') = (int (unat count), take (unat count) data, Some s'')"
proof -
  let ?d = "take (unat count) data" and ?off = "word_of_int offset :: u64"
  have off: "unat ?off = nat offset" using assms(6,7) by (rule word_of_off)
  then have range: "unat ?off + unat count < 2 ^ 63" using assms(6-8) by simp
  have len: "length ?d = unat count" using assms(9) by simp
  have rv: "to_int32 (int (unat count)) = int (unat count)"
    using assms(8) by (intro to_int32_count [of _ count]) simp_all
  obtain s' where w: "icbinn_pwrite (server_CLIENT os) fd data count ?off (Some s) = (int (unat count), Some s')"
    and c: "content fd (world s') = Some (splice (nat offset) ?d bs)"
    using pwrite_content [OF assms(2,3) range assms(9)] off by auto
  have "take (unat count) (drop (nat offset) (splice (nat offset) ?d bs)) = ?d"
    using take_drop_splice [of ?d "nat offset" bs] len by simp
  then obtain s'' where "icbinn_pread (server_CLIENT os) fd buf count ?off (Some s') = (int (unat count), ?d, Some s'')"
    using pread_content [OF assms(1) c range, of buf] assms(10) off len by (auto simp: mem_write_def)
  then show ?thesis
    using w c rv fd_of_fh_word [OF assms(4,5)]
    by (auto simp: icbinnfs_write_def icbinnfs_read_def assms(11) simp del: of_nat_unat)
qed

theorem fuse_write_read_witness:
  "\<exists>s' s''. icbinnfs_write (server_CLIENT mem_os) [8, 9] 2 6 \<lparr>fi_flags = 0, fi_fh = word_of_int 3\<rparr> (Some served_example) =
      (2, Some s') \<and>
    icbinnfs_read (server_CLIENT mem_os) [0, 0] 2 6 \<lparr>fi_flags = 0, fi_fh = word_of_int 3\<rparr> (Some s') = (2, [8, 9], Some s'')"
  using fuse_write_read [OF mem_regular_pread mem_regular_pwrite, of 3 served_example "[1, 2, 3, 4, 5]" 6 2 "[8, 9]" "[0, 0]"
      "\<lparr>fi_flags = 0, fi_fh = word_of_int 3\<rparr>"]
  by (simp add: mem_content_def mem_example_data) blast

section \<open>Links\<close>

text \<open>\<open>readlink\<close> delivers the target of a link, cut off at the size asked for.\<close>

definition link_target :: "'w os \<Rightarrow> string \<Rightarrow> 'w \<Rightarrow> byte list \<Rightarrow> bool" where
  "link_target os p w t \<longleftrightarrow> (\<forall>n. os_readlink os p n w = Inr (take (unat n) t))"

text \<open>The C string at the start of a buffer.\<close>

definition cstring :: "byte list \<Rightarrow> byte list" where
  "cstring buf = takeWhile (\<lambda>c. c \<noteq> 0) buf"

lemma takeWhile_nonzero [simp]: "0 \<notin> set (t :: byte list) \<Longrightarrow> takeWhile (\<lambda>c. c \<noteq> 0) (t @ rest) = t @ takeWhile (\<lambda>c. c \<noteq> 0) rest"
  by (induction t) auto

lemma cstring_strncpy:
  assumes "0 \<notin> set t" and "length t < n" and "n \<le> length dst"
  shows "cstring (strncpy dst (t @ 0 # rest) n) = t"
proof -
  have "take n (t @ 0 # rest) = t @ 0 # take (n - length t - 1) rest"
    using assms(2) by (cases "n - length t") simp_all
  then have "strncpy dst (t @ 0 # rest) n = mem_write dst 0 (t @ replicate (n - length t) 0)"
    using assms(1) by (simp add: strncpy_def)
  moreover have "replicate (n - length t) (0 :: byte) = 0 # replicate (n - length t - 1) 0"
    using assms(2) by (cases "n - length t") simp_all
  ultimately show ?thesis
    using assms(1) by (simp add: cstring_def mem_write_def)
qed

text \<open>The link buffer after the code has put its NUL: the target up to 511 bytes.\<close>

lemma nul_terminated:
  assumes "length (b0 :: byte list) = 512" and "d = take 512 t"
  shows "\<exists>rest. (mem_write b0 0 d)[(if int (length d) < 512 then length d else 511) := 0] = take 511 t @ 0 # rest"
proof (cases "length t < 512")
  case True
  then have "d = t" using assms(2) by simp
  moreover have "drop (length t) b0 = b0 ! length t # drop (Suc (length t)) b0"
    using True assms(1) by (simp add: Cons_nth_drop_Suc)
  ultimately show ?thesis using True by (simp add: mem_write_def list_update_append)
next
  case False
  then have "d = take 511 t @ [t ! 511]" "length d = 512"
    using assms(2) take_Suc_conv_app_nth [of 511 t] by simp_all
  then show ?thesis using assms(1) False by (simp add: mem_write_def list_update_append)
qed

text \<open>
  C32: reading a link through FUSE reports success and delivers the first 511 bytes of its target: a
  target shorter than 512 bytes is delivered whole, a longer one is cut off without an error.
\<close>

theorem fuse_readlink_prefix:
  assumes "link_target os p (world s) t" and "0 \<notin> set t" and "path_ok p"
    and "length b0 = 512" and "511 < bufsz" and "bufsz \<le> length buf"
  shows "\<exists>buf' s'. icbinnfs_readlink (server_CLIENT os) b0 p buf bufsz (Some s) = (0, buf', Some s') \<and>
    cstring buf' = take 511 t \<and> world s' = world s"
proof -
  define d where "d = take 512 t"
  have d: "length d \<le> 512" "data_encodes d" by (simp_all add: d_def data_encodes_def)
  have "os_readlink os p 512 (world s) = Inr d"
    using assms(1) by (simp add: link_target_def d_def)
  then obtain s' where "icbinn_readlink (server_CLIENT os) (Some p) (Some b0) 512 (Some s) =
      (int (length d), Some (mem_write b0 0 d), Some s')" and "world s' = world s"
    using assms(3) d
    by (simp add: icbinn_readlink_def icbinn_prot_readlink_1_svc_def get_pathname_len_cases path_encodes_def Let_def)
  moreover obtain rest where
    "(mem_write b0 0 d)[(if int (length d) < 512 then length d else 511) := 0] = take 511 t @ 0 # rest"
    using nul_terminated [OF assms(4) d_def] by blast
  moreover have "cstring (strncpy buf (take 511 t @ 0 # rest) bufsz) = take 511 t"
    using assms(2,5,6) by (intro cstring_strncpy) (auto dest: in_set_takeD)
  ultimately show ?thesis by (simp add: icbinnfs_readlink_def cong: if_cong split del: if_split)
qed

theorem fuse_readlink_prefix_witness:
  "\<exists>buf' s'. icbinnfs_readlink (server_CLIENT (mem_os\<lparr>os_readlink := \<lambda>p n w. Inr (take (unat n) (replicate 600 1))\<rparr>))
      (replicate 512 0) ''/l'' (replicate 1000 0) 1000 (Some served_example) = (0, buf', Some s') \<and>
     cstring buf' = replicate 511 1"
  using fuse_readlink_prefix [of "mem_os\<lparr>os_readlink := \<lambda>p n w. Inr (take (unat n) (replicate 600 1))\<rparr>" "''/l''"
      served_example "replicate 600 1" "replicate 512 0" 1000 "replicate 1000 0"]
  by (auto simp: link_target_def)

section \<open>Arguments\<close>

lemma fuseargv_loop_eq:
  "i + k + 1 \<le> length fv \<Longrightarrow> i + optind + k \<le> length argv + 1 \<Longrightarrow> 1 \<le> i + optind \<Longrightarrow>
   fuseargv_loop argv optind k i fv =
     Some (mem_write fv (1 + i) (take k (drop (i + optind - 1) argv)))"
proof (induction k arbitrary: i fv)
  case (Suc k)
  let ?x = "argv ! (i + optind - 1)"
  have x: "take (Suc k) (drop (i + optind - 1) argv) = ?x # take k (drop (i + optind) argv)"
    using Suc.prems(2,3) by (cases "i + optind") (simp_all add: Cons_nth_drop_Suc [symmetric])
  have "fuseargv_loop argv optind (Suc k) i fv =
      Some (mem_write (fv[1 + i := ?x]) (2 + i) (take k (drop (i + optind) argv)))"
    using Suc.prems Suc.IH [of "Suc i" "fv[1 + i := ?x]"] by simp
  moreover have "mem_write (fv[1 + i := ?x]) (2 + i) xs = mem_write fv (1 + i) (?x # xs)" for xs
    using Suc.prems(1) by (simp add: mem_write_def take_Suc_conv_app_nth drop_update_cancel)
  ultimately show ?case using x by simp
qed simp

text \<open>
  FUSE is run with the program's name, the option that keeps it single-threaded, which the
  library's connection needs, and the arguments behind the program's own options, in order, all
  of them; the array that holds them is filled exactly.
\<close>

theorem fuseargv_arguments:
  assumes "1 \<le> optind" and "optind \<le> length argv"
  shows "fuseargv_of argv optind = Some (argv ! 0 # ''-s'' # drop optind argv)"
proof -
  define k where "k = length argv - optind"
  have n: "1 + length argv - (optind - 1) = Suc (Suc k)"
    using assms by (simp add: k_def)
  define fv where "fv = argv ! 0 # ''-s'' # replicate k ([] :: string)"
  have "fuseargv_of argv optind = fuseargv_loop argv optind k 1 fv"
    unfolding fuseargv_of_def n by (simp add: Let_def fv_def)
  also have "\<dots> = Some (mem_write fv 2 (take k (drop optind argv)))"
    using assms fuseargv_loop_eq [of 1 k fv optind argv] by (simp add: fv_def k_def numeral_2_eq_2)
  also have "mem_write fv 2 (take k (drop optind argv)) = argv ! 0 # ''-s'' # drop optind argv"
    by (simp add: fv_def k_def mem_write_def numeral_2_eq_2)
  finally show ?thesis .
qed

theorem fuseargv_arguments_witness:
  "fuseargv_of [''icbinn-fs'', ''-d'', ''7'', ''/mnt'', ''-f''] 3 = Some [''icbinn-fs'', ''-s'', ''/mnt'', ''-f'']"
  using fuseargv_arguments [of 3 "[''icbinn-fs'', ''-d'', ''7'', ''/mnt'', ''-f'']"] by simp

end
