(* ===== verification/Fuse_Mount.thy ===== *)
theory Fuse_Mount
  imports Fuse_Props Session_Process
begin

text \<open>
  The mounted file system as its users see it. Requests reach the program through the table of
  operations; over a server of this program each of them does what the file system's contract
  \<open>local_fuse\<close> says in terms of the server's system calls, and so does every session of them.
  Directory listings, which may run for as long as the server pleases, are treated in \<open>Fuse_Props\<close>.
\<close>

section \<open>Requests\<close>

datatype fuse_request =
    FGetattr string file_stat
  | FGetxattr string string
  | FCreate string u32 fuse_file_info
  | FOpen string fuse_file_info
  | FRead "byte list" u64 int fuse_file_info
  | FWrite "byte list" u64 int fuse_file_info
  | FTruncate string int
  | FFtruncate int fuse_file_info
  | FFallocate u32 int int fuse_file_info
  | FUnlink string
  | FMkdir string u32
  | FRmdir string
  | FUtimens string
  | FRename string string
  | FReadlink string "byte list" nat
  | FSymlink string string
  | FStatfs string file_statvfs
  | FFsync fuse_file_info
  | FRelease fuse_file_info
  | FFlock fuse_file_info u32

datatype fuse_reply =
    FStatus int
  | FAttr int file_stat
  | FHandle int fuse_file_info
  | FData int "byte list"
  | FStatvfs int file_statvfs

abbreviation (input) ENOSYS :: errno where "ENOSYS \<equiv> 38"

text \<open>
  How FUSE uses a table: it calls the operation of the request, and answers for one that is not
  there that the function is not implemented.
\<close>

definition call_op :: "'f option \<Rightarrow> 'c \<Rightarrow> ('f \<Rightarrow> fuse_reply \<times> 'c) \<Rightarrow> fuse_reply \<times> 'c" where
  "call_op entry w f = (case entry of None \<Rightarrow> (FStatus (- int ENOSYS), w) | Some g \<Rightarrow> f g)"

definition fstatus :: "int \<times> 'c \<Rightarrow> fuse_reply \<times> 'c" where
  "fstatus r = (FStatus (fst r), snd r)"

fun fuse_step :: "('c, 'b) fuse_operations \<Rightarrow> fuse_request \<Rightarrow> 'c \<Rightarrow> fuse_reply \<times> 'c" where
  "fuse_step t (FGetattr p sb) w = call_op (op_getattr t) w (\<lambda>f. case f p sb w of (rv, st, w') \<Rightarrow> (FAttr rv st, w'))"
| "fuse_step t (FGetxattr p n) w = call_op (op_getxattr t) w (\<lambda>f. (FStatus (f p n), w))"
| "fuse_step t (FCreate p m fi) w = call_op (op_create t) w (\<lambda>f. case f p m fi w of (rv, fi', w') \<Rightarrow> (FHandle rv fi', w'))"
| "fuse_step t (FOpen p fi) w = call_op (op_open t) w (\<lambda>f. case f p fi w of (rv, fi', w') \<Rightarrow> (FHandle rv fi', w'))"
| "fuse_step t (FRead b n off fi) w = call_op (op_read t) w (\<lambda>f. case f b n off fi w of (rv, b', w') \<Rightarrow> (FData rv b', w'))"
| "fuse_step t (FWrite b n off fi) w = call_op (op_write t) w (\<lambda>f. fstatus (f b n off fi w))"
| "fuse_step t (FTruncate p off) w = call_op (op_truncate t) w (\<lambda>f. fstatus (f p off w))"
| "fuse_step t (FFtruncate off fi) w = call_op (op_ftruncate t) w (\<lambda>f. fstatus (f off fi w))"
| "fuse_step t (FFallocate m off len fi) w = call_op (op_fallocate t) w (\<lambda>f. fstatus (f m off len fi w))"
| "fuse_step t (FUnlink p) w = call_op (op_unlink t) w (\<lambda>f. fstatus (f p w))"
| "fuse_step t (FMkdir p m) w = call_op (op_mkdir t) w (\<lambda>f. fstatus (f p m w))"
| "fuse_step t (FRmdir p) w = call_op (op_rmdir t) w (\<lambda>f. fstatus (f p w))"
| "fuse_step t (FUtimens p) w = call_op (op_utimens t) w (\<lambda>f. (FStatus (f p), w))"
| "fuse_step t (FRename p q) w = call_op (op_rename t) w (\<lambda>f. fstatus (f p q w))"
| "fuse_step t (FReadlink p b n) w = call_op (op_readlink t) w (\<lambda>f. case f p b n w of (rv, b', w') \<Rightarrow> (FData rv b', w'))"
| "fuse_step t (FSymlink p q) w = call_op (op_symlink t) w (\<lambda>f. fstatus (f p q w))"
| "fuse_step t (FStatfs p b) w = call_op (op_statfs t) w (\<lambda>f. case f p b w of (rv, b', w') \<Rightarrow> (FStatvfs rv b', w'))"
| "fuse_step t (FFsync fi) w = call_op (op_fsync t) w (\<lambda>f. fstatus (f fi w))"
| "fuse_step t (FRelease fi) w = call_op (op_release t) w (\<lambda>f. fstatus (f fi w))"
| "fuse_step t (FFlock fi k) w = call_op (op_flock t) w (\<lambda>f. fstatus (f fi k w))"

section \<open>The contract\<close>

text \<open>
  What the file system promises, in system calls on the server. A path that is too long gives an error and
  nothing else happens.
\<close>

definition lookup_status :: "string list \<Rightarrow> (errno + 'b) \<times> 'w \<Rightarrow> 'w \<Rightarrow> fuse_reply \<times> 'w" where
  "lookup_status ps effect w =
     (if \<not> list_all path_encodes ps then (FStatus (-1), w)
      else if \<not> list_all (\<lambda>p. path_ok p) ps then (FStatus (- int ENOENT), w)
      else (FStatus (sys_result (fst effect)), snd effect))"

definition handle_of :: "string \<Rightarrow> fuse_file_info \<Rightarrow> (errno + int) \<times> 'w \<Rightarrow> 'w \<Rightarrow> fuse_reply \<times> 'w" where
  "handle_of p fi effect w =
     (if \<not> path_encodes p then (FHandle (-1) fi, w)
      else if \<not> path_ok p then (FHandle (- int ENOENT) fi, w)
      else (case effect of
              (Inl e, w') \<Rightarrow> (FHandle (- int e) fi, w')
            | (Inr fd, w') \<Rightarrow> (FHandle 0 (fi\<lparr>fi_fh := word_of_int fd\<rparr>), w')))"

definition attr_of :: "file_stat \<Rightarrow> int \<times> file_stat" where
  "attr_of st =
     (let sz = sint (word_of_int (st_size st) :: u64) in
      if S_ISLNK (st_mode st) then (0, \<lparr>st_mode = S_IFLNK OR 420, st_size = sz\<rparr>)
      else if S_ISDIR (st_mode st) then (0, \<lparr>st_mode = S_IFDIR OR 493, st_size = sz\<rparr>)
      else if S_ISREG (st_mode st) then (0, \<lparr>st_mode = S_IFREG OR 420, st_size = sz\<rparr>)
      else (- int ENOENT, \<lparr>st_mode = 0, st_size = 0\<rparr>))"

fun local_fuse :: "'w os \<Rightarrow> fuse_request \<Rightarrow> 'w \<Rightarrow> fuse_reply \<times> 'w" where
  "local_fuse os (FGetattr p sb) w =
     (local_path p (\<lambda>e. FAttr (- int e) sb) (os_lstat os p w) (\<lambda>st. case attr_of st of (rv, a) \<Rightarrow> FAttr rv a), w)"
| "local_fuse os (FGetxattr p n) w = (FStatus (- int ENODATA), w)"
| "local_fuse os (FCreate p m fi) w =
     handle_of p fi (os_open os p (O_WRONLY OR O_CREAT OR O_TRUNC) (S_IRUSR OR S_IWUSR) w) w"
| "local_fuse os (FOpen p fi) w =
     handle_of p fi (os_open os p (fi_flags fi AND (O_WRONLY OR O_RDWR OR O_CREAT OR O_TRUNC)) (S_IRUSR OR S_IWUSR) w) w"
| "local_fuse os (FRead b n off fi) w =
     (if n = 0 then FData 0 b
      else (case os_pread os (fd_of_fh (fi_fh fi)) n off w of
              Inl e \<Rightarrow> FData (- int e) b | Inr d \<Rightarrow> FData (int (length d)) (mem_write b 0 d)), w)"
| "local_fuse os (FWrite b n off fi) w =
     (if n = 0 then (FStatus 0, w)
      else (case os_pwrite os (fd_of_fh (fi_fh fi)) (take (unat n) b) off w of
              (Inl e, w') \<Rightarrow> (FStatus (- int e), w') | (Inr _, w') \<Rightarrow> (FStatus (uint n), w')))"
| "local_fuse os (FTruncate p off) w =
     (if \<not> path_encodes p then (FStatus (-1), w)
      else if \<not> path_ok p then (FStatus (- int ENOENT), w)
      else (case os_open os p O_WRONLY (S_IRUSR OR S_IWUSR) w of
              (Inl e, w1) \<Rightarrow> (FStatus (- int e), w1)
            | (Inr fd, w1) \<Rightarrow>
                (case os_ftruncate os fd off w1 of
                   (r, w2) \<Rightarrow> (FStatus (sys_result r), snd (os_close os fd w2)))))"
| "local_fuse os (FFtruncate off fi) w =
     (case os_ftruncate os (fd_of_fh (fi_fh fi)) off w of (r, w') \<Rightarrow> (FStatus (sys_result r), w'))"
| "local_fuse os (FFallocate m off len fi) w =
     (case os_fallocate os (fd_of_fh (fi_fh fi)) m off len w of (r, w') \<Rightarrow> (FStatus (- sys_result r), w'))"
| "local_fuse os (FUnlink p) w = lookup_status [p] (os_unlink os p w) w"
| "local_fuse os (FMkdir p m) w = lookup_status [p] (os_mkdir os p S_IRWXU w) w"
| "local_fuse os (FRmdir p) w = lookup_status [p] (os_rmdir os p w) w"
| "local_fuse os (FUtimens p) w = (FStatus 0, w)"
| "local_fuse os (FRename p q) w = lookup_status [p, q] (os_rename os p q w) w"
| "local_fuse os (FReadlink p b n) w =
     (local_path p (\<lambda>e. FData (- int e) b) (os_readlink os p 512 w) (\<lambda>t. FData 0 (strncpy b (take 511 t @ [0]) n)), w)"
| "local_fuse os (FSymlink p q) w = lookup_status [p, q] (os_symlink os p q w) w"
| "local_fuse os (FStatfs p b) w =
     (local_path p (\<lambda>e. FStatvfs (- int e) b) (os_statvfs os p w) (FStatvfs 0), w)"
| "local_fuse os (FFsync fi) w =
     (case os_fsync os (fd_of_fh (fi_fh fi)) w of (r, w') \<Rightarrow> (FStatus (sys_result r), w'))"
| "local_fuse os (FRelease fi) w =
     (case os_close os (fd_of_fh (fi_fh fi)) w of (r, w') \<Rightarrow> (FStatus (sys_result r), w'))"
| "local_fuse os (FFlock fi k) w = (FStatus (- int ENOSYS), w)"

text \<open>
  Requests within the ranges of their C types, and transfers of one system call: at most
  ICBINN_MAXDATA bytes.
\<close>

definition is_off_t :: "int \<Rightarrow> bool" where
  "is_off_t off \<longleftrightarrow> - (2 ^ 63) \<le> off \<and> off < 2 ^ 63"

fun fuse_request_ok :: "fuse_request \<Rightarrow> bool" where
  "fuse_request_ok (FRead b n off fi) \<longleftrightarrow> unat n \<le> ICBINN_PROT_MAXDATA \<and> is_off_t off"
| "fuse_request_ok (FWrite b n off fi) \<longleftrightarrow> unat n \<le> ICBINN_PROT_MAXDATA \<and> is_off_t off"
| "fuse_request_ok (FTruncate p off) \<longleftrightarrow> is_off_t off"
| "fuse_request_ok (FFtruncate off fi) \<longleftrightarrow> is_off_t off"
| "fuse_request_ok (FFallocate m off len fi) \<longleftrightarrow> is_off_t off \<and> is_off_t len"
| "fuse_request_ok _ \<longleftrightarrow> True"

section \<open>One request\<close>

lemma sint_word_of_off [simp]: "is_off_t off \<Longrightarrow> sint (word_of_int off :: u64) = off"
  by (simp add: is_off_t_def signed_of_int signed_take_bit_int_eq_self_iff)

lemma oper_entries [simp]:
  "op_flock (icbinnfs_oper c l) = None"
  "op_getattr (icbinnfs_oper c l) = Some (icbinnfs_getattr c (l_ist l))"
  "op_getxattr (icbinnfs_oper c l) = Some icbinnfs_getxattr"
  "op_create (icbinnfs_oper c l) = Some (icbinnfs_create c)"
  "op_open (icbinnfs_oper c l) = Some (icbinnfs_open c)"
  "op_read (icbinnfs_oper c l) = Some (icbinnfs_read c)"
  "op_write (icbinnfs_oper c l) = Some (icbinnfs_write c)"
  "op_truncate (icbinnfs_oper c l) = Some (icbinnfs_truncate c)"
  "op_ftruncate (icbinnfs_oper c l) = Some (icbinnfs_ftruncate c)"
  "op_fallocate (icbinnfs_oper c l) = Some (icbinnfs_fallocate c)"
  "op_unlink (icbinnfs_oper c l) = Some (icbinnfs_unlink c)"
  "op_mkdir (icbinnfs_oper c l) = Some (icbinnfs_mkdir c)"
  "op_rmdir (icbinnfs_oper c l) = Some (icbinnfs_rmdir c)"
  "op_utimens (icbinnfs_oper c l) = Some icbinnfs_utimens"
  "op_rename (icbinnfs_oper c l) = Some (icbinnfs_rename c)"
  "op_readlink (icbinnfs_oper c l) = Some (icbinnfs_readlink c (l_buf l))"
  "op_symlink (icbinnfs_oper c l) = Some (icbinnfs_symlink c)"
  "op_statfs (icbinnfs_oper c l) = Some (icbinnfs_statfs c (l_st l))"
  "op_fsync (icbinnfs_oper c l) = Some (icbinnfs_fsync c)"
  "op_release (icbinnfs_oper c l) = Some (icbinnfs_release c)"
  by (simp_all add: icbinnfs_oper_def)

lemma call_op_simps [simp]:
  "call_op None w f = (FStatus (- int ENOSYS), w)"
  "call_op (Some g) w f = f g"
  by (simp_all add: call_op_def)

text \<open>The table of a mounted file system whose directory buffer is a list of entries.\<close>

abbreviation mounted :: "'w os \<Rightarrow> fuse_locals \<Rightarrow> ('w server option, (string \<times> file_stat option) list) fuse_operations" where
  "mounted os l \<equiv> icbinnfs_oper (server_CLIENT os) l"

abbreviation fuse_served :: "'w os \<Rightarrow> fuse_locals \<Rightarrow> fuse_request \<Rightarrow> 'w server \<Rightarrow> bool" where
  "fuse_served os l q s \<equiv>
     served_as (fuse_step (mounted os l) q (Some s)) (local_fuse os q (world s))"

text \<open>The operations that pass a status on.\<close>

lemma fstatus_served:
  assumes "served_as (status r) (Status v, w')"
  shows "served_as (fstatus r) (FStatus v, w')"
  using assms by (simp add: served_as_def status_def fstatus_def)

lemma fstatus_local_status:
  assumes "served_as (status r) (local_status (list_all path_encodes ps) (list_all (\<lambda>p. path_ok p) ps) ENOENT effect w)"
  shows "served_as (fstatus r) (lookup_status ps effect w)"
  using assms unfolding local_status_def lookup_status_def by (auto split: if_splits intro: fstatus_served)

lemma path_requests_served:
  "fuse_served os l (FUnlink p) s" "fuse_served os l (FMkdir p m) s" "fuse_served os l (FRmdir p) s"
  "fuse_served os l (FRename p q) s" "fuse_served os l (FSymlink p q) s"
  using status_calls_served(2-4) [of os p s] status_calls_served(5,6) [of os p q s]
  by (simp_all add: icbinnfs_unlink_def icbinnfs_mkdir_def icbinnfs_rmdir_def icbinnfs_rename_def icbinnfs_symlink_def
      fstatus_local_status)

lemma constant_requests_served:
  "fuse_served os l (FGetxattr p n) s" "fuse_served os l (FUtimens p) s" "fuse_served os l (FFlock fi k) s"
  by (simp_all add: served_as_def icbinnfs_getxattr_def icbinnfs_utimens_def)

lemma fd_requests_served:
  "fuse_served os l (FFsync fi) s" "fuse_served os l (FRelease fi) s"
  "is_off_t off \<Longrightarrow> fuse_served os l (FFtruncate off fi) s"
  using status_calls_served(7,8) [of os "fd_of_fh (fi_fh fi)" s] status_calls_served(9) [of os "fd_of_fh (fi_fh fi)" "word_of_int off" s]
  by (auto simp: icbinnfs_fsync_def icbinnfs_release_def icbinnfs_ftruncate_def local_status_def
      intro!: fstatus_served split: prod.split)

lemma fallocate_request_served:
  "is_off_t off \<Longrightarrow> is_off_t len \<Longrightarrow> fuse_served os l (FFallocate m off len fi) s"
  using fallocate_served [of os "fd_of_fh (fi_fh fi)" m "word_of_int off" "word_of_int len" s]
  by (auto simp: icbinnfs_fallocate_def sys_result_def intro!: fstatus_served split: prod.splits sum.splits)

text \<open>Opening, creating and truncating by name.\<close>

lemma handle_served:
  assumes "served_as (status r) (local_step os (COpen p m) w)" and "descriptors_int os" and "errno_positive os"
    and "r = (fd, w')"
  shows "served_as (FHandle (if fd \<ge> 0 then 0 else fd) (if fd \<ge> 0 then fi\<lparr>fi_fh := word_of_int fd\<rparr> else fi), w')
    (handle_of p fi (os_open os p (m AND (O_WRONLY OR O_RDWR OR O_CREAT OR O_TRUNC)) (S_IRUSR OR S_IWUSR) w) w)"
proof -
  let ?r = "os_open os p (m AND (O_WRONLY OR O_RDWR OR O_CREAT OR O_TRUNC)) (S_IRUSR OR S_IWUSR) w"
  have "0 < e" if "fst ?r = Inl e" for e
    using errno_positiveD(1) [OF assms(3)] that by (metis gr0I)
  moreover have "0 \<le> fd" if "fst ?r = Inr fd" for fd
    using assms(2) that unfolding descriptors_int_def by blast
  ultimately show ?thesis
    using assms(1,4)
    by (cases ?r) (auto simp: served_as_def status_def handle_of_def split: if_splits sum.splits)
qed

lemma handle_requests_served:
  assumes "descriptors_int os" and "errno_positive os"
  shows "fuse_served os l (FOpen p fi) s" "fuse_served os l (FCreate p m fi) s"
proof -
  have mask: "(f AND m) AND m = f AND m" for f m :: u32
    by (simp add: and.assoc)
  show "fuse_served os l (FOpen p fi) s"
    using handle_served [OF open_served [of os p "translate_open_flags (fi_flags fi)" s, unfolded lib_step.simps] assms,
        of _ _ fi]
    by (auto simp: icbinnfs_open_def translate_open_flags_eq mask split: prod.splits)
  show "fuse_served os l (FCreate p m fi) s"
    using handle_served [OF open_served [of os p "ICBINN_CREAT OR ICBINN_TRUNC OR ICBINN_WRONLY" s, unfolded lib_step.simps]
        assms, of _ _ fi]
    by (auto simp: icbinnfs_create_def split: prod.splits)
qed

lemma truncate_request_served:
  assumes "descriptors_int os" and "errno_positive os" and "is_off_t off"
  shows "fuse_served os l (FTruncate p off) s"
proof -
  let ?c = "server_CLIENT os"
  obtain fd conn where op: "icbinn_open ?c p ICBINN_WRONLY (Some s) = (fd, conn)" by fastforce
  have o: "served_as (status (fd, conn)) (local_step os (COpen p ICBINN_WRONLY) (world s))"
    using open_served [of os p ICBINN_WRONLY s] op by simp
  then obtain s1 where s1: "conn = Some s1" by (auto simp: served_as_def status_def)
  have t: "served_as (status (icbinn_ftruncate ?c fd (word_of_int off) (Some s1))) (local_step os (CFtruncate fd (word_of_int off)) (world s1))"
    using status_calls_served(9) [of os fd "word_of_int off" s1] by simp
  obtain rv s2 where ft: "icbinn_ftruncate ?c fd (word_of_int off) (Some s1) = (rv, Some s2)"
    using t by (cases "icbinn_ftruncate ?c fd (word_of_int off) (Some s1)") (auto simp: served_as_def status_def)
  have "served_as (status (icbinn_close ?c fd (Some s2))) (local_step os (CClose fd) (world s2))"
    using status_calls_served(7) [of os fd s2] by simp
  moreover have "0 < e" if "fst (os_open os p O_WRONLY 384 (world s)) = Inl e" for e
    using errno_positiveD(1) [OF assms(2)] that by (metis gr0I)
  moreover have "0 \<le> fd" if "fst (os_open os p O_WRONLY 384 (world s)) = Inr fd" for fd
    using assms(1) that unfolding descriptors_int_def by blast
  ultimately show ?thesis
    using o t op s1 ft assms(3)
    by (cases "os_open os p O_WRONLY 384 (world s)")
      (auto simp: icbinnfs_truncate_def fstatus_def served_as_def status_def local_status_def
        split: if_splits sum.splits prod.splits)
qed

text \<open>Attributes.\<close>

lemma getattr_request_served:
  assumes "errno_positive os"
  shows "fuse_served os l (FGetattr p sb) s"
proof -
  have "0 < e" if "os_lstat os p (world s) = Inl e" for e
    using errno_positiveD(4) [OF assms] that by (metis gr0I)
  then show ?thesis
    using structure_calls_served(1) [of os p "l_ist l" s]
    by (auto simp: icbinnfs_getattr_def served_as_def local_path_def attr_of_def set_icbinn_prot_type_def Let_def
        split: if_splits sum.splits prod.splits)
qed

lemma statfs_request_served:
  assumes "errno_positive os"
  shows "fuse_served os l (FStatfs p b) s"
proof -
  have "0 < e" if "os_statvfs os p (world s) = Inl e" for e
    using errno_positiveD(5) [OF assms] that by (metis gr0I)
  then show ?thesis
    using structure_calls_served(2) [of os p "l_st l" s]
    by (auto simp: icbinnfs_statfs_def served_as_def local_path_def split: if_splits sum.splits prod.splits)
qed

text \<open>Links: what lies behind the NUL does not matter.\<close>

lemma strncpy_nul: "strncpy dst (t @ 0 # rest) n = strncpy dst (t @ [0]) n"
proof -
  have "takeWhile (\<lambda>c. c \<noteq> 0) (take n (t @ 0 # rest)) = takeWhile (\<lambda>c. c \<noteq> 0) (take n (t @ [0]))"
    by (cases "n \<le> length t") (auto simp: takeWhile_append not_le take_Cons' split: if_splits)
  then show ?thesis by (simp add: strncpy_def)
qed

lemma readlink_request_served:
  assumes "errno_positive os" and "reads_bounded os" and "length (l_buf l) = MAX_SYMLINK_SIZE"
  shows "fuse_served os l (FReadlink p b n) s"
proof -
  note lib = readlink_served [OF assms(2), of 512 p "l_buf l" s]
  show ?thesis
  proof (cases "os_readlink os p 512 (world s)")
    case (Inl e)
    then have "0 < e"
      using errno_positiveD(7) [OF assms(1), of p 512 "world s"] by (metis gr0I)
    then show ?thesis
      using lib Inl
      by (auto simp: icbinnfs_readlink_def served_as_def local_path_def split: if_splits prod.splits)
  next
    case (Inr t)
    then have "t = take 512 t"
      using assms(2) unfolding reads_bounded_def by fastforce
    then obtain rest where
      "(mem_write (l_buf l) 0 t)[(if int (length t) < 512 then length t else 511) := 0] = take 511 t @ 0 # rest"
      using nul_terminated [OF assms(3)] by blast
    then show ?thesis
      using lib Inr
      by (cases "path_encodes p"; cases "path_ok p")
        (auto simp: icbinnfs_readlink_def served_as_def local_path_def strncpy_nul [of b "take 511 t" rest] cong: if_cong
          split: prod.splits split del: if_split)
  qed
qed

text \<open>Transfers.\<close>

lemma to_int32_result:
  "to_int32 0 = 0" "n \<le> 65536 \<Longrightarrow> to_int32 (int n) = int n" "e < 2 ^ 31 \<Longrightarrow> to_int32 (- int e) = - int e"
  by (simp_all add: to_int32_def signed_take_bit_int_eq_self_iff)

lemma to_int32_uint: "unat (n :: u64) \<le> 65536 \<Longrightarrow> to_int32 (uint n) = uint n"
  using to_int32_result(2) [of "unat n"] by simp

lemma read_request_served:
  assumes "errno_int os" and "reads_bounded os" and "unat n \<le> ICBINN_PROT_MAXDATA" and "is_off_t off"
  shows "fuse_served os l (FRead b n off fi) s"
proof -
  let ?r = "os_pread os (fd_of_fh (fi_fh fi)) n off (world s)"
  have "e < 2 ^ 31" if "?r = Inl e" for e
    using assms(1) that unfolding errno_int_def by blast
  moreover have "length d \<le> 65536" if "?r = Inr d" for d
    using assms(2,3) that unfolding reads_bounded_def by (meson le_trans)
  ultimately show ?thesis
    using pread_served [OF assms(2,1,3), of "fd_of_fh (fi_fh fi)" b "word_of_int off" s] assms(4)
    by (auto simp: icbinnfs_read_def served_as_def to_int32_result split: if_splits sum.splits prod.splits)
qed

lemma write_request_served:
  assumes "errno_int os" and "unat n \<le> ICBINN_PROT_MAXDATA" and "is_off_t off"
  shows "fuse_served os l (FWrite b n off fi) s"
proof -
  let ?r = "os_pwrite os (fd_of_fh (fi_fh fi)) (take (unat n) b) off (world s)"
  have "e < 2 ^ 31" if "fst ?r = Inl e" for e
    using assms(1) that unfolding errno_int_def by blast
  then show ?thesis
    using pwrite_served [OF assms(1,2), of "fd_of_fh (fi_fh fi)" b "word_of_int off" s] assms(3)
    by (cases ?r)
      (auto simp: icbinnfs_write_def served_as_def status_def fstatus_def to_int32_result to_int32_uint [OF assms(2)]
        split: if_splits sum.splits prod.splits)
qed

lemmas requests_served =
  path_requests_served constant_requests_served fd_requests_served fallocate_request_served handle_requests_served
  truncate_request_served getattr_request_served statfs_request_served readlink_request_served
  read_request_served write_request_served

section \<open>Sessions\<close>

text \<open>What the file system relies on, documented of the system calls; and the size of \<open>_buf\<close>.\<close>

definition mountable :: "'w os \<Rightarrow> fuse_locals \<Rightarrow> bool" where
  "mountable os l \<longleftrightarrow> errno_positive os \<and> errno_int os \<and> descriptors_int os \<and> reads_bounded os \<and>
     length (l_buf l) = MAX_SYMLINK_SIZE"

lemma fuse_step_served:
  assumes "mountable os l" and "fuse_request_ok q"
  shows "fuse_served os l q s"
  using assms unfolding mountable_def by (cases q) (simp_all only: requests_served fuse_request_ok.simps)

interpretation mount_r: refined_calls "fuse_step (mounted os l)" "local_fuse os" "\<lambda>conn. conn \<noteq> None"
    "\<lambda>conn. world (the conn)" "\<lambda>q. mountable os l \<and> fuse_request_ok q" for os :: "'w os" and l
proof
  fix conn conn' :: "'w server option" and q r
  assume "conn \<noteq> None" and "mountable os l \<and> fuse_request_ok q" and "fuse_step (mounted os l) q conn = (r, conn')"
  then show "conn' \<noteq> None \<and> local_fuse os q (world (the conn)) = (r, world (the conn'))"
    using fuse_step_served [of os l q "the conn"] by (auto simp: served_as_def intro: prod_eqI)
qed


text \<open>A program that truncates a file by its name, opens it, appends two bytes, reads all of it and closes it.\<close>

definition append_program :: "fuse_reply list \<Rightarrow> fuse_request" where
  "append_program rs =
     (case rs of
        [] \<Rightarrow> FTruncate ''/d/f'' 2
      | [_] \<Rightarrow> FOpen ''/d/f'' \<lparr>fi_flags = O_RDWR, fi_fh = 0\<rparr>
      | [_, FHandle _ fi] \<Rightarrow> FWrite [8, 9] 2 2 fi
      | [_, FHandle _ fi, _] \<Rightarrow> FRead [0, 0, 0, 0, 0] 5 0 fi
      | _ # FHandle _ fi # _ \<Rightarrow> FRelease fi
      | _ \<Rightarrow> FUtimens ''/d/f'')"

definition locals_example :: fuse_locals where
  "locals_example =
     \<lparr>l_ist = \<lparr>is_size = 0, is_type = 0\<rparr>, l_de = \<lparr>de_name = [], de_type = 0\<rparr>, l_buf = replicate 512 0,
      l_st = \<lparr>ifs_bsize = 0, ifs_blocks = 0, ifs_bfree = 0, ifs_bavail = 0\<rparr>\<rparr>"

lemma mem_mountable: "mountable mem_os locals_example"
  by (simp add: mountable_def mem_documented locals_example_def)


section \<open>A run of the program\<close>

text \<open>The connection that the options ask for: to a domain with \<open>-d\<close>, to a host otherwise.\<close>

definition asked_connection ::
  "bool \<Rightarrow> 'n net \<Rightarrow> fuse_opt list \<Rightarrow> 'n clnt \<Rightarrow> (ICBINN option, 'n clnt) outcome" where
  "asked_connection have_v4v net opts s =
     (let op = fuse_options opts fuse_no_opts in
      if fo_dflag op \<noteq> 0 then icbinn_clnt_create_v4v have_v4v net (fo_domid op) (fo_port op) s
      else icbinn_clnt_create_tcp net (fo_host op) (fo_port op) s)"

lemma destroy_resources:
  "resources s' = resources s \<Longrightarrow>
   resources (icbinn_clnt_destroy net icb s') = resources (icbinn_clnt_destroy net icb s)"
  by (cases icb) (auto simp: icbinn_clnt_destroy_def resources_def Let_def split: option.split)

text \<open>
  C21: a run of the FUSE program that comes to its end. Either it could not connect, says so and
  returns 1; or it ran FUSE once, with its own name, the option that keeps FUSE single-threaded and
  the arguments behind its own options, with operations that work on the connection its options
  ask for, returns what FUSE returned, and has given back every socket, RPC handle and object.
\<close>

theorem fuse_main_runs:
  assumes "fresh_handles net (fp_clnt s)" and "1 \<le> optind" and "optind \<le> length argv"
    and fuse: "\<And>args table d ns. resources (snd (fuse_main args table d ns)) = resources ns"
    and run: "icbinnfs_main have_v4v net stubs l fuse_main argv opts optind s = Ret rv s'"
  shows "rv = 1 \<and> fp_stderr s' = fp_stderr s @ [(''failed to connect to server'', [])] \<or>
    (\<exists>h table ns. asked_connection have_v4v net opts (fp_clnt s) = Ret (Some h) ns \<and>
       rv = fst (fuse_main (argv ! 0 # ''-s'' # drop optind argv) table \<lparr>data_icb = h\<rparr> ns) \<and>
       table \<lparr>private_data = \<lparr>data_icb = h\<rparr>\<rparr> = icbinnfs_oper (stubs h) l) \<and>
    fp_stderr s' = fp_stderr s \<and> resources (fp_clnt s') = resources (fp_clnt s)"
proof -
  define made where "made = asked_connection have_v4v net opts (fp_clnt s)"
  note main = run [unfolded icbinnfs_main_def Let_def
      asked_connection_def [of have_v4v net opts "fp_clnt s", unfolded Let_def, symmetric] made_def [symmetric]
      fuseargv_arguments [OF assms(2,3)] option.case]
  obtain icb ns where m: "made = Ret icb ns"
    using main by (cases made) (auto simp: fuse_usage_def split: if_splits)
  show ?thesis
  proof (cases icb)
    case None
    then show ?thesis using main m by (auto simp: complain_def fuse_usage_def split: if_splits)
  next
    case (Some h)
    let ?table = "\<lambda>context. icbinnfs_oper (stubs (get_icb context)) l"
    obtain r ns' where f: "fuse_main (argv ! 0 # ''-s'' # drop optind argv) ?table \<lparr>data_icb = h\<rparr> ns = (r, ns')"
      by fastforce
    have "resources (icbinn_clnt_destroy net (Some h) ns) = resources (fp_clnt s)"
      using create_destroy_balanced [OF assms(1), of _ _ h ns] m Some
      by (auto simp: made_def asked_connection_def Let_def split: if_splits)
    then have "resources (icbinn_clnt_destroy net (Some h) ns') = resources (fp_clnt s)"
      using destroy_resources [of ns' ns net "Some h"] fuse f by (metis snd_conv)
    then have "resources (fp_clnt s') = resources (fp_clnt s)" "fp_stderr s' = fp_stderr s"
      "rv = fst (fuse_main (argv ! 0 # ''-s'' # drop optind argv) ?table \<lparr>data_icb = h\<rparr> ns)"
      using main m Some f by (auto simp: fuse_usage_def split: if_splits)
    then show ?thesis by (auto simp: get_icb_def made_def [symmetric] m Some intro!: exI [of _ h] exI [of _ ?table] exI [of _ ns])
  qed
qed

theorem fuse_main_runs_witness:
  "\<exists>s'. icbinnfs_main False toy_net (\<lambda>_. server_CLIENT mem_os) locals_example
       (\<lambda>args (table :: fuse_context \<Rightarrow> (mem_fs server option, unit) fuse_operations) d ns. (int (length args), ns))
       [''icbinn-fs'', ''-h'', ''10.0.0.1'', ''/mnt''] [FOpt_h ''10.0.0.1''] 3 \<lparr>fp_clnt = toy_clnt, fp_stderr = []\<rparr> = Ret 3 s' \<and>
     resources (fp_clnt s') = ([], [], 0)"
proof -
  let ?fuse = "\<lambda>args (table :: fuse_context \<Rightarrow> (mem_fs server option, unit) fuse_operations) (d :: icbinn_data) (ns :: int clnt).
    (int (length (args :: string list)), ns)"
  let ?argv = "[''icbinn-fs'', ''-h'', ''10.0.0.1'', ''/mnt'']"
  let ?s = "\<lparr>fp_clnt = toy_clnt, fp_stderr = []\<rparr>"
  have "\<exists>icb ns. icbinn_clnt_create_tcp toy_net (Some ''10.0.0.1'') 0 toy_clnt = Ret (Some icb) ns"
    by (simp add: toy_net_def toy_clnt_def clnt_defs)
  moreover have "fuseargv_of ?argv 3 = Some [''icbinn-fs'', ''-s'', ''/mnt'']"
    by (simp add: fuseargv_arguments)
  ultimately obtain s' where run: "icbinnfs_main False toy_net (\<lambda>_. server_CLIENT mem_os) locals_example ?fuse ?argv
      [FOpt_h ''10.0.0.1''] 3 ?s = Ret 3 s'"
    by (auto simp: icbinnfs_main_def fuse_no_opts_def)
  have "fresh_handles toy_net (fp_clnt ?s)"
    by (simp add: fresh_handles_def toy_clnt_def)
  from fuse_main_runs [OF this _ _ _ run] run show ?thesis
    by (auto simp: resources_def toy_clnt_def)
qed

end
