(* ===== verification/Spec2Isabelle.thy ===== *)
theory Spec2Isabelle
  imports Session_Process Selftest_Pass Cli_Copy Cli_Session Svc_System Fuse_Mount
begin

text \<open>
  Icbinn: file access for virtual machines over ONC RPC.

  \<^bold>\<open>The program.\<close> A server (\<open>libicbinn/server\<close>) accepts connections over V4V or TCP, forks a child for
  each, confines the child to the directory the management daemon names for the client's domain,
  and answers the nineteen procedures of \<open>rpc/icbinn_prot.x\<close> with system calls. A client library
  (\<open>libicbinn/src\<close>) offers these procedures as C functions like those of POSIX. Three programs use the
  library: a sample command-line client (\<open>libicbinn/client\<close>), a FUSE file system (\<open>icbinn-fuse\<close>) and
  the library's test program (\<open>libicbinn/test\<close>).

  \<^bold>\<open>Theories and sources.\<close>
  \<^item> \<open>Icbinn_Prelude\<close>: C integers as words, the type \<open>outcome\<close> (return, exit, access outside an
    array), buffers, \<open>atoi\<close> and the character classes, shared lemmas.
  \<^item> \<open>Icbinn_Prot\<close>: \<open>rpc/icbinn_prot.x\<close>; arguments and results as records and datatypes, requests,
    replies, and the bounds within which a value can be encoded.
  \<^item> \<open>Posix\<close>, \<open>Posix_Mem\<close>: the system calls, which are not part of the sources, as a parameter record
    over a type of worlds; the documented behaviour the proofs rely on, one predicate each; a file
    system in memory that has all of it and carries the examples.
  \<^item> \<open>Server\<close>: \<open>server/server.c\<close> and \<open>server/util.c\<close>; the record \<open>server\<close> holds the static variables, one
    definition per handler, and \<open>icbinn_prot_program_1\<close> dispatches. \<open>Server_Readdir\<close>: the readdir
    handler computes a slice of the directory. \<open>Server_Inv\<close>: the locale \<open>errno_handler\<close>, the contract of
    the eleven handlers that answer with an errno, each interpreted; the invariant of the static
    state; every request is answered. \<open>Server_Props\<close>: path limits, error codes.
  \<^item> \<open>Clientlib\<close>: \<open>src/*.c\<close> over a record of the generated stubs. \<open>Chunks\<close>: the locale \<open>chunk_transfer\<close>, the
    loop that \<open>pread.c\<close>, \<open>pwrite.c\<close> and \<open>rand.c\<close> share, and its refinements, interpreted for all three.
    \<open>Client_Props\<close>: what holds whatever the server replies.
  \<^item> \<open>Session\<close>, \<open>Session_IO\<close>, \<open>Session_Dir\<close>: the library composed with the server. The locale \<open>remote_op\<close>
    turns a handler's contract and a call's contract into a refinement of the local system call.
    \<open>Session_Trace\<close>: whole sessions of calls, lifted from single calls by the locale \<open>refined_calls\<close>.
    \<open>Session_Process\<close>: the same through the dispatcher and the serving loop of a server process.
  \<^item> \<open>Clnt_create\<close>: \<open>src/client.c\<close> and \<open>xmalloc\<close>; making and destroying a connection, with the sockets,
    RPC handles and objects counted.
  \<^item> \<open>Cli\<close>: \<open>client/*.c\<close>; \<open>Cli_Props\<close>, \<open>Cli_Copy\<close> and \<open>Cli_Session\<close>: the command table, line splitting,
    listing, copying a file in either direction, and what a run does to the connection.
  \<^item> \<open>Dbusrpc\<close>: \<open>server/dbusrpc.c\<close>, the lookup of a client's directory.
  \<^item> \<open>Svc_main\<close>: \<open>server/svc_main.c\<close> as a transition system \<open>svc_process\<close> of the listening parent and its
    children, over a record \<open>host\<close> of the calls it makes; \<open>Svc_Props\<close> and \<open>Svc_Confine\<close>: bounds,
    invariant, confinement, progress. \<open>Svc_System\<close>: all processes together, taking turns over one
    world that other programs change too, with \<open>svc_turn\<close> for what a process does in a turn.
  \<^item> \<open>Fuse_fs\<close>: \<open>icbinn-fuse/src/icbinn-fs.c\<close>, every operation, the table \<open>icbinnfs_oper\<close> and \<open>main\<close>;
    \<open>Fuse_Props\<close>: single operations; \<open>Fuse_Mount\<close>: the mounted file system against its contract
    \<open>local_fuse\<close>, and a run of the program.
  \<^item> \<open>Posix_Tree\<close>: what POSIX documents of a directory tree, over the view a process has of one, and a
    tree in memory that behaves so. \<open>Session_Tree\<close>: the locale \<open>file_service\<close>, what the calls of the library
    do to the tree behind a connection, interpreted for the library over the server.
  \<^item> \<open>Selftest\<close>: \<open>test/test.c\<close>, every test, the run and \<open>main\<close>. \<open>Selftest_Pass\<close>: each test passes over
    \<open>file_service\<close>, by the rules of a logic of tests, and a run passes.

  \<^bold>\<open>What is shown.\<close> Through the library, and through the file system on top of it, any session of calls
  gives the results and has the effects of the system calls on the server's files (refinement; C1,
  C3); transfers of any length and directories are C4, C5, C8, C10, C18 to C20. The
  library's own test program passes (C11). The sample client
  copies and lists files (C16, C17, C24). Whatever the order in which the server's processes and
  other programs run, a serving process stays in its client's directory, keeps its invariant and
  answers every request, and it never leaves a buffer (C2, C6, C7, C12, C26, C27). Runs of
  the client programs give their connection back (C11, C21; C28, below). The library never writes outside
  the caller's buffer in \<open>pread\<close>, \<open>rand\<close> and \<open>readlink\<close> however the server replies (C13 to C15); in
  \<open>readdir\<close> it does exactly when the reply is longer than the array (C34). The readdir handler's
  loop is a slice of the directory (C9); errors and limits are C29 and C30. Parsers do what they should:
  FUSE's arguments, command names, command lines, the comma-separated directories, domain numbers
  (C21 to C23, C25, C31). C32 to C40 state behaviour that is a defect: a truncated link reported as
  success, files created for writing only, the overrun of \<open>readdir\<close>, short writes reported as complete,
  the sign of \<open>fallocate\<close>, a lock on the wrong descriptor, an overrun argument array, a leaked
  socket, and the check for a live client. Further lemmas that record a defect are \<open>readdir_guard_dead\<close>,
  \<open>readdir_offset_wraps\<close>, \<open>pread_trusts_errno\<close> and \<open>get_locks_indeterminate\<close>.

  \<^bold>\<open>Turns.\<close> In \<open>Svc_System\<close> a process runs uninterrupted from one call that may wait to the next. What
  the theorems about it use of the other processes is only that their calls leave its root
  directory alone (\<open>roots_documented\<close>), which holds between any two calls.

  \<^bold>\<open>Loops.\<close> No definition uses fuel. The chunk loops are functions with a termination proof (the
  count left decreases). Loops that go on as long as the server pleases, those of \<open>get\<close>, \<open>put\<close>, \<open>ls\<close> and
  of FUSE's readdir, are partial functions whose None is not returning; the theorems about them
  state that they return. The loops of the server that never end are inductive relations.
  The counter of \<open>ls\<close> and of FUSE's readdir is a C \<open>int\<close>: the theorems bound the directory by
  \<open>2\<^sup>3\<^sup>1 - 1\<close> entries. File offsets are kept below \<open>2\<^sup>6\<^sup>3\<close>, the range of \<open>off_t\<close>.

  \<^bold>\<open>Parameters and their hypotheses.\<close> The system calls (\<open>reads_bounded\<close>, \<open>path_max\<close>, \<open>memory_available\<close>,
  \<open>regular_pread\<close>, \<open>regular_pwrite\<close>, \<open>stream_read\<close>, \<open>stream_write\<close>, \<open>errno_positive\<close>, \<open>errno_int\<close>,
  \<open>descriptors_int\<close>, \<open>posix_tree\<close>, \<open>root_documented\<close>, \<open>roots_documented\<close>), the
  generated stubs and the RPC library, sockets and name lookup (\<open>fresh_handles\<close>), the management
  daemon behind D-Bus, \<open>getopt\<close>, standard input, and FUSE. Where client and server are composed,
  the connection delivers each call once while the server lives.

  \<^bold>\<open>Not modelled.\<close> The stubs and XDR routines that rpcgen generates; the text of log lines beyond
  format and arguments, and of the server's usage message; debug output of the FUSE file system; \<open>version.c\<close>,
  \<open>canary.c\<close> and the headers, which hold no behaviour; the Python
  bindings \<open>pyicbinn\<close>, which SWIG generates; the empty \<open>libicbinn_resolved\<close>. Failure of \<open>calloc\<close> in the FUSE program's \<open>main\<close> is left out.
\<close>

section \<open>A run of the sample client gives its connection back\<close>

lemma clnt_create_exit:
  "icbinn_clnt_create_tcp net host port s = Exit n s' \<Longrightarrow> n = aborted"
  "icbinn_clnt_create_v4v have_v4v net domid port s = Exit n s' \<Longrightarrow> n = aborted"
  by (auto simp: clnt_defs split: clnt_splits outcome.splits)

lemma cli_main_connected:
  assumes "cli_main have_v4v e stubs opts input s = Some fin" and "fin = Ret n s' \<or> fin = Exit 0 s'"
  shows "\<exists>icb ns host port domid.
    (icbinn_clnt_create_tcp (ce_net e) host port (cl_net s) = Ret (Some icb) ns \<or>
     icbinn_clnt_create_v4v have_v4v (ce_net e) domid port (cl_net s) = Ret (Some icb) ns) \<and>
    cl_net s' = icbinn_clnt_destroy (ce_net e) (Some icb) ns"
proof -
  obtain op where op: "cli_options opts cli_no_opts = Some op"
    using assms by (cases "cli_options opts cli_no_opts") (auto simp: cli_main_def cli_usage_def)
  define made where "made = (if o_dflag op \<noteq> 0
    then icbinn_clnt_create_v4v have_v4v (ce_net e) (o_domid op) (o_port op) (cl_net s)
    else icbinn_clnt_create_tcp (ce_net e) (o_host op) (o_port op) (cl_net s))"
  note main = assms(1) [unfolded cli_main_def op option.case made_def [symmetric]]
  have made_exit: "n = aborted" if "made = Exit n ns" for n ns
    using that by (auto simp: made_def dest: clnt_create_exit split: if_splits)
  obtain icb ns where m: "made = Ret (Some icb) ns"
    using main assms(2) made_exit by (cases made) (auto simp: cli_usage_def split: if_splits option.splits)
  define s1 e1 where "s1 = s\<lparr>cl_net := ns, cl_icb := Some icb\<rparr>" and "e1 = e\<lparr>ce_stubs := stubs icb\<rparr>"
  define r where "r = (case o_cmd op of
      Some cmd \<Rightarrow> parse_cmd e1 (take (line_size - 1) cmd) s1 | None \<Rightarrow> cli_loop e1 input s1)"
  have net: "ce_net e1 = ce_net e" by (simp add: e1_def)
  have "conn_step e1 s1 r"
    by (simp add: r_def parse_cmd_step cli_loop_step split: option.split)
  then have "cl_net s' = icbinn_clnt_destroy (ce_net e1) (Some icb) (cl_net s1)"
  proof (rule cli_main_run)
    show "(case r of
            None \<Rightarrow> None
          | Some (Ret _ s2) \<Rightarrow>
              Some (Ret 0 (s2\<lparr>cl_net := icbinn_clnt_destroy (ce_net e1) (cl_icb s2) (cl_net s2)\<rparr>))
          | Some (Exit n s2) \<Rightarrow> Some (Exit n s2)
          | Some Fault \<Rightarrow> Some Fault) = Some fin"
      using main assms(2) unfolding net unfolding r_def s1_def e1_def
      by (auto simp: m Let_def cli_usage_def split: if_splits)
  qed (use assms(2) in \<open>auto simp: s1_def\<close>)
  then have "cl_net s' = icbinn_clnt_destroy (ce_net e) (Some icb) ns"
    by (simp add: s1_def net)
  moreover have "icbinn_clnt_create_tcp (ce_net e) (o_host op) (o_port op) (cl_net s) = Ret (Some icb) ns \<or>
      icbinn_clnt_create_v4v have_v4v (ce_net e) (o_domid op) (o_port op) (cl_net s) = Ret (Some icb) ns"
    using m by (auto simp: made_def split: if_splits)
  ultimately show ?thesis by blast
qed

text \<open>
  C28: a run of the sample client, over TCP or V4V, with a command or interactive, that ends normally
  or with \<open>quit\<close> leaves no socket, no RPC handle and no object of the connection behind, whatever
  commands were run and whatever the server answered.
\<close>

theorem cli_session_balanced:
  assumes "fresh_handles (ce_net e) (cl_net s)"
    and "cli_main have_v4v e stubs opts input s = Some (Ret n s') \<or>
      cli_main have_v4v e stubs opts input s = Some (Exit 0 s')"
  shows "resources (cl_net s') = resources (cl_net s)"
  using assms(2) cli_main_connected create_destroy_balanced [OF assms(1)] by metis

theorem cli_session_balanced_witness:
  "\<exists>s'. cli_main False cenv_example (\<lambda>_. ce_stubs cenv_example) [Opt_h ''10.0.0.1'', Opt_c ''quit''] [] cli_example =
     Some (Exit 0 s') \<and> resources (cl_net s') = ([], [], 0)"
proof -
  have "\<exists>icb ns. icbinn_clnt_create_tcp toy_net (Some ''10.0.0.1'') 0 toy_clnt = Ret (Some icb) ns"
    by (simp add: toy_net_def toy_clnt_def clnt_defs)
  moreover have "parse_args ''quit'' = [''quit'']"
    by (simp add: parse_args.simps isspace_def)
  ultimately obtain s' where
    "cli_main False cenv_example (\<lambda>_. ce_stubs cenv_example) [Opt_h ''10.0.0.1'', Opt_c ''quit''] [] cli_example =
       Some (Exit 0 s')"
    by (auto simp: cli_main_def cli_no_opts_def cenv_example_def cli_example_def parse_cmd_def
        find_command_def cmd_tab_def cmd_quit_def)
  moreover have "fresh_handles (ce_net cenv_example) (cl_net cli_example)"
    by (simp add: fresh_handles_def cli_example_def toy_clnt_def)
  ultimately show ?thesis
    using cli_session_balanced by (force simp: resources_def cli_example_def toy_clnt_def)
qed

end
